(* ===== verification/Prelude.thy ===== *)
theory Prelude
  imports Main "HOL-Library.Sublist" "HOL-Library.List_Lexorder" "HOL-Library.Char_ord"
    "HOL-Library.Product_Lexorder" "HOL-Library.Multiset"
begin

section \<open>Shared vocabulary of the development\<close>

text \<open>
  What every component uses: the Go strings functions the sources call (on byte strings, which
  is what a Go string is), fallible results as sums, the bounded integers the code parses, and
  the lemmas on lists and association lists the component proofs share.

  A fallible Go function \<open>(T, error)\<close> is a value of \<open>'e + 'a\<close>: \<open>Inl\<close> is the error.
  A Go map is an association list with distinct keys where the code iterates over it (its
  order stands for the unspecified iteration order) and a partial function where it does not.
\<close>

named_theorems go_string "rules of the modelled strings functions"

subsection \<open>Fallible results\<close>

definition bind_result :: "'e + 'a \<Rightarrow> ('a \<Rightarrow> 'e + 'b) \<Rightarrow> 'e + 'b" where
  "bind_result m k = (case m of Inl e \<Rightarrow> Inl e | Inr x \<Rightarrow> k x)"

lemma bind_result_simps [simp]:
  "bind_result (Inl e) k = Inl e"
  "bind_result (Inr x) k = k x"
  by (simp_all add: bind_result_def)

lemma bind_result_Inr:
  "bind_result m k = Inr y \<longleftrightarrow> (\<exists>x. m = Inr x \<and> k x = Inr y)"
  by (cases m) simp_all

lemma bind_result_Inl:
  "bind_result m k = Inl e \<longleftrightarrow> m = Inl e \<or> (\<exists>x. m = Inr x \<and> k x = Inl e)"
  by (cases m) auto

definition is_ok :: "'e + 'a \<Rightarrow> bool" where
  "is_ok r = (case r of Inl _ \<Rightarrow> False | Inr _ \<Rightarrow> True)"

lemma is_ok_simps [simp]: "is_ok (Inr x)" "\<not> is_ok (Inl e)"
  by (simp_all add: is_ok_def)

lemma is_ok_iff: "is_ok r \<longleftrightarrow> (\<exists>x. r = Inr x)"
  by (cases r) simp_all

lemma is_ok_projr: "is_ok r \<Longrightarrow> r = Inr (projr r)"
  by (cases r) simp_all

text \<open>A loop over a slice that returns at the first error.\<close>

fun fold_result :: "('a \<Rightarrow> 's \<Rightarrow> 'e + 's) \<Rightarrow> 'a list \<Rightarrow> 's \<Rightarrow> 'e + 's" where
  "fold_result f [] s = Inr s"
| "fold_result f (x # xs) s = bind_result (f x s) (fold_result f xs)"

lemma fold_result_append:
  "fold_result f (xs @ ys) s = bind_result (fold_result f xs s) (fold_result f ys)"
  by (induction xs arbitrary: s) (auto simp: bind_result_def split: sum.splits)

text \<open>The loop rule: an invariant over the elements already consumed.\<close>

lemma fold_result_inv:
  assumes "fold_result f xs s = Inr s'"
    and "I [] s"
    and "\<And>pre x t t'. prefix (pre @ [x]) xs \<Longrightarrow> I pre t \<Longrightarrow> f x t = Inr t' \<Longrightarrow> I (pre @ [x]) t'"
  shows "I xs s'"
  using assms
proof (induction xs arbitrary: s' rule: rev_induct)
  case Nil
  then show ?case by simp
next
  case (snoc x xs)
  from snoc.prems(1) obtain t where t: "fold_result f xs s = Inr t" "f x t = Inr s'"
    by (auto simp: fold_result_append bind_result_Inr)
  have "I xs t"
  proof (rule snoc.IH [OF t(1) snoc.prems(2)])
    fix pre y u u'
    assume "prefix (pre @ [y]) xs" "I pre u" "f y u = Inr u'"
    moreover from this have "prefix (pre @ [y]) (xs @ [x])" by (simp add: prefix_order.trans)
    ultimately show "I (pre @ [y]) u'" using snoc.prems(3) by blast
  qed
  with t(2) snoc.prems(3) show ?case by blast
qed

subsection \<open>The strings package\<close>

text \<open>\<open>strings.Cut(s, sep)\<close>: the parts around the first occurrence, \<open>None\<close> when not found.\<close>

fun cut :: "string \<Rightarrow> string \<Rightarrow> (string \<times> string) option" where
  "cut sep [] = (if sep = [] then Some ([], []) else None)"
| "cut sep (c # s) =
     (if prefix sep (c # s) then Some ([], drop (length sep) (c # s))
      else map_option (\<lambda>(b, a). (c # b, a)) (cut sep s))"

definition contains :: "string \<Rightarrow> string \<Rightarrow> bool" where
  "contains s sub = (cut sub s \<noteq> None)"

text \<open>\<open>strings.CutPrefix(s, p)\<close>.\<close>

definition cut_prefix :: "string \<Rightarrow> string \<Rightarrow> string option" where
  "cut_prefix p s = (if prefix p s then Some (drop (length p) s) else None)"

text \<open>\<open>strings.TrimPrefix(s, p)\<close>.\<close>

definition trim_prefix :: "string \<Rightarrow> string \<Rightarrow> string" where
  "trim_prefix p s = (if prefix p s then drop (length p) s else s)"

text \<open>\<open>strings.Split(s, sep)\<close> for a separator of one byte; never the empty list.\<close>

fun split_on :: "char \<Rightarrow> string \<Rightarrow> string list" where
  "split_on c [] = [[]]"
| "split_on c (x # s) =
     (if x = c then [] # split_on c s
      else (x # hd (split_on c s)) # tl (split_on c s))"

text \<open>\<open>strings.Join(parts, sep)\<close>.\<close>

fun join :: "string \<Rightarrow> string list \<Rightarrow> string" where
  "join sep [] = []"
| "join sep [x] = x"
| "join sep (x # y # zs) = x @ sep @ join sep (y # zs)"

definition is_space :: "char \<Rightarrow> bool" where
  "is_space c = (c \<in> {CHR '' '', CHR 0x09, CHR 0x0A, CHR 0x0B, CHR 0x0C, CHR 0x0D})"

text \<open>\<open>strings.TrimSpace\<close> (ASCII white space).\<close>

definition trim_space :: "string \<Rightarrow> string" where
  "trim_space s = rev (dropWhile is_space (rev (dropWhile is_space s)))"

lemma cut_Some_append:
  "cut sep s = Some (b, a) \<Longrightarrow> s = b @ sep @ a"
proof (induction sep s arbitrary: b rule: cut.induct)
  case (1 sep)
  then show ?case by (simp split: if_splits)
next
  case (2 sep c s)
  show ?case
  proof (cases "prefix sep (c # s)")
    case True
    with "2.prems" show ?thesis by (auto simp: prefix_def)
  next
    case False
    with "2.prems" obtain b' where "cut sep s = Some (b', a)" and "b = c # b'"
      by auto
    with "2.IH" [OF False] show ?thesis by simp
  qed
qed

lemma cut_before_free:
  "c \<notin> set b \<Longrightarrow> cut (c # sep) (b @ c # sep @ a) = Some (b, a)"
  by (induction b) auto

lemma cut_char_Some:
  "cut [c] s = Some (b, a) \<longleftrightarrow> c \<notin> set b \<and> s = b @ c # a"
proof
  assume l: "cut [c] s = Some (b, a)"
  moreover have "cut [c] s = Some (b, a) \<Longrightarrow> c \<notin> set b" for s
    by (induction s arbitrary: b) (auto split: if_splits)
  ultimately show "c \<notin> set b \<and> s = b @ c # a"
    using cut_Some_append [OF l] by simp
next
  assume "c \<notin> set b \<and> s = b @ c # a"
  then show "cut [c] s = Some (b, a)"
    using cut_before_free [of c b "[]" a] by simp
qed

lemma cut_char_None: "cut [c] s = None \<longleftrightarrow> c \<notin> set s"
  by (induction s) auto

lemma contains_char [go_string]: "contains s [c] \<longleftrightarrow> c \<in> set s"
  by (simp add: contains_def cut_char_None)

lemma cut_none_if_free: "c \<notin> set s \<Longrightarrow> cut (c # sep) s = None"
  by (induction s) auto

lemma cut_prefix_Some [go_string]: "cut_prefix p s = Some r \<longleftrightarrow> s = p @ r"
  by (auto simp: cut_prefix_def prefix_def)

lemma split_on_not_Nil [simp]: "split_on c s \<noteq> []"
  by (cases s) simp_all

lemma join_Cons: "xs \<noteq> [] \<Longrightarrow> join sep (x # xs) = x @ sep @ join sep xs"
  by (cases xs) simp_all

lemma join_split_on: "join [c] (split_on c s) = s"
proof (induction s)
  case Nil
  show ?case by simp
next
  case (Cons x s)
  obtain y ys where sp: "split_on c s = y # ys"
    by (cases "split_on c s") auto
  with Cons have IH: "join [c] (y # ys) = s" by simp
  show ?case
  proof (cases "x = c")
    case True
    with sp IH show ?thesis by simp
  next
    case False
    have "join [c] ((x # y) # ys) = x # join [c] (y # ys)"
      by (cases ys) simp_all
    with False sp IH show ?thesis by simp
  qed
qed

lemma split_on_free: "c \<notin> set s \<Longrightarrow> split_on c s = [s]"
  by (induction s) auto

lemma split_on_append: "c \<notin> set x \<Longrightarrow> split_on c (x @ c # s) = x # split_on c s"
  by (induction x) auto

lemma split_on_parts_free: "p \<in> set (split_on c s) \<Longrightarrow> c \<notin> set p"
proof (induction s arbitrary: p)
  case Nil
  then show ?case by simp
next
  case (Cons x s)
  obtain y ys where sp: "split_on c s = y # ys"
    by (cases "split_on c s") auto
  with Cons show ?case by (auto split: if_splits)
qed

lemma split_on_join:
  "xs \<noteq> [] \<Longrightarrow> \<forall>x\<in>set xs. c \<notin> set x \<Longrightarrow> split_on c (join [c] xs) = xs"
proof (induction xs)
  case Nil
  then show ?case by simp
next
  case (Cons x xs)
  show ?case
  proof (cases xs)
    case Nil
    with Cons.prems show ?thesis by (simp add: split_on_free)
  next
    case (Cons y ys)
    with Cons.IH Cons.prems show ?thesis by (simp add: join_Cons split_on_append)
  qed
qed

text \<open>Two strings cut at their first separator agree exactly when both halves do.\<close>

lemma sep_free_append_eq:
  assumes "c \<notin> set x" and "c \<notin> set y"
  shows "x @ c # u = y @ c # v \<longleftrightarrow> x = y \<and> u = v"
  using assms
proof (induction x arbitrary: y)
  case Nil
  then show ?case by (cases y) auto
next
  case (Cons a x)
  then show ?case by (cases y) auto
qed

lemma sep_free_prefix:
  assumes "c \<notin> set x" and "c \<notin> set y"
  shows "prefix (x @ c # u) (y @ c # v) \<longleftrightarrow> x = y \<and> prefix u v"
proof
  assume "prefix (x @ c # u) (y @ c # v)"
  then obtain zs where "y @ c # v = x @ c # (u @ zs)" by (auto elim: prefixE)
  with assms show "x = y \<and> prefix u v" by (auto simp: sep_free_append_eq)
qed auto

lemma sep_not_prefix_free: "c \<notin> set y \<Longrightarrow> \<not> prefix (x @ c # u) y"
  by (auto elim!: prefixE)

subsection \<open>strconv.Atoi\<close>

definition digit_val :: "char \<Rightarrow> nat option" where
  "digit_val c = (if CHR ''0'' \<le> c \<and> c \<le> CHR ''9''
     then Some (of_char c - of_char (CHR ''0'')) else None)"

fun digits_val :: "nat \<Rightarrow> string \<Rightarrow> nat option" where
  "digits_val acc [] = Some acc"
| "digits_val acc (c # s) =
     (case digit_val c of None \<Rightarrow> None | Some d \<Rightarrow> digits_val (10 * acc + d) s)"

text \<open>
  An optional sign and at least one decimal digit, refused outside the 64-bit range.
\<close>

definition atoi :: "string \<Rightarrow> int option" where
  "atoi s =
     (let (neg, ds) = (case s of
          CHR ''-'' # r \<Rightarrow> (True, r) | CHR ''+'' # r \<Rightarrow> (False, r) | _ \<Rightarrow> (False, s))
      in if ds = [] then None
         else case digits_val 0 ds of
             None \<Rightarrow> None
           | Some n \<Rightarrow>
               (let i = (if neg then - int n else int n)
                in if - (2 ^ 63) \<le> i \<and> i < 2 ^ 63 then Some i else None))"

text \<open>Go's division of integers and durations truncates towards zero.\<close>

definition tdiv :: "int \<Rightarrow> int \<Rightarrow> int" where
  "tdiv a b = sgn a * sgn b * (\<bar>a\<bar> div \<bar>b\<bar>)"

text \<open>Sums of Go's \<open>int32\<close> wrap around.\<close>

definition wrap32 :: "int \<Rightarrow> int" where
  "wrap32 i = (i + 2 ^ 31) mod 2 ^ 32 - 2 ^ 31"

lemma wrap32_id: "- (2 ^ 31) \<le> i \<Longrightarrow> i < 2 ^ 31 \<Longrightarrow> wrap32 i = i"
  by (simp add: wrap32_def)

text \<open>\<open>%d\<close>: decimal digits.\<close>

fun show_nat :: "nat \<Rightarrow> string" where
  "show_nat n = (if n < 10 then [char_of (n + 48)] else show_nat (n div 10) @ [char_of (n mod 10 + 48)])"

declare show_nat.simps [simp del]

definition show_int :: "int \<Rightarrow> string" where
  "show_int i = (if i < 0 then CHR ''-'' # show_nat (nat (- i)) else show_nat (nat i))"

subsection \<open>Association lists and lists\<close>

lemma map_of_perm:
  assumes "mset m = mset m'" and "distinct (map fst m)"
  shows "map_of m = map_of m'"
proof -
  have "set m = set m'" using assms(1) by (rule mset_eq_setD)
  moreover have "distinct (map fst m')"
  proof -
    have "mset (map fst m') = mset (map fst m)" using assms(1) by simp
    with assms(2) show ?thesis by (metis mset_eq_imp_distinct_iff)
  qed
  ultimately show ?thesis using assms(2) by (metis map_of_inject_set)
qed

end
