(* ===== verification/Authz_Scope.thy ===== *)
theory Authz_Scope
  imports Prelude
begin

section \<open>Hierarchical scopes (internal/platform/authz/scope.go)\<close>

text \<open>
  Scopes are strings: \<open>*\<close>, \<open>t/<tenant>\<close>, \<open>t/<tenant>/ts/<toolset>\<close> and
  \<open>t/<tenant>/ts/<toolset>/<tool>\<close>. The code decides coverage on the strings, without parsing.
  The abstract specification is the hierarchy itself: the path of a parsed scope is the list of
  its non-empty parts, and one scope covers another when its path is a prefix. The lemmas show
  that the parser accepts exactly the rendered well-formed scopes, and that the string test
  decides the hierarchy on them.
\<close>

definition GlobalScope :: string where
  "GlobalScope = ''*''"

definition tenantPrefix :: string where
  "tenantPrefix = ''t/''"

definition toolsetMarker :: string where
  "toolsetMarker = ''/ts/''"

definition TenantScope :: "string \<Rightarrow> string" where
  "TenantScope tenant = tenantPrefix @ tenant"

definition ToolsetScope :: "string \<Rightarrow> string \<Rightarrow> string" where
  "ToolsetScope tenant toolset = tenantPrefix @ tenant @ toolsetMarker @ toolset"

definition ToolScope :: "string \<Rightarrow> string \<Rightarrow> string \<Rightarrow> string" where
  "ToolScope tenant toolset tool =
     tenantPrefix @ tenant @ toolsetMarker @ toolset @ ''/'' @ tool"

lemmas scope_consts = GlobalScope_def tenantPrefix_def toolsetMarker_def
lemmas scope_builders = TenantScope_def ToolsetScope_def ToolScope_def

text \<open>The index is in range when it is read: the grant is strictly shorter by then.\<close>

definition ScopeCovers :: "string \<Rightarrow> string \<Rightarrow> bool" where
  "ScopeCovers grantScope requestScope =
     (if grantScope = GlobalScope then True
      else if grantScope = requestScope then True
      else if length grantScope \<ge> length requestScope then False
      else if \<not> prefix grantScope requestScope then False
      else requestScope ! length grantScope = CHR ''/'')"

record ParsedScope =
  ps_Global :: bool
  ps_Tenant :: string
  ps_Toolset :: string
  ps_Tool :: string

definition ParseScope :: "string \<Rightarrow> ParsedScope option" where
  "ParseScope scope =
     (if scope = GlobalScope
      then Some \<lparr>ps_Global = True, ps_Tenant = [], ps_Toolset = [], ps_Tool = []\<rparr>
      else case cut_prefix tenantPrefix scope of
        None \<Rightarrow> None
      | Some rest \<Rightarrow>
          if rest = [] then None
          else
            let (tenant, after, hasToolset) =
                  (case cut toolsetMarker rest of
                     Some (b, a) \<Rightarrow> (b, a, True) | None \<Rightarrow> (rest, [], False))
            in if tenant = [] \<or> contains tenant ''/'' then None
               else if \<not> hasToolset
               then Some \<lparr>ps_Global = False, ps_Tenant = tenant, ps_Toolset = [], ps_Tool = []\<rparr>
               else
                 let (toolset, tool, hasTool) =
                       (case cut ''/'' after of
                          Some (b, a) \<Rightarrow> (b, a, True) | None \<Rightarrow> (after, [], False))
                 in if toolset = [] then None
                    else if \<not> hasTool
                    then Some \<lparr>ps_Global = False, ps_Tenant = tenant, ps_Toolset = toolset,
                               ps_Tool = []\<rparr>
                    else if tool = [] \<or> contains tool ''/'' then None
                    else Some \<lparr>ps_Global = False, ps_Tenant = tenant, ps_Toolset = toolset,
                               ps_Tool = tool\<rparr>)"

definition TenantOf :: "string \<Rightarrow> string" where
  "TenantOf scope =
     (case ParseScope scope of
        None \<Rightarrow> []
      | Some parsed \<Rightarrow> if ps_Global parsed then [] else ps_Tenant parsed)"

text \<open>A grant (roles.go) binds a role within a scope.\<close>

record Grant =
  g_Role :: string
  g_Scope :: string

fun AnyReaches :: "Grant list \<Rightarrow> string \<Rightarrow> bool" where
  "AnyReaches [] tenant = False"
| "AnyReaches (g # gs) tenant =
     (case ParseScope (g_Scope g) of
        None \<Rightarrow> AnyReaches gs tenant
      | Some parsed \<Rightarrow>
          if ps_Global parsed \<or> ps_Tenant parsed = tenant then True else AnyReaches gs tenant)"

subsection \<open>The specification: paths in the hierarchy\<close>

text \<open>A well-formed scope: parts are non-empty and slash-free, and no level is skipped.\<close>

definition wf_scope :: "ParsedScope \<Rightarrow> bool" where
  "wf_scope p =
     (if ps_Global p then ps_Tenant p = [] \<and> ps_Toolset p = [] \<and> ps_Tool p = []
      else ps_Tenant p \<noteq> [] \<and> CHR ''/'' \<notin> set (ps_Tenant p) \<and>
           CHR ''/'' \<notin> set (ps_Toolset p) \<and> CHR ''/'' \<notin> set (ps_Tool p) \<and>
           (ps_Toolset p = [] \<longrightarrow> ps_Tool p = []))"

definition render_scope :: "ParsedScope \<Rightarrow> string" where
  "render_scope p =
     (if ps_Global p then GlobalScope
      else if ps_Toolset p = [] then TenantScope (ps_Tenant p)
      else if ps_Tool p = [] then ToolsetScope (ps_Tenant p) (ps_Toolset p)
      else ToolScope (ps_Tenant p) (ps_Toolset p) (ps_Tool p))"

definition scope_path :: "ParsedScope \<Rightarrow> string list" where
  "scope_path p = filter (\<lambda>x. x \<noteq> []) [ps_Tenant p, ps_Toolset p, ps_Tool p]"

lemma parse_render: "wf_scope p \<Longrightarrow> ParseScope (render_scope p) = Some p"
proof (cases "ps_Global p")
  case True
  assume "wf_scope p"
  with True show ?thesis
    by (cases p) (simp add: ParseScope_def render_scope_def wf_scope_def)
next
  case False
  assume wf: "wf_scope p"
  let ?t = "ps_Tenant p" and ?s = "ps_Toolset p" and ?l = "ps_Tool p"
  from False wf have t: "?t \<noteq> []" "CHR ''/'' \<notin> set ?t" and s: "CHR ''/'' \<notin> set ?s"
    and l: "CHR ''/'' \<notin> set ?l" "?s = [] \<Longrightarrow> ?l = []"
    by (simp_all add: wf_scope_def)
  have c: "cut ''/ts/'' (?t @ ''/ts/'' @ a) = Some (?t, a)" for a
    using cut_before_free [OF t(2), of "''ts/''" a] by simp
  have d: "cut ''/'' (?s @ ''/'' @ a) = Some (?s, a)" for a
    using cut_before_free [OF s, of "[]" a] by simp
  have n: "cut ''/ts/'' ?t = None" "cut ''/'' ?s = None"
    using t(2) s by (simp_all add: cut_none_if_free)
  show ?thesis
    using False t s l c [simplified] d [simplified] n
    by (cases p) (auto simp: ParseScope_def render_scope_def scope_consts scope_builders
        cut_prefix_def contains_char)
qed

lemma parse_Some_render:
  assumes "ParseScope s = Some p"
  shows "wf_scope p \<and> s = render_scope p"
proof (cases "s = GlobalScope")
  case True
  with assms show ?thesis by (auto simp: ParseScope_def wf_scope_def render_scope_def)
next
  case False
  with assms obtain rest where r: "cut_prefix tenantPrefix s = Some rest" "rest \<noteq> []"
    by (auto simp: ParseScope_def split: option.splits if_splits)
  then have s: "s = tenantPrefix @ rest" by (simp add: cut_prefix_Some)
  show ?thesis
  proof (cases "cut toolsetMarker rest")
    case None
    with False r s assms show ?thesis
      by (auto simp: ParseScope_def wf_scope_def render_scope_def scope_builders contains_char
          split: if_splits)
  next
    case (Some ba)
    obtain t a where ba: "ba = (t, a)" by (cases ba)
    with Some have rest: "rest = t @ toolsetMarker @ a" by (auto dest: cut_Some_append)
    show ?thesis
    proof (cases "cut ''/'' a")
      case None
      then have "CHR ''/'' \<notin> set a" by (simp add: cut_char_None)
      with False r s rest Some ba None assms show ?thesis
        by (auto simp: ParseScope_def wf_scope_def render_scope_def scope_builders contains_char
            split: if_splits)
    next
      case (Some cd)
      obtain c d where cd: "cd = (c, d)" by (cases cd)
      with Some have "a = c @ CHR ''/'' # d" "CHR ''/'' \<notin> set c"
        by (simp_all add: cut_char_Some)
      with False r s rest \<open>cut toolsetMarker rest = Some ba\<close> ba Some cd assms show ?thesis
        by (auto simp: ParseScope_def wf_scope_def render_scope_def scope_builders contains_char
            split: if_splits)
    qed
  qed
qed

subsection \<open>Coverage\<close>

lemma covers_global [simp]: "ScopeCovers GlobalScope r"
  by (simp add: ScopeCovers_def)

lemma covers_refl [simp]: "ScopeCovers s s"
  by (simp add: ScopeCovers_def)

text \<open>The boundary test: anything else is the grant itself or starts with it and a slash.\<close>

lemma covers_iff_prefix:
  assumes "g \<noteq> GlobalScope"
  shows "ScopeCovers g r \<longleftrightarrow> g = r \<or> prefix (g @ ''/'') r"
proof
  assume c: "ScopeCovers g r"
  show "g = r \<or> prefix (g @ ''/'') r"
  proof (cases "g = r")
    case False
    with c assms have "length g < length r" "prefix g r" "r ! length g = CHR ''/''"
      by (auto simp: ScopeCovers_def split: if_splits)
    then obtain z zs where "r = g @ z # zs" by (auto elim!: prefixE) (metis neq_Nil_conv)
    with \<open>r ! length g = CHR ''/''\<close> show ?thesis by simp
  qed simp
next
  assume "g = r \<or> prefix (g @ ''/'') r"
  then show "ScopeCovers g r"
    by (auto simp: ScopeCovers_def elim!: prefixE)
qed

lemma covers_iff:
  "ScopeCovers g r \<longleftrightarrow> g = GlobalScope \<or> g = r \<or> prefix (g @ ''/'') r"
  by (cases "g = GlobalScope") (simp_all add: covers_iff_prefix)

lemma covers_only_global: "ScopeCovers g GlobalScope \<Longrightarrow> g = GlobalScope \<or> g = []"
  by (cases g) (auto simp: ScopeCovers_def scope_consts split: if_splits)

lemma covers_trans:
  assumes "ScopeCovers a b" and "ScopeCovers b c"
  shows "ScopeCovers a c"
proof (cases "a = GlobalScope")
  case False
  show ?thesis
  proof (cases "b = GlobalScope")
    case True
    with assms False have "a = []" using covers_only_global by blast
    with True assms(1) show ?thesis by (simp add: ScopeCovers_def scope_consts)
  next
    case b: False
    with False assms show ?thesis
      by (auto simp: covers_iff_prefix elim!: prefixE)
  qed
qed simp

lemma render_cases:
  assumes "wf_scope p"
  obtains (Glob) "ps_Global p" "render_scope p = ''*''" "scope_path p = []"
  | (Ten) "\<not> ps_Global p" "render_scope p = ''t/'' @ ps_Tenant p" "scope_path p = [ps_Tenant p]"
      "CHR ''/'' \<notin> set (ps_Tenant p)"
  | (Set) "\<not> ps_Global p" "render_scope p = ''t/'' @ ps_Tenant p @ ''/ts/'' @ ps_Toolset p"
      "scope_path p = [ps_Tenant p, ps_Toolset p]"
      "CHR ''/'' \<notin> set (ps_Tenant p)" "CHR ''/'' \<notin> set (ps_Toolset p)"
  | (Tool) "\<not> ps_Global p"
      "render_scope p = ''t/'' @ ps_Tenant p @ ''/ts/'' @ ps_Toolset p @ ''/'' @ ps_Tool p"
      "scope_path p = [ps_Tenant p, ps_Toolset p, ps_Tool p]"
      "CHR ''/'' \<notin> set (ps_Tenant p)" "CHR ''/'' \<notin> set (ps_Toolset p)"
      "CHR ''/'' \<notin> set (ps_Tool p)"
  using assms
  by (cases "ps_Global p"; cases "ps_Toolset p = []"; cases "ps_Tool p = []")
     (auto simp: wf_scope_def render_scope_def scope_path_def scope_builders scope_consts)

lemma covers_render_path:
  assumes "wf_scope p" and "wf_scope q"
  shows "ScopeCovers (render_scope p) (render_scope q) \<longleftrightarrow> prefix (scope_path p) (scope_path q)"
proof -
  have slash: "x @ CHR ''/'' # u = y \<Longrightarrow> CHR ''/'' \<in> set y" for x u y :: string by auto
  have slash': "y = x @ CHR ''/'' # u \<Longrightarrow> CHR ''/'' \<in> set y" for x u y :: string by auto
  show ?thesis
    by (rule render_cases [OF assms(1)]; rule render_cases [OF assms(2)])
       (auto simp: covers_iff scope_consts sep_free_append_eq sep_free_prefix
          sep_not_prefix_free dest: slash slash')
qed

text \<open>A tenant name as a scope can carry it.\<close>

definition wf_tenant :: "string \<Rightarrow> bool" where
  "wf_tenant t = (t \<noteq> [] \<and> CHR ''/'' \<notin> set t)"

lemma wf_tenant_scope:
  "wf_tenant t \<Longrightarrow> wf_scope \<lparr>ps_Global = False, ps_Tenant = t, ps_Toolset = [], ps_Tool = []\<rparr>"
  by (simp add: wf_tenant_def wf_scope_def)

lemma reaches_one:
  assumes "ParseScope g = Some p" and "wf_tenant t"
  shows "ps_Global p \<or> ps_Tenant p = t \<longleftrightarrow>
    (\<exists>q. wf_scope q \<and> \<not> ps_Global q \<and> ps_Tenant q = t \<and> ScopeCovers g (render_scope q))"
    (is "?l \<longleftrightarrow> (\<exists>q. ?P q)")
proof
  have p: "wf_scope p" "g = render_scope p" using parse_Some_render [OF assms(1)] by simp_all
  {
    assume ?l
    show "\<exists>q. ?P q"
    proof (cases "ps_Global p")
      case True
      with p have "ScopeCovers g r" for r by (simp add: render_scope_def)
      then show ?thesis using wf_tenant_scope [OF assms(2)] by fastforce
    next
      case False
      with \<open>?l\<close> p have "?P p" by simp
      then show ?thesis by blast
    qed
  next
    assume "\<exists>q. ?P q"
    then obtain q where "?P q" by blast
    then have "prefix (scope_path p) (scope_path q)" using p by (auto simp: covers_render_path)
    with \<open>?P q\<close> p assms(2) show ?l
      by (auto simp: scope_path_def wf_scope_def wf_tenant_def split: if_splits)
  }
qed

lemma AnyReaches_iff:
  "AnyReaches gs t \<longleftrightarrow>
     (\<exists>g\<in>set gs. \<exists>p. ParseScope (g_Scope g) = Some p \<and> (ps_Global p \<or> ps_Tenant p = t))"
  by (induction gs) (auto split: option.splits)

subsection \<open>Properties\<close>

text \<open>On well-formed scopes the boundary-checked prefix test decides exactly the hierarchy:
  a grant covers a request when the grant's path is a prefix of the request's. In particular
  \<open>t/acme\<close> does not cover \<open>t/acme-corp\<close>.\<close>

theorem scope_covers_hierarchy:
  assumes "ParseScope g = Some p" and "ParseScope r = Some q"
  shows "ScopeCovers g r \<longleftrightarrow> prefix (scope_path p) (scope_path q)"
  using parse_Some_render [OF assms(1)] parse_Some_render [OF assms(2)] covers_render_path
  by blast

theorem scope_covers_hierarchy_witness:
  "ScopeCovers ''t/acme'' ''t/acme/ts/crm/search'' \<and>
   \<not> ScopeCovers ''t/acme'' ''t/acme-corp/ts/crm''"
proof -
  have "ParseScope ''t/acme'' = Some \<lparr>ps_Global = False, ps_Tenant = ''acme'', ps_Toolset = [], ps_Tool = []\<rparr>"
    and "ParseScope ''t/acme/ts/crm/search'' =
      Some \<lparr>ps_Global = False, ps_Tenant = ''acme'', ps_Toolset = ''crm'', ps_Tool = ''search''\<rparr>"
    and "ParseScope ''t/acme-corp/ts/crm'' =
      Some \<lparr>ps_Global = False, ps_Tenant = ''acme-corp'', ps_Toolset = ''crm'', ps_Tool = []\<rparr>"
    by code_simp+
  then show ?thesis
    by (simp add: scope_covers_hierarchy scope_path_def)
qed

text \<open>The parser accepts exactly the well-formed scopes, and parsing inverts rendering: a
  malformed scope is refused and never read as the global one.\<close>

theorem scope_parse_roundtrip:
  "ParseScope s = Some p \<longleftrightarrow> wf_scope p \<and> s = render_scope p"
  using parse_Some_render parse_render by blast

text \<open>A set of grants reaches a tenant exactly when some well-formed grant covers some scope
  inside that tenant, whether or not it covers the tenant as a whole.\<close>

theorem any_reaches_iff_covers_inside:
  assumes "wf_tenant t"
  shows "AnyReaches gs t \<longleftrightarrow>
    (\<exists>g\<in>set gs. \<exists>p q. ParseScope (g_Scope g) = Some p \<and> wf_scope q \<and> \<not> ps_Global q \<and>
       ps_Tenant q = t \<and> ScopeCovers (g_Scope g) (render_scope q))"
proof -
  have "(\<exists>p. ParseScope s = Some p \<and> (ps_Global p \<or> ps_Tenant p = t)) \<longleftrightarrow>
    (\<exists>p q. ParseScope s = Some p \<and> wf_scope q \<and> \<not> ps_Global q \<and>
       ps_Tenant q = t \<and> ScopeCovers s (render_scope q))" for s
    by (cases "ParseScope s") (simp_all add: reaches_one [OF _ assms])
  then show ?thesis unfolding AnyReaches_iff by (rule bex_cong [OF refl])
qed

theorem any_reaches_iff_covers_inside_witness:
  "wf_tenant ''acme'' \<and>
   (\<exists>g\<in>{\<lparr>g_Role = ''tool_user'', g_Scope = ''t/acme/ts/support''\<rparr>}. \<exists>p q.
      ParseScope (g_Scope g) = Some p \<and> wf_scope q \<and> \<not> ps_Global q \<and>
      ps_Tenant q = ''acme'' \<and> ScopeCovers (g_Scope g) (render_scope q))"
proof -
  have w: "wf_tenant ''acme''" by code_simp
  moreover have "AnyReaches [\<lparr>g_Role = ''tool_user'', g_Scope = ''t/acme/ts/support''\<rparr>] ''acme''"
    by code_simp
  ultimately show ?thesis
    using any_reaches_iff_covers_inside [OF w,
      of "[\<lparr>g_Role = ''tool_user'', g_Scope = ''t/acme/ts/support''\<rparr>]"]
    unfolding list.set by blast
qed

end
