(* ===== verification/Authz_Roles.thy ===== *)
theory Authz_Roles
  imports Authz_Scope
begin

section \<open>Permissions, roles and the role catalog (internal/platform/authz/roles.go)\<close>

text \<open>
  The closed permission vocabulary, the editable role catalog and its admission check. A catalog
  (a Go map from role to a set of permissions) is an association list with distinct roles; its
  order is the map's unspecified iteration order, which the code removes by sorting.
\<close>

type_synonym permission = string

definition PermTenantManage :: permission where "PermTenantManage = ''tenant:manage''"
definition PermUserManage :: permission where "PermUserManage = ''user:manage''"
definition PermRoleManage :: permission where "PermRoleManage = ''role:manage''"
definition PermKeyManage :: permission where "PermKeyManage = ''key:manage''"
definition PermIdpManage :: permission where "PermIdpManage = ''idp:manage''"
definition PermAuthSettings :: permission where "PermAuthSettings = ''auth:settings''"
definition PermRegistryRead :: permission where "PermRegistryRead = ''registry:read''"
definition PermRegistryWrite :: permission where "PermRegistryWrite = ''registry:write''"
definition PermSnapshotBuild :: permission where "PermSnapshotBuild = ''snapshot:build''"
definition PermSnapshotPublish :: permission where "PermSnapshotPublish = ''snapshot:publish''"
definition PermKeyGenerate :: permission where "PermKeyGenerate = ''signingkey:generate''"
definition PermToolList :: permission where "PermToolList = ''tool:list''"
definition PermToolCall :: permission where "PermToolCall = ''tool:call''"
definition PermGatewayInspect :: permission where "PermGatewayInspect = ''gateway:inspect''"
definition PermAuditView :: permission where "PermAuditView = ''audit:view''"

lemmas perm_defs = PermTenantManage_def PermUserManage_def PermRoleManage_def PermKeyManage_def
  PermIdpManage_def PermAuthSettings_def PermRegistryRead_def PermRegistryWrite_def
  PermSnapshotBuild_def PermSnapshotPublish_def PermKeyGenerate_def PermToolList_def
  PermToolCall_def PermGatewayInspect_def PermAuditView_def

definition AllPermissions :: "permission list" where
  "AllPermissions =
     [PermAuditView, PermAuthSettings, PermGatewayInspect, PermIdpManage, PermKeyManage,
      PermRegistryRead, PermRegistryWrite, PermRoleManage, PermSnapshotBuild,
      PermSnapshotPublish, PermKeyGenerate, PermTenantManage, PermToolCall, PermToolList,
      PermUserManage]"

definition RolePlatformAdmin :: string where "RolePlatformAdmin = ''platform_admin''"
definition RoleTenantAdmin :: string where "RoleTenantAdmin = ''tenant_admin''"
definition RoleToolsetAdmin :: string where "RoleToolsetAdmin = ''toolset_admin''"
definition RolePublisher :: string where "RolePublisher = ''publisher''"
definition RoleToolUser :: string where "RoleToolUser = ''tool_user''"
definition RoleViewer :: string where "RoleViewer = ''viewer''"
definition RoleAuditor :: string where "RoleAuditor = ''auditor''"

lemmas role_defs = RolePlatformAdmin_def RoleTenantAdmin_def RoleToolsetAdmin_def
  RolePublisher_def RoleToolUser_def RoleViewer_def RoleAuditor_def

type_synonym Catalog = "(string \<times> permission list) list"

definition DefaultCatalog :: Catalog where
  "DefaultCatalog =
     [(RolePlatformAdmin, AllPermissions),
      (RoleTenantAdmin,
        [PermUserManage, PermRoleManage, PermKeyManage, PermRegistryRead, PermRegistryWrite,
         PermSnapshotBuild, PermSnapshotPublish, PermGatewayInspect, PermAuditView,
         PermToolList, PermToolCall]),
      (RoleToolsetAdmin,
        [PermRegistryRead, PermRegistryWrite, PermSnapshotBuild, PermToolList, PermToolCall]),
      (RolePublisher, [PermRegistryRead, PermSnapshotPublish, PermAuditView]),
      (RoleToolUser, [PermToolList, PermToolCall]),
      (RoleViewer, [PermRegistryRead, PermToolList]),
      (RoleAuditor, [PermAuditView])]"

subsection \<open>Grants\<close>

datatype GrantError = NoRole | NoScope string | MalformedScope string string

definition Grant_Validate :: "Grant \<Rightarrow> GrantError + unit" where
  "Grant_Validate g =
     (if g_Role g = [] then Inl NoRole
      else if g_Scope g = [] then Inl (NoScope (g_Role g))
      else case ParseScope (g_Scope g) of
             None \<Rightarrow> Inl (MalformedScope (g_Role g) (g_Scope g))
           | Some _ \<Rightarrow> Inr ())"

subsection \<open>Reading and validating a catalog\<close>

definition Catalog_Roles :: "Catalog \<Rightarrow> string list" where
  "Catalog_Roles c = sort (map fst c)"

text \<open>\<open>c[role]\<close>: the nil map, with no entries, for a role that is not there.\<close>

definition role_perms :: "Catalog \<Rightarrow> string \<Rightarrow> permission list" where
  "role_perms c role = (case map_of c role of None \<Rightarrow> [] | Some ps \<Rightarrow> ps)"

definition Catalog_Permissions :: "Catalog \<Rightarrow> string \<Rightarrow> permission list" where
  "Catalog_Permissions c role = sort (role_perms c role)"

datatype CatalogProblem = UnknownPerm string permission | HiddenCapability string

text \<open>The problems one role contributes, in the order the code appends them.\<close>

definition role_problems :: "Catalog \<Rightarrow> string \<Rightarrow> CatalogProblem list" where
  "role_problems c role =
     map (UnknownPerm role)
       (filter (\<lambda>p. p \<notin> set AllPermissions) (Catalog_Permissions c role)) @
     (if PermToolCall \<in> set (role_perms c role) \<and> PermToolList \<notin> set (role_perms c role)
      then [HiddenCapability role] else [])"

definition ValidateCatalog :: "Catalog \<Rightarrow> CatalogProblem list + unit" where
  "ValidateCatalog c =
     (let problems = concat (map (role_problems c) (Catalog_Roles c))
      in if problems \<noteq> [] then Inl problems else Inr ())"

text \<open>\<open>holder.Can\<close> is the caller's function from a permission and a scope.\<close>

definition WithheldBy ::
  "Catalog \<Rightarrow> (permission \<Rightarrow> string \<Rightarrow> bool) \<Rightarrow> string \<Rightarrow> string \<Rightarrow> permission list" where
  "WithheldBy c holder role scope = filter (\<lambda>p. \<not> holder p scope) (Catalog_Permissions c role)"

definition UnknownPermissions :: "permission list \<Rightarrow> permission list" where
  "UnknownPermissions want = filter (\<lambda>p. p \<notin> set AllPermissions) want"

subsection \<open>Lemmas\<close>

lemma set_Catalog_Permissions [simp]: "set (Catalog_Permissions c role) = set (role_perms c role)"
  by (simp add: Catalog_Permissions_def)

lemma set_Catalog_Roles [simp]: "set (Catalog_Roles c) = fst ` set c"
  by (simp add: Catalog_Roles_def)

lemma role_perms_Some: "map_of c role = Some ps \<Longrightarrow> role_perms c role = ps"
  by (simp add: role_perms_def)

lemma WithheldBy_Nil:
  "WithheldBy c holder role scope = [] \<longleftrightarrow> (\<forall>p\<in>set (role_perms c role). holder p scope)"
  by (auto simp: WithheldBy_def filter_empty_conv)

lemma role_problems_Nil:
  "role_problems c role = [] \<longleftrightarrow>
     set (role_perms c role) \<subseteq> set AllPermissions \<and>
     (PermToolCall \<in> set (role_perms c role) \<longrightarrow> PermToolList \<in> set (role_perms c role))"
  by (auto simp: role_problems_def filter_empty_conv)

lemma ValidateCatalog_ok:
  "ValidateCatalog c = Inr () \<longleftrightarrow> (\<forall>role\<in>fst ` set c. role_problems c role = [])"
  by (auto simp: ValidateCatalog_def Let_def)

lemma catalog_valid_role:
  assumes "ValidateCatalog c = Inr ()"
  shows "role_problems c role = []"
proof (cases "map_of c role")
  case None
  then show ?thesis by (simp add: role_problems_Nil role_perms_def)
next
  case (Some ps)
  then have "role \<in> fst ` set c" by (metis domI dom_map_of_conv_image_fst)
  with assms show ?thesis unfolding ValidateCatalog_ok by blast
qed

lemma catalog_call_list:
  "ValidateCatalog c = Inr () \<Longrightarrow> PermToolCall \<in> set (role_perms c role) \<Longrightarrow>
   PermToolList \<in> set (role_perms c role)"
  using catalog_valid_role [of c role] by (simp add: role_problems_Nil)

subsection \<open>Properties\<close>

text \<open>A role catalog is admitted exactly when every role holds only permissions of the closed
  vocabulary and no role may call a tool it may not list.\<close>

theorem validate_catalog_spec:
  "ValidateCatalog c = Inr () \<longleftrightarrow>
     (\<forall>role. set (role_perms c role) \<subseteq> set AllPermissions \<and>
        (PermToolCall \<in> set (role_perms c role) \<longrightarrow> PermToolList \<in> set (role_perms c role)))"
  using catalog_valid_role [of c] unfolding ValidateCatalog_ok role_problems_Nil by blast

theorem validate_catalog_spec_witness:
  "(\<forall>role. set (role_perms DefaultCatalog role) \<subseteq> set AllPermissions \<and>
      (PermToolCall \<in> set (role_perms DefaultCatalog role) \<longrightarrow>
       PermToolList \<in> set (role_perms DefaultCatalog role)))"
proof -
  have "ValidateCatalog DefaultCatalog = Inr ()" by code_simp
  then show ?thesis unfolding validate_catalog_spec .
qed

end
