(* ===== verification/Authz_Engine.thy ===== *)
theory Authz_Engine
  imports Authz_Roles "HOL-Library.AList"
begin

section \<open>The authorization engines (internal/platform/authz/engine.go)\<close>

text \<open>
  A decider answers one authorization question; an engine compiles grants and a role catalog into
  one. The locale \<open>authz_engine\<close> is the contract every engine promises: on an admitted catalog it
  decides as the policy says. What the gateway and the control plane rely on (narrowing a key,
  refusing an escalation, call implies list) is proved once against the contract and reached
  through its interpretation on the built-in engine.
\<close>

type_synonym Decider = "permission \<Rightarrow> string \<Rightarrow> bool"

definition DenyAll :: Decider where
  "DenyAll = (\<lambda>_ _. False)"

fun appendUnique :: "string list \<Rightarrow> string \<Rightarrow> string list" where
  "appendUnique l scope = (if scope \<in> set l then l else l @ [scope])"

text \<open>The map from permission to scopes, as an association list; a missing key reads as nil.\<close>

type_synonym compiled = "(permission \<times> string list) list"

definition scopes_of :: "compiled \<Rightarrow> permission \<Rightarrow> string list" where
  "scopes_of m p = (case map_of m p of None \<Rightarrow> [] | Some ss \<Rightarrow> ss)"

definition add_scope :: "string \<Rightarrow> permission \<Rightarrow> compiled \<Rightarrow> compiled" where
  "add_scope scope p m = AList.update p (appendUnique (scopes_of m p) scope) m"

definition compile_grant :: "Catalog \<Rightarrow> Grant \<Rightarrow> compiled \<Rightarrow> compiled" where
  "compile_grant c g m =
     (case map_of c (g_Role g) of
        None \<Rightarrow> m
      | Some perms \<Rightarrow> fold (add_scope (g_Scope g)) perms m)"

definition BuiltinEngine_Prepare :: "Grant list \<Rightarrow> Catalog \<Rightarrow> unit + Decider" where
  "BuiltinEngine_Prepare grants c =
     (let byPermission = fold (compile_grant c) grants []
      in if byPermission = [] then Inr DenyAll
         else Inr (\<lambda>permission requestScope.
                list_ex (\<lambda>granted. ScopeCovers granted requestScope)
                  (scopes_of byPermission permission)))"

text \<open>A key grant survives where the owner holds the same role at a covering scope.\<close>

definition Intersect :: "Grant list \<Rightarrow> Grant list \<Rightarrow> Grant list" where
  "Intersect keyGrants ownerGrants =
     (if keyGrants = [] \<or> ownerGrants = [] then []
      else filter
        (\<lambda>kg. list_ex (\<lambda>og. g_Role og = g_Role kg \<and> ScopeCovers (g_Scope og) (g_Scope kg))
                ownerGrants)
        keyGrants)"

subsection \<open>The policy the engines implement\<close>

definition policy_allows :: "Grant list \<Rightarrow> Catalog \<Rightarrow> permission \<Rightarrow> string \<Rightarrow> bool" where
  "policy_allows gs c p r =
     list_ex (\<lambda>g. p \<in> set (role_perms c (g_Role g)) \<and> ScopeCovers (g_Scope g) r) gs"

lemma policy_allows_iff:
  "policy_allows gs c p r \<longleftrightarrow>
     (\<exists>g\<in>set gs. p \<in> set (role_perms c (g_Role g)) \<and> ScopeCovers (g_Scope g) r)"
  by (simp add: policy_allows_def list_ex_iff)

lemma policy_mono: "set gs \<subseteq> set hs \<Longrightarrow> policy_allows gs c p r \<Longrightarrow> policy_allows hs c p r"
  by (auto simp: policy_allows_iff)

lemma policy_covers:
  "policy_allows gs c p s \<Longrightarrow> ScopeCovers s r \<Longrightarrow> policy_allows gs c p r"
  using covers_trans by (fastforce simp: policy_allows_iff)

lemma policy_call_list:
  "ValidateCatalog c = Inr () \<Longrightarrow> policy_allows gs c PermToolCall r \<Longrightarrow>
   policy_allows gs c PermToolList r"
  using catalog_call_list by (fastforce simp: policy_allows_iff)

lemma Intersect_iff:
  "kg \<in> set (Intersect ks os) \<longleftrightarrow>
     kg \<in> set ks \<and> (\<exists>og\<in>set os. g_Role og = g_Role kg \<and> ScopeCovers (g_Scope og) (g_Scope kg))"
  by (auto simp: Intersect_def list_ex_iff)

lemma policy_intersect_owner:
  "policy_allows (Intersect ks os) c p r \<Longrightarrow> policy_allows os c p r"
proof -
  assume "policy_allows (Intersect ks os) c p r"
  then obtain kg og :: Grant where "p \<in> set (role_perms c (g_Role kg))" "ScopeCovers (g_Scope kg) r"
    "og \<in> set os" "g_Role og = g_Role kg" "ScopeCovers (g_Scope og) (g_Scope kg)"
    by (auto simp: policy_allows_iff Intersect_iff)
  moreover from this have "ScopeCovers (g_Scope og) r" by (blast intro: covers_trans)
  ultimately show "policy_allows os c p r" unfolding policy_allows_iff by metis
qed

lemma policy_intersect_key:
  "policy_allows (Intersect ks os) c p r \<Longrightarrow> policy_allows ks c p r"
  by (rule policy_mono) (auto simp: Intersect_iff)

lemma policy_no_escalation:
  assumes "WithheldBy c (policy_allows hs c) role scope = []"
    and "policy_allows (\<lparr>g_Role = role, g_Scope = scope\<rparr> # gs) c p r"
  shows "policy_allows gs c p r \<or> policy_allows hs c p r"
  using assms policy_covers by (auto simp: policy_allows_def WithheldBy_Nil)

subsection \<open>The engine contract\<close>

locale authz_engine =
  fixes prepare :: "Grant list \<Rightarrow> Catalog \<Rightarrow> 'e + Decider"
  assumes prepare_ok: "ValidateCatalog c = Inr () \<Longrightarrow> is_ok (prepare gs c)"
    and prepare_policy:
      "ValidateCatalog c = Inr () \<Longrightarrow> prepare gs c = Inr d \<Longrightarrow> d p r \<longleftrightarrow> policy_allows gs c p r"
begin

lemma prepared_fun:
  "ValidateCatalog c = Inr () \<Longrightarrow> prepare gs c = Inr d \<Longrightarrow> d = policy_allows gs c"
  using prepare_policy by blast

lemma call_implies_list:
  assumes "ValidateCatalog c = Inr ()" and "prepare gs c = Inr d" and "d PermToolCall r"
  shows "d PermToolList r"
  using assms policy_call_list prepared_fun by metis

lemma narrowed_key:
  assumes "ValidateCatalog c = Inr ()" and "prepare (Intersect ks os) c = Inr dk"
    and "prepare os c = Inr d" and "dk p r"
  shows "d p r"
  using assms policy_intersect_owner prepared_fun by metis

lemma no_escalation:
  assumes "ValidateCatalog c = Inr ()" and "prepare hs c = Inr holder"
    and "WithheldBy c holder role scope = []"
    and "prepare gs c = Inr before"
    and "prepare (\<lparr>g_Role = role, g_Scope = scope\<rparr> # gs) c = Inr later"
    and "later p r"
  shows "before p r \<or> holder p r"
proof -
  have "holder = policy_allows hs c" "before = policy_allows gs c"
    "later = policy_allows (\<lparr>g_Role = role, g_Scope = scope\<rparr> # gs) c"
    using assms prepared_fun by blast+
  with assms policy_no_escalation show ?thesis by blast
qed

end

subsection \<open>The built-in engine implements the policy\<close>

lemma scopes_of_add:
  "set (scopes_of (add_scope s p m) q) =
     (if q = p then insert s (set (scopes_of m q)) else set (scopes_of m q))"
  by (auto simp: scopes_of_def add_scope_def update_conv' split: option.splits)

lemma scopes_of_fold_add:
  "set (scopes_of (fold (add_scope s) ps m) q) =
     (if q \<in> set ps then {s} else {}) \<union> set (scopes_of m q)"
  by (induction ps arbitrary: m) (auto simp: scopes_of_add)

lemma scopes_of_compile:
  "set (scopes_of (compile_grant c g m) q) =
     (if q \<in> set (role_perms c (g_Role g)) then {g_Scope g} else {}) \<union> set (scopes_of m q)"
  by (auto simp: compile_grant_def role_perms_def scopes_of_fold_add split: option.splits)

lemma scopes_of_fold_compile:
  "set (scopes_of (fold (compile_grant c) gs m) q) =
     {g_Scope g |g. g \<in> set gs \<and> q \<in> set (role_perms c (g_Role g))} \<union> set (scopes_of m q)"
  by (induction gs arbitrary: m) (auto simp: scopes_of_compile)

lemma builtin_decides:
  "BuiltinEngine_Prepare gs c = Inr (policy_allows gs c)"
proof -
  let ?m = "fold (compile_grant c) gs []"
  have m: "list_ex (\<lambda>s. ScopeCovers s r) (scopes_of ?m p) \<longleftrightarrow> policy_allows gs c p r" for p r
    by (auto simp: list_ex_iff scopes_of_fold_compile policy_allows_iff scopes_of_def [of "[]"])
  have "?m = [] \<Longrightarrow> \<not> policy_allows gs c p r" for p r
    using m [of r p] by (simp add: scopes_of_def)
  with m show ?thesis
    by (auto simp: BuiltinEngine_Prepare_def Let_def DenyAll_def fun_eq_iff)
qed

interpretation builtin: authz_engine BuiltinEngine_Prepare
  by unfold_locales (auto simp: builtin_decides)

subsection \<open>Properties\<close>

text \<open>The built-in engine never fails and its compiled decider allows exactly what the policy
  says: some grant's role holds the permission and its scope covers the request. A grant naming a
  role the catalog does not define allows nothing.\<close>

theorem builtin_engine_correct:
  "\<exists>d. BuiltinEngine_Prepare grants c = Inr d \<and>
     (\<forall>p r. d p r = list_ex (\<lambda>g. p \<in> set (role_perms c (g_Role g)) \<and> ScopeCovers (g_Scope g) r) grants)"
  by (simp add: builtin_decides policy_allows_def)

text \<open>C7: an API key never allows anything its owner is not allowed, whatever grants it declares:
  the decider compiled from the intersected grants allows only what the owner's decider and the
  key's own declared grants both allow.\<close>

theorem intersect_never_widens:
  assumes "BuiltinEngine_Prepare (Intersect keyGrants ownerGrants) c = Inr dk"
    and "BuiltinEngine_Prepare ownerGrants c = Inr owner"
    and "BuiltinEngine_Prepare keyGrants c = Inr declared"
    and "dk p r"
  shows "owner p r \<and> declared p r"
proof -
  have "dk = policy_allows (Intersect keyGrants ownerGrants) c" "owner = policy_allows ownerGrants c"
    "declared = policy_allows keyGrants c"
    using assms by (simp_all add: builtin_decides)
  with assms(4) policy_intersect_owner policy_intersect_key show ?thesis by blast
qed

definition wit_owner :: "Grant list" where
  "wit_owner = [\<lparr>g_Role = RoleToolUser, g_Scope = ''t/acme''\<rparr>]"

definition wit_key :: "Grant list" where
  "wit_key = [\<lparr>g_Role = RoleToolUser, g_Scope = ''t/acme/ts/crm''\<rparr>,
              \<lparr>g_Role = RoleToolUser, g_Scope = ''t/globex''\<rparr>]"

theorem intersect_never_widens_witness:
  "\<exists>dk. BuiltinEngine_Prepare (Intersect wit_key wit_owner) DefaultCatalog = Inr dk \<and>
     dk PermToolCall ''t/acme/ts/crm/search'' \<and> \<not> dk PermToolCall ''t/globex'' \<and>
     policy_allows wit_owner DefaultCatalog PermToolCall ''t/acme/ts/crm/search''"
proof -
  let ?dk = "policy_allows (Intersect wit_key wit_owner) DefaultCatalog"
  have a: "?dk PermToolCall ''t/acme/ts/crm/search''" "\<not> ?dk PermToolCall ''t/globex''"
    by code_simp+
  from intersect_never_widens [OF builtin_decides builtin_decides builtin_decides a(1)]
  show ?thesis using a by (auto simp: builtin_decides)
qed

text \<open>C19: issuing a grant that withholds nothing from its issuer escalates nobody: if every
  permission of the role is held by the issuer at the scope, whatever the grantee may do afterwards
  it could do before or the issuer can do.\<close>

theorem grant_without_withheld_no_escalation:
  assumes "ValidateCatalog c = Inr ()"
    and "BuiltinEngine_Prepare issuer c = Inr holder"
    and "WithheldBy c holder role scope = []"
    and "BuiltinEngine_Prepare grantee c = Inr before"
    and "BuiltinEngine_Prepare (\<lparr>g_Role = role, g_Scope = scope\<rparr> # grantee) c = Inr later"
    and "later p r"
  shows "before p r \<or> holder p r"
  using assms by (rule builtin.no_escalation)

definition wit_issuer :: "Grant list" where
  "wit_issuer = [\<lparr>g_Role = RoleTenantAdmin, g_Scope = ''t/acme''\<rparr>]"

theorem grant_without_withheld_no_escalation_witness:
  "policy_allows wit_issuer DefaultCatalog PermToolCall ''t/acme/ts/crm/search'' \<and>
   WithheldBy DefaultCatalog (policy_allows wit_issuer DefaultCatalog) RolePlatformAdmin ''t/acme''
     = [PermAuthSettings, PermIdpManage, PermKeyGenerate, PermTenantManage]"
proof -
  have v: "ValidateCatalog DefaultCatalog = Inr ()"
    and w: "WithheldBy DefaultCatalog (policy_allows wit_issuer DefaultCatalog) RoleToolUser
              ''t/acme/ts/crm'' = []"
    and a: "policy_allows (\<lparr>g_Role = RoleToolUser, g_Scope = ''t/acme/ts/crm''\<rparr> # []) DefaultCatalog
              PermToolCall ''t/acme/ts/crm/search''"
    and b: "\<not> policy_allows [] DefaultCatalog PermToolCall ''t/acme/ts/crm/search''"
    and n: "WithheldBy DefaultCatalog (policy_allows wit_issuer DefaultCatalog) RolePlatformAdmin
              ''t/acme'' = [PermAuthSettings, PermIdpManage, PermKeyGenerate, PermTenantManage]"
    by code_simp+
  from grant_without_withheld_no_escalation
    [OF v builtin_decides w builtin_decides builtin_decides a] b n
  show ?thesis by blast
qed

text \<open>A credential that may call a tool may list it: under an admitted catalog no decider the
  engine compiles allows \<open>tool:call\<close> where it refuses \<open>tool:list\<close>.\<close>

theorem engine_call_implies_list:
  assumes "ValidateCatalog c = Inr ()" and "BuiltinEngine_Prepare grants c = Inr d"
    and "d PermToolCall r"
  shows "d PermToolList r"
  using assms by (rule builtin.call_implies_list)

theorem engine_call_implies_list_witness:
  "policy_allows wit_owner DefaultCatalog PermToolList ''t/acme/ts/crm/search''"
proof -
  have v: "ValidateCatalog DefaultCatalog = Inr ()"
    and a: "policy_allows wit_owner DefaultCatalog PermToolCall ''t/acme/ts/crm/search''"
    by code_simp+
  show ?thesis by (rule engine_call_implies_list [OF v builtin_decides a])
qed

end
