(* ===== verification/Snapshot_Types.thy ===== *)
theory Snapshot_Types
  imports Authz_Engine
begin

section \<open>The signed artifacts (proto/mcpdoll/snapshot/v1/snapshot.proto)\<close>

text \<open>
  The messages the data plane serves from, with the fields its logic reads. An \<open>int32\<close> or
  \<open>int64\<close> is an integer (the code compares and sums them far below the bounds); a repeated field is
  a list in transmission order; a protobuf enum is a datatype with its unspecified value.
\<close>

datatype EffectClass = EFFECT_UNSPECIFIED | EFFECT_READ | EFFECT_WRITE | EFFECT_DESTRUCTIVE

datatype ServingMode = SERVING_UNSPECIFIED | SERVING_STRICT | SERVING_ADVISORY

datatype Hook =
    HOOK_UNSPECIFIED | HOOK_ON_REQUEST | HOOK_ON_IDENTITY | HOOK_ON_CATALOG | HOOK_ON_TOOL_CALL
  | HOOK_ON_TOOL_RESULT | HOOK_ON_RESPONSE | HOOK_ON_AUDIT

datatype RolloutState = ROLLOUT_UNSPECIFIED | ROLLOUT_SHADOW | ROLLOUT_CANARY | ROLLOUT_ENFORCE

datatype FailureMode = FAILURE_UNSPECIFIED | FAILURE_OPEN | FAILURE_CLOSED

text \<open>\<open>effect.String()\<close>, the key of a failure policy.\<close>

fun EffectClass_String :: "EffectClass \<Rightarrow> string" where
  "EffectClass_String EFFECT_UNSPECIFIED = ''EFFECT_CLASS_UNSPECIFIED''"
| "EffectClass_String EFFECT_READ = ''EFFECT_CLASS_READ''"
| "EffectClass_String EFFECT_WRITE = ''EFFECT_CLASS_WRITE''"
| "EffectClass_String EFFECT_DESTRUCTIVE = ''EFFECT_CLASS_DESTRUCTIVE''"

record Tenant =
  t_Id :: string
  t_Slug :: string
  t_Name :: string
  t_Status :: string

record Namespace =
  ns_Id :: string
  ns_Name :: string
  ns_Prefix :: string

record Binding =
  bd_TenantId :: string
  bd_Primary :: string
  bd_Replicas :: "string list"

record HealthPolicy =
  hp_ProbeIntervalMs :: int
  hp_ProbeTimeoutMs :: int
  hp_GraceWindowMs :: int
  hp_EjectAfterFailures :: int

text \<open>There is no pass-through: a backend without this message gets no credential at all.\<close>

record TokenExchange =
  te_TokenEndpoint :: string
  te_Audience :: string
  te_Scopes :: "string list"
  te_ClientCredentialRef :: string
  te_Header :: string
  te_ClaimHeaders :: "(string \<times> string) list"

record Server =
  srv_Id :: string
  srv_Name :: string
  srv_NamespaceId :: string
  srv_ServingMode :: ServingMode
  srv_Bindings :: "Binding list"
  srv_Health :: "HealthPolicy option"
  srv_CanaryTool :: string
  srv_TokenExchange :: "TokenExchange option"

record Toolset =
  ts_Id :: string
  ts_Name :: string
  ts_Priority :: int
  ts_TokenBudget :: int
  ts_TtlMs :: int

record ToolDefinition =
  td_Digest :: string
  td_SemanticDigest :: string
  td_ServerId :: string
  td_NamespaceId :: string
  td_TenantId :: string
  td_ToolsetId :: string
  td_Name :: string
  td_QualifiedName :: string
  td_Title :: string
  td_Description :: string
  td_InputSchemaJson :: string
  td_OutputSchemaJson :: string
  td_AnnotationsJson :: string
  td_EffectClass :: EffectClass
  td_TokenEstimate :: int
  td_RequiresIdempotencyKey :: bool

record PolicyRule =
  pr_MaxTtlMs :: int

record Policy =
  pol_Id :: string
  pol_Priority :: int
  pol_Rules :: "PolicyRule list"

datatype PluginRuntime = RUNTIME_UNSPECIFIED | RUNTIME_WASM | RUNTIME_GRPC

record PluginManifest =
  pm_Id :: string
  pm_Name :: string
  pm_Hooks :: "Hook list"
  pm_Priority :: int
  pm_BudgetMs :: int
  pm_Reads :: "string list"
  pm_Writes :: "string list"
  pm_FailurePolicy :: "(string \<times> FailureMode) list"
  pm_Rollout :: RolloutState
  pm_CanaryPercent :: int
  pm_ToolsetIds :: "string list"
  pm_Runtime :: PluginRuntime
  pm_ArtifactRef :: string
  pm_ArtifactDigest :: string
  pm_ConfigJson :: string

record CatalogDefaults =
  cd_TtlMs :: int
  cd_DegradedTtlMs :: int

record Snapshot =
  sn_Version :: int
  sn_Id :: string
  sn_Namespaces :: "Namespace list"
  sn_Servers :: "Server list"
  sn_Tools :: "ToolDefinition list"
  sn_Policies :: "Policy list"
  sn_Plugins :: "PluginManifest list"
  sn_Catalog :: "CatalogDefaults option"
  sn_Tenants :: "Tenant list"
  sn_Toolsets :: "Toolset list"

record Principal =
  p_Id :: string
  p_TenantId :: string
  p_Subject :: string
  p_Grants :: "Grant list"
  p_KeyPrefix :: string
  p_KeySecretSha256 :: string
  p_SpansTenants :: bool

record PrincipalSet =
  pset_Version :: int
  pset_RolePermissions :: "(string \<times> permission) list"
  pset_Principals :: "Principal list"

record RevocationList =
  rl_Version :: int
  rl_PrincipalIds :: "string list"
  rl_PrunedThrough :: int

end
