(* ===== verification/Json.thy ===== *)
theory Json
  imports Prelude
begin

section \<open>JSON values\<close>

text \<open>
  The value model the program works on once \<open>encoding/json\<close> has decoded a document: null, booleans,
  numbers, strings, arrays and objects. A number is a finite float64, represented by what
  \<open>strconv.FormatFloat(f, 'e', -1, 64)\<close> reports of it: its sign, its shortest round-trip digits and
  its decimal exponent (\<open>NZero\<close> is both zeros, which every consumer identifies). An object is an
  association list with distinct keys whose order stands for Go's unspecified map order.
\<close>

datatype number = NZero | NFloat bool string int

datatype json =
    JNull
  | JBool bool
  | JNum number
  | JStr string
  | JArr "json list"
  | JObj "(string \<times> json) list"

type_synonym jobject = "(string \<times> json) list"

text \<open>\<open>m[k] = v\<close> and \<open>delete(m, k)\<close> on a Go map.\<close>

fun obj_set :: "string \<Rightarrow> 'v \<Rightarrow> (string \<times> 'v) list \<Rightarrow> (string \<times> 'v) list" where
  "obj_set k v [] = [(k, v)]"
| "obj_set k v ((k', v') # m) = (if k' = k then (k, v) # m else (k', v') # obj_set k v m)"

definition obj_del :: "string \<Rightarrow> (string \<times> 'v) list \<Rightarrow> (string \<times> 'v) list" where
  "obj_del k m = filter (\<lambda>p. fst p \<noteq> k) m"

lemma map_of_obj_set [simp]: "map_of (obj_set k v m) = (map_of m)(k \<mapsto> v)"
  by (induction m) (auto simp: fun_eq_iff)

lemma map_of_obj_del [simp]: "map_of (obj_del k m) = (map_of m)(k := None)"
  by (induction m) (auto simp: obj_del_def fun_eq_iff)

lemma keys_obj_set: "fst ` set (obj_set k v m) = insert k (fst ` set m)"
proof (induction m)
  case (Cons p m)
  then show ?case by (cases p) (simp add: insert_commute)
qed simp

lemma distinct_obj_set: "distinct (map fst m) \<Longrightarrow> distinct (map fst (obj_set k v m))"
proof (induction m)
  case (Cons p m)
  then show ?case
    using keys_obj_set [of k v m] by (cases p) (auto simp: image_iff)
qed simp

lemma distinct_obj_del: "distinct (map fst m) \<Longrightarrow> distinct (map fst (obj_del k m))"
  by (induction m) (auto simp: obj_del_def)

text \<open>A value whose objects have distinct keys, as every decoded value has.\<close>

fun json_ok :: "json \<Rightarrow> bool" where
  "json_ok (JArr xs) = list_all json_ok xs"
| "json_ok (JObj m) = (distinct (map fst m) \<and> list_all (\<lambda>(k, v). json_ok v) m)"
| "json_ok _ = True"

subsection \<open>Pointer tokens (RFC 6901)\<close>

text \<open>\<open>strings.NewReplacer("~1", "/", "~0", "~")\<close> and \<open>strings.NewReplacer("~", "~0", "/", "~1")\<close>: one
  left-to-right pass, replacements are not looked at again.\<close>

fun unescape_token :: "string \<Rightarrow> string" where
  "unescape_token (a # b # s) =
     (if a = CHR ''~'' \<and> b = CHR ''1'' then CHR ''/'' # unescape_token s
      else if a = CHR ''~'' \<and> b = CHR ''0'' then CHR ''~'' # unescape_token s
      else a # unescape_token (b # s))"
| "unescape_token s = s"

fun escape_token :: "string \<Rightarrow> string" where
  "escape_token [] = []"
| "escape_token (c # s) =
     (if c = CHR ''~'' then ''~0'' else if c = CHR ''/'' then ''~1'' else [c]) @ escape_token s"

lemma unescape_other: "c \<noteq> CHR ''~'' \<Longrightarrow> unescape_token (c # s) = c # unescape_token s"
  by (cases s) simp_all

lemma unescape_escape_token: "unescape_token (escape_token s) = s"
  by (induction s) (simp_all add: unescape_other)

lemma escape_token_no_slash: "CHR ''/'' \<notin> set (escape_token s)"
  by (induction s) auto

end
