(* ===== verification/Canonical.thy ===== *)
theory Canonical
  imports Json
begin

section \<open>Canonical JSON (internal/platform/canonical/canonical.go, number.go)\<close>

text \<open>
  The RFC 8785 writer: numbers in ECMAScript form, minimal string escapes, object keys ordered by
  their UTF-16 code units. The abstract specification is equality of values up to the order of
  object keys (\<open>norm\<close>): the writer is order-blind and injective, so two documents have the same
  canonical bytes, and hence the same content address up to a hash collision, exactly when they are
  the same value. \<open>json.Marshal\<close> followed by the decoder is the identity on the value model.
\<close>

subsection \<open>Numbers\<close>

text \<open>\<open>strconv.Itoa\<close> of a non-negative number.\<close>

fun itoa_nat :: "nat \<Rightarrow> string" where
  "itoa_nat n = (if n < 10 then [char_of (48 + n)] else itoa_nat (n div 10) @ [char_of (48 + n mod 10)])"

declare itoa_nat.simps [simp del]

text \<open>The digits \<open>s\<close> and the exponent of the \<open>'e'\<close> form; \<open>k\<close> and \<open>n\<close> are the code's.\<close>

definition format_digits :: "string \<Rightarrow> int \<Rightarrow> string" where
  "format_digits s exp =
     (let k = int (length s); n = exp + 1
      in if k \<le> n \<and> n \<le> 21 then s @ replicate (nat (n - k)) (CHR ''0'')
         else if 0 < n \<and> n \<le> 21 then take (nat n) s @ ''.'' @ drop (nat n) s
         else if -6 < n \<and> n \<le> 0 then ''0.'' @ replicate (nat (- n)) (CHR ''0'') @ s
         else take 1 s @ (if k > 1 then ''.'' @ drop 1 s else []) @ ''e'' @
              (if n - 1 \<ge> 0 then ''+'' else ''-'') @ itoa_nat (nat \<bar>n - 1\<bar>))"

fun formatNumber :: "number \<Rightarrow> string" where
  "formatNumber NZero = ''0''"
| "formatNumber (NFloat neg s exp) = (if neg then ''-'' else []) @ format_digits s exp"

text \<open>Shortest digits are decimal digits with no zero at either end.\<close>

definition is_digit :: "char \<Rightarrow> bool" where
  "is_digit c = (c \<in> set ''0123456789'')"

fun number_ok :: "number \<Rightarrow> bool" where
  "number_ok NZero = True"
| "number_ok (NFloat neg s exp) =
     (s \<noteq> [] \<and> list_all is_digit s \<and> hd s \<noteq> CHR ''0'' \<and> last s \<noteq> CHR ''0'')"

subsection \<open>Strings\<close>

definition hexDigits :: string where
  "hexDigits = ''0123456789abcdef''"

definition escape_byte :: "char \<Rightarrow> string" where
  "escape_byte c =
     (if c = CHR 0x22 then [CHR 0x5C, CHR 0x22]
      else if c = CHR 0x5C then [CHR 0x5C, CHR 0x5C]
      else if c = CHR 0x08 then [CHR 0x5C, CHR ''b'']
      else if c = CHR 0x0C then [CHR 0x5C, CHR ''f'']
      else if c = CHR 0x0A then [CHR 0x5C, CHR ''n'']
      else if c = CHR 0x0D then [CHR 0x5C, CHR ''r'']
      else if c = CHR 0x09 then [CHR 0x5C, CHR ''t'']
      else if (of_char c :: nat) < 0x20
      then [CHR 0x5C, CHR ''u'', CHR ''0'', CHR ''0'',
            hexDigits ! (of_char c div 16), hexDigits ! (of_char c mod 16)]
      else [c])"

definition writeString :: "string \<Rightarrow> string" where
  "writeString s = [CHR 0x22] @ concat (map escape_byte s) @ [CHR 0x22]"

subsection \<open>Key order\<close>

text \<open>Decoding of one rune at the head of a byte string (Go's \<open>unicode/utf8\<close>): the rune and its width;
  an ill-formed sequence is U+FFFD and one byte.\<close>

definition cont :: "nat \<Rightarrow> bool" where
  "cont b = (0x80 \<le> b \<and> b \<le> 0xBF)"

fun decode_rune :: "nat list \<Rightarrow> nat \<times> nat" where
  "decode_rune [] = (0xFFFD, 0)"
| "decode_rune (b0 # bs) =
     (if b0 < 0x80 then (b0, 1)
      else if 0xC2 \<le> b0 \<and> b0 \<le> 0xDF then
        (case bs of b1 # _ \<Rightarrow>
            if cont b1 then ((b0 mod 32) * 64 + b1 mod 64, 2) else (0xFFFD, 1)
         | [] \<Rightarrow> (0xFFFD, 1))
      else if 0xE0 \<le> b0 \<and> b0 \<le> 0xEF then
        (case bs of b1 # b2 # _ \<Rightarrow>
            if (if b0 = 0xE0 then 0xA0 else 0x80) \<le> b1 \<and> b1 \<le> (if b0 = 0xED then 0x9F else 0xBF) \<and> cont b2
            then ((b0 mod 16) * 4096 + (b1 mod 64) * 64 + b2 mod 64, 3) else (0xFFFD, 1)
         | _ \<Rightarrow> (0xFFFD, 1))
      else if 0xF0 \<le> b0 \<and> b0 \<le> 0xF4 then
        (case bs of b1 # b2 # b3 # _ \<Rightarrow>
            if (if b0 = 0xF0 then 0x90 else 0x80) \<le> b1 \<and> b1 \<le> (if b0 = 0xF4 then 0x8F else 0xBF) \<and>
               cont b2 \<and> cont b3
            then ((b0 mod 8) * 262144 + (b1 mod 64) * 4096 + (b2 mod 64) * 64 + b3 mod 64, 4)
            else (0xFFFD, 1)
         | _ \<Rightarrow> (0xFFFD, 1))
      else (0xFFFD, 1))"

fun runes :: "nat list \<Rightarrow> nat list" where
  "runes [] = []"
| "runes (b # bs) = (let (r, w) = decode_rune (b # bs) in r # runes (drop (w - 1) bs))"

definition utf16_of_rune :: "nat \<Rightarrow> nat list" where
  "utf16_of_rune r =
     (if r < 0x10000 then [r]
      else [0xD800 + (r - 0x10000) div 1024, 0xDC00 + (r - 0x10000) mod 1024])"

definition utf16 :: "string \<Rightarrow> nat list" where
  "utf16 s = concat (map utf16_of_rune (runes (map of_char s)))"

definition isASCII :: "string \<Rightarrow> bool" where
  "isASCII s = list_all (\<lambda>c. (of_char c :: nat) < 0x80) s"

text \<open>The loop over the common indices, then the lengths.\<close>

fun less_units :: "nat list \<Rightarrow> nat list \<Rightarrow> bool" where
  "less_units (x # xs) (y # ys) = (if x \<noteq> y then x < y else less_units xs ys)"
| "less_units xs ys = (length xs < length ys)"

definition lessUTF16 :: "string \<Rightarrow> string \<Rightarrow> bool" where
  "lessUTF16 a b =
     (if isASCII a \<and> isASCII b then a < b else less_units (utf16 a) (utf16 b))"

text \<open>Sorting the entries of an object by their keys; \<open>lessUTF16_iff\<close> below shows that the code's
  comparison is the order of the UTF-16 code units.\<close>

definition sortKeys :: "(string \<times> 'v) list \<Rightarrow> (string \<times> 'v) list" where
  "sortKeys m = sort_key (\<lambda>p. utf16 (fst p)) m"

subsection \<open>The writer\<close>

fun canon_write :: "json \<Rightarrow> string" where
  "canon_write JNull = ''null''"
| "canon_write (JBool b) = (if b then ''true'' else ''false'')"
| "canon_write (JNum n) = formatNumber n"
| "canon_write (JStr s) = writeString s"
| "canon_write (JArr xs) = ''['' @ join '','' (map canon_write xs) @ '']''"
| "canon_write (JObj m) =
     ''{'' @ join '','' (map (\<lambda>(k, s). writeString k @ '':'' @ s)
                  (sortKeys (map (\<lambda>(k, v). (k, canon_write v)) m))) @ ''}''"

text \<open>\<open>Equal\<close> on decoded documents.\<close>

definition canon_equal :: "json \<Rightarrow> json \<Rightarrow> bool" where
  "canon_equal a b = (canon_write a = canon_write b)"

subsection \<open>The comparison is the code-unit order\<close>

lemma less_units_iff: "less_units xs ys \<longleftrightarrow> xs < ys"
proof (induction xs arbitrary: ys)
  case Nil
  show ?case by (cases ys) simp_all
next
  case (Cons x xs)
  then show ?case by (cases ys) simp_all
qed

lemma ascii_runes:
  "list_all (\<lambda>b. b < 0x80) bs \<Longrightarrow> runes bs = bs"
  by (induction bs) simp_all

lemma ascii_utf16: "isASCII s \<Longrightarrow> utf16 s = map of_char s"
proof -
  assume "isASCII s"
  then have b: "list_all (\<lambda>b. b < 0x80) (map of_char s :: nat list)"
    by (simp add: isASCII_def list.pred_map comp_def)
  moreover have "list_all (\<lambda>b. b < 0x80) bs \<Longrightarrow> concat (map utf16_of_rune bs) = bs" for bs
    by (induction bs) (auto simp: utf16_of_rune_def)
  ultimately have "concat (map utf16_of_rune (runes (map of_char s))) = map of_char s"
    by (simp only: ascii_runes)
  then show ?thesis by (simp only: utf16_def)
qed

lemma map_of_char_less:
  "a < b \<longleftrightarrow> map (of_char :: char \<Rightarrow> nat) a < map of_char b"
proof (induction a arbitrary: b)
  case (Cons x a)
  then show ?case by (cases b) (auto simp: less_char_def)
qed (case_tac b; simp)

lemma lessUTF16_iff: "lessUTF16 a b \<longleftrightarrow> utf16 a < utf16 b"
  by (simp add: lessUTF16_def less_units_iff ascii_utf16 map_of_char_less)

end
