(* ===== verification/Canonical_Inj.thy ===== *)
theory Canonical_Inj
  imports Canonical
begin

section \<open>Canonical bytes determine the value\<close>

text \<open>
  Unique readability of the canonical writer, from the leaves up: decimal numerals, the four
  layouts of the ECMAScript number format, escaped strings, and values in front of a delimiter.
\<close>

subsection \<open>Numerals\<close>

lemma digit_val_char: "d < (10::nat) \<Longrightarrow> digit_val (char_of (48 + d)) = Some d"
proof -
  have "\<forall>d<(10::nat). digit_val (char_of (48 + d)) = Some d"
    by code_simp
  then show "d < (10::nat) \<Longrightarrow> digit_val (char_of (48 + d)) = Some d" by blast
qed

lemma digits_val_append:
  "digits_val acc (xs @ [c]) =
     (case digits_val acc xs of None \<Rightarrow> None | Some v \<Rightarrow> map_option (\<lambda>d. 10 * v + d) (digit_val c))"
  by (induction xs arbitrary: acc) (auto split: option.splits)

lemma digits_val_itoa: "digits_val 0 (itoa_nat n) = Some n"
proof (induction n rule: itoa_nat.induct)
  case (1 n)
  show ?case
  proof (cases "n < 10")
    case True
    then have "itoa_nat n = [char_of (48 + n)]" by (subst itoa_nat.simps) simp
    with True show ?thesis by (simp add: digit_val_char)
  next
    case False
    then have "itoa_nat n = itoa_nat (n div 10) @ [char_of (48 + n mod 10)]"
      by (subst itoa_nat.simps) simp
    with 1 False show ?thesis by (simp add: digits_val_append digit_val_char)
  qed
qed

lemma itoa_nat_inj: "itoa_nat m = itoa_nat n \<Longrightarrow> m = n"
  by (metis digits_val_itoa option.inject)

lemma is_digit_char: "d < (10::nat) \<Longrightarrow> is_digit (char_of (48 + d))"
proof -
  have "\<forall>d<(10::nat). is_digit (char_of (48 + d))" by code_simp
  then show "d < (10::nat) \<Longrightarrow> is_digit (char_of (48 + d))" by blast
qed

lemma itoa_nat_digits: "list_all is_digit (itoa_nat n)"
proof (induction n rule: itoa_nat.induct)
  case (1 n)
  then show ?case
    by (subst itoa_nat.simps) (auto simp: is_digit_char)
qed

subsection \<open>The number layouts\<close>

lemma digit_simps [simp]:
  "is_digit (CHR ''0'')" "\<not> is_digit (CHR ''.'')" "\<not> is_digit (CHR ''e'')" "\<not> is_digit (CHR ''-'')"
  "\<not> is_digit (CHR ''+'')"
  by (simp_all add: is_digit_def)

lemma not_in_digits: "list_all is_digit s \<Longrightarrow> \<not> is_digit c \<Longrightarrow> c \<notin> set s"
  by (auto simp: list_all_iff)

lemma dropWhile_replicate_append:
  "y \<noteq> z \<Longrightarrow> dropWhile (\<lambda>c. c = z) (replicate n z @ y # ys) = y # ys"
  by (induction n) simp_all

lemma strip_zeros_right:
  assumes "s @ replicate a z = t @ replicate b z" and "s \<noteq> []" "last s \<noteq> z" "t \<noteq> []" "last t \<noteq> z"
  shows "s = t \<and> a = b"
proof -
  have d: "dropWhile (\<lambda>c. c = z) (rev (u @ replicate n z)) = rev u" if "u \<noteq> []" "last u \<noteq> z" for u n
    using that by (cases u rule: rev_cases) (simp_all add: dropWhile_replicate_append)
  have "rev s = rev t" using assms d by metis
  with assms(1) show ?thesis by simp
qed

lemma strip_zeros_left:
  assumes "replicate a z @ s = replicate b z @ t" and "s \<noteq> []" "hd s \<noteq> z" "t \<noteq> []" "hd t \<noteq> z"
  shows "s = t \<and> a = b"
proof -
  have d: "dropWhile (\<lambda>c. c = z) (replicate n z @ u) = u" if "u \<noteq> []" "hd u \<noteq> z" for u n
    using that by (cases u) (simp_all add: dropWhile_replicate_append)
  have "s = t" using assms d by metis
  with assms(1) show ?thesis by simp
qed

lemma format_cases:
  assumes "s \<noteq> []" and "list_all is_digit s" and "hd s \<noteq> CHR ''0''" and "last s \<noteq> CHR ''0''"
  obtains
    (Int) a where "format_digits s e = s @ replicate a (CHR ''0'')" "e + 1 = int (length s + a)"
  | (Mid) l r where "format_digits s e = l @ CHR ''.'' # r" "s = l @ r" "e + 1 = int (length l)"
      "l \<noteq> []" "list_all is_digit l" "list_all is_digit r"
  | (Small) a where "format_digits s e = ''0.'' @ replicate a (CHR ''0'') @ s" "e + 1 = - int a"
  | (Exp) x xs where "s = x # xs"
      "format_digits s e = (x # (if xs = [] then [] else CHR ''.'' # xs)) @ CHR ''e'' #
         (if e \<ge> 0 then CHR ''+'' else CHR ''-'') # itoa_nat (nat \<bar>e\<bar>)"
proof -
  consider "int (length s) \<le> e + 1 \<and> e + 1 \<le> 21"
    | "\<not> (int (length s) \<le> e + 1 \<and> e + 1 \<le> 21)" "0 < e + 1 \<and> e + 1 \<le> 21"
    | "-6 < e + 1 \<and> e + 1 \<le> 0"
    | "\<not> (int (length s) \<le> e + 1 \<and> e + 1 \<le> 21)" "\<not> (0 < e + 1 \<and> e + 1 \<le> 21)"
      "\<not> (-6 < e + 1 \<and> e + 1 \<le> 0)"
    by linarith
  then show thesis
  proof cases
    case 1
    then show thesis
      by (intro Int [of "nat (e + 1 - int (length s))"]) (auto simp: format_digits_def Let_def)
  next
    case 2
    let ?n = "nat (e + 1)"
    have "list_all is_digit (take ?n s)" "list_all is_digit (drop ?n s)"
      using assms(2) by (auto simp: list_all_iff dest: in_set_takeD in_set_dropD)
    moreover have "take ?n s \<noteq> []" "e + 1 = int (length (take ?n s))" using 2 assms(1) by auto
    moreover have "format_digits s e = take ?n s @ CHR ''.'' # drop ?n s"
      using 2 by (simp add: format_digits_def Let_def)
    ultimately show thesis using Mid [of "take ?n s" "drop ?n s"] by simp
  next
    case 3
    then have "\<not> int (length s) \<le> e + 1" using assms(1) by (cases s) auto
    with 3 show thesis
      by (intro Small [of "nat (- (e + 1))"]) (auto simp: format_digits_def Let_def)
  next
    case 4
    obtain x xs where "s = x # xs" using assms(1) by (cases s) auto
    with 4 show thesis
      by (intro Exp [of x xs]) (auto simp: format_digits_def Let_def)
  qed
qed

lemma format_digits_inj:
  assumes "number_ok (NFloat neg s e)" and "number_ok (NFloat neg' t f)"
    and eq: "format_digits s e = format_digits t f"
  shows "s = t \<and> e = f"
proof -
  have s: "s \<noteq> []" "list_all is_digit s" "hd s \<noteq> CHR ''0''" "last s \<noteq> CHR ''0''"
    and t: "t \<noteq> []" "list_all is_digit t" "hd t \<noteq> CHR ''0''" "last t \<noteq> CHR ''0''"
    using assms by simp_all
  have sn: "CHR ''.'' \<notin> set s" "CHR ''e'' \<notin> set s" and tn: "CHR ''.'' \<notin> set t" "CHR ''e'' \<notin> set t"
    using s(2) t(2) by (simp_all add: not_in_digits)
  from s show ?thesis
  proof (cases rule: format_cases [where e = e])
    case (Int a)
    note i = this
    from t show ?thesis
    proof (cases rule: format_cases [where e = f])
      case (Int b)
      have "s @ replicate a (CHR ''0'') = t @ replicate b (CHR ''0'')"
        using eq unfolding i(1) Int(1) .
      then have "s = t \<and> a = b" by (rule strip_zeros_right) (use s t in simp_all)
      with i(2) Int(2) show ?thesis by simp
    next
      case (Mid l r)
      have "CHR ''.'' \<in> set (format_digits t f)" using Mid(1) by simp
      with i eq sn show ?thesis by simp
    next
      case (Small b)
      have "CHR ''.'' \<in> set (format_digits t f)" using Small(1) by simp
      with i eq sn show ?thesis by simp
    next
      case (Exp x xs)
      have "CHR ''e'' \<in> set (format_digits t f)" using Exp(2) by simp
      with i eq sn show ?thesis by simp
    qed
  next
    case (Mid l r)
    note m = this
    have ln: "CHR ''.'' \<notin> set l" "CHR ''e'' \<notin> set (l @ r)" using m sn by auto
    from t show ?thesis
    proof (cases rule: format_cases [where e = f])
      case (Int b)
      have "CHR ''.'' \<in> set (format_digits s e)" using m(1) by simp
      with Int eq tn show ?thesis by simp
    next
      case (Mid l' r')
      with tn have "CHR ''.'' \<notin> set l'" by auto
      
      then have "l = l' \<and> r = r'"
        using eq ln unfolding m(1) Mid(1) by (simp add: sep_free_append_eq)
      with m(2,3) Mid(2,3) show ?thesis by simp
    next
      case (Small b)
      with m eq s(3) have "hd l = CHR ''0''" by (cases l) auto
      with m s(3) show ?thesis by simp
    next
      case (Exp x xs)
      have "CHR ''e'' \<in> set (format_digits t f)" using Exp(2) by simp
      then have "CHR ''e'' \<in> set (l @ CHR ''.'' # r)" using eq m(1) by metis
      with ln show ?thesis by simp
    qed
  next
    case (Small a)
    note m = this
    from t show ?thesis
    proof (cases rule: format_cases [where e = f])
      case (Int b)
      have "CHR ''.'' \<in> set (format_digits s e)" using m(1) by simp
      with Int eq tn show ?thesis by simp
    next
      case (Mid l' r')
      with m eq t(3) have "hd l' = CHR ''0''" by (cases l') auto
      with Mid t(3) show ?thesis by simp
    next
      case (Small b)
      have "replicate a (CHR ''0'') @ s = replicate b (CHR ''0'') @ t"
        using eq unfolding m(1) Small(1) by simp
      then have "s = t \<and> a = b" by (rule strip_zeros_left) (use s t in simp_all)
      with m(2) Small(2) show ?thesis by simp
    next
      case (Exp x xs)
      have "CHR ''e'' \<in> set (format_digits t f)" using Exp(2) by simp
      with m eq sn show ?thesis by simp
    qed
  next
    case (Exp x xs)
    note m = this
    from t show ?thesis
    proof (cases rule: format_cases [where e = f])
      case (Exp y ys)
      let ?h = "x # (if xs = [] then [] else CHR ''.'' # xs)"
      let ?k = "y # (if ys = [] then [] else CHR ''.'' # ys)"
      have "CHR ''e'' \<notin> set ?h" "CHR ''e'' \<notin> set ?k" using m Exp sn tn by auto
      with m Exp eq have h: "?h = ?k"
        and r: "(if e \<ge> 0 then CHR ''+'' else CHR ''-'') # itoa_nat (nat \<bar>e\<bar>) =
                (if f \<ge> 0 then CHR ''+'' else CHR ''-'') # itoa_nat (nat \<bar>f\<bar>)"
        using sep_free_append_eq by metis+
      from h have "s = t" using m Exp by (auto split: if_splits)
      moreover from r have "nat \<bar>e\<bar> = nat \<bar>f\<bar>" by (auto dest: itoa_nat_inj)
      with r have "e = f" by (auto split: if_splits)
      ultimately show ?thesis by simp
    next
      case (Int b)
      have "CHR ''e'' \<in> set (format_digits s e)" using m(2) by simp
      with Int eq tn show ?thesis by simp
    next
      case (Mid l' r')
      have "CHR ''e'' \<in> set (format_digits s e)" using m(2) by simp
      with Mid eq tn show ?thesis by auto
    next
      case (Small b)
      have "CHR ''e'' \<in> set (format_digits s e)" using m(2) by simp
      with Small eq tn show ?thesis by simp
    qed
  qed
qed

text \<open>The whole number text: its sign, and the characters it is made of.\<close>

definition is_num_char :: "char \<Rightarrow> bool" where
  "is_num_char c = (is_digit c \<or> c \<in> set ''.e+-'')"

lemma format_digits_hd:
  assumes "number_ok (NFloat neg s e)"
  shows "\<exists>c r. format_digits s e = c # r \<and> is_digit c"
proof -
  have s: "s \<noteq> []" "list_all is_digit s" "hd s \<noteq> CHR ''0''" "last s \<noteq> CHR ''0''"
    using assms by simp_all
  from s show ?thesis
  proof (cases rule: format_cases [where e = e])
    case (Int a)
    with s show ?thesis by (cases s) auto
  next
    case (Mid l r)
    then show ?thesis by (cases l) auto
  next
    case (Small a)
    then show ?thesis by simp
  next
    case (Exp x xs)
    with s show ?thesis by simp
  qed
qed

lemma format_digits_chars:
  assumes "number_ok (NFloat neg s e)"
  shows "list_all is_num_char (format_digits s e)"
proof -
  have s: "s \<noteq> []" "list_all is_digit s" "hd s \<noteq> CHR ''0''" "last s \<noteq> CHR ''0''"
    using assms by simp_all
  have d: "list_all is_digit x \<Longrightarrow> list_all is_num_char x" for x
    by (auto simp: list_all_iff is_num_char_def)
  have i: "list_all is_num_char (itoa_nat n)" for n
    by (rule d [OF itoa_nat_digits])
  from s show ?thesis
  proof (cases rule: format_cases [where e = e])
    case (Int a)
    with d [OF s(2)] show ?thesis by (auto simp: list_all_iff is_num_char_def)
  next
    case (Mid l r)
    with d [of l] d [of r] show ?thesis by (simp add: is_num_char_def)
  next
    case (Small a)
    with d [OF s(2)] show ?thesis by (auto simp: list_all_iff is_num_char_def)
  next
    case (Exp x xs)
    with d [OF s(2)] i show ?thesis by (simp add: is_num_char_def)
  qed
qed

lemma formatNumber_hd:
  assumes "number_ok n"
  shows "\<exists>c r. formatNumber n = c # r \<and> (is_digit c \<or> c = CHR ''-'')"
proof (cases n)
  case (NFloat neg s e)
  with assms format_digits_hd [of neg s e] show ?thesis by auto
qed simp

lemma formatNumber_chars: "number_ok n \<Longrightarrow> list_all is_num_char (formatNumber n)"
proof (cases n)
  case (NFloat neg s e)
  moreover assume "number_ok n"
  ultimately show ?thesis using format_digits_chars [of neg s e] by (simp add: is_num_char_def)
qed (simp add: is_num_char_def)

lemma format_digits_not_zero:
  assumes "number_ok (NFloat neg s e)"
  shows "format_digits s e \<noteq> ''0''"
proof -
  have s: "s \<noteq> []" "list_all is_digit s" "hd s \<noteq> CHR ''0''" "last s \<noteq> CHR ''0''"
    using assms by simp_all
  from s show ?thesis
    by (cases rule: format_cases [where e = e]) (use s in \<open>auto simp: append_eq_Cons_conv\<close>)
qed

lemma formatNumber_inj:
  assumes "number_ok m" and "number_ok n" and eq: "formatNumber m = formatNumber n"
  shows "m = n"
proof -
  have minus: "format_digits s e \<noteq> CHR ''-'' # r" if "number_ok (NFloat neg s e)" for neg s e r
    using format_digits_hd [OF that] by auto
  show ?thesis
  proof (cases m; cases n)
    fix neg s e neg' t f
    assume m: "m = NFloat neg s e" and n: "n = NFloat neg' t f"
    with assms minus have "neg = neg'" "format_digits s e = format_digits t f"
      by (auto split: if_splits) metis+
    with m n assms format_digits_inj [of neg s e neg' t f] show ?thesis by simp
  next
    fix neg s e assume "m = NFloat neg s e" "n = NZero"
    with assms format_digits_not_zero [of neg s e] show ?thesis by (auto split: if_splits)
  next
    fix neg s e assume "m = NZero" "n = NFloat neg s e"
    with assms format_digits_not_zero [of neg s e] show ?thesis by (auto split: if_splits)
  qed simp
qed

subsection \<open>Strings\<close>

text \<open>A reader of one escaped byte; it exists only to show that the escapes are uniquely readable.\<close>

definition hex_val :: "char \<Rightarrow> nat" where
  "hex_val c = (if is_digit c then of_char c - 48 else of_char c - 87)"

definition unescape_byte :: "string \<Rightarrow> (char \<times> string) option" where
  "unescape_byte s =
     (case s of
        [] \<Rightarrow> None
      | c # r \<Rightarrow>
          if c \<noteq> CHR 0x5C then Some (c, r)
          else (case r of
              [] \<Rightarrow> None
            | x # r' \<Rightarrow>
                if x = CHR ''u'' then
                  (case r' of
                     _ # _ # h # l # r'' \<Rightarrow> Some (char_of (16 * hex_val h + hex_val l), r'')
                   | _ \<Rightarrow> None)
                else if x = CHR ''b'' then Some (CHR 0x08, r')
                else if x = CHR ''f'' then Some (CHR 0x0C, r')
                else if x = CHR ''n'' then Some (CHR 0x0A, r')
                else if x = CHR ''r'' then Some (CHR 0x0D, r')
                else if x = CHR ''t'' then Some (CHR 0x09, r')
                else Some (x, r')))"

lemma hex_val_digit: "n < 16 \<Longrightarrow> hex_val (hexDigits ! n) = n"
proof -
  have "\<forall>n<(16::nat). hex_val (hexDigits ! n) = n" by code_simp
  then show "n < 16 \<Longrightarrow> hex_val (hexDigits ! n) = n" by blast
qed

lemma unescape_escape: "unescape_byte (escape_byte c @ r) = Some (c, r)"
proof (cases "(of_char c :: nat) < 0x20")
  case True
  then have "16 * (of_char c div 16) + of_char c mod 16 = (of_char c :: nat)"
    and "(of_char c :: nat) div 16 < 16" and "(of_char c :: nat) mod 16 < 16"
    by simp_all
  then have "char_of (16 * hex_val (hexDigits ! (of_char c div 16)) +
      hex_val (hexDigits ! (of_char c mod 16))) = c"
    by (simp add: hex_val_digit)
  then show ?thesis by (simp add: escape_byte_def unescape_byte_def)
next
  case False
  then show ?thesis by (simp add: escape_byte_def unescape_byte_def)
qed

lemma escape_not_quote: "\<exists>x r. escape_byte c = x # r \<and> x \<noteq> CHR 0x22"
  by (simp add: escape_byte_def)

lemma escaped_readable:
  "concat (map escape_byte s) @ CHR 0x22 # r = concat (map escape_byte t) @ CHR 0x22 # r' \<Longrightarrow>
   s = t \<and> r = r'"
proof (induction s arbitrary: t)
  case Nil
  show ?case
  proof (cases t)
    case (Cons d t')
    obtain x y where "escape_byte d = x # y" "x \<noteq> CHR 0x22" using escape_not_quote by blast
    with Nil Cons show ?thesis by auto
  qed (use Nil in simp)
next
  case (Cons c s)
  show ?case
  proof (cases t)
    case Nil
    obtain x y where "escape_byte c = x # y" "x \<noteq> CHR 0x22" using escape_not_quote by blast
    with Nil Cons.prems show ?thesis by auto
  next
    case t: (Cons d t')
    have "escape_byte c @ (concat (map escape_byte s) @ CHR 0x22 # r) =
          escape_byte d @ (concat (map escape_byte t') @ CHR 0x22 # r')"
      using Cons.prems t by simp
    then have "c = d \<and> concat (map escape_byte s) @ CHR 0x22 # r = concat (map escape_byte t') @ CHR 0x22 # r'"
      using unescape_escape by (metis Pair_inject option.inject)
    with Cons.IH t show ?thesis by blast
  qed
qed

lemma writeString_readable:
  "writeString s @ r = writeString t @ r' \<Longrightarrow> s = t \<and> r = r'"
  using escaped_readable [of s r t r'] by (simp add: writeString_def)

subsection \<open>Values\<close>

text \<open>The value with the keys of every object in canonical order, and the writer without sorting.\<close>

fun norm :: "json \<Rightarrow> json" where
  "norm (JArr xs) = JArr (map norm xs)"
| "norm (JObj m) = JObj (sortKeys (map (\<lambda>(k, v). (k, norm v)) m))"
| "norm j = j"

fun plain_write :: "json \<Rightarrow> string" where
  "plain_write JNull = ''null''"
| "plain_write (JBool b) = (if b then ''true'' else ''false'')"
| "plain_write (JNum n) = formatNumber n"
| "plain_write (JStr s) = writeString s"
| "plain_write (JArr xs) = ''['' @ join '','' (map plain_write xs) @ '']''"
| "plain_write (JObj m) =
     ''{'' @ join '','' (map (\<lambda>(k, v). writeString k @ '':'' @ plain_write v) m) @ ''}''"

fun nums_ok :: "json \<Rightarrow> bool" where
  "nums_ok (JNum n) = number_ok n"
| "nums_ok (JArr xs) = list_all nums_ok xs"
| "nums_ok (JObj m) = list_all (\<lambda>(k, v). nums_ok v) m"
| "nums_ok _ = True"

lemma insort_key_map:
  "insort_key (\<lambda>p. utf16 (fst p)) (k, f v) (map (\<lambda>(k, v). (k, f v)) m) =
     map (\<lambda>(k, v). (k, f v)) (insort_key (\<lambda>p. utf16 (fst p)) (k, v) m)"
  by (induction m) auto

lemma sortKeys_map: "sortKeys (map (\<lambda>(k, v). (k, f v)) m) = map (\<lambda>(k, v). (k, f v)) (sortKeys m)"
  by (induction m) (auto simp: sortKeys_def insort_key_map)

lemma set_sortKeys [simp]: "set (sortKeys m) = set m"
  by (simp add: sortKeys_def)

lemma canon_write_norm: "canon_write j = plain_write (norm j)"
proof (induction j rule: norm.induct)
  case (1 xs)
  then have "map canon_write xs = map (plain_write \<circ> norm) xs" by simp
  then show ?case by (simp only: canon_write.simps norm.simps plain_write.simps map_map)
next
  case (2 m)
  have "map (\<lambda>(k, s). writeString k @ '':'' @ s) (sortKeys (map (\<lambda>(k, v). (k, canon_write v)) m)) =
        map (\<lambda>(k, v). writeString k @ '':'' @ plain_write v) (sortKeys (map (\<lambda>(k, v). (k, norm v)) m))"
    unfolding sortKeys_map map_map
    by (rule map_cong [OF refl]) (use 2 in auto)
  then show ?case by simp
qed simp_all

lemma nums_ok_norm: "nums_ok j \<Longrightarrow> nums_ok (norm j)"
  by (induction j rule: norm.induct) (auto simp: list_all_iff)

definition delimited :: "string \<Rightarrow> bool" where
  "delimited r = (r = [] \<or> hd r \<in> set '',]}'')"

lemma delimited_not_num: "delimited (c # r) \<Longrightarrow> \<not> is_num_char c"
  by (auto simp: delimited_def is_num_char_def is_digit_def)

lemma takeWhile_num:
  assumes "list_all is_num_char x" and "delimited r"
  shows "takeWhile is_num_char (x @ r) = x"
  using assms
  by (cases r) (auto simp: takeWhile_append2 list_all_iff dest: delimited_not_num)

lemma number_readable:
  assumes "number_ok m" "number_ok n" "delimited r" "delimited r'"
    and "formatNumber m @ r = formatNumber n @ r'"
  shows "m = n \<and> r = r'"
proof -
  have "formatNumber m = formatNumber n"
    using assms takeWhile_num formatNumber_chars by metis
  with assms formatNumber_inj show ?thesis by auto
qed

lemma join_readable:
  assumes "\<And>x y r s. x \<in> set xs \<Longrightarrow> y \<in> set ys \<Longrightarrow> delimited r \<Longrightarrow> delimited s \<Longrightarrow>
      w x @ r = w y @ s \<Longrightarrow> x = y \<and> r = s"
    and "\<And>x. x \<in> set xs \<union> set ys \<Longrightarrow> w x \<noteq> [] \<and> hd (w x) \<notin> set '',]}''"
    and "e \<in> set '']}''"
    and "join '','' (map w xs) @ e # r = join '','' (map w ys) @ e # s"
  shows "xs = ys \<and> r = s"
  using assms
proof (induction xs arbitrary: ys)
  case Nil
  show ?case
  proof (cases ys)
    case (Cons y ys')
    then have "hd (join '','' (map w ys) @ e # s) = hd (w y)"
      using Nil.prems(2) [of y] by (cases ys') (auto simp: hd_append)
    moreover have "e # r = join '','' (map w ys) @ e # s" using Nil.prems(4) by simp
    ultimately have "e = hd (w y)" by (metis list.sel(1))
    with Nil.prems(2) [of y] Nil.prems(3) Cons show ?thesis by auto
  qed (use Nil in simp)
next
  case (Cons x xs)
  obtain y ys' where ys: "ys = y # ys'"
  proof (cases ys)
    case Nil
    then have "hd (join '','' (map w (x # xs)) @ e # r) = hd (w x)"
      using Cons.prems(2) [of x] by (cases xs) (auto simp: hd_append)
    moreover have "join '','' (map w (x # xs)) @ e # r = e # s" using Cons.prems(4) Nil by simp
    ultimately have "e = hd (w x)" by (metis list.sel(1))
    with Cons.prems(2) [of x] Cons.prems(3) have False by auto
    then show ?thesis ..
  qed
  have tail: "\<exists>t. join '','' (map w (z # zs)) @ e # q = w z @ t \<and> delimited t \<and>
      t = (if zs = [] then e # q else CHR '','' # join '','' (map w zs) @ e # q)" for z zs q
    using Cons.prems(3) by (cases zs) (auto simp: delimited_def)
  obtain t where t: "join '','' (map w (x # xs)) @ e # r = w x @ t" "delimited t"
    "t = (if xs = [] then e # r else CHR '','' # join '','' (map w xs) @ e # r)"
    using tail [of x xs r] by blast
  obtain u where u: "join '','' (map w (y # ys')) @ e # s = w y @ u" "delimited u"
    "u = (if ys' = [] then e # s else CHR '','' # join '','' (map w ys') @ e # s)"
    using tail [of y ys' s] by blast
  have "w x @ t = w y @ u" using Cons.prems(4) ys t(1) u(1) by simp
  then have xy: "x = y" "t = u" using Cons.prems(1) [of x y t u] ys t(2) u(2) by simp_all
  have e: "e \<noteq> CHR '',''" using Cons.prems(3) by auto
  show ?case
  proof (cases "xs = [] \<or> ys' = []")
    case True
    with xy t(3) u(3) e ys show ?thesis by (auto split: if_splits)
  next
    case False
    then have "join '','' (map w xs) @ e # r = join '','' (map w ys') @ e # s"
      using xy(2) t(3) u(3) by simp
    then have "xs = ys' \<and> r = s"
      using Cons.prems(1-3) ys by (intro Cons.IH) auto
    with xy ys show ?thesis by simp
  qed
qed

text \<open>The first byte tells the kind of the value.\<close>

fun first_ok :: "json \<Rightarrow> char \<Rightarrow> bool" where
  "first_ok JNull c = (c = CHR ''n'')"
| "first_ok (JBool b) c = (c = (if b then CHR ''t'' else CHR ''f''))"
| "first_ok (JNum _) c = (is_digit c \<or> c = CHR ''-'')"
| "first_ok (JStr _) c = (c = CHR 0x22)"
| "first_ok (JArr _) c = (c = CHR ''['')"
| "first_ok (JObj _) c = (c = CHR ''{'')"

lemma plain_write_first:
  assumes "nums_ok j"
  shows "\<exists>c r. plain_write j = c # r \<and> first_ok j c"
proof (cases j)
  case (JNum n)
  with assms formatNumber_hd [of n] show ?thesis by auto
qed (simp_all add: writeString_def)

lemma first_not_delim: "first_ok j c \<Longrightarrow> c \<notin> set '',]}''"
  by (cases j) (auto simp: is_digit_def split: if_splits)

lemma plain_write_hd: "nums_ok j \<Longrightarrow> plain_write j \<noteq> [] \<and> hd (plain_write j) \<notin> set '',]}''"
proof -
  assume "nums_ok j"
  then obtain c r where "plain_write j = c # r" "first_ok j c" using plain_write_first by blast
  with first_not_delim [of j c] show ?thesis by simp
qed

lemma entry_hd:
  "(\<lambda>(k, v). writeString k @ '':'' @ plain_write v) p \<noteq> [] \<and>
   hd ((\<lambda>(k, v). writeString k @ '':'' @ plain_write v) p) \<notin> set '',]}''"
  by (cases p) (simp add: writeString_def)

lemma plain_write_readable:
  assumes "nums_ok a" and "nums_ok b" and "delimited r" and "delimited s"
    and "plain_write a @ r = plain_write b @ s"
  shows "a = b \<and> r = s"
  using assms
proof (induction a arbitrary: b r s)
  case JNull
  with plain_write_first [of b] show ?case
    by (cases b) (auto simp: is_digit_def split: if_splits)
next
  case (JBool x)
  with plain_write_first [of b] show ?case
    by (cases b) (auto simp: is_digit_def split: if_splits)
next
  case (JNum n)
  obtain c q where c: "plain_write (JNum n) = c # q" "first_ok (JNum n) c"
    using plain_write_first JNum.prems(1) by blast
  obtain d q' where d: "plain_write b = d # q'" "first_ok b d"
    using plain_write_first JNum.prems(2) by blast
  from c(1) d(1) JNum.prems(5) have "c = d" by simp
  with c(2) d(2) obtain m where "b = JNum m"
    by (cases b) (auto simp: is_digit_def split: if_splits)
  with JNum number_readable [of n m r s] show ?case by simp
next
  case (JStr x)
  with plain_write_first [of b] show ?case
    by (cases b) (auto simp: is_digit_def writeString_def split: if_splits dest: escaped_readable)
next
  case (JArr xs)
  obtain d q' where d: "plain_write b = d # q'" "first_ok b d"
    using plain_write_first JArr.prems(2) by blast
  with JArr.prems(5) have "d = CHR ''[''" by simp
  with d(2) obtain ys where b: "b = JArr ys"
    by (cases b) (auto simp: is_digit_def split: if_splits)
  have ok: "nums_ok x" if "x \<in> set xs \<union> set ys" for x
    using that JArr.prems(1,2) b by (auto simp: list_all_iff)
  have elem: "x = y \<and> p = q"
    if "x \<in> set xs" "y \<in> set ys" "delimited p" "delimited q" "plain_write x @ p = plain_write y @ q"
    for x y p q
    using JArr.IH [of x y p q] ok that by blast
  have "join '','' (map plain_write xs) @ CHR '']'' # r = join '','' (map plain_write ys) @ CHR '']'' # s"
    using JArr.prems(5) b by simp
  then have "xs = ys \<and> r = s"
    by (intro join_readable [where w = plain_write and e = "CHR '']''"] elem plain_write_hd ok) simp_all
  with b show ?case by simp
next
  case (JObj m)
  let ?w = "\<lambda>(k, v). writeString k @ '':'' @ plain_write v"
  obtain d q' where d: "plain_write b = d # q'" "first_ok b d"
    using plain_write_first JObj.prems(2) by blast
  with JObj.prems(5) have "d = CHR ''{''" by simp
  with d(2) obtain n where b: "b = JObj n"
    by (cases b) (auto simp: is_digit_def split: if_splits)
  have entry: "x = y \<and> p = q"
    if xy: "x \<in> set m" "y \<in> set n" and dl: "delimited p" "delimited q" and eq: "?w x @ p = ?w y @ q"
    for x y p q
  proof -
    obtain k v k' v' where x: "x = (k, v)" and y: "y = (k', v')" by (cases x; cases y)
    have "writeString k @ (CHR '':'' # plain_write v @ p) = writeString k' @ (CHR '':'' # plain_write v' @ q)"
      using eq x y by simp
    then have kk: "k = k'" and vv: "plain_write v @ p = plain_write v' @ q"
      using writeString_readable by blast+
    have "nums_ok v" "nums_ok v'" using JObj.prems(1,2) b xy x y by (auto simp: list_all_iff)
    moreover have "v \<in> Basic_BNFs.snds x" using x by simp
    ultimately have "v = v' \<and> p = q" using JObj.IH [OF xy(1) _ _ _ dl vv] by simp
    with kk x y show ?thesis by simp
  qed
  have "join '','' (map ?w m) @ CHR ''}'' # r = join '','' (map ?w n) @ CHR ''}'' # s"
    using JObj.prems(5) b by simp
  then have "m = n \<and> r = s"
    by (intro join_readable [where w = ?w and e = "CHR ''}''"] entry entry_hd) simp_all
  with b show ?case by simp
qed

subsection \<open>Properties\<close>

text \<open>The specification of sameness: equal once the keys of every object are put in order.\<close>

lemma canon_write_iff:
  "nums_ok a \<Longrightarrow> nums_ok b \<Longrightarrow> canon_write a = canon_write b \<longleftrightarrow> norm a = norm b"
  using plain_write_readable [of "norm a" "norm b" "[]" "[]"] nums_ok_norm
  by (auto simp: canon_write_norm delimited_def)

lemma sortKeys_perm:
  assumes "mset m = mset m'" and "inj_on utf16 (fst ` set m)" and "distinct (map fst m)"
  shows "sortKeys m = sortKeys m'"
  unfolding sortKeys_def
proof (rule sort_key_eq_sort_key)
  show "inj_on (\<lambda>p. utf16 (fst p)) (set m)"
  proof (rule inj_onI)
    fix p q assume pq: "p \<in> set m" "q \<in> set m" "utf16 (fst p) = utf16 (fst q)"
    then have "fst p = fst q" using assms(2) by (auto dest: inj_onD)
    with pq assms(3) show "p = q" by (metis eq_key_imp_eq_value prod.collapse)
  qed
qed (use assms in simp_all)

text \<open>C12: the canonical encoding is injective and blind to layout: two JSON values get the same
  bytes exactly when they are the same value up to the order of object keys. Since a tool's identity
  is the digest of these bytes, equal identities mean equal definitions (up to hash collisions).\<close>

theorem canonical_bytes_identify_value:
  assumes "nums_ok a" and "nums_ok b"
  shows "canon_write a = canon_write b \<longleftrightarrow> norm a = norm b"
  by (rule canon_write_iff [OF assms])

theorem canonical_bytes_identify_value_witness:
  "canon_write (JObj [(''b'', JNum (NFloat False ''15'' (-1))), (''a'', JArr [JNull, JStr ''x''])]) =
   canon_write (JObj [(''a'', JArr [JNull, JStr ''x'']), (''b'', JNum (NFloat False ''15'' (-1)))])"
proof -
  let ?a = "JObj [(''b'', JNum (NFloat False ''15'' (-1))), (''a'', JArr [JNull, JStr ''x''])]"
  let ?b = "JObj [(''a'', JArr [JNull, JStr ''x'']), (''b'', JNum (NFloat False ''15'' (-1)))]"
  have n: "nums_ok ?a" "nums_ok ?b"
    by (simp_all add: is_digit_def)
  have "norm ?a = norm ?b"
    by (simp add: sortKeys_def utf16_def utf16_of_rune_def)
  then show ?thesis using canonical_bytes_identify_value [OF n] by blast
qed

text \<open>The canonical form of an object does not depend on the order in which its keys are met (Go
  map iteration is random): any two listings of the same entries are written identically, provided
  distinct keys have distinct UTF-16 encodings, as valid UTF-8 keys do.\<close>

theorem canonical_object_order_independent:
  assumes "mset m = mset m'" and "inj_on utf16 (fst ` set m)" and "distinct (map fst m)"
  shows "canon_write (JObj m) = canon_write (JObj m')"
  using sortKeys_perm [OF assms] by (simp add: sortKeys_map)

theorem canonical_object_order_independent_witness:
  "canon_write (JObj [(''b'', JNull), (''a'', JBool True)]) =
     canon_write (JObj [(''a'', JBool True), (''b'', JNull)])"
proof (rule canonical_object_order_independent)
  have u: "utf16 ''a'' = [97]" "utf16 ''b'' = [98]"
    by (simp_all add: utf16_def utf16_of_rune_def)
  show "inj_on utf16 (fst ` set [(''b'', JNull), (''a'', JBool True)])"
    using u by (simp add: inj_on_def)
qed simp_all

end
