(* ===== verification/Pipeline_Patch.thy ===== *)
theory Pipeline_Patch
  imports Canonical_Inj
begin

section \<open>Scoped patches (internal/dataplane/pipeline/patch.go)\<close>

text \<open>
  A plugin's mutation is an RFC 6902 document whose every path must lie inside the plugin's declared
  write scopes. The code mutates the decoded document in place; the document is a tree no one else
  holds (each patch value is decoded afresh and the document is dropped on error), so a write
  through a reference is an update at its path, \<open>put_at\<close>. The bytes enter and leave through
  \<open>encoding/json\<close>: the decoders of the payload and of the patch are arguments of \<open>ApplyPatch\<close>.
\<close>

datatype PatchError =
    NotAPatch
  | TooManyOperations nat
  | ScopeViolation string
  | PayloadNotJSON
  | ValueNotJSON
  | BadPointer string
  | NoValueAt string
  | IndexOutOfRange string
  | IndexNotANumber string
  | CannotDescend string
  | WholeDocument
  | ReplaceMissing string
  | ReplaceAppend
  | CannotSetMember
  | CannotRemoveMember
  | CannotAttach
  | TestFailed string
  | UnsupportedOp string
  | UnknownOp string

definition MaxPatchOperations :: nat where
  "MaxPatchOperations = 256"

text \<open>\<open>None\<close> is an absent value, which does not decode.\<close>

record PatchOp =
  po_Op :: string
  po_Path :: string
  po_From :: string
  po_Value :: "json option"

subsection \<open>Pointers\<close>

definition splitPointer :: "string \<Rightarrow> PatchError + string list" where
  "splitPointer pointer =
     (if pointer = [] then Inr []
      else if \<not> prefix ''/'' pointer then Inl (BadPointer pointer)
      else Inr (map unescape_token (split_on (CHR ''/'') (trim_prefix ''/'' pointer))))"

definition pointerToDotted :: "string \<Rightarrow> string" where
  "pointerToDotted pointer =
     (let trimmed = trim_prefix ''/'' pointer
      in if trimmed = [] then []
         else join ''.''
           (filter (\<lambda>part. atoi part = None)
             (map unescape_token (split_on (CHR ''/'') trimmed))))"

text \<open>One scope of the loop; \<open>*\<close> is the escape hatch.\<close>

definition scope_admits :: "string \<Rightarrow> string \<Rightarrow> bool" where
  "scope_admits dotted scope =
     (let s = trim_space scope
      in s \<noteq> [] \<and> (s = ''*'' \<or> dotted = s \<or> prefix (s @ ''.'') dotted))"

definition checkScope :: "string \<Rightarrow> string list \<Rightarrow> PatchError + unit" where
  "checkScope pointer scopes =
     (if scopes = [] then Inl (ScopeViolation pointer)
      else if list_ex (scope_admits (pointerToDotted pointer)) scopes then Inr ()
      else Inl (ScopeViolation pointer))"

subsection \<open>Reading and writing a document\<close>

text \<open>The index a token names in an array of \<open>n\<close> elements.\<close>

definition array_index :: "string \<Rightarrow> nat \<Rightarrow> nat option" where
  "array_index part n =
     (case atoi part of
        None \<Rightarrow> None
      | Some i \<Rightarrow> if i < 0 \<or> i \<ge> int n then None else Some (nat i))"

fun getPointerParts :: "json \<Rightarrow> string list \<Rightarrow> PatchError + json" where
  "getPointerParts cur [] = Inr cur"
| "getPointerParts cur (part # parts) =
     (case cur of
        JObj m \<Rightarrow> (case map_of m part of
            None \<Rightarrow> Inl (NoValueAt part) | Some v \<Rightarrow> getPointerParts v parts)
      | JArr xs \<Rightarrow> (case array_index part (length xs) of
            None \<Rightarrow> Inl (IndexOutOfRange part) | Some i \<Rightarrow> getPointerParts (xs ! i) parts)
      | _ \<Rightarrow> Inl (CannotDescend part))"

definition getPointer :: "json \<Rightarrow> string \<Rightarrow> PatchError + json" where
  "getPointer doc pointer = bind_result (splitPointer pointer) (getPointerParts doc)"

text \<open>The document once the node at a path has been overwritten in place.\<close>

fun put_at :: "json \<Rightarrow> string list \<Rightarrow> json \<Rightarrow> json" where
  "put_at cur [] new = new"
| "put_at cur (part # parts) new =
     (case cur of
        JObj m \<Rightarrow> (case map_of m part of
            None \<Rightarrow> cur | Some v \<Rightarrow> JObj (obj_set part (put_at v parts new) m))
      | JArr xs \<Rightarrow> (case array_index part (length xs) of
            None \<Rightarrow> cur | Some i \<Rightarrow> JArr (xs[i := put_at (xs ! i) parts new]))
      | _ \<Rightarrow> cur)"

definition replaceSlice :: "json \<Rightarrow> string list \<Rightarrow> json list \<Rightarrow> PatchError + json" where
  "replaceSlice doc parts value =
     (if parts = [] then Inr (JArr value)
      else bind_result (getPointerParts doc (butlast parts)) (\<lambda>parent.
        (case parent of
           JObj m \<Rightarrow> Inr (put_at doc (butlast parts) (JObj (obj_set (last parts) (JArr value) m)))
         | JArr xs \<Rightarrow> (case array_index (last parts) (length xs) of
             None \<Rightarrow> Inl (IndexOutOfRange (last parts))
           | Some i \<Rightarrow> Inr (put_at doc (butlast parts) (JArr (xs[i := JArr value]))))
         | _ \<Rightarrow> Inl CannotAttach)))"

definition setPointer :: "json \<Rightarrow> string \<Rightarrow> json \<Rightarrow> bool \<Rightarrow> PatchError + json" where
  "setPointer doc pointer value isAdd =
     bind_result (splitPointer pointer) (\<lambda>parts.
       if parts = [] then Inl WholeDocument
       else bind_result (getPointerParts doc (butlast parts)) (\<lambda>parent.
         let l = last parts in
         (case parent of
            JObj m \<Rightarrow>
              if \<not> isAdd \<and> map_of m l = None then Inl (ReplaceMissing l)
              else Inr (put_at doc (butlast parts) (JObj (obj_set l value m)))
          | JArr xs \<Rightarrow>
              if l = ''-'' then
                (if \<not> isAdd then Inl ReplaceAppend
                 else replaceSlice doc (butlast parts) (xs @ [value]))
              else (case atoi l of
                  None \<Rightarrow> Inl (IndexNotANumber l)
                | Some idx \<Rightarrow>
                    if isAdd then
                      (if idx < 0 \<or> idx > int (length xs) then Inl (IndexOutOfRange l)
                       else replaceSlice doc (butlast parts)
                              (take (nat idx) xs @ [value] @ drop (nat idx) xs))
                    else if idx < 0 \<or> idx \<ge> int (length xs) then Inl (IndexOutOfRange l)
                    else Inr (put_at doc (butlast parts) (JArr (xs[nat idx := value]))))
          | _ \<Rightarrow> Inl CannotSetMember)))"

definition removePointer :: "json \<Rightarrow> string \<Rightarrow> PatchError + json" where
  "removePointer doc pointer =
     bind_result (splitPointer pointer) (\<lambda>parts.
       if parts = [] then Inl WholeDocument
       else bind_result (getPointerParts doc (butlast parts)) (\<lambda>parent.
         let l = last parts in
         (case parent of
            JObj m \<Rightarrow>
              (case map_of m l of
                 None \<Rightarrow> Inl (NoValueAt l)
               | Some _ \<Rightarrow> Inr (put_at doc (butlast parts) (JObj (obj_del l m))))
          | JArr xs \<Rightarrow>
              (case array_index l (length xs) of
                 None \<Rightarrow> Inl (IndexOutOfRange l)
               | Some i \<Rightarrow> replaceSlice doc (butlast parts) (take i xs @ drop (i + 1) xs))
          | _ \<Rightarrow> Inl CannotRemoveMember)))"

subsection \<open>Operations and patches\<close>

definition applyOp :: "json \<Rightarrow> PatchOp \<Rightarrow> PatchError + json" where
  "applyOp doc op =
     (if po_Op op = ''add'' \<or> po_Op op = ''replace'' then
        (case po_Value op of
           None \<Rightarrow> Inl ValueNotJSON
         | Some value \<Rightarrow> setPointer doc (po_Path op) value (po_Op op = ''add''))
      else if po_Op op = ''remove'' then removePointer doc (po_Path op)
      else if po_Op op = ''test'' then
        (case po_Value op of
           None \<Rightarrow> Inl ValueNotJSON
         | Some want \<Rightarrow> bind_result (getPointer doc (po_Path op)) (\<lambda>got.
             if canon_equal got want then Inr doc else Inl (TestFailed (po_Path op))))
      else if po_Op op = ''move'' \<or> po_Op op = ''copy'' then Inl (UnsupportedOp (po_Op op))
      else Inl (UnknownOp (po_Op op)))"

fun applyOps :: "json \<Rightarrow> PatchOp list \<Rightarrow> PatchError + json" where
  "applyOps doc [] = Inr doc"
| "applyOps doc (op # ops) = bind_result (applyOp doc op) (\<lambda>doc'. applyOps doc' ops)"

text \<open>The scope check of every operation, before any is applied.\<close>

fun checkScopes :: "PatchOp list \<Rightarrow> string list \<Rightarrow> PatchError + unit" where
  "checkScopes [] scopes = Inr ()"
| "checkScopes (op # ops) scopes =
     bind_result (checkScope (po_Path op) scopes) (\<lambda>_.
       bind_result (if po_From op \<noteq> [] then checkScope (po_From op) scopes else Inr ()) (\<lambda>_.
         checkScopes ops scopes))"

definition ApplyPatch ::
  "(string \<Rightarrow> json option) \<Rightarrow> (string \<Rightarrow> PatchOp list option) \<Rightarrow> string \<Rightarrow> string \<Rightarrow> string list \<Rightarrow>
   PatchError + string" where
  "ApplyPatch decode decodeOps payload patch scopes =
     (if patch = [] then Inr payload
      else case decodeOps patch of
        None \<Rightarrow> Inl NotAPatch
      | Some ops \<Rightarrow>
          if ops = [] then Inr payload
          else if length ops > MaxPatchOperations then Inl (TooManyOperations (length ops))
          else bind_result (checkScopes ops scopes) (\<lambda>_.
            case decode payload of
              None \<Rightarrow> Inl PayloadNotJSON
            | Some doc \<Rightarrow> bind_result (applyOps doc ops) (\<lambda>doc'. Inr (canon_write doc'))))"

subsection \<open>Writes through a path\<close>

lemma get_append:
  "getPointerParts doc (p @ r) = bind_result (getPointerParts doc p) (\<lambda>n. getPointerParts n r)"
  by (induction doc p rule: getPointerParts.induct) (auto split: json.splits option.splits)

lemma put_append:
  "getPointerParts doc p = Inr n \<Longrightarrow> put_at doc (p @ r) new = put_at doc p (put_at n r new)"
  by (induction doc p rule: getPointerParts.induct) (auto split: json.splits option.splits)

text \<open>Re-attaching a rebuilt slice is overwriting the array in place.\<close>

lemma replaceSlice_put:
  assumes "getPointerParts doc p = Inr node"
  shows "replaceSlice doc p xs = Inr (put_at doc p (JArr xs))"
proof (cases p rule: rev_cases)
  case Nil
  then show ?thesis by (simp add: replaceSlice_def)
next
  case (snoc q l)
  with assms obtain n where n: "getPointerParts doc q = Inr n" "getPointerParts n [l] = Inr node"
    by (auto simp: get_append bind_result_Inr)
  with snoc show ?thesis
    by (auto simp: replaceSlice_def put_append split: json.splits option.splits)
qed

lemma index_not_numeric: "atoi part = None \<Longrightarrow> array_index part n = None"
  by (simp add: array_index_def)

definition key_path :: "string list \<Rightarrow> bool" where
  "key_path q = list_all (\<lambda>k. atoi k = None) q"

lemma put_frame:
  assumes "getPointerParts doc p = Inr node" and "key_path q" and "\<not> strict_prefix q p"
    and "\<And>r. q = p @ r \<Longrightarrow> getPointerParts new r = getPointerParts node r"
  shows "getPointerParts (put_at doc p new) q = getPointerParts doc q"
  using assms
proof (induction p arbitrary: doc q)
  case Nil
  then show ?case by simp
next
  case (Cons k p)
  obtain j r where q: "q = j # r" using Cons.prems(3) by (cases q) auto
  with Cons.prems have kr: "key_path r" "atoi j = None" by (simp_all add: key_path_def)
  show ?case
  proof (cases doc)
    case (JObj m)
    with Cons.prems(1) obtain v where v: "map_of m k = Some v" "getPointerParts v p = Inr node"
      by (auto split: option.splits)
    have "j = k \<Longrightarrow> getPointerParts (put_at v p new) r = getPointerParts v r"
      using Cons.IH [OF v(2) kr(1)] Cons.prems(3,4) q by auto
    with JObj v q show ?thesis by (auto split: option.splits)
  next
    case (JArr xs)
    with Cons.prems(1) obtain i where "array_index k (length xs) = Some i"
      by (auto split: option.splits)
    with JArr q kr show ?thesis by (simp add: index_not_numeric)
  qed (use Cons.prems in simp_all)
qed

text \<open>An operation at \<open>p @ [l]\<close> rewrites the node at \<open>p\<close>; a key path that is neither above nor below
  the operation's path does not see it.\<close>

lemma obj_update_frame:
  assumes "getPointerParts doc p = Inr (JObj m)" and "key_path q"
    and "\<not> prefix q (p @ [l])" and "\<not> prefix (p @ [l]) q"
    and "\<And>j. j \<noteq> l \<Longrightarrow> map_of m' j = map_of m j"
  shows "getPointerParts (put_at doc p (JObj m')) q = getPointerParts doc q"
proof (rule put_frame [OF assms(1,2)])
  show "\<not> strict_prefix q p" using assms(3) by (auto simp: strict_prefix_def)
  fix r assume r: "q = p @ r"
  with assms(3) obtain j s where js: "r = j # s" by (cases r) auto
  with r assms(4) have "j \<noteq> l" by auto
  with js assms(5) show "getPointerParts (JObj m') r = getPointerParts (JObj m) r" by simp
qed

lemma arr_update_frame:
  assumes "getPointerParts doc p = Inr (JArr xs)" and "key_path q" and "\<not> prefix q (p @ [l])"
  shows "getPointerParts (put_at doc p (JArr ys)) q = getPointerParts doc q"
proof (rule put_frame [OF assms(1,2)])
  show "\<not> strict_prefix q p" using assms(3) by (auto simp: strict_prefix_def)
  fix r assume r: "q = p @ r"
  with assms(3) obtain j s where js: "r = j # s" by (cases r) auto
  with r assms(2) have "atoi j = None" by (simp add: key_path_def)
  with js show "getPointerParts (JArr ys) r = getPointerParts (JArr xs) r"
    by (simp add: index_not_numeric)
qed

lemma setPointer_frame:
  assumes "setPointer doc ptr v isAdd = Inr doc'" and "splitPointer ptr = Inr ps" and "key_path q"
    and "\<not> prefix q ps" and "\<not> prefix ps q"
  shows "getPointerParts doc' q = getPointerParts doc q"
proof -
  from assms(1,2) have "ps \<noteq> []" by (auto simp: setPointer_def)
  then obtain p l where ps: "ps = p @ [l]" by (cases ps rule: rev_cases) auto
  with assms(1,2) obtain node where n: "getPointerParts doc p = Inr node"
    by (auto simp: setPointer_def bind_result_Inr)
  note fr = assms(3-5) [unfolded ps]
  show ?thesis
  proof (cases node)
    case (JObj m)
    with assms(1,2) ps n have "doc' = put_at doc p (JObj (obj_set l v m))"
      by (auto simp: setPointer_def Let_def split: if_splits)
    with obj_update_frame [OF n [unfolded JObj] fr] show ?thesis by simp
  next
    case (JArr xs)
    with assms(1,2) ps n obtain ys where "doc' = put_at doc p (JArr ys)"
      by (auto simp: setPointer_def Let_def replaceSlice_put split: if_splits option.splits)
    with arr_update_frame [OF n [unfolded JArr] fr(1,2)] show ?thesis by simp
  qed (use assms(1,2) ps n in \<open>simp_all add: setPointer_def\<close>)
qed

lemma removePointer_frame:
  assumes "removePointer doc ptr = Inr doc'" and "splitPointer ptr = Inr ps" and "key_path q"
    and "\<not> prefix q ps" and "\<not> prefix ps q"
  shows "getPointerParts doc' q = getPointerParts doc q"
proof -
  from assms(1,2) have "ps \<noteq> []" by (auto simp: removePointer_def)
  then obtain p l where ps: "ps = p @ [l]" by (cases ps rule: rev_cases) auto
  with assms(1,2) obtain node where n: "getPointerParts doc p = Inr node"
    by (auto simp: removePointer_def bind_result_Inr)
  note fr = assms(3-5) [unfolded ps]
  show ?thesis
  proof (cases node)
    case (JObj m)
    with assms(1,2) ps n have "doc' = put_at doc p (JObj (obj_del l m))"
      by (auto simp: removePointer_def Let_def split: option.splits)
    with obj_update_frame [OF n [unfolded JObj] fr] show ?thesis by simp
  next
    case (JArr xs)
    with assms(1,2) ps n obtain ys where "doc' = put_at doc p (JArr ys)"
      by (auto simp: removePointer_def Let_def replaceSlice_put split: option.splits)
    with arr_update_frame [OF n [unfolded JArr] fr(1,2)] show ?thesis by simp
  qed (use assms(1,2) ps n in \<open>simp_all add: removePointer_def\<close>)
qed

subsection \<open>Scopes and pointers\<close>

text \<open>A scope that is neither at, above nor below a key path.\<close>

definition scope_apart :: "string list \<Rightarrow> string \<Rightarrow> bool" where
  "scope_apart q scope =
     (let s = trim_space scope; d = join ''.'' q
      in s \<noteq> ''*'' \<and> (s = [] \<or> s \<noteq> d \<and> \<not> prefix (s @ ''.'') d \<and> \<not> prefix (d @ ''.'') s))"

lemma join_append:
  "xs \<noteq> [] \<Longrightarrow> ys \<noteq> [] \<Longrightarrow> join sep (xs @ ys) = join sep xs @ sep @ join sep ys"
proof (induction xs)
  case (Cons x xs)
  then show ?case by (cases xs) (simp_all add: join_Cons)
qed simp

lemma dotted_of_split:
  assumes "splitPointer ptr = Inr ps" and "ps \<noteq> []"
  shows "pointerToDotted ptr = join ''.'' (filter (\<lambda>part. atoi part = None) ps)"
proof -
  have "ptr \<noteq> []" "prefix ''/'' ptr"
    and ps: "ps = map unescape_token (split_on (CHR ''/'') (trim_prefix ''/'' ptr))"
    using assms by (auto simp: splitPointer_def split: if_splits)
  show ?thesis
  proof (cases "trim_prefix ''/'' ptr = []")
    case True
    with ps have "ps = [[]]" by simp
    moreover have "atoi [] = None" by (simp add: atoi_def)
    ultimately show ?thesis using True by (simp add: pointerToDotted_def)
  next
    case False
    with ps show ?thesis by (simp add: pointerToDotted_def)
  qed
qed

lemma admitted_not_above:
  assumes "scope_admits (join ''.'' ps) scope" and "scope_apart q scope" and "ps \<noteq> []" and "prefix ps q"
  shows False
proof -
  obtain r where r: "q = ps @ r" using assms(4) by (auto elim: prefixE)
  show False
  proof (cases "r = []")
    case True
    with r assms(1,2) show False by (auto simp: scope_admits_def scope_apart_def Let_def)
  next
    case False
    then have "join ''.'' q = join ''.'' ps @ CHR ''.'' # join ''.'' r" using r assms(3) by (simp add: join_append)
    with assms(1,2) show False
      by (auto simp: scope_admits_def scope_apart_def Let_def)
  qed
qed

lemma dot_prefix: "prefix (s @ ''.'') (d @ ''.'') \<Longrightarrow> s = d \<or> prefix (s @ ''.'') d"
  by (auto simp: prefix_snoc)

lemma admitted_not_below:
  assumes "scope_admits (join ''.'' (q @ r)) scope" and "scope_apart q scope" and "q \<noteq> []"
  shows False
proof (cases "r = []")
  case True
  with assms(1,2) show False by (auto simp: scope_admits_def scope_apart_def Let_def)
next
  case False
  let ?s = "trim_space scope" and ?d = "join ''.'' q"
  have j: "join ''.'' (q @ r) = (?d @ ''.'') @ join ''.'' r" using False assms(3) by (simp add: join_append)
  have "?s \<noteq> []" "?s \<noteq> ''*''"
    and "join ''.'' (q @ r) = ?s \<or> prefix (?s @ ''.'') (join ''.'' (q @ r))"
    using assms(1,2) by (auto simp: scope_admits_def scope_apart_def Let_def)
  moreover have "join ''.'' (q @ r) \<noteq> ?s"
  proof
    assume "join ''.'' (q @ r) = ?s"
    then have "prefix (?d @ ''.'') ?s" using j by (metis prefixI)
    with assms(2) \<open>?s \<noteq> []\<close> show False by (simp add: scope_apart_def Let_def)
  qed
  ultimately have p: "prefix (?s @ ''.'') ((?d @ ''.'') @ join ''.'' r)" using j by simp
  have "prefix (?d @ ''.'') ((?d @ ''.'') @ join ''.'' r)" by simp
  with p consider "prefix (?s @ ''.'') (?d @ ''.'')" | "prefix (?d @ ''.'') (?s @ ''.'')"
    using prefix_same_cases by blast
  then show False
    using dot_prefix [of ?s ?d] dot_prefix [of ?d ?s] assms(2) \<open>?s \<noteq> []\<close>
    by cases (auto simp: scope_apart_def Let_def)
qed

lemma in_scope_apart:
  assumes ok: "checkScope ptr scopes = Inr ()" and sp: "splitPointer ptr = Inr ps" and ne: "ps \<noteq> []"
    and q: "q \<noteq> []" "key_path q" and apart: "list_all (scope_apart q) scopes"
  shows "\<not> prefix q ps \<and> \<not> prefix ps q"
proof (rule ccontr)
  let ?f = "filter (\<lambda>part. atoi part = None)"
  from ok obtain s where "s \<in> set scopes" and s: "scope_admits (join ''.'' (?f ps)) s"
    by (auto simp: checkScope_def list_ex_iff dotted_of_split [OF sp ne] split: if_splits)
  with apart have a: "scope_apart q s" by (simp add: list_all_iff)
  have fq: "?f x = x" if "prefix x q \<or> x = q" for x
    using that q(2) by (auto simp: key_path_def list_all_iff filter_id_conv elim!: prefixE)
  assume "\<not> (\<not> prefix q ps \<and> \<not> prefix ps q)"
  then show False
  proof (cases "prefix q ps")
    case True
    then obtain r where "ps = q @ r" by (auto elim: prefixE)
    with s fq have "scope_admits (join ''.'' (q @ ?f r)) s" by simp
    with a q(1) show False by (rule admitted_not_below [rotated 1])
  next
    case False
    with \<open>\<not> (\<not> prefix q ps \<and> \<not> prefix ps q)\<close> have "prefix ps q" by simp
    with s fq have "scope_admits (join ''.'' ps) s" by simp
    then show False using a ne \<open>prefix ps q\<close> by (rule admitted_not_above)
  qed
qed

lemma applyOp_frame:
  assumes "applyOp doc op = Inr doc'" and "checkScope (po_Path op) scopes = Inr ()"
    and "q \<noteq> []" "key_path q" and "list_all (scope_apart q) scopes"
  shows "getPointerParts doc' q = getPointerParts doc q"
proof (cases "splitPointer (po_Path op)")
  case (Inl e)
  with assms(1) show ?thesis
    by (auto simp: applyOp_def setPointer_def removePointer_def getPointer_def split: if_splits option.splits)
next
  case (Inr ps)
  consider (set) v where "setPointer doc (po_Path op) v (po_Op op = ''add'') = Inr doc'"
    | (rem) "removePointer doc (po_Path op) = Inr doc'"
    | (same) "doc' = doc"
    using assms(1)
    by (auto simp: applyOp_def bind_result_Inr split: if_splits option.splits)
  then show ?thesis
  proof cases
    case set
    with Inr have "ps \<noteq> []" by (auto simp: setPointer_def)
    with in_scope_apart [OF assms(2) Inr] assms(3-5) setPointer_frame [OF set Inr assms(4)]
    show ?thesis by blast
  next
    case rem
    with Inr have "ps \<noteq> []" by (auto simp: removePointer_def)
    with in_scope_apart [OF assms(2) Inr] assms(3-5) removePointer_frame [OF rem Inr assms(4)]
    show ?thesis by blast
  qed simp
qed

lemma checkScopes_iff:
  "checkScopes ops scopes = Inr () \<longleftrightarrow>
     (\<forall>op\<in>set ops. checkScope (po_Path op) scopes = Inr () \<and>
        (po_From op = [] \<or> checkScope (po_From op) scopes = Inr ()))"
  by (induction ops) (auto simp: bind_result_Inr)

lemma applyOps_frame:
  assumes "applyOps doc ops = Inr doc'" and "checkScopes ops scopes = Inr ()"
    and "q \<noteq> []" "key_path q" and "list_all (scope_apart q) scopes"
  shows "getPointerParts doc' q = getPointerParts doc q"
  using assms(1,2)
proof (induction ops arbitrary: doc)
  case (Cons op ops)
  then obtain d where d: "applyOp doc op = Inr d" "applyOps d ops = Inr doc'"
    by (auto simp: bind_result_Inr)
  have c: "checkScope (po_Path op) scopes = Inr ()" "checkScopes ops scopes = Inr ()"
    using Cons.prems(2) unfolding checkScopes_iff by simp_all
  show ?case using applyOp_frame [OF d(1) c(1) assms(3-5)] Cons.IH [OF d(2) c(2)] by simp
qed simp

subsection \<open>Properties\<close>


definition wit_doc :: json where
  "wit_doc = JObj [(''principal'', JObj [(''role'', JStr ''viewer'')]), (''result'', JArr [JStr ''x''])]"

definition wit_op :: PatchOp where
  "wit_op = \<lparr>po_Op = ''add'', po_Path = ''/result/-'', po_From = [], po_Value = Some (JStr ''y'')\<rparr>"

lemma wit_apply:
  "ApplyPatch (\<lambda>_. Some wit_doc) (\<lambda>_. Some [wit_op]) ''{}'' ''[]'' [''result''] =
     Inr (canon_write (JObj [(''principal'', JObj [(''role'', JStr ''viewer'')]),
                             (''result'', JArr [JStr ''x'', JStr ''y''])]))"
  by (simp add: ApplyPatch_def wit_op_def wit_doc_def MaxPatchOperations_def checkScope_def
      scope_admits_def pointerToDotted_def trim_prefix_def atoi_def digit_val_def trim_space_def
      is_space_def applyOp_def setPointer_def splitPointer_def replaceSlice_def)


text \<open>C39: a patch is applied whole or not at all: if any operation's path or source lies outside the
  declared scopes, or the document is over the operation limit, the patch is refused without any
  operation having been applied, whatever the payload is.\<close>

theorem patch_all_or_nothing:
  assumes "decodeOps patch = Some ops" and "patch \<noteq> []"
    and "length ops > MaxPatchOperations \<or>
         (\<exists>op\<in>set ops. checkScope (po_Path op) scopes \<noteq> Inr () \<or>
            po_From op \<noteq> [] \<and> checkScope (po_From op) scopes \<noteq> Inr ())"
  shows "\<exists>e. (\<forall>decode payload. ApplyPatch decode decodeOps payload patch scopes = Inl e) \<and>
    (e = TooManyOperations (length ops) \<or> (\<exists>op\<in>set ops. e = ScopeViolation (po_Path op) \<or> e = ScopeViolation (po_From op)))"
proof (cases "length ops > MaxPatchOperations")
  case True
  with assms show ?thesis by (auto simp: ApplyPatch_def)
next
  case False
  with assms have "checkScopes ops scopes \<noteq> Inr ()" and ne: "ops \<noteq> []" by (auto simp: checkScopes_iff)
  then obtain e where e: "checkScopes ops scopes = Inl e" by (cases "checkScopes ops scopes") auto
  have "\<exists>op\<in>set ops. e = ScopeViolation (po_Path op) \<or> e = ScopeViolation (po_From op)"
    using e by (induction ops) (auto simp: bind_result_Inl checkScope_def split: if_splits)
  moreover have "ApplyPatch decode decodeOps payload patch scopes = Inl e" for decode payload
    using assms(1,2) False ne e by (simp add: ApplyPatch_def)
  ultimately show ?thesis by blast
qed

theorem patch_all_or_nothing_witness:
  "\<exists>e. ApplyPatch (\<lambda>_. Some wit_doc) (\<lambda>_. Some [wit_op, wit_op\<lparr>po_Path := ''/principal/role''\<rparr>])
     ''{}'' ''[]'' [''result''] = Inl e"
proof -
  have v: "checkScope ''/principal/role'' [''result''] \<noteq> Inr ()"
    by (simp add: checkScope_def scope_admits_def pointerToDotted_def trim_prefix_def atoi_def
        digit_val_def trim_space_def is_space_def)
  have "\<exists>e. (\<forall>decode payload. ApplyPatch decode
      (\<lambda>_. Some [wit_op, wit_op\<lparr>po_Path := ''/principal/role''\<rparr>]) payload ''[]'' [''result''] = Inl e) \<and>
    (e = TooManyOperations (length [wit_op, wit_op\<lparr>po_Path := ''/principal/role''\<rparr>]) \<or>
     (\<exists>op\<in>set [wit_op, wit_op\<lparr>po_Path := ''/principal/role''\<rparr>].
        e = ScopeViolation (po_Path op) \<or> e = ScopeViolation (po_From op)))"
    by (rule patch_all_or_nothing) (use v in simp_all)
  then show ?thesis by blast
qed

text \<open>The scope check forgets integer segments even where the document has an object there, so a
  plugin scoped to \<open>result\<close> may write below a sibling key that reads as an integer.\<close>

lemma integer_key_escapes_scope:
  "ApplyPatch (\<lambda>_. Some (JObj [(''2024'', JObj [(''result'', JStr ''kept'')])]))
     (\<lambda>_. Some [\<lparr>po_Op = ''replace'', po_Path = ''/2024/result'', po_From = [],
                 po_Value = Some (JStr ''changed'')\<rparr>]) ''{}'' ''[]'' [''result''] =
   Inr (canon_write (JObj [(''2024'', JObj [(''result'', JStr ''changed'')])]))"
  by (simp add: ApplyPatch_def MaxPatchOperations_def checkScope_def scope_admits_def
      pointerToDotted_def trim_prefix_def atoi_def digit_val_def trim_space_def is_space_def
      applyOp_def setPointer_def splitPointer_def)

end
