(* ===== verification/Pipeline_Verdict.thy ===== *)
theory Pipeline_Verdict
  imports Complex_Main Snapshot_Types Pipeline_Patch
begin

section \<open>Verdicts, outcomes and traces (internal/dataplane/pipeline/verdict.go)\<close>

text \<open>
  What a plugin answers, what the engine records about it, and the record of a whole request.
  Durations are whole microseconds and budgets whole milliseconds before the code's division into
  floating-point figures; the confidence of a verdict is a rational (every finite float64 is one).
\<close>

datatype Decision =
  DecisionAllow | DecisionDeny | DecisionMutate | DecisionAnnotate | DecisionDefer
| DecisionOther string

fun Decision_Valid :: "Decision \<Rightarrow> bool" where
  "Decision_Valid (DecisionOther _) = False"
| "Decision_Valid _ = True"

record Verdict =
  v_Decision :: Decision
  v_Reason :: string
  v_Confidence :: rat
  v_Patch :: string
  v_Annotations :: "(string \<times> json) list"
  v_TTLMs :: int
  v_InputRequests :: string
  v_PluginState :: string
  v_Provenance :: "(string \<times> string) list"

text \<open>The verdict literals the engine builds: only a decision and a reason.\<close>

definition plain_verdict :: "Decision \<Rightarrow> string \<Rightarrow> Verdict" where
  "plain_verdict d reason =
     \<lparr>v_Decision = d, v_Reason = reason, v_Confidence = 0, v_Patch = [], v_Annotations = [],
      v_TTLMs = 0, v_InputRequests = [], v_PluginState = [], v_Provenance = []\<rparr>"

datatype VerdictError =
    InvalidDecision | ConfidenceOutside | MutateNoPatch | MutateNoWrites string
  | DeferNoRequests | StrayPatch

definition Verdict_Validate :: "Verdict \<Rightarrow> PluginManifest \<Rightarrow> VerdictError + unit" where
  "Verdict_Validate v manifest =
     (if \<not> Decision_Valid (v_Decision v) then Inl InvalidDecision
      else if v_Confidence v < 0 \<or> v_Confidence v > 1 then Inl ConfidenceOutside
      else case v_Decision v of
        DecisionMutate \<Rightarrow>
          if v_Patch v = [] then Inl MutateNoPatch
          else if pm_Writes manifest = [] then Inl (MutateNoWrites (pm_Name manifest))
          else Inr ()
      | DecisionDefer \<Rightarrow> if v_InputRequests v = [] then Inl DeferNoRequests else Inr ()
      | _ \<Rightarrow> if v_Patch v \<noteq> [] then Inl StrayPatch else Inr ())"

datatype SkipReason =
    SkipNone | SkipCircuitOpen | SkipBudgetExalted | SkipHookBudget | SkipNotInCanary
  | SkipHostUnavailable | SkipShortCircuited

text \<open>The error an outcome carries: nothing, the plugin's or resolver's own text, an invalid verdict,
  or a refused patch.\<close>

datatype OutcomeError =
  NoError | HostError string | PluginError string | BadVerdict VerdictError | BadPatch PatchError

record Outcome =
  o_PluginID :: string
  o_PluginName :: string
  o_Hook :: string
  o_Rollout :: string
  o_Ran :: bool
  o_Skipped :: bool
  o_SkipReason :: SkipReason
  o_Verdict :: "Verdict option"
  o_Enforced :: bool
  o_Diverged :: bool
  o_DurationUS :: int
  o_BudgetUS :: int
  o_Error :: OutcomeError
  o_FailureMode :: string

record HookTrace =
  ht_Hook :: string
  ht_Outcomes :: "Outcome list"
  ht_DurationUS :: int
  ht_BudgetMS :: int
  ht_Exhausted :: bool

record Trace =
  tr_Hooks :: "HookTrace list"
  tr_TotalBudgetMS :: int
  tr_ConsumedUS :: int
  tr_Decision :: Decision
  tr_DecidedBy :: string

text \<open>The counts of the summary line: plugins that ran and plugins that were skipped.\<close>

definition Summary_counts :: "Trace \<Rightarrow> nat \<times> nat" where
  "Summary_counts t =
     (let os = concat (map ht_Outcomes (tr_Hooks t))
      in (length (filter o_Ran os), length (filter o_Skipped os)))"

definition Divergences :: "Trace \<Rightarrow> Outcome list" where
  "Divergences t = filter o_Diverged (concat (map ht_Outcomes (tr_Hooks t)))"

lemma validate_decision: "Verdict_Validate v m = Inr () \<Longrightarrow> Decision_Valid (v_Decision v)"
  by (simp add: Verdict_Validate_def split: if_splits)

lemma validate_mutate:
  "Verdict_Validate v m = Inr () \<Longrightarrow> v_Decision v = DecisionMutate \<Longrightarrow> v_Patch v \<noteq> [] \<and> pm_Writes m \<noteq> []"
  by (auto simp: Verdict_Validate_def split: if_splits)

end
