(* ===== verification/Breaker_Contract.thy ===== *)
theory Breaker_Contract
  imports Prelude
begin

section \<open>The contract of a circuit breaker\<close>

text \<open>
  Two components own a breaker of their own: the backend pool (Backend_Breaker) and the plugin
  pipeline (Plugin_Breaker). They differ in their state but promise their callers the same thing,
  which this locale states: what a request, a success and a failure do to a breaker, seen through
  the few observers a caller reasons with. The client lemmas are about whole histories of requests
  and outcomes, in any interleaving: callers run concurrently, so an outcome may belong to a request
  admitted long ago. Times are instants of the monotonic clock, as integers.
\<close>

datatype bevent = Req int | Ok | Fail int

fun is_req :: "bevent \<Rightarrow> bool" where
  "is_req (Req _) = True"
| "is_req _ = False"

locale circuit_breaker =
  fixes allow :: "int \<Rightarrow> 'b \<Rightarrow> bool \<times> 'b"
    and success :: "'b \<Rightarrow> 'b"
    and failure :: "int \<Rightarrow> 'b \<Rightarrow> 'b"
    and inv :: "'b \<Rightarrow> bool"
    and closed :: "'b \<Rightarrow> bool"
    and probing :: "'b \<Rightarrow> bool"
    and retry_at :: "'b \<Rightarrow> int"
    and limit :: "'b \<Rightarrow> int"
    and fails :: "'b \<Rightarrow> int"
    and pause :: "'b \<Rightarrow> int"
  assumes inv_allow: "inv b \<Longrightarrow> inv (snd (allow t b))"
    and inv_success: "inv b \<Longrightarrow> inv (success b)"
    and inv_failure: "inv b \<Longrightarrow> inv (failure t b)"
    and closed_fails: "inv b \<Longrightarrow> closed b \<longleftrightarrow> fails b < limit b"
    and closed_idle: "inv b \<Longrightarrow> closed b \<Longrightarrow> \<not> probing b"
    and allow_closed: "inv b \<Longrightarrow> closed b \<Longrightarrow> allow t b = (True, b)"
    and allow_open:
      "inv b \<Longrightarrow> \<not> closed b \<Longrightarrow> fst (allow t b) \<longleftrightarrow> \<not> probing b \<and> retry_at b \<le> t"
    and allow_probing: "inv b \<Longrightarrow> \<not> closed b \<Longrightarrow> fst (allow t b) \<Longrightarrow> probing (snd (allow t b))"
    and allow_refused: "inv b \<Longrightarrow> \<not> fst (allow t b) \<Longrightarrow> snd (allow t b) = b"
    and allow_fails: "fails (snd (allow t b)) = fails b"
    and success_closed: "inv b \<Longrightarrow> closed (success b) \<and> fails (success b) = 0"
    and failure_counts: "inv b \<Longrightarrow> \<not> probing b \<Longrightarrow> fails (failure t b) = fails b + 1"
    and failure_probe:
      "inv b \<Longrightarrow> probing b \<Longrightarrow> \<not> closed (failure t b) \<and> retry_at (failure t b) = t + pause b"
    and failure_opens:
      "inv b \<Longrightarrow> closed b \<Longrightarrow> \<not> closed (failure t b) \<Longrightarrow> retry_at (failure t b) = t + pause b"
    and failure_open: "inv b \<Longrightarrow> \<not> closed b \<Longrightarrow> \<not> closed (failure t b)"
    and failure_idle: "inv b \<Longrightarrow> \<not> probing (failure t b)"
    and failure_retry:
      "inv b \<Longrightarrow> \<not> closed b \<Longrightarrow> retry_at (failure t b) = retry_at b \<or> retry_at (failure t b) = t + pause b"
    and limit_allow: "limit (snd (allow t b)) = limit b"
    and limit_success: "limit (success b) = limit b"
    and limit_failure: "limit (failure t b) = limit b"
    and pause_allow: "pause (snd (allow t b)) = pause b"
    and pause_failure: "pause (failure t b) = pause b"
begin

text \<open>One event: the breaker after it, and the grant of a request.\<close>

fun step :: "bevent \<Rightarrow> 'b \<Rightarrow> 'b" where
  "step (Req t) b = snd (allow t b)"
| "step Ok b = success b"
| "step (Fail t) b = failure t b"

fun run :: "bevent list \<Rightarrow> 'b \<Rightarrow> 'b" where
  "run [] b = b"
| "run (e # es) b = run es (step e b)"

text \<open>How many of the requests of a history are let through.\<close>

fun granted :: "bevent list \<Rightarrow> 'b \<Rightarrow> nat" where
  "granted [] b = 0"
| "granted (e # es) b =
     (case e of Req t \<Rightarrow> (if fst (allow t b) then 1 else 0) | _ \<Rightarrow> 0) + granted es (step e b)"

lemma inv_step: "inv b \<Longrightarrow> inv (step e b)"
  by (cases e) (simp_all add: inv_allow inv_success inv_failure)

lemma inv_run: "inv b \<Longrightarrow> inv (run es b)"
  by (induction es arbitrary: b) (simp_all add: inv_step)

lemma limit_step: "limit (step e b) = limit b"
  by (cases e) (simp_all add: limit_allow limit_success limit_failure)

lemma limit_run: "limit (run es b) = limit b"
  by (induction es arbitrary: b) (simp_all add: limit_step)

lemma step_probing:
  assumes "inv b" and "\<not> closed b" and "probing b" and "is_req e"
  shows "step e b = b"
  using assms by (cases e) (auto simp: allow_open intro!: allow_refused)

text \<open>A reserved probe that is never given an outcome keeps every later request out.\<close>

lemma probe_blocks:
  assumes "inv b" and "\<not> closed b" and "probing b" and "\<forall>e\<in>set es. is_req e"
  shows "granted es b = 0"
  using assms
proof (induction es)
  case (Cons e es)
  then have "step e b = b" by (simp add: step_probing)
  with Cons show ?case by (cases e) (simp_all add: allow_open)
qed simp

text \<open>An open breaker lets at most one request through before it hears an outcome.\<close>

lemma single_probe:
  assumes "inv b" and "\<not> closed b" and "\<forall>e\<in>set es. is_req e"
  shows "granted es b \<le> 1"
  using assms
proof (induction es)
  case (Cons e es)
  from Cons.prems obtain t where e: "e = Req t" by (cases e) auto
  show ?case
  proof (cases "fst (allow t b)")
    case True
    let ?b = "snd (allow t b)"
    have "inv ?b" "probing ?b" using Cons.prems True by (simp_all add: inv_allow allow_probing)
    moreover from this have "\<not> closed ?b" using closed_idle by blast
    ultimately have "granted es ?b = 0" using Cons.prems by (intro probe_blocks) auto
    with True e show ?thesis by simp
  next
    case False
    then have "snd (allow t b) = b" using Cons.prems by (simp add: allow_refused)
    with False e Cons show ?thesis by simp
  qed
qed simp

lemma step_open:
  assumes "inv b" and "\<not> closed b" and "e \<noteq> Ok"
  shows "\<not> closed (step e b)"
proof (cases e)
  case (Req t)
  with assms show ?thesis by (simp add: closed_fails inv_allow allow_fails limit_allow)
qed (use assms in \<open>simp_all add: failure_open\<close>)

text \<open>Until the cooldown has elapsed nothing gets through an open breaker, whatever failures of
  earlier requests still arrive.\<close>

lemma cooldown_refuses:
  assumes "inv b" and "\<not> closed b" and "r \<le> retry_at b" and "Ok \<notin> set es"
    and "\<forall>t. Req t \<in> set es \<longrightarrow> t < r" and "\<forall>t. Fail t \<in> set es \<longrightarrow> r \<le> t + pause b"
  shows "granted es b = 0 \<and> \<not> closed (run es b) \<and> r \<le> retry_at (run es b)"
  using assms
proof (induction es arbitrary: b)
  case (Cons e es)
  show ?case
  proof (cases e)
    case (Req t)
    with Cons.prems have "\<not> fst (allow t b)" by (auto simp: allow_open)
    moreover from this have "snd (allow t b) = b" using Cons.prems by (simp add: allow_refused)
    ultimately show ?thesis using Req Cons by simp
  next
    case Ok
    with Cons.prems show ?thesis by simp
  next
    case (Fail t)
    have "r \<le> retry_at (failure t b)"
      using failure_retry [of b t] Cons.prems Fail by auto
    with Fail Cons show ?thesis by (simp add: inv_failure failure_open pause_failure)
  qed
qed simp

text \<open>Consecutive failures open a breaker exactly when they reach the limit.\<close>

lemma failures_count:
  assumes "inv b" and "\<not> probing b"
  shows "fails (run (map Fail ts) b) = fails b + int (length ts) \<and> \<not> probing (run (map Fail ts) b)"
  using assms
proof (induction ts arbitrary: b)
  case (Cons t ts)
  have "\<not> probing (failure t b)"
    using Cons.prems by (simp add: failure_idle)
  with Cons show ?case by (simp add: failure_counts inv_failure)
qed simp

lemma opens_at_limit:
  assumes "inv b" and "\<not> probing b"
  shows "closed (run (map Fail ts) b) \<longleftrightarrow> fails b + int (length ts) < limit b"
  using assms failures_count [OF assms] inv_run [OF assms(1)] by (simp add: closed_fails limit_run)

text \<open>Once the cooldown has elapsed the next request is let through, and its success closes the
  breaker.\<close>

lemma recovers:
  assumes "inv b" and "\<not> closed b" and "\<not> probing b" and "retry_at b \<le> t"
  shows "granted [Req t] b = 1 \<and> closed (run [Req t, Ok] b)"
  using assms by (simp add: allow_open success_closed inv_allow)

text \<open>A failed probe reopens it at once, for a whole cooldown.\<close>

lemma failed_probe_reopens:
  assumes "inv b" and "\<not> closed b" and "fst (allow t b)"
  shows "\<not> closed (run [Req t, Fail u] b) \<and> retry_at (run [Req t, Fail u] b) = u + pause b"
  using assms failure_probe [of "snd (allow t b)" u]
  by (simp add: inv_allow allow_probing pause_allow)

end

end
