(* ===== verification/Plugin_Breaker.thy ===== *)
theory Plugin_Breaker
  imports Breaker_Contract
begin

section \<open>The plugin circuit breaker (internal/dataplane/pipeline/breaker.go)\<close>

text \<open>
  The pipeline's own breaker: an \<open>open\<close> flag instead of three states, half-open being open with
  the cooldown elapsed, and a \<open>justOpened\<close> flag that is read once. A failure that arrives while
  it is open is counted without extending the cooldown, unlike the backend breaker's.
\<close>

record plugin_breaker =
  pb_threshold :: int
  pb_cooldown :: int
  pb_consecutive :: int
  pb_open :: bool
  pb_openedAt :: int
  pb_probeInFlight :: bool
  pb_justOpened :: bool

definition new_plugin_breaker :: "int \<Rightarrow> int \<Rightarrow> plugin_breaker" where
  "new_plugin_breaker threshold cooldown =
     \<lparr>pb_threshold = (if threshold < 1 then 1 else threshold), pb_cooldown = cooldown,
      pb_consecutive = 0, pb_open = False, pb_openedAt = 0, pb_probeInFlight = False,
      pb_justOpened = False\<rparr>"

definition pb_Allow :: "int \<Rightarrow> plugin_breaker \<Rightarrow> bool \<times> plugin_breaker" where
  "pb_Allow now b =
     (if \<not> pb_open b then (True, b)
      else if now - pb_openedAt b < pb_cooldown b then (False, b)
      else if pb_probeInFlight b then (False, b)
      else (True, b\<lparr>pb_probeInFlight := True\<rparr>))"

definition pb_Success :: "plugin_breaker \<Rightarrow> plugin_breaker" where
  "pb_Success b = b\<lparr>pb_consecutive := 0, pb_open := False, pb_probeInFlight := False\<rparr>"

definition pb_Failure :: "int \<Rightarrow> plugin_breaker \<Rightarrow> plugin_breaker" where
  "pb_Failure now b =
     (if pb_probeInFlight b
      then b\<lparr>pb_open := True, pb_openedAt := now, pb_probeInFlight := False\<rparr>
      else
        let b' = b\<lparr>pb_consecutive := pb_consecutive b + 1\<rparr>
        in if pb_consecutive b' \<ge> pb_threshold b' \<and> \<not> pb_open b'
           then b'\<lparr>pb_open := True, pb_openedAt := now, pb_justOpened := True\<rparr>
           else b')"

definition JustOpened :: "plugin_breaker \<Rightarrow> bool \<times> plugin_breaker" where
  "JustOpened b = (if pb_justOpened b then (True, b\<lparr>pb_justOpened := False\<rparr>) else (False, b))"

definition pb_Consecutive :: "plugin_breaker \<Rightarrow> int" where
  "pb_Consecutive b = pb_consecutive b"

definition pb_State :: "int \<Rightarrow> plugin_breaker \<Rightarrow> string" where
  "pb_State now b =
     (if \<not> pb_open b then ''closed''
      else if now - pb_openedAt b \<ge> pb_cooldown b then ''half_open''
      else ''open'')"

subsection \<open>The invariant and the contract\<close>

definition pb_inv :: "plugin_breaker \<Rightarrow> bool" where
  "pb_inv b =
     (1 \<le> pb_threshold b \<and> (pb_probeInFlight b \<longrightarrow> pb_open b) \<and>
      (\<not> pb_open b \<longleftrightarrow> pb_consecutive b < pb_threshold b))"

definition pb_closed :: "plugin_breaker \<Rightarrow> bool" where
  "pb_closed b = (\<not> pb_open b)"

definition pb_retry_time :: "plugin_breaker \<Rightarrow> int" where
  "pb_retry_time b = pb_openedAt b + pb_cooldown b"

lemmas pb_ops = pb_Allow_def pb_Success_def pb_Failure_def JustOpened_def Let_def
lemmas pb_obs = pb_inv_def pb_closed_def pb_retry_time_def

lemma new_plugin_breaker_inv: "pb_inv (new_plugin_breaker threshold cooldown)"
  by (simp add: new_plugin_breaker_def pb_inv_def)

lemma JustOpened_inv: "pb_inv b \<Longrightarrow> pb_inv (snd (JustOpened b))"
  by (simp add: JustOpened_def pb_inv_def)

interpretation plugin: circuit_breaker pb_Allow pb_Success pb_Failure pb_inv pb_closed
  pb_probeInFlight pb_retry_time pb_threshold pb_consecutive pb_cooldown
  by unfold_locales (auto simp: pb_ops pb_obs split: if_splits)

end
