(* ===== verification/Pipeline_Engine.thy ===== *)
theory Pipeline_Engine
  imports Pipeline_Verdict Plugin_Breaker "HOL-Library.Word"
begin

unbundle bit_operations_syntax

section \<open>The hook engine (internal/dataplane/pipeline/engine.go)\<close>

text \<open>
  One hook runs its plugins in order under two budgets, combines their verdicts and records an
  outcome for each. The state threaded through a run is the engine's breakers, the request's payload
  and consumed budget, and its trace. The clock is an arbitrary function of the number of readings
  taken (\<open>w_tick\<close>): every \<open>time.Now()\<close> of the code is one reading, so nothing is assumed about how
  long anything takes. A host is what the resolver returns for a manifest; what it answers may
  depend on when it is asked. Metrics, spans and logs are left out. One run is one goroutine's
  work; what concurrent requests do to a shared breaker is the breaker contract's subject.
\<close>

subsection \<open>Names\<close>

definition hookName :: "Hook \<Rightarrow> string" where
  "hookName h = (case h of
     HOOK_ON_REQUEST \<Rightarrow> ''on_request'' | HOOK_ON_IDENTITY \<Rightarrow> ''on_identity''
   | HOOK_ON_CATALOG \<Rightarrow> ''on_catalog'' | HOOK_ON_TOOL_CALL \<Rightarrow> ''on_tool_call''
   | HOOK_ON_TOOL_RESULT \<Rightarrow> ''on_tool_result'' | HOOK_ON_RESPONSE \<Rightarrow> ''on_response''
   | HOOK_ON_AUDIT \<Rightarrow> ''on_audit'' | HOOK_UNSPECIFIED \<Rightarrow> ''unspecified'')"

definition rolloutName :: "RolloutState \<Rightarrow> string" where
  "rolloutName r = (case r of
     ROLLOUT_CANARY \<Rightarrow> ''canary'' | ROLLOUT_ENFORCE \<Rightarrow> ''enforce'' | _ \<Rightarrow> ''shadow'')"

definition failureModeName :: "FailureMode \<Rightarrow> string" where
  "failureModeName m = (if m = FAILURE_CLOSED then ''closed'' else ''open'')"

definition effectClassName :: "EffectClass \<Rightarrow> string" where
  "effectClassName ec = (case ec of
     EFFECT_WRITE \<Rightarrow> ''write'' | EFFECT_DESTRUCTIVE \<Rightarrow> ''destructive'' | _ \<Rightarrow> ''read'')"

subsection \<open>Canary sampling\<close>

text \<open>FNV-1a on 32 bits (\<open>hash/fnv\<close>), and the sample: the remainder is below 100, so the conversion
  to \<open>int32\<close> is exact.\<close>

definition fnv32a :: "string \<Rightarrow> 32 word" where
  "fnv32a s = fold (\<lambda>c h. (h XOR of_nat (of_char c)) * 16777619) s 2166136261"

definition hashSample :: "string \<Rightarrow> int \<Rightarrow> bool" where
  "hashSample requestID percent =
     (if percent \<le> 0 then False
      else if percent \<ge> 100 then True
      else uint (fnv32a requestID) mod 100 < percent)"

subsection \<open>Configuration, request and state\<close>

record Invocation =
  inv_Hook :: Hook
  inv_Context :: string
  inv_Shadow :: bool
  inv_Deadline :: int

text \<open>\<open>Invoke\<close>: an error text, or a verdict pointer that may be nil; the first argument is the number
  of clock readings taken before the call.\<close>

type_synonym Host = "nat \<Rightarrow> Invocation \<Rightarrow> string + Verdict option"

record Options =
  op_TotalBudget :: int
  op_HookBudget :: int
  op_PluginBudget :: int
  op_CircuitFailureThreshold :: int
  op_CircuitCooldown :: int
  op_Hosts :: "(PluginManifest \<Rightarrow> string + Host) option"
  op_SampleFn :: "(string \<Rightarrow> int \<Rightarrow> bool) option"

text \<open>Nanoseconds, as \<open>time.Duration\<close>.\<close>

definition Millisecond :: int where "Millisecond = 1000000"
definition Second :: int where "Second = 1000 * Millisecond"

definition New :: "Options \<Rightarrow> string + Options" where
  "New opts =
     (if op_Hosts opts = None then Inl ''pipeline: a host resolver is required''
      else Inr (opts
        \<lparr>op_TotalBudget := (if op_TotalBudget opts \<le> 0 then 250 * Millisecond else op_TotalBudget opts),
         op_HookBudget := (if op_HookBudget opts \<le> 0 then 50 * Millisecond else op_HookBudget opts),
         op_PluginBudget := (if op_PluginBudget opts \<le> 0 then 25 * Millisecond else op_PluginBudget opts),
         op_CircuitFailureThreshold :=
           (if op_CircuitFailureThreshold opts < 1 then 5 else op_CircuitFailureThreshold opts),
         op_CircuitCooldown :=
           (if op_CircuitCooldown opts \<le> 0 then 30 * Second else op_CircuitCooldown opts),
         op_SampleFn := (case op_SampleFn opts of None \<Rightarrow> Some hashSample | Some f \<Rightarrow> Some f)\<rparr>))"

text \<open>The resolver and the sampling function of an engine \<open>New\<close> returned are set.\<close>

definition resolve_host :: "Options \<Rightarrow> PluginManifest \<Rightarrow> string + Host" where
  "resolve_host opts m = (case op_Hosts opts of None \<Rightarrow> Inl [] | Some f \<Rightarrow> f m)"

definition sample :: "Options \<Rightarrow> string \<Rightarrow> int \<Rightarrow> bool" where
  "sample opts rid pct = (case op_SampleFn opts of None \<Rightarrow> False | Some f \<Rightarrow> f rid pct)"

record HookRequest =
  rq_RequestID :: string
  rq_Plugins :: "PluginManifest list"
  rq_Hook :: Hook
  rq_EffectClass :: EffectClass

record World =
  w_tick :: nat
  w_breakers :: "(string \<times> plugin_breaker) list"
  w_payload :: string
  w_consumed :: int
  w_hooks :: "HookTrace list"
  w_traceConsumedUS :: int
  w_traceTotalMS :: int

record HookResult =
  hr_Decision :: Decision
  hr_Reason :: string
  hr_DecidedBy :: string
  hr_Payload :: "string option"
  hr_Annotations :: "(string \<times> json) list"
  hr_InputRequests :: string
  hr_PluginState :: string

definition now :: "(nat \<Rightarrow> int) \<Rightarrow> World \<Rightarrow> int \<times> World" where
  "now clock w = (clock (w_tick w), w\<lparr>w_tick := Suc (w_tick w)\<rparr>)"

subsection \<open>Budgets, policies and breakers\<close>

definition requestRemaining :: "Options \<Rightarrow> World \<Rightarrow> int" where
  "requestRemaining opts w = op_TotalBudget opts - w_consumed w"

definition addConsumed :: "int \<Rightarrow> World \<Rightarrow> World" where
  "addConsumed d w = w\<lparr>w_consumed := w_consumed w + d\<rparr>"

definition hookBudget :: "Options \<Rightarrow> World \<Rightarrow> int" where
  "hookBudget opts w =
     (if requestRemaining opts w < op_HookBudget opts then requestRemaining opts w
      else op_HookBudget opts)"

definition pluginBudget :: "Options \<Rightarrow> PluginManifest \<Rightarrow> int" where
  "pluginBudget opts m =
     (if pm_BudgetMs m > 0 then pm_BudgetMs m * Millisecond else op_PluginBudget opts)"

definition shouldEnforce :: "Options \<Rightarrow> HookRequest \<Rightarrow> PluginManifest \<Rightarrow> bool" where
  "shouldEnforce opts req m =
     (case pm_Rollout m of
        ROLLOUT_ENFORCE \<Rightarrow> True
      | ROLLOUT_CANARY \<Rightarrow> sample opts (rq_RequestID req) (pm_CanaryPercent m)
      | _ \<Rightarrow> False)"

definition failureMode :: "PluginManifest \<Rightarrow> EffectClass \<Rightarrow> FailureMode" where
  "failureMode m effect =
     (case map_of (pm_FailurePolicy m) (EffectClass_String effect) of
        Some mode \<Rightarrow> if mode \<noteq> FAILURE_UNSPECIFIED then mode else FAILURE_OPEN
      | None \<Rightarrow> FAILURE_OPEN)"

definition breakerFor :: "Options \<Rightarrow> string \<Rightarrow> World \<Rightarrow> plugin_breaker \<times> World" where
  "breakerFor opts pluginID w =
     (case map_of (w_breakers w) pluginID of
        Some br \<Rightarrow> (br, w)
      | None \<Rightarrow>
          (let br = new_plugin_breaker (op_CircuitFailureThreshold opts) (op_CircuitCooldown opts)
           in (br, w\<lparr>w_breakers := obj_set pluginID br (w_breakers w)\<rparr>)))"

definition set_breaker :: "string \<Rightarrow> plugin_breaker \<Rightarrow> World \<Rightarrow> World" where
  "set_breaker pluginID br w = w\<lparr>w_breakers := obj_set pluginID br (w_breakers w)\<rparr>"

definition CircuitState :: "(nat \<Rightarrow> int) \<Rightarrow> string \<Rightarrow> World \<Rightarrow> string" where
  "CircuitState clock pluginID w =
     (case map_of (w_breakers w) pluginID of
        None \<Rightarrow> ''closed'' | Some br \<Rightarrow> pb_State (clock (w_tick w)) br)"

definition blank_outcome :: "PluginManifest \<Rightarrow> Hook \<Rightarrow> Outcome" where
  "blank_outcome m hook =
     \<lparr>o_PluginID = pm_Id m, o_PluginName = pm_Name m, o_Hook = hookName hook,
      o_Rollout = rolloutName (pm_Rollout m), o_Ran = False, o_Skipped = False,
      o_SkipReason = SkipNone, o_Verdict = None, o_Enforced = False, o_Diverged = False,
      o_DurationUS = 0, o_BudgetUS = 0, o_Error = NoError, o_FailureMode = []\<rparr>"

definition skipOutcome :: "PluginManifest \<Rightarrow> Hook \<Rightarrow> SkipReason \<Rightarrow> Outcome" where
  "skipOutcome m hook reason = (blank_outcome m hook)\<lparr>o_Skipped := True, o_SkipReason := reason\<rparr>"

subsection \<open>One plugin\<close>

text \<open>The parameters of a run: the decoders of \<open>ApplyPatch\<close>, the configured engine, the clock and the
  request.\<close>

record Env =
  en_decode :: "string \<Rightarrow> json option"
  en_decodeOps :: "string \<Rightarrow> PatchOp list option"
  en_opts :: Options
  en_clock :: "nat \<Rightarrow> int"
  en_req :: HookRequest

definition failClosedReason :: "PluginManifest \<Rightarrow> EffectClass \<Rightarrow> string" where
  "failClosedReason m effect =
     pm_Name m @ '' could not evaluate this request and is configured to fail closed for '' @
     effectClassName effect @ '' tools''"

text \<open>What is made of the host's answer (from \<open>if err != nil\<close> on): the failed, the invalid and the
  accepted verdict.\<close>

definition settle ::
  "Env \<Rightarrow> PluginManifest \<Rightarrow> bool \<Rightarrow> string + Verdict option \<Rightarrow> Outcome \<Rightarrow> plugin_breaker \<Rightarrow> World \<Rightarrow>
   Outcome \<times> World" where
  "settle env m enforce answer out br w =
     (let mode = failureMode m (rq_EffectClass (en_req env)) in
      case answer of
        Inl err \<Rightarrow>
          (let (t, w1) = now (en_clock env) w;
               br1 = snd (JustOpened (pb_Failure t br));
               out1 = out\<lparr>o_Error := PluginError err, o_FailureMode := failureModeName mode\<rparr>
           in (if mode = FAILURE_CLOSED \<and> enforce
               then out1\<lparr>o_Enforced := True,
                         o_Verdict := Some (plain_verdict DecisionDeny
                           (failClosedReason m (rq_EffectClass (en_req env))))\<rparr>
               else out1,
               set_breaker (pm_Id m) br1 w1))
      | Inr vo \<Rightarrow>
          (let v = (case vo of None \<Rightarrow> plain_verdict DecisionAllow [] | Some v \<Rightarrow> v) in
           case Verdict_Validate v m of
             Inl e \<Rightarrow>
               (let (t, w1) = now (en_clock env) w
                in (out\<lparr>o_Error := BadVerdict e, o_FailureMode := failureModeName mode\<rparr>,
                    set_breaker (pm_Id m) (pb_Failure t br) w1))
           | Inr _ \<Rightarrow>
               (out\<lparr>o_Verdict := Some v, o_Enforced := enforce,
                    o_Diverged := (\<not> enforce \<and> v_Decision v \<noteq> DecisionAllow \<and>
                                   v_Decision v \<noteq> DecisionAnnotate)\<rparr>,
                set_breaker (pm_Id m) (pb_Success br) w)))"

definition runPlugin :: "Env \<Rightarrow> PluginManifest \<Rightarrow> int \<Rightarrow> World \<Rightarrow> Outcome \<times> World" where
  "runPlugin env m hookDeadline w =
     (let opts = en_opts env; req = en_req env; clock = en_clock env;
          out = blank_outcome m (rq_Hook req);
          (br0, w1) = breakerFor opts (pm_Id m) w;
          (t0, w2) = now clock w1;
          (ok, br) = pb_Allow t0 br0;
          w3 = set_breaker (pm_Id m) br w2
      in if \<not> ok then (out\<lparr>o_Skipped := True, o_SkipReason := SkipCircuitOpen\<rparr>, w3)
         else case resolve_host opts m of
           Inl err \<Rightarrow>
             (out\<lparr>o_Skipped := True, o_SkipReason := SkipHostUnavailable, o_Error := HostError err,
                  o_FailureMode := failureModeName (failureMode m (rq_EffectClass req))\<rparr>, w3)
         | Inr host \<Rightarrow>
             (let enforce = shouldEnforce opts req m;
                  (t1, w4) = now clock w3;
                  deadline = (if t1 + pluginBudget opts m > hookDeadline then hookDeadline
                              else t1 + pluginBudget opts m);
                  (t2, w5) = now clock w4;
                  (start, w6) = now clock w5;
                  answer = host (w_tick w6)
                    \<lparr>inv_Hook = rq_Hook req, inv_Context = w_payload w, inv_Shadow = \<not> enforce,
                     inv_Deadline = deadline\<rparr>;
                  (end_at, w7) = now clock w6
              in settle env m enforce answer
                   (out\<lparr>o_BudgetUS := tdiv (deadline - t2) 1000, o_Ran := True,
                        o_DurationUS := tdiv (end_at - start) 1000\<rparr>)
                   br (addConsumed (end_at - start) w7)))"

subsection \<open>One hook\<close>

fun markShortCircuited :: "bool \<Rightarrow> PluginManifest list \<Rightarrow> PluginManifest \<Rightarrow> Hook \<Rightarrow> Outcome list" where
  "markShortCircuited seen [] decidedAt hook = []"
| "markShortCircuited seen (m # ms) decidedAt hook =
     (if pm_Id m = pm_Id decidedAt then markShortCircuited True ms decidedAt hook
      else if \<not> seen then markShortCircuited seen ms decidedAt hook
      else skipOutcome m hook SkipShortCircuited # markShortCircuited seen ms decidedAt hook)"

record LoopState =
  ls_result :: HookResult
  ls_outcomes :: "Outcome list"
  ls_exhausted :: bool
  ls_decided :: bool
  ls_world :: World

definition add_outcome :: "Outcome \<Rightarrow> LoopState \<Rightarrow> LoopState" where
  "add_outcome out s = s\<lparr>ls_outcomes := ls_outcomes s @ [out]\<rparr>"

text \<open>\<open>result.Annotations[manifest.Name+"."+k] = v\<close> for every annotation.\<close>

definition annotate :: "PluginManifest \<Rightarrow> (string \<times> json) list \<Rightarrow> HookResult \<Rightarrow> HookResult" where
  "annotate m anns r =
     r\<lparr>hr_Annotations := fold (\<lambda>(k, v). obj_set (pm_Name m @ ''.'' @ k) v) anns (hr_Annotations r)\<rparr>"

text \<open>Acting on an enforced verdict; \<open>ls_decided\<close> is the early return of a deny or a defer.\<close>

definition act_on :: "Env \<Rightarrow> PluginManifest \<Rightarrow> Outcome \<Rightarrow> Verdict \<Rightarrow> LoopState \<Rightarrow> LoopState" where
  "act_on env m out v s =
     (let req = en_req env; r = ls_result s; w = ls_world s;
          preempted = markShortCircuited False (rq_Plugins req) m (rq_Hook req) in
      case v_Decision v of
        DecisionDeny \<Rightarrow>
          s\<lparr>ls_result := r\<lparr>hr_Decision := DecisionDeny, hr_Reason := v_Reason v, hr_DecidedBy := pm_Name m\<rparr>,
             ls_outcomes := ls_outcomes s @ [out] @ preempted, ls_decided := True\<rparr>
      | DecisionDefer \<Rightarrow>
          s\<lparr>ls_result := r\<lparr>hr_Decision := DecisionDefer, hr_Reason := v_Reason v,
                            hr_DecidedBy := pm_Name m, hr_InputRequests := v_InputRequests v,
                            hr_PluginState := v_PluginState v\<rparr>,
             ls_outcomes := ls_outcomes s @ [out] @ preempted, ls_decided := True\<rparr>
      | DecisionMutate \<Rightarrow>
          (case ApplyPatch (en_decode env) (en_decodeOps env) (w_payload w) (v_Patch v) (pm_Writes m) of
             Inl e \<Rightarrow> add_outcome (out\<lparr>o_Error := BadPatch e, o_Enforced := False\<rparr>) s
           | Inr patched \<Rightarrow>
               (add_outcome out s)
                 \<lparr>ls_world := w\<lparr>w_payload := patched\<rparr>,
                  ls_result := r\<lparr>hr_Payload := Some patched, hr_Decision := DecisionMutate,
                                 hr_DecidedBy := pm_Name m\<rparr>\<rparr>)
      | DecisionAnnotate \<Rightarrow> (add_outcome out s)\<lparr>ls_result := annotate m (v_Annotations v) r\<rparr>
      | _ \<Rightarrow> add_outcome out s)"

text \<open>One turn of the loop over the plugins.\<close>

definition loop_step :: "Env \<Rightarrow> int \<Rightarrow> PluginManifest \<Rightarrow> LoopState \<Rightarrow> LoopState" where
  "loop_step env hookDeadline m s =
     (let hook = rq_Hook (en_req env); w = ls_world s in
      if requestRemaining (en_opts env) w \<le> 0
      then add_outcome (skipOutcome m hook SkipBudgetExalted) s
      else
        (let (t, w1) = now (en_clock env) w in
         if t > hookDeadline
         then (add_outcome (skipOutcome m hook SkipHookBudget) s)\<lparr>ls_exhausted := True, ls_world := w1\<rparr>
         else
           (let (out, w2) = runPlugin env m hookDeadline w1; s2 = s\<lparr>ls_world := w2\<rparr> in
            if \<not> o_Enforced out then add_outcome out s2
            else case o_Verdict out of
                   None \<Rightarrow> add_outcome out s2
                 | Some v \<Rightarrow> act_on env m out v s2)))"

fun run_loop :: "Env \<Rightarrow> int \<Rightarrow> PluginManifest list \<Rightarrow> LoopState \<Rightarrow> LoopState" where
  "run_loop env hookDeadline [] s = s"
| "run_loop env hookDeadline (m # ms) s =
     (let s' = loop_step env hookDeadline m s
      in if ls_decided s' then s' else run_loop env hookDeadline ms s')"

definition finishHook :: "Env \<Rightarrow> HookTrace \<Rightarrow> int \<Rightarrow> World \<Rightarrow> World" where
  "finishHook env ht start w =
     (let (t, w1) = now (en_clock env) w
      in w1\<lparr>w_hooks := w_hooks w1 @ [ht\<lparr>ht_DurationUS := tdiv (t - start) 1000\<rparr>],
            w_traceConsumedUS := tdiv (w_consumed w1) 1000,
            w_traceTotalMS := tdiv (op_TotalBudget (en_opts env)) Millisecond\<rparr>)"

definition allow_result :: HookResult where
  "allow_result =
     \<lparr>hr_Decision = DecisionAllow, hr_Reason = [], hr_DecidedBy = [], hr_Payload = None,
      hr_Annotations = [], hr_InputRequests = [], hr_PluginState = []\<rparr>"

definition Run :: "Env \<Rightarrow> World \<Rightarrow> HookResult \<times> World" where
  "Run env w =
     (let req = en_req env; opts = en_opts env;
          (start, w1) = now (en_clock env) w;
          ht = \<lparr>ht_Hook = hookName (rq_Hook req), ht_Outcomes = [], ht_DurationUS = 0,
                ht_BudgetMS = tdiv (hookBudget opts w1) Millisecond, ht_Exhausted = False\<rparr> in
      if rq_Plugins req = [] then (allow_result, w1\<lparr>w_hooks := w_hooks w1 @ [ht]\<rparr>)
      else
        (let s = run_loop env (start + hookBudget opts w1) (rq_Plugins req)
                   \<lparr>ls_result = allow_result, ls_outcomes = [], ls_exhausted = False,
                    ls_decided = False, ls_world = w1\<rparr>;
             w2 = finishHook env (ht\<lparr>ht_Outcomes := ls_outcomes s, ht_Exhausted := ls_exhausted s\<rparr>)
                    start (ls_world s)
         in if ls_decided s then (ls_result s, w2)
            else (if hr_Payload (ls_result s) = None
                  then (ls_result s)\<lparr>hr_Payload := Some (w_payload w2)\<rparr> else ls_result s, w2)))"

end
