(* ===== verification/Pipeline_Props.thy ===== *)
theory Pipeline_Props
  imports Pipeline_Engine
begin

section \<open>Properties of the hook engine\<close>

text \<open>
  What a run of one hook guarantees: every plugin is accounted for, the decision is the one the
  trace shows, shadow plugins change nothing, a failed mandatory check denies, and where a mandatory
  check that cannot run does not deny. The lemmas first say what one turn of the loop contributes.
\<close>

subsection \<open>What one plugin contributes\<close>

definition final_decision :: "Decision \<Rightarrow> bool" where
  "final_decision d = (d = DecisionDeny \<or> d = DecisionDefer)"

text \<open>An outcome that ends the hook.\<close>

definition decisive :: "Outcome \<Rightarrow> bool" where
  "decisive out = (o_Enforced out \<and> (\<exists>v. o_Verdict out = Some v \<and> final_decision (v_Decision v)))"

text \<open>An outcome that is an enforced denial.\<close>

definition denies :: "Outcome \<Rightarrow> bool" where
  "denies out = (o_Enforced out \<and> (\<exists>v. o_Verdict out = Some v \<and> v_Decision v = DecisionDeny))"

lemma denies_decisive: "denies out \<Longrightarrow> decisive out"
  by (auto simp: denies_def decisive_def final_decision_def)

lemma skip_not_decisive [simp]: "\<not> decisive (skipOutcome m h r)"
  by (simp add: decisive_def skipOutcome_def blank_outcome_def)

lemma skip_simps [simp]:
  "o_PluginID (skipOutcome m h r) = pm_Id m" "o_PluginName (skipOutcome m h r) = pm_Name m"
  "o_Enforced (skipOutcome m h r) = False" "o_Error (skipOutcome m h r) = NoError"
  "o_Ran (skipOutcome m h r) = False" "o_SkipReason (skipOutcome m h r) = r"
  "o_Verdict (skipOutcome m h r) = None"
  by (simp_all add: skipOutcome_def blank_outcome_def)

lemma blank_simps [simp]:
  "o_PluginID (blank_outcome m h) = pm_Id m" "o_PluginName (blank_outcome m h) = pm_Name m"
  "o_Enforced (blank_outcome m h) = False" "o_Error (blank_outcome m h) = NoError"
  by (simp_all add: blank_outcome_def)

lemma world_simps [simp]:
  "w_payload (snd (now c w)) = w_payload w" "w_consumed (snd (now c w)) = w_consumed w"
  "w_hooks (snd (now c w)) = w_hooks w" "w_breakers (snd (now c w)) = w_breakers w"
  "w_payload (set_breaker i b w) = w_payload w" "w_hooks (set_breaker i b w) = w_hooks w"
  "w_consumed (set_breaker i b w) = w_consumed w"
  "w_breakers (set_breaker i b w) = obj_set i b (w_breakers w)"
  "w_payload (addConsumed d w) = w_payload w" "w_hooks (addConsumed d w) = w_hooks w"
  "w_breakers (addConsumed d w) = w_breakers w"
  "w_payload (snd (breakerFor o' i w)) = w_payload w" "w_hooks (snd (breakerFor o' i w)) = w_hooks w"
  "w_consumed (snd (breakerFor o' i w)) = w_consumed w"
  by (simp_all add: now_def set_breaker_def addConsumed_def breakerFor_def Let_def split: option.splits)

lemma settle_spec:
  assumes "settle env m enforce answer out br w = (out', w')"
    and "o_PluginID out = pm_Id m" "o_PluginName out = pm_Name m" "\<not> o_Enforced out"
  shows "o_PluginID out' = pm_Id m \<and> o_PluginName out' = pm_Name m \<and>
    (o_Enforced out' \<longrightarrow> enforce \<and> o_Verdict out' \<noteq> None) \<and>
    (\<forall>e. o_Error out' = PluginError e \<longrightarrow> o_Error out \<noteq> PluginError e \<longrightarrow> enforce \<longrightarrow>
       failureMode m (rq_EffectClass (en_req env)) = FAILURE_CLOSED \<longrightarrow> denies out') \<and>
    w_payload w' = w_payload w \<and> w_hooks w' = w_hooks w"
proof (cases answer)
  case (Inl err)
  with assms show ?thesis
    by (auto simp: settle_def Let_def now_def set_breaker_def denies_def
        plain_verdict_def split: prod.splits if_splits)
next
  case (Inr vo)
  with assms show ?thesis
    by (auto simp: settle_def Let_def now_def set_breaker_def split: prod.splits sum.splits option.splits)
qed

lemma runPlugin_spec:
  assumes "runPlugin env m dl w = (out, w')"
  shows "o_PluginID out = pm_Id m \<and> o_PluginName out = pm_Name m \<and>
    (o_Enforced out \<longrightarrow> shouldEnforce (en_opts env) (en_req env) m \<and> o_Verdict out \<noteq> None) \<and>
    (\<forall>e. o_Error out = PluginError e \<longrightarrow> shouldEnforce (en_opts env) (en_req env) m \<longrightarrow>
       failureMode m (rq_EffectClass (en_req env)) = FAILURE_CLOSED \<longrightarrow> denies out) \<and>
    w_payload w' = w_payload w \<and> w_hooks w' = w_hooks w"
proof -
  obtain br0 w1 where b: "breakerFor (en_opts env) (pm_Id m) w = (br0, w1)" by fastforce
  obtain t0 w2 where t: "now (en_clock env) w1 = (t0, w2)" by fastforce
  obtain ok br where a: "pb_Allow t0 br0 = (ok, br)" by fastforce
  let ?w3 = "set_breaker (pm_Id m) br w2"
  have p: "w_payload ?w3 = w_payload w" "w_hooks ?w3 = w_hooks w"
    using world_simps(12,13) [of "en_opts env" "pm_Id m" w] world_simps(1,3) [of "en_clock env" w1] b t
    by simp_all
  show ?thesis
  proof (cases "ok \<and> is_ok (resolve_host (en_opts env) m)")
    case False
    with assms b t a p show ?thesis
      by (cases "resolve_host (en_opts env) m") (auto simp: runPlugin_def Let_def split: if_splits)
  next
    case True
    then obtain host where h: "ok" "resolve_host (en_opts env) m = Inr host" by (auto simp: is_ok_iff)
    obtain t1 w4 where n1: "now (en_clock env) ?w3 = (t1, w4)" by fastforce
    obtain t2 w5 where n2: "now (en_clock env) w4 = (t2, w5)" by fastforce
    obtain t3 w6 where n3: "now (en_clock env) w5 = (t3, w6)" by fastforce
    obtain t4 w7 where n4: "now (en_clock env) w6 = (t4, w7)" by fastforce
    have pp: "w_payload w7 = w_payload w" "w_hooks w7 = w_hooks w"
      using p n1 n2 n3 n4 world_simps(1,3) by (metis snd_conv)+
    obtain answer o0 where s: "settle env m (shouldEnforce (en_opts env) (en_req env) m) answer o0 br
        (addConsumed (t4 - t3) w7) = (out, w')" and o0: "o_PluginID o0 = pm_Id m"
        "o_PluginName o0 = pm_Name m" "\<not> o_Enforced o0" "o_Error o0 = NoError"
      using assms b t a h n1 n2 n3 n4 by (simp add: runPlugin_def Let_def)
    show ?thesis using settle_spec [OF s o0(1-3)] o0(4) pp by auto
  qed
qed

subsection \<open>What one turn of the loop contributes\<close>

text \<open>The outcome a plugin leaves: it names the plugin, and if a mandatory check failed it decides.\<close>

definition outcome_of :: "Env \<Rightarrow> PluginManifest \<Rightarrow> Outcome \<Rightarrow> bool" where
  "outcome_of env m out =
     (o_PluginID out = pm_Id m \<and> o_PluginName out = pm_Name m \<and>
      (o_Enforced out \<longrightarrow> shouldEnforce (en_opts env) (en_req env) m) \<and>
      (\<forall>e. o_Error out = PluginError e \<longrightarrow> shouldEnforce (en_opts env) (en_req env) m \<longrightarrow>
         failureMode m (rq_EffectClass (en_req env)) = FAILURE_CLOSED \<longrightarrow> denies out))"

definition continues :: "LoopState \<Rightarrow> Outcome \<Rightarrow> LoopState \<Rightarrow> bool" where
  "continues s out s' =
     (\<not> ls_decided s' \<and> ls_outcomes s' = ls_outcomes s @ [out] \<and> \<not> decisive out \<and>
      (final_decision (hr_Decision (ls_result s')) \<longrightarrow> final_decision (hr_Decision (ls_result s))))"

definition decides :: "Env \<Rightarrow> PluginManifest \<Rightarrow> LoopState \<Rightarrow> Outcome \<Rightarrow> LoopState \<Rightarrow> bool" where
  "decides env m s out s' =
     (ls_decided s' \<and> decisive out \<and>
      ls_outcomes s' = ls_outcomes s @ out #
        markShortCircuited False (rq_Plugins (en_req env)) m (rq_Hook (en_req env)) \<and>
      hr_DecidedBy (ls_result s') = o_PluginName out \<and>
      (\<exists>v. o_Verdict out = Some v \<and> v_Decision v = hr_Decision (ls_result s') \<and>
           hr_Reason (ls_result s') = v_Reason v))"

lemma annotate_simps [simp]:
  "hr_Decision (annotate m a r) = hr_Decision r" "hr_Payload (annotate m a r) = hr_Payload r"
  by (simp_all add: annotate_def)

lemma add_outcome_simps [simp]:
  "ls_outcomes (add_outcome out s) = ls_outcomes s @ [out]" "ls_result (add_outcome out s) = ls_result s"
  "ls_decided (add_outcome out s) = ls_decided s" "ls_world (add_outcome out s) = ls_world s"
  by (simp_all add: add_outcome_def)

lemma act_on_spec:
  assumes "\<not> ls_decided s" and "o_Enforced out" and "o_Verdict out = Some v" and "outcome_of env m out"
  shows "\<exists>out'. outcome_of env m out' \<and>
    (continues s out' (act_on env m out v s) \<or> decides env m s out' (act_on env m out v s)) \<and>
    w_hooks (ls_world (act_on env m out v s)) = w_hooks (ls_world s)"
proof (cases "final_decision (v_Decision v)")
  case True
  have "decides env m s out (act_on env m out v s)"
    using True assms
    by (auto simp: act_on_def Let_def decides_def decisive_def final_decision_def outcome_of_def)
  moreover have "w_hooks (ls_world (act_on env m out v s)) = w_hooks (ls_world s)"
    using True by (auto simp: act_on_def Let_def final_decision_def)
  ultimately show ?thesis using assms(4) by blast
next
  case False
  let ?patch = "ApplyPatch (en_decode env) (en_decodeOps env) (w_payload (ls_world s)) (v_Patch v) (pm_Writes m)"
  have nd: "\<not> decisive out" using False assms(3) by (simp add: decisive_def)
  show ?thesis
  proof (cases "v_Decision v = DecisionMutate \<and> (\<exists>e. ?patch = Inl e)")
    case True
    then obtain e where e: "?patch = Inl e" by blast
    let ?out = "out\<lparr>o_Error := BadPatch e, o_Enforced := False\<rparr>"
    have "outcome_of env m ?out" using assms(4) by (simp add: outcome_of_def)
    moreover have "continues s ?out (act_on env m out v s)"
      using True e assms(1) by (simp add: act_on_def Let_def continues_def decisive_def)
    ultimately show ?thesis using True e by (intro exI [of _ ?out]) (simp add: act_on_def Let_def)
  next
    case ok: False
    have "continues s out (act_on env m out v s) \<and>
        w_hooks (ls_world (act_on env m out v s)) = w_hooks (ls_world s)"
      using ok False assms(1) nd
      by (auto simp: act_on_def Let_def continues_def final_decision_def split: Decision.splits sum.splits)
    then show ?thesis using assms(4) by blast
  qed
qed

lemma loop_step_spec:
  assumes "\<not> ls_decided s"
  shows "\<exists>out. outcome_of env m out \<and>
    (continues s out (loop_step env dl m s) \<or> decides env m s out (loop_step env dl m s)) \<and>
    w_hooks (ls_world (loop_step env dl m s)) = w_hooks (ls_world s)"
proof (cases "requestRemaining (en_opts env) (ls_world s) \<le> 0")
  case True
  let ?out = "skipOutcome m (rq_Hook (en_req env)) SkipBudgetExalted"
  have "outcome_of env m ?out" by (simp add: outcome_of_def)
  with True assms show ?thesis
    by (intro exI [of _ ?out]) (simp add: loop_step_def Let_def continues_def)
next
  case r: False
  obtain t w1 where n: "now (en_clock env) (ls_world s) = (t, w1)" by fastforce
  have h1: "w_hooks w1 = w_hooks (ls_world s)" using n by (auto simp: now_def)
  show ?thesis
  proof (cases "t > dl")
    case True
    let ?out = "skipOutcome m (rq_Hook (en_req env)) SkipHookBudget"
    have "outcome_of env m ?out" by (simp add: outcome_of_def)
    with True r n h1 assms show ?thesis
      by (intro exI [of _ ?out]) (simp add: loop_step_def Let_def continues_def)
  next
    case False
    obtain out w2 where p: "runPlugin env m dl w1 = (out, w2)" by fastforce
    note sp = runPlugin_spec [OF p]
    have o: "outcome_of env m out" using sp by (simp add: outcome_of_def)
    show ?thesis
    proof (cases "o_Enforced out")
      case True
      with sp obtain v where v: "o_Verdict out = Some v" by auto
      have "loop_step env dl m s = act_on env m out v (s\<lparr>ls_world := w2\<rparr>)"
        using r n False p True v by (simp add: loop_step_def Let_def)
      with act_on_spec [of "s\<lparr>ls_world := w2\<rparr>" out v env m] assms True v o sp h1 show ?thesis
        by (auto simp: continues_def decides_def)
    next
      case e: False
      then have "\<not> decisive out" by (simp add: decisive_def)
      with e r n False p o sp h1 assms show ?thesis
        by (intro exI [of _ out]) (simp add: loop_step_def Let_def continues_def)
    qed
  qed
qed

subsection \<open>What the loop leaves\<close>

lemma short_ids:
  assumes "pm_Id m \<notin> pm_Id ` set ms"
  shows "map o_PluginID (markShortCircuited True ms m h) = map pm_Id ms"
  using assms by (induction ms) auto

lemma short_split:
  assumes "pm_Id m \<notin> pm_Id ` set pre" and "pm_Id m \<notin> pm_Id ` set ms"
  shows "map o_PluginID (markShortCircuited False (pre @ m # ms) m h) = map pm_Id ms"
  using assms by (induction pre) (auto simp: short_ids)

lemma short_skipped:
  "out \<in> set (markShortCircuited b ms m h) \<Longrightarrow>
   o_SkipReason out = SkipShortCircuited \<and> \<not> o_Ran out \<and> \<not> decisive out \<and> \<not> o_Enforced out \<and> o_Error out = NoError"
  by (induction ms arbitrary: b) (auto split: if_splits)

text \<open>How a run ends: undecided, with no decisive outcome; or decided by one outcome, with nothing
  decisive before it and only pre-empted plugins after it.\<close>

definition undecided_end :: "LoopState \<Rightarrow> bool" where
  "undecided_end s = (\<not> ls_decided s \<and> \<not> final_decision (hr_Decision (ls_result s)) \<and>
     (\<forall>out\<in>set (ls_outcomes s). \<not> decisive out))"

definition decided_end :: "LoopState \<Rightarrow> bool" where
  "decided_end s = (ls_decided s \<and>
     (\<exists>pre out post v. ls_outcomes s = pre @ out # post \<and> decisive out \<and>
        (\<forall>x\<in>set pre. \<not> decisive x) \<and>
        (\<forall>x\<in>set post. o_SkipReason x = SkipShortCircuited \<and> \<not> o_Ran x \<and> \<not> o_Enforced x) \<and>
        o_Verdict out = Some v \<and> v_Decision v = hr_Decision (ls_result s) \<and>
        v_Reason v = hr_Reason (ls_result s) \<and> o_PluginName out = hr_DecidedBy (ls_result s)))"

lemma run_loop_end:
  assumes "undecided_end s"
  shows "undecided_end (run_loop env dl ms s) \<or> decided_end (run_loop env dl ms s)"
  using assms
proof (induction ms arbitrary: s)
  case (Cons m ms)
  let ?s = "loop_step env dl m s"
  have "\<not> ls_decided s" using Cons.prems by (simp add: undecided_end_def)
  then obtain out where "continues s out ?s \<or> decides env m s out ?s" using loop_step_spec by blast
  then show ?case
  proof
    assume c: "continues s out ?s"
    then have "undecided_end ?s" using Cons.prems by (auto simp: undecided_end_def continues_def)
    then show ?thesis using Cons.IH c by (auto simp: Let_def continues_def)
  next
    assume d: "decides env m s out ?s"
    let ?post = "markShortCircuited False (rq_Plugins (en_req env)) m (rq_Hook (en_req env))"
    from d obtain v where v: "ls_outcomes ?s = ls_outcomes s @ out # ?post" "decisive out"
      "o_Verdict out = Some v" "v_Decision v = hr_Decision (ls_result ?s)"
      "v_Reason v = hr_Reason (ls_result ?s)" "o_PluginName out = hr_DecidedBy (ls_result ?s)"
      by (auto simp: decides_def)
    moreover have "\<forall>x\<in>set ?post. o_SkipReason x = SkipShortCircuited \<and> \<not> o_Ran x \<and> \<not> o_Enforced x"
      using short_skipped by blast
    moreover have "\<forall>x\<in>set (ls_outcomes s). \<not> decisive x"
      using Cons.prems by (simp add: undecided_end_def)
    ultimately have "decided_end ?s" using d unfolding decided_end_def decides_def by blast
    then show ?thesis using d by (simp add: Let_def decides_def)
  qed
qed simp

lemma run_loop_ids:
  assumes "\<not> ls_decided s" and "rq_Plugins (en_req env) = pre @ ms"
    and "distinct (map pm_Id (pre @ ms))" and "map o_PluginID (ls_outcomes s) = map pm_Id pre"
  shows "map o_PluginID (ls_outcomes (run_loop env dl ms s)) = map pm_Id (pre @ ms)"
  using assms
proof (induction ms arbitrary: s pre)
  case (Cons m ms)
  let ?s = "loop_step env dl m s"
  obtain out where o: "outcome_of env m out" and "continues s out ?s \<or> decides env m s out ?s"
    using loop_step_spec [OF Cons.prems(1)] by blast
  from this(2) show ?case
  proof
    assume c: "continues s out ?s"
    then have "map o_PluginID (ls_outcomes (run_loop env dl ms ?s)) = map pm_Id ((pre @ [m]) @ ms)"
      using Cons.prems o by (intro Cons.IH) (auto simp: continues_def outcome_of_def)
    then show ?thesis using c by (simp add: Let_def continues_def)
  next
    assume d: "decides env m s out ?s"
    then show ?thesis
      using Cons.prems o short_split [of m pre ms]
      by (auto simp: Let_def decides_def outcome_of_def)
  qed
qed simp

lemma run_loop_outcomes:
  assumes "\<not> ls_decided s" and "\<forall>out\<in>set (ls_outcomes s). \<exists>m\<in>set ps. outcome_of env m out"
    and "set ms \<subseteq> set ps" and "set (rq_Plugins (en_req env)) \<subseteq> set ps"
  shows "\<forall>out\<in>set (ls_outcomes (run_loop env dl ms s)).
    (\<exists>m\<in>set ps. outcome_of env m out) \<or> o_Error out = NoError \<and> \<not> o_Enforced out"
  using assms
proof (induction ms arbitrary: s)
  case (Cons m ms)
  let ?s = "loop_step env dl m s"
  obtain out where o: "outcome_of env m out" and "continues s out ?s \<or> decides env m s out ?s"
    using loop_step_spec [OF Cons.prems(1)] by blast
  from this(2) show ?case
  proof
    assume c: "continues s out ?s"
    then have "\<forall>x\<in>set (ls_outcomes ?s). \<exists>m\<in>set ps. outcome_of env m x"
      using Cons.prems o by (auto simp: continues_def)
    then show ?thesis using Cons.IH [of ?s] Cons.prems c by (simp add: Let_def continues_def)
  next
    assume d: "decides env m s out ?s"
    then have "\<forall>x\<in>set (ls_outcomes ?s). (\<exists>m\<in>set ps. outcome_of env m x) \<or> o_Error x = NoError \<and> \<not> o_Enforced x"
      using Cons.prems o short_skipped by (auto simp: decides_def)
    with d show ?thesis by (simp add: Let_def decides_def)
  qed
qed auto

lemma loop_step_shadow:
  assumes "\<not> shouldEnforce (en_opts env) (en_req env) m" and "\<not> ls_decided s"
  shows "ls_result (loop_step env dl m s) = ls_result s \<and> \<not> ls_decided (loop_step env dl m s) \<and>
    w_payload (ls_world (loop_step env dl m s)) = w_payload (ls_world s)"
proof -
  obtain t w1 where n: "now (en_clock env) (ls_world s) = (t, w1)" by fastforce
  obtain out w2 where p: "runPlugin env m dl w1 = (out, w2)" by fastforce
  have "w_payload w1 = w_payload (ls_world s)" using n by (auto simp: now_def)
  with assms n p runPlugin_spec [OF p] show ?thesis by (simp add: loop_step_def Let_def)
qed

lemma run_loop_shadow:
  assumes "\<forall>m\<in>set ms. \<not> shouldEnforce (en_opts env) (en_req env) m" and "\<not> ls_decided s"
  shows "ls_result (run_loop env dl ms s) = ls_result s \<and> \<not> ls_decided (run_loop env dl ms s) \<and>
    w_payload (ls_world (run_loop env dl ms s)) = w_payload (ls_world s)"
  using assms
proof (induction ms arbitrary: s)
  case (Cons m ms)
  then show ?case using loop_step_shadow [of env m s dl] by (simp add: Let_def)
qed simp

lemma run_loop_hooks: "\<not> ls_decided s \<Longrightarrow> w_hooks (ls_world (run_loop env dl ms s)) = w_hooks (ls_world s)"
proof (induction ms arbitrary: s)
  case (Cons m ms)
  obtain out where "w_hooks (ls_world (loop_step env dl m s)) = w_hooks (ls_world s)"
    using loop_step_spec [OF Cons.prems] by blast
  with Cons.IH [of "loop_step env dl m s"] show ?case by (simp add: Let_def)
qed simp

subsection \<open>A run\<close>

definition start_state :: "World \<Rightarrow> LoopState" where
  "start_state w = \<lparr>ls_result = allow_result, ls_outcomes = [], ls_exhausted = False,
     ls_decided = False, ls_world = w\<rparr>"

lemma start_state_simps [simp]:
  "ls_result (start_state w) = allow_result" "ls_outcomes (start_state w) = []"
  "\<not> ls_decided (start_state w)" "ls_world (start_state w) = w"
  by (simp_all add: start_state_def)

lemma start_undecided: "undecided_end (start_state w)"
  by (simp add: undecided_end_def allow_result_def final_decision_def)

text \<open>A run is its loop, then the bookkeeping of \<open>finishHook\<close>.\<close>

lemma Run_split:
  assumes "Run env w = (r, w')" and "s = run_loop env (fst (now (en_clock env) w) +
      hookBudget (en_opts env) (snd (now (en_clock env) w))) (rq_Plugins (en_req env))
      (start_state (snd (now (en_clock env) w)))"
  shows "\<exists>ht. w_hooks w' = w_hooks w @ [ht] \<and> ht_Outcomes ht = ls_outcomes s \<and>
    hr_Decision r = hr_Decision (ls_result s) \<and> hr_Reason r = hr_Reason (ls_result s) \<and>
    hr_DecidedBy r = hr_DecidedBy (ls_result s) \<and> hr_Annotations r = hr_Annotations (ls_result s) \<and>
    w_payload w' = w_payload (ls_world s)"
proof (cases "rq_Plugins (en_req env) = []")
  case True
  with assms show ?thesis by (auto simp: Run_def Let_def now_def)
next
  case False
  obtain t0 w1 where n: "now (en_clock env) w = (t0, w1)" by fastforce
  have h: "w_hooks (ls_world s) = w_hooks w"
    using assms(2) n run_loop_hooks [of "start_state w1" env] by (auto simp: now_def)
  show ?thesis
    using assms False n h
    by (auto simp: Run_def Let_def start_state_def finishHook_def now_def split: if_splits)
qed

subsection \<open>A concrete engine\<close>

definition wit_manifest :: "string \<Rightarrow> RolloutState \<Rightarrow> PluginManifest" where
  "wit_manifest i r =
     \<lparr>pm_Id = i, pm_Name = i, pm_Hooks = [HOOK_ON_TOOL_CALL], pm_Priority = 1, pm_BudgetMs = 0,
      pm_Reads = [], pm_Writes = [],
      pm_FailurePolicy = [(EffectClass_String EFFECT_DESTRUCTIVE, FAILURE_CLOSED)],
      pm_Rollout = r, pm_CanaryPercent = 0, pm_ToolsetIds = [],
      pm_Runtime = RUNTIME_WASM, pm_ArtifactRef = [], pm_ArtifactDigest = [], pm_ConfigJson = []\<rparr>"

text \<open>Two plugins: \<open>a\<close> always answers deny, \<open>b\<close> always fails.\<close>

definition wit_env :: "RolloutState \<Rightarrow> RolloutState \<Rightarrow> Env" where
  "wit_env ra rb =
     \<lparr>en_decode = (\<lambda>_. None), en_decodeOps = (\<lambda>_. None),
      en_opts = \<lparr>op_TotalBudget = 250, op_HookBudget = 50, op_PluginBudget = 25,
        op_CircuitFailureThreshold = 5, op_CircuitCooldown = 30,
        op_Hosts = Some (\<lambda>m. Inr (\<lambda>_ _. if pm_Id m = ''a''
          then Inr (Some (plain_verdict DecisionDeny ''no'')) else Inl ''boom'')),
        op_SampleFn = Some hashSample\<rparr>,
      en_clock = int,
      en_req = \<lparr>rq_RequestID = ''req'', rq_Plugins = [wit_manifest ''a'' ra, wit_manifest ''b'' rb],
        rq_Hook = HOOK_ON_TOOL_CALL, rq_EffectClass = EFFECT_DESTRUCTIVE\<rparr>\<rparr>"

definition wit_world :: World where
  "wit_world = \<lparr>w_tick = 0, w_breakers = [], w_payload = ''{}'', w_consumed = 0, w_hooks = [],
     w_traceConsumedUS = 0, w_traceTotalMS = 0\<rparr>"

lemma wit_distinct: "distinct (map pm_Id (rq_Plugins (en_req (wit_env ra rb))))"
  by (simp add: wit_env_def wit_manifest_def)

subsection \<open>Properties\<close>

text \<open>The trace accounts for every plugin. Whatever plugins, hosts, budgets and verdicts do, a run
  appends exactly one hook trace, with one outcome per configured plugin, in order: those that ran,
  those skipped, and those pre-empted by an earlier decision.\<close>

theorem run_accounts_for_every_plugin:
  assumes "distinct (map pm_Id (rq_Plugins (en_req env)))" and "Run env w = (r, w')"
  shows "\<exists>ht. w_hooks w' = w_hooks w @ [ht] \<and>
    map o_PluginID (ht_Outcomes ht) = map pm_Id (rq_Plugins (en_req env))"
  using Run_split [OF assms(2) refl] run_loop_ids [of "start_state w1" env "[]" for w1] assms(1)
  by fastforce

theorem run_accounts_for_every_plugin_witness:
  "\<exists>ht. w_hooks (snd (Run (wit_env ROLLOUT_ENFORCE ROLLOUT_ENFORCE) wit_world)) = [ht] \<and>
     map o_PluginID (ht_Outcomes ht) = [''a'', ''b'']"
  using run_accounts_for_every_plugin [OF wit_distinct surjective_pairing, of ROLLOUT_ENFORCE ROLLOUT_ENFORCE wit_world]
  by (simp add: wit_env_def wit_manifest_def wit_world_def)

text \<open>C31: the decision is the one the trace shows. A hook ends in a denial or a deferral exactly when
  some outcome is an enforced deny or defer; then that outcome is the first such one, its plugin is
  reported as the decider with its reason, and every later plugin was pre-empted without running.\<close>

theorem run_decision_is_traced:
  assumes "Run env w = (r, w')"
  shows "\<exists>ht. w_hooks w' = w_hooks w @ [ht] \<and>
    (final_decision (hr_Decision r) \<longleftrightarrow> (\<exists>out\<in>set (ht_Outcomes ht). decisive out)) \<and>
    (final_decision (hr_Decision r) \<longrightarrow>
       (\<exists>pre out post v. ht_Outcomes ht = pre @ out # post \<and> (\<forall>x\<in>set pre. \<not> decisive x) \<and>
          o_Enforced out \<and> o_Verdict out = Some v \<and> v_Decision v = hr_Decision r \<and>
          v_Reason v = hr_Reason r \<and> o_PluginName out = hr_DecidedBy r \<and>
          (\<forall>x\<in>set post. o_SkipReason x = SkipShortCircuited \<and> \<not> o_Ran x)))"
proof -
  obtain s ht where s: "w_hooks w' = w_hooks w @ [ht]" "ht_Outcomes ht = ls_outcomes s"
    "hr_Decision r = hr_Decision (ls_result s)" "hr_Reason r = hr_Reason (ls_result s)"
    "hr_DecidedBy r = hr_DecidedBy (ls_result s)" and e: "undecided_end s \<or> decided_end s"
    using Run_split [OF assms refl] run_loop_end [OF start_undecided] by metis
  from e show ?thesis
  proof
    assume "undecided_end s"
    with s show ?thesis by (intro exI [of _ ht]) (auto simp: undecided_end_def)
  next
    assume "decided_end s"
    then obtain pre out post v where d: "ls_outcomes s = pre @ out # post" "decisive out"
      "\<forall>x\<in>set pre. \<not> decisive x"
      "\<forall>x\<in>set post. o_SkipReason x = SkipShortCircuited \<and> \<not> o_Ran x \<and> \<not> o_Enforced x"
      "o_Verdict out = Some v" "v_Decision v = hr_Decision (ls_result s)"
      "v_Reason v = hr_Reason (ls_result s)" "o_PluginName out = hr_DecidedBy (ls_result s)"
      by (auto simp: decided_end_def)
    have f: "final_decision (hr_Decision r)" "o_Enforced out"
      using d(2,5,6) s(3) by (auto simp: decisive_def)
    have "\<exists>out\<in>set (ht_Outcomes ht). decisive out" using s(2) d(1,2) by simp
    moreover have "\<exists>pre out post v. ht_Outcomes ht = pre @ out # post \<and> (\<forall>x\<in>set pre. \<not> decisive x) \<and>
          o_Enforced out \<and> o_Verdict out = Some v \<and> v_Decision v = hr_Decision r \<and>
          v_Reason v = hr_Reason r \<and> o_PluginName out = hr_DecidedBy r \<and>
          (\<forall>x\<in>set post. o_SkipReason x = SkipShortCircuited \<and> \<not> o_Ran x)"
      by (rule exI [of _ pre], rule exI [of _ out], rule exI [of _ post], rule exI [of _ v])
         (use s d f in simp)
    ultimately show ?thesis using s(1) f(1) by blast
  qed
qed

theorem run_decision_is_traced_witness:
  "hr_Decision (fst (Run (wit_env ROLLOUT_ENFORCE ROLLOUT_ENFORCE) wit_world)) = DecisionDeny \<and>
   (\<exists>ht. w_hooks (snd (Run (wit_env ROLLOUT_ENFORCE ROLLOUT_ENFORCE) wit_world)) = [ht] \<and>
     (\<exists>out\<in>set (ht_Outcomes ht). decisive out))"
proof -
  have d: "hr_Decision (fst (Run (wit_env ROLLOUT_ENFORCE ROLLOUT_ENFORCE) wit_world)) = DecisionDeny"
    by code_simp
  then show ?thesis
    using run_decision_is_traced [OF surjective_pairing,
      of "wit_env ROLLOUT_ENFORCE ROLLOUT_ENFORCE" wit_world]
    by (auto simp: final_decision_def wit_world_def)
qed

text \<open>A shadow plugin changes nothing. When no configured plugin is to be enforced (shadow, unset,
  or outside the canary sample), the hook allows the request, decided by nobody, with no annotation
  and the payload untouched, whatever the plugins answer.\<close>

theorem shadow_plugins_change_nothing:
  assumes "\<forall>m\<in>set (rq_Plugins (en_req env)). \<not> shouldEnforce (en_opts env) (en_req env) m"
    and "Run env w = (r, w')"
  shows "hr_Decision r = DecisionAllow \<and> hr_DecidedBy r = [] \<and> hr_Annotations r = [] \<and>
    w_payload w' = w_payload w"
  using Run_split [OF assms(2) refl] run_loop_shadow [OF assms(1), of "start_state w1" for w1]
  by (auto simp: allow_result_def)

theorem shadow_plugins_change_nothing_witness:
  "hr_Decision (fst (Run (wit_env ROLLOUT_SHADOW ROLLOUT_CANARY) wit_world)) = DecisionAllow \<and>
   w_payload (snd (Run (wit_env ROLLOUT_SHADOW ROLLOUT_CANARY) wit_world)) = ''{}''"
proof -
  have "\<forall>m\<in>set (rq_Plugins (en_req (wit_env ROLLOUT_SHADOW ROLLOUT_CANARY))).
    \<not> shouldEnforce (en_opts (wit_env ROLLOUT_SHADOW ROLLOUT_CANARY))
        (en_req (wit_env ROLLOUT_SHADOW ROLLOUT_CANARY)) m"
    by (simp add: wit_env_def wit_manifest_def shouldEnforce_def sample_def hashSample_def)
  from shadow_plugins_change_nothing [OF this surjective_pairing, of wit_world]
  show ?thesis by (simp add: wit_world_def)
qed

lemma failed_check_denies:
  assumes "distinct (map pm_Id (rq_Plugins (en_req env)))" and "Run env w = (r, w')"
    and "w_hooks w' = w_hooks w @ [ht]" and "out \<in> set (ht_Outcomes ht)"
    and "o_Error out = PluginError e"
    and "m \<in> set (rq_Plugins (en_req env))" and "o_PluginID out = pm_Id m"
    and "shouldEnforce (en_opts env) (en_req env) m"
    and "failureMode m (rq_EffectClass (en_req env)) = FAILURE_CLOSED"
  shows "hr_Decision r = DecisionDeny \<and> hr_DecidedBy r = pm_Name m"
proof -
  obtain s where s: "ht_Outcomes ht = ls_outcomes s"
    "hr_Decision r = hr_Decision (ls_result s)" "hr_DecidedBy r = hr_DecidedBy (ls_result s)"
    and e: "undecided_end s \<or> decided_end s"
    and o: "\<forall>out\<in>set (ls_outcomes s). (\<exists>m\<in>set (rq_Plugins (en_req env)). outcome_of env m out) \<or>
        o_Error out = NoError \<and> \<not> o_Enforced out"
    using Run_split [OF assms(2) refl] assms(3) run_loop_end [OF start_undecided]
      run_loop_outcomes [of "start_state w1" "rq_Plugins (en_req env)" env "rq_Plugins (en_req env)" for w1]
    by fastforce
  with assms(4,5) obtain m' where "m' \<in> set (rq_Plugins (en_req env))" and m': "outcome_of env m' out"
    by auto
  with assms(1,6,7) have "m' = m" by (auto simp: outcome_of_def distinct_map inj_on_def)
  with m' assms(5,8,9) have d: "denies out" "o_PluginName out = pm_Name m"
    by (auto simp: outcome_of_def)
  with s(1) assms(4) e have "decided_end s"
    by (auto simp: undecided_end_def dest: denies_decisive)
  then obtain pre o' post v where "ls_outcomes s = pre @ o' # post" "\<forall>x\<in>set pre. \<not> decisive x"
      "\<forall>x\<in>set post. \<not> o_Enforced x" "o_Verdict o' = Some v" "v_Decision v = hr_Decision (ls_result s)"
      "o_PluginName o' = hr_DecidedBy (ls_result s)"
    by (auto simp: decided_end_def)
  moreover from this have "out = o'"
    using s(1) assms(4) d(1) denies_decisive by (auto simp: denies_def)
  ultimately show ?thesis using d s(2,3) by (auto simp: denies_def)
qed

text \<open>C5: a failed mandatory check denies. If a plugin that is enforced and configured to fail closed
  for the request's effect class ran and failed, the hook's decision is deny, decided by it.\<close>

theorem failed_mandatory_check_denies:
  assumes "distinct (map pm_Id (rq_Plugins (en_req env)))" and "Run env w = (r, w')"
    and "w_hooks w' = w_hooks w @ [ht]" and "out \<in> set (ht_Outcomes ht)"
    and "o_Error out = PluginError e"
    and "m \<in> set (rq_Plugins (en_req env))" and "o_PluginID out = pm_Id m"
    and "shouldEnforce (en_opts env) (en_req env) m"
    and "failureMode m (rq_EffectClass (en_req env)) = FAILURE_CLOSED"
  shows "hr_Decision r = DecisionDeny \<and> hr_DecidedBy r = pm_Name m"
  using assms by (rule failed_check_denies)

theorem failed_mandatory_check_denies_witness:
  "hr_Decision (fst (Run (wit_env ROLLOUT_SHADOW ROLLOUT_ENFORCE) wit_world)) = DecisionDeny \<and>
   hr_DecidedBy (fst (Run (wit_env ROLLOUT_SHADOW ROLLOUT_ENFORCE) wit_world)) = ''b''"
proof -
  let ?env = "wit_env ROLLOUT_SHADOW ROLLOUT_ENFORCE"
  have ev: "map (\<lambda>h. map (\<lambda>out. (o_Error out, o_PluginID out)) (ht_Outcomes h)) (w_hooks (snd (Run ?env wit_world))) =
      [[(NoError, ''a''), (PluginError ''boom'', ''b'')]]"
    by code_simp
  then obtain ht where h: "w_hooks (snd (Run ?env wit_world)) = w_hooks wit_world @ [ht]"
    and "map (\<lambda>out. (o_Error out, o_PluginID out)) (ht_Outcomes ht) = [(NoError, ''a''), (PluginError ''boom'', ''b'')]"
    by (auto simp: wit_world_def)
  then obtain out0 out where "ht_Outcomes ht = [out0, out]" and out: "o_Error out = PluginError ''boom''"
      "o_PluginID out = ''b''"
    by auto
  then have mem: "out \<in> set (ht_Outcomes ht)" by simp
  have m: "wit_manifest ''b'' ROLLOUT_ENFORCE \<in> set (rq_Plugins (en_req ?env))"
    "shouldEnforce (en_opts ?env) (en_req ?env) (wit_manifest ''b'' ROLLOUT_ENFORCE)"
    "failureMode (wit_manifest ''b'' ROLLOUT_ENFORCE) (rq_EffectClass (en_req ?env)) = FAILURE_CLOSED"
    "o_PluginID out = pm_Id (wit_manifest ''b'' ROLLOUT_ENFORCE)"
    "pm_Name (wit_manifest ''b'' ROLLOUT_ENFORCE) = ''b''"
    using out(2) by (simp_all add: wit_env_def wit_manifest_def shouldEnforce_def failureMode_def)
  show ?thesis
    using failed_mandatory_check_denies
      [OF wit_distinct surjective_pairing h mem out(1) m(1,4,2,3)] m(5) by simp
qed

text \<open>A mandatory check that cannot run does not deny. An enforced plugin that is configured to fail
  closed lets the request through untouched when its host cannot be resolved, when its circuit is
  open, or when the request's plugin budget is already spent: the failure policy is recorded, never
  applied. (Its manifest's documentation says a skipped plugin follows the policy.)\<close>

theorem unrunnable_mandatory_check_allows:
  assumes "rq_Plugins (en_req env) = [m]" and "Run env w = (r, w')"
    and "requestRemaining (en_opts env) w \<le> 0 \<or> (\<exists>e. resolve_host (en_opts env) m = Inl e) \<or>
         (\<exists>br. map_of (w_breakers w) (pm_Id m) = Some br \<and> (\<forall>t. \<not> fst (pb_Allow t br)))"
  shows "hr_Decision r = DecisionAllow \<and> hr_Payload r = Some (w_payload w)"
proof -
  obtain t0 w1 where n: "now (en_clock env) w = (t0, w1)" by fastforce
  let ?dl = "t0 + hookBudget (en_opts env) w1"
  obtain t1 w2 where n2: "now (en_clock env) w1 = (t1, w2)" by fastforce
  have c: "w_consumed w1 = w_consumed w" "w_breakers w2 = w_breakers w" "w_payload w2 = w_payload w"
    "w_payload w1 = w_payload w" using n n2 by (auto simp: now_def)
  obtain out w3 where p: "runPlugin env m ?dl w2 = (out, w3)" by fastforce
  have "requestRemaining (en_opts env) w1 \<le> 0 \<or> \<not> o_Enforced out"
    using assms(3)
  proof (elim disjE exE conjE)
    assume "requestRemaining (en_opts env) w \<le> 0"
    with c(1) show ?thesis by (simp add: requestRemaining_def)
  next
    fix e assume "resolve_host (en_opts env) m = Inl e"
    with p have "\<not> o_Enforced out" by (auto simp: runPlugin_def Let_def split: prod.splits if_splits)
    then show ?thesis ..
  next
    fix br assume b: "map_of (w_breakers w) (pm_Id m) = Some br" "\<forall>t. \<not> fst (pb_Allow t br)"
    have "breakerFor (en_opts env) (pm_Id m) w2 = (br, w2)" using b(1) c(2) by (simp add: breakerFor_def)
    moreover have "\<not> fst (pb_Allow (fst (now (en_clock env) w2)) br)" using b(2) by blast
    ultimately have "\<not> o_Enforced out"
      using p by (auto simp: runPlugin_def Let_def split: prod.splits if_splits)
    then show ?thesis ..
  qed
  then have s: "ls_result (loop_step env ?dl m (start_state w1)) = allow_result \<and>
      \<not> ls_decided (loop_step env ?dl m (start_state w1)) \<and>
      w_payload (ls_world (loop_step env ?dl m (start_state w1))) = w_payload w"
    using n2 p c runPlugin_spec [OF p] by (auto simp: loop_step_def Let_def)
  then show ?thesis
    using assms(1,2) n by (auto simp: Run_def Let_def start_state_def finishHook_def now_def allow_result_def)
qed

theorem unrunnable_mandatory_check_allows_witness:
  "\<exists>env w. rq_Plugins (en_req env) = [wit_manifest ''b'' ROLLOUT_ENFORCE] \<and>
     failureMode (wit_manifest ''b'' ROLLOUT_ENFORCE) (rq_EffectClass (en_req env)) = FAILURE_CLOSED \<and>
     shouldEnforce (en_opts env) (en_req env) (wit_manifest ''b'' ROLLOUT_ENFORCE) \<and>
     hr_Decision (fst (Run env w)) = DecisionAllow"
proof -
  let ?e0 = "wit_env ROLLOUT_ENFORCE ROLLOUT_ENFORCE"
  let ?env = "?e0\<lparr>en_req := (en_req ?e0)\<lparr>rq_Plugins := [wit_manifest ''b'' ROLLOUT_ENFORCE]\<rparr>,
                 en_opts := (en_opts ?e0)\<lparr>op_Hosts := Some (\<lambda>_. Inl ''no module'')\<rparr>\<rparr>"
  have p: "rq_Plugins (en_req ?env) = [wit_manifest ''b'' ROLLOUT_ENFORCE]" by simp
  have h: "requestRemaining (en_opts ?env) wit_world \<le> 0 \<or>
      (\<exists>e. resolve_host (en_opts ?env) (wit_manifest ''b'' ROLLOUT_ENFORCE) = Inl e) \<or>
      (\<exists>br. map_of (w_breakers wit_world) (pm_Id (wit_manifest ''b'' ROLLOUT_ENFORCE)) = Some br \<and>
         (\<forall>t. \<not> fst (pb_Allow t br)))"
    by (simp add: resolve_host_def)
  have "hr_Decision (fst (Run ?env wit_world)) = DecisionAllow"
    using unrunnable_mandatory_check_allows [OF p surjective_pairing h] by simp
  moreover have "failureMode (wit_manifest ''b'' ROLLOUT_ENFORCE) (rq_EffectClass (en_req ?env)) = FAILURE_CLOSED"
    "shouldEnforce (en_opts ?env) (en_req ?env) (wit_manifest ''b'' ROLLOUT_ENFORCE)"
    by (simp_all add: wit_env_def wit_manifest_def failureMode_def shouldEnforce_def)
  ultimately show ?thesis using p by blast
qed

text \<open>A probe lost to a missing host disables the plugin for good. When an open circuit has cooled
  down, the next run reserves the half-open probe before resolving the host; if that fails, nothing
  releases the probe. From then on the breaker refuses every request, and every later run, with
  whatever engine, host and time, skips the plugin as circuit-open and leaves the breaker as it is.\<close>

theorem lost_probe_disables_plugin:
  assumes "map_of (w_breakers w) (pm_Id m) = Some br" and "pb_inv br" and "pb_open br"
    and "\<not> pb_probeInFlight br" and "pb_retry_time br \<le> en_clock env (w_tick w)"
    and "resolve_host (en_opts env) m = Inl e" and "runPlugin env m dl w = (out, w')"
  shows "\<exists>br'. map_of (w_breakers w') (pm_Id m) = Some br' \<and> plugin.granted (map Req instants) br' = 0 \<and>
    (\<forall>env2 dl2 v. map_of (w_breakers v) (pm_Id m) = Some br' \<longrightarrow>
       o_SkipReason (fst (runPlugin env2 m dl2 v)) = SkipCircuitOpen \<and>
       map_of (w_breakers (snd (runPlugin env2 m dl2 v))) (pm_Id m) = Some br')"
proof -
  let ?br = "br\<lparr>pb_probeInFlight := True\<rparr>"
  have a: "pb_Allow (en_clock env (w_tick w)) br = (True, ?br)"
    using assms(3,4,5) by (simp add: pb_Allow_def pb_retry_time_def)
  have stuck: "pb_Allow t ?br = (False, ?br)" for t using assms(3) by (simp add: pb_Allow_def)
  have "map_of (w_breakers w') (pm_Id m) = Some ?br"
    using assms(1,6,7) a by (auto simp: runPlugin_def Let_def breakerFor_def now_def set_breaker_def)
  moreover have "plugin.granted (map Req instants) ?br = 0"
    using assms(2,3) by (intro plugin.probe_blocks) (auto simp: pb_inv_def pb_closed_def)
  moreover have "o_SkipReason (fst (runPlugin env2 m dl2 v)) = SkipCircuitOpen \<and>
       map_of (w_breakers (snd (runPlugin env2 m dl2 v))) (pm_Id m) = Some ?br"
    if "map_of (w_breakers v) (pm_Id m) = Some ?br" for env2 dl2 v
    using that stuck by (simp add: runPlugin_def Let_def breakerFor_def now_def set_breaker_def)
  ultimately show ?thesis by blast
qed

text \<open>The breaker of the failing plugin \<open>b\<close>, opened by one failure at time 0 with a cooldown of 3.\<close>

definition wit_open :: plugin_breaker where
  "wit_open = pb_Failure 0 (new_plugin_breaker 1 3)"

definition wit_nohost_env :: Env where
  "wit_nohost_env = (wit_env ROLLOUT_ENFORCE ROLLOUT_ENFORCE)
     \<lparr>en_opts := (en_opts (wit_env ROLLOUT_ENFORCE ROLLOUT_ENFORCE))\<lparr>op_Hosts := Some (\<lambda>_. Inl ''no module'')\<rparr>\<rparr>"

definition wit_tripped :: World where
  "wit_tripped = wit_world\<lparr>w_tick := 10, w_breakers := [(''b'', wit_open)]\<rparr>"

theorem lost_probe_disables_plugin_witness:
  "\<exists>br'. map_of (w_breakers (snd (runPlugin wit_nohost_env (wit_manifest ''b'' ROLLOUT_ENFORCE) 0 wit_tripped))) ''b''
       = Some br' \<and> plugin.granted (map Req [100, 200]) br' = 0"
proof -
  let ?m = "wit_manifest ''b'' ROLLOUT_ENFORCE"
  have "map_of (w_breakers wit_tripped) (pm_Id ?m) = Some wit_open" "pb_inv wit_open" "pb_open wit_open"
    "\<not> pb_probeInFlight wit_open" "pb_retry_time wit_open \<le> en_clock wit_nohost_env (w_tick wit_tripped)"
    "resolve_host (en_opts wit_nohost_env) ?m = Inl ''no module''"
    by (simp_all add: wit_manifest_def wit_open_def pb_ops pb_obs new_plugin_breaker_def
        resolve_host_def wit_env_def wit_nohost_env_def wit_tripped_def)
  from lost_probe_disables_plugin [OF this surjective_pairing, of 0 "[100, 200]"]
  obtain br' where "map_of (w_breakers (snd (runPlugin wit_nohost_env ?m 0 wit_tripped))) (pm_Id ?m) = Some br'"
    "plugin.granted (map Req [100, 200]) br' = 0" by blast
  moreover have "pm_Id ?m = ''b''" by (simp add: wit_manifest_def)
  ultimately show ?thesis by metis
qed

text \<open>Raising a canary's percentage only adds requests: a request inside the sample stays inside it
  at any higher percentage; at 0 or below nothing is sampled, at 100 or above everything is.\<close>

theorem canary_sample_monotone:
  "(hashSample rid p \<and> p \<le> q \<longrightarrow> hashSample rid q) \<and> (p \<le> 0 \<longrightarrow> \<not> hashSample rid p) \<and>
   (100 \<le> p \<longrightarrow> hashSample rid p)"
proof -
  have "uint (fnv32a rid) mod 100 < 100" by simp
  then show ?thesis by (auto simp: hashSample_def)
qed

theorem canary_sample_monotone_witness:
  "hashSample ''req_1'' 100 \<and> \<not> hashSample ''req_1'' 0"
  using canary_sample_monotone [of "''req_1''" 0 0] canary_sample_monotone [of "''req_1''" 100 100] by simp

end
