(* ===== verification/Canonical_Schema.thy ===== *)
theory Canonical_Schema
  imports Canonical_Inj
begin

section \<open>Schema resolution and content addresses (internal/platform/canonical/schema.go, digest.go)\<close>

text \<open>
  A tool's identity is the digest of its canonical form with every internal \<open>$ref\<close> inlined. The
  resolver's recursion is bounded by the code itself: \<open>left\<close> is the depth still allowed (\<open>65\<close> at the
  root, since depth 64 is accepted), so resolution is total; \<open>nodes\<close> is the resolver's counter. The
  set of pointers being expanded is a list. Paths inside error messages are left out. SHA-256 is an
  argument of the digests: nothing is assumed of it unless a property says so.
\<close>

definition MaxSchemaDepth :: nat where "MaxSchemaDepth = 64"
definition MaxSchemaNodes :: nat where "MaxSchemaNodes = 20000"

datatype SchemaError =
    ExternalRef string
  | TooDeep
  | TooManyNodes
  | RefNotString
  | BadFragment
  | SegmentNotFound string
  | SegmentNotIndex string
  | SegmentDescends string
  | NonObjectWithSiblings string
  | NoName

subsection \<open>Pointers into the schema\<close>

fun walk_pointer :: "json \<Rightarrow> string list \<Rightarrow> SchemaError + json" where
  "walk_pointer cur [] = Inr cur"
| "walk_pointer cur (raw # rest) =
     (let tok = unescape_token raw in
      case cur of
        JObj m \<Rightarrow> (case map_of m tok of
            None \<Rightarrow> Inl (SegmentNotFound tok) | Some v \<Rightarrow> walk_pointer v rest)
      | JArr xs \<Rightarrow> (case atoi tok of
            None \<Rightarrow> Inl (SegmentNotIndex tok)
          | Some i \<Rightarrow> if i < 0 \<or> i \<ge> int (length xs) then Inl (SegmentNotIndex tok)
                      else walk_pointer (xs ! nat i) rest)
      | _ \<Rightarrow> Inl (SegmentDescends tok))"

definition resolvePointer :: "json \<Rightarrow> string \<Rightarrow> SchemaError + json" where
  "resolvePointer root pointer =
     (if pointer = [] \<or> pointer = ''/'' then Inr root
      else if \<not> prefix ''/'' pointer then Inl BadFragment
      else walk_pointer root (split_on (CHR ''/'') (trim_prefix ''/'' pointer)))"

subsection \<open>Resolution\<close>

text \<open>Running a resolver over a list or over the members of an object, threading the node counter.\<close>

type_synonym 'a resolved = "SchemaError + ('a \<times> nat)"

fun each :: "('a \<Rightarrow> nat \<Rightarrow> 'b resolved) \<Rightarrow> 'a list \<Rightarrow> nat \<Rightarrow> ('b list) resolved" where
  "each f [] n = Inr ([], n)"
| "each f (x # xs) n =
     bind_result (f x n) (\<lambda>(y, n1). bind_result (each f xs n1) (\<lambda>(ys, n2). Inr (y # ys, n2)))"

definition members :: "(json \<Rightarrow> nat \<Rightarrow> json resolved) \<Rightarrow> jobject \<Rightarrow> nat \<Rightarrow> jobject resolved" where
  "members f m n =
     each (\<lambda>(k, v) n. bind_result (f v n) (\<lambda>(v', n'). Inr ((k, v'), n'))) m n"

definition def_key :: "string \<Rightarrow> bool" where
  "def_key k = (k = ''$defs'' \<or> k = ''definitions'')"

definition without_defs :: "jobject \<Rightarrow> jobject" where
  "without_defs m = filter (\<lambda>p. \<not> def_key (fst p)) m"

definition siblings :: "jobject \<Rightarrow> jobject" where
  "siblings m = filter (\<lambda>p. \<not> (fst p = ''$ref'' \<or> def_key (fst p))) m"

text \<open>Writing entries over an object, in order.\<close>

definition overlay :: "jobject \<Rightarrow> jobject \<Rightarrow> jobject" where
  "overlay base m = fold (\<lambda>(k, v). obj_set k v) m base"

text \<open>A reference, given the resolver one level down and the pointers being expanded.\<close>

definition resolveRef ::
  "(string list \<Rightarrow> json \<Rightarrow> nat \<Rightarrow> json resolved) \<Rightarrow> json \<Rightarrow> string list \<Rightarrow> jobject \<Rightarrow> string \<Rightarrow> nat \<Rightarrow>
   json resolved" where
  "resolveRef down root active node ref nodes =
     (if \<not> prefix ''#'' ref then Inl (ExternalRef ref)
      else
        let pointer = trim_prefix ''#'' ref in
        if pointer \<in> set active then
          bind_result (members (down active) (siblings node) nodes) (\<lambda>(sibs, n).
            Inr (JObj (overlay [(''$ref'', JStr (''#'' @ pointer))] sibs), n))
        else
          bind_result (resolvePointer root pointer) (\<lambda>target.
            bind_result (down (pointer # active) target nodes) (\<lambda>(resolvedTarget, n1).
              (case resolvedTarget of
                 JObj targetMap \<Rightarrow>
                   bind_result (members (down active) (siblings node) n1) (\<lambda>(sibs, n2).
                     Inr (JObj (overlay targetMap sibs), n2))
               | _ \<Rightarrow> if length node = 1 then Inr (resolvedTarget, n1)
                      else Inl (NonObjectWithSiblings ref)))))"

primrec resolve :: "nat \<Rightarrow> json \<Rightarrow> string list \<Rightarrow> json \<Rightarrow> nat \<Rightarrow> json resolved" where
  "resolve 0 root active v nodes = Inl TooDeep"
| "resolve (Suc left) root active v nodes =
     (if nodes + 1 > MaxSchemaNodes then Inl TooManyNodes
      else case v of
        JArr xs \<Rightarrow>
          bind_result (each (resolve left root active) xs (nodes + 1)) (\<lambda>(ys, n). Inr (JArr ys, n))
      | JObj m \<Rightarrow>
          (case map_of m ''$ref'' of
             Some (JStr ref) \<Rightarrow> resolveRef (resolve left root) root active m ref (nodes + 1)
           | Some _ \<Rightarrow> Inl RefNotString
           | None \<Rightarrow>
               bind_result (members (resolve left root active) (without_defs m) (nodes + 1))
                 (\<lambda>(ms, n). Inr (JObj ms, n)))
      | _ \<Rightarrow> Inr (v, nodes + 1))"

definition ResolveSchema :: "json \<Rightarrow> SchemaError + json" where
  "ResolveSchema root =
     bind_result (resolve (MaxSchemaDepth + 1) root [[]] root 0) (\<lambda>(out, _). Inr out)"

definition CanonicalizeSchema :: "json \<Rightarrow> SchemaError + string" where
  "CanonicalizeSchema schema =
     bind_result (ResolveSchema schema) (\<lambda>resolved. Inr (canon_write resolved))"

subsection \<open>Digests\<close>

definition DigestPrefix :: string where "DigestPrefix = ''sha256:''"

definition hex_encode :: "string \<Rightarrow> string" where
  "hex_encode s = concat (map (\<lambda>c. [hexDigits ! (of_char c div 16), hexDigits ! (of_char c mod 16)]) s)"

definition is_hex :: "char \<Rightarrow> bool" where
  "is_hex c = (c \<in> set ''0123456789abcdefABCDEF'')"

text \<open>\<open>hex.DecodeString\<close> succeeds on an even number of hexadecimal digits of either case.\<close>

definition Digest_Valid :: "string \<Rightarrow> bool" where
  "Digest_Valid s =
     (if \<not> prefix DigestPrefix s then False
      else let hexPart = drop (length DigestPrefix) s
           in if length hexPart \<noteq> 64 then False else list_all is_hex hexPart)"

definition Digest_Short :: "string \<Rightarrow> string" where
  "Digest_Short s =
     (if length s < length DigestPrefix + 12 then s
      else take 12 (drop (length DigestPrefix) s))"

definition DigestBytes :: "(string \<Rightarrow> string) \<Rightarrow> string \<Rightarrow> string" where
  "DigestBytes sha256 b = DigestPrefix @ hex_encode (sha256 b)"

definition ProseFields :: "string list" where
  "ProseFields = [''description'', ''title'', ''examples'', ''$comment'']"

fun stripProse :: "json \<Rightarrow> json" where
  "stripProse (JObj m) =
     JObj (map (\<lambda>(k, v). (k, stripProse v)) (filter (\<lambda>p. fst p \<notin> set ProseFields) m))"
| "stripProse (JArr xs) = JArr (map stripProse xs)"
| "stripProse v = v"

record CanonTool =
  ct_Name :: string
  ct_Title :: string
  ct_Description :: string
  ct_InputSchema :: "json option"
  ct_OutputSchema :: "json option"
  ct_Annotations :: jobject
  ct_Meta :: jobject

text \<open>An optional schema under its key; encoding and decoding it first is the identity on values.\<close>

definition schema_member :: "string \<Rightarrow> json option \<Rightarrow> SchemaError + jobject" where
  "schema_member k s =
     (case s of None \<Rightarrow> Inr [] | Some v \<Rightarrow> bind_result (ResolveSchema v) (\<lambda>r. Inr [(k, r)]))"

definition normalized :: "CanonTool \<Rightarrow> SchemaError + json" where
  "normalized t =
     (if ct_Name t = [] then Inl NoName
      else bind_result (schema_member ''inputSchema'' (ct_InputSchema t)) (\<lambda>ins.
        bind_result (schema_member ''outputSchema'' (ct_OutputSchema t)) (\<lambda>outs.
          Inr (JObj
            ([(''name'', JStr (ct_Name t))] @
             (if ct_Title t \<noteq> [] then [(''title'', JStr (ct_Title t))] else []) @
             (if ct_Description t \<noteq> [] then [(''description'', JStr (ct_Description t))] else []) @
             ins @ outs @
             (if ct_Annotations t \<noteq> [] then [(''annotations'', JObj (ct_Annotations t))] else []) @
             (if ct_Meta t \<noteq> [] then [(''_meta'', JObj (ct_Meta t))] else []))))))"

definition CanonicalForm :: "CanonTool \<Rightarrow> SchemaError + string" where
  "CanonicalForm t = bind_result (normalized t) (\<lambda>v. Inr (canon_write v))"

definition Tool_Digest :: "(string \<Rightarrow> string) \<Rightarrow> CanonTool \<Rightarrow> SchemaError + string" where
  "Tool_Digest sha256 t = bind_result (CanonicalForm t) (\<lambda>b. Inr (DigestBytes sha256 b))"

definition SemanticDigest :: "(string \<Rightarrow> string) \<Rightarrow> CanonTool \<Rightarrow> SchemaError + string" where
  "SemanticDigest sha256 t =
     bind_result (normalized t) (\<lambda>v. Inr (DigestBytes sha256 (canon_write (stripProse v))))"

subsection \<open>A resolved schema is self-contained\<close>

text \<open>No object keeps a definitions container, and every reference left is internal.\<close>

fun clean :: "json \<Rightarrow> bool" where
  "clean (JArr xs) = list_all clean xs"
| "clean (JObj m) =
     (list_all (\<lambda>(k, v). \<not> def_key k \<and> clean v \<and>
        (k = ''$ref'' \<longrightarrow> (\<exists>p. v = JStr (''#'' @ p)))) m)"
| "clean _ = True"

definition clean_entry :: "string \<times> json \<Rightarrow> bool" where
  "clean_entry p = (\<not> def_key (fst p) \<and> clean (snd p) \<and>
     (fst p = ''$ref'' \<longrightarrow> (\<exists>q. snd p = JStr (''#'' @ q))))"

lemma clean_JObj: "clean (JObj m) \<longleftrightarrow> (\<forall>p\<in>set m. clean_entry p)"
  by (auto simp: list_all_iff clean_entry_def)

lemma set_obj_set: "set (obj_set k v m) \<subseteq> insert (k, v) (set m)"
proof (induction m)
  case (Cons p m)
  then show ?case by (cases p) auto
qed simp

lemma set_overlay: "set (overlay base m) \<subseteq> set base \<union> set m"
proof (induction m arbitrary: base)
  case (Cons p m)
  obtain k v where "p = (k, v)" by (cases p)
  with Cons.IH [of "obj_set k v base"] set_obj_set [of k v base] show ?case
    by (auto simp: overlay_def)
qed (simp add: overlay_def)

lemma each_ok:
  assumes "each f xs n = Inr (ys, n')" and "\<And>x n y n'. x \<in> set xs \<Longrightarrow> f x n = Inr (y, n') \<Longrightarrow> P x y"
  shows "list_all2 P xs ys"
  using assms
proof (induction xs arbitrary: n ys)
  case (Cons x xs)
  then show ?case by (auto simp: bind_result_Inr split: prod.splits)
qed simp

lemma members_ok:
  assumes "members f m n = Inr (m', n')"
    and "\<And>v n v' n'. f v n = Inr (v', n') \<Longrightarrow> P v'"
  shows "\<forall>p\<in>set m'. \<exists>q\<in>set m. fst p = fst q \<and> P (snd p)"
proof -
  have "list_all2 (\<lambda>q p. fst p = fst q \<and> P (snd p)) m m'"
    using assms(1) unfolding members_def
  proof (rule each_ok)
    fix x n y n'
    assume x: "(case x of (k, v) \<Rightarrow> \<lambda>n. bind_result (f v n) (\<lambda>(v', n'). Inr ((k, v'), n'))) n = Inr (y, n')"
    obtain k v where "x = (k, v)" by (cases x)
    with x obtain v' m where "f v n = Inr (v', m)" "y = (k, v')"
      by (auto simp: bind_result_Inr)
    with assms(2) [of v n v' m] \<open>x = (k, v)\<close> show "fst y = fst x \<and> P (snd y)" by simp
  qed
  then have "length m = length m'" and "\<forall>i<length m'. fst (m' ! i) = fst (m ! i) \<and> P (snd (m' ! i))"
    by (auto simp: list_all2_conv_all_nth)
  then show ?thesis by (metis in_set_conv_nth)
qed

lemma siblings_entry:
  assumes "members f (siblings node) n = Inr (m', n')" and "\<And>v n v' n'. f v n = Inr (v', n') \<Longrightarrow> clean v'"
  shows "\<forall>p\<in>set m'. clean_entry p"
proof
  fix p assume "p \<in> set m'"
  with members_ok [OF assms(1), of clean] assms(2)
  obtain q where "q \<in> set (siblings node)" "fst p = fst q" "clean (snd p)" by blast
  then show "clean_entry p" by (auto simp: siblings_def clean_entry_def)
qed

lemma resolveRef_clean:
  assumes "resolveRef down root active node ref n = Inr (r, n')"
    and d: "\<And>a v n v' n'. down a v n = Inr (v', n') \<Longrightarrow> clean v'"
  shows "clean r"
proof -
  let ?p = "trim_prefix ''#'' ref"
  show ?thesis
  proof (cases "?p \<in> set active")
    case True
    with assms(1) obtain sibs where s: "members (down active) (siblings node) n = Inr (sibs, n')"
      and r: "r = JObj (overlay [(''$ref'', JStr (''#'' @ ?p))] sibs)"
      by (auto simp: resolveRef_def Let_def bind_result_Inr split: if_splits)
    have "clean_entry (''$ref'', JStr (''#'' @ ?p))" by (simp add: clean_entry_def def_key_def)
    moreover have "\<forall>p\<in>set sibs. clean_entry p" using siblings_entry [OF s] d by blast
    ultimately show ?thesis
      using set_overlay [of "[(''$ref'', JStr (''#'' @ ?p))]" sibs] unfolding clean_JObj r by auto
  next
    case False
    with assms(1) obtain target t1 n1 where t: "down (?p # active) target n = Inr (t1, n1)"
      and r: "(case t1 of
           JObj tm \<Rightarrow> bind_result (members (down active) (siblings node) n1)
             (\<lambda>(sibs, n2). Inr (JObj (overlay tm sibs), n2))
         | _ \<Rightarrow> if length node = 1 then Inr (t1, n1) else Inl (NonObjectWithSiblings ref)) = Inr (r, n')"
      by (auto simp: resolveRef_def Let_def bind_result_Inr split: if_splits)
    have c: "clean t1" using d [OF t] .
    show ?thesis
    proof (cases t1)
      case (JObj tm)
      with r obtain sibs where s: "members (down active) (siblings node) n1 = Inr (sibs, n')"
        and rr: "r = JObj (overlay tm sibs)"
        by (auto simp: bind_result_Inr)
      have "\<forall>p\<in>set tm. clean_entry p" using c JObj clean_JObj by simp
      moreover have "\<forall>p\<in>set sibs. clean_entry p" using siblings_entry [OF s] d by blast
      ultimately show ?thesis using set_overlay [of tm sibs] unfolding clean_JObj rr by blast
    qed (use c r in \<open>auto split: if_splits\<close>)
  qed
qed

lemma resolve_clean: "resolve left root active v n = Inr (r, n') \<Longrightarrow> clean r"
proof (induction left arbitrary: active v n r n')
  case 0
  then show ?case by simp
next
  case (Suc left)
  show ?case
  proof (cases v)
    case (JArr xs)
    with Suc.prems obtain ys where e: "each (resolve left root active) xs (n + 1) = Inr (ys, n')"
      and r: "r = JArr ys"
      by (auto simp: bind_result_Inr split: if_splits)
    have "list_all2 (\<lambda>_ y. clean y) xs ys" by (rule each_ok [OF e]) (rule Suc.IH)
    with r show ?thesis by (auto simp: list_all2_conv_all_nth list_all_length)
  next
    case (JObj m)
    show ?thesis
    proof (cases "map_of m ''$ref''")
      case None
      with JObj Suc.prems obtain ms
        where e: "members (resolve left root active) (without_defs m) (n + 1) = Inr (ms, n')"
          and r: "r = JObj ms"
        by (auto simp: bind_result_Inr split: if_splits)
      have "\<forall>p\<in>set ms. clean_entry p"
      proof
        fix p assume p: "p \<in> set ms"
        have "\<forall>p\<in>set ms. \<exists>q\<in>set (without_defs m). fst p = fst q \<and> clean (snd p)"
          by (rule members_ok [OF e]) (rule Suc.IH)
        with p obtain q where q: "q \<in> set (without_defs m)" "fst p = fst q" "clean (snd p)" by blast
        have "fst q \<noteq> ''$ref''" 
        proof
          assume "fst q = ''$ref''"
          moreover have "q \<in> set m" using q(1) by (simp add: without_defs_def)
          ultimately have "''$ref'' \<in> fst ` set m" by (metis image_eqI)
          with None show False by (simp add: map_of_eq_None_iff)
        qed
        with q show "clean_entry p" by (auto simp: without_defs_def clean_entry_def)
      qed
      then show ?thesis unfolding r clean_JObj .
    next
      case (Some rv)
      with JObj Suc.prems obtain ref where "rv = JStr ref"
        and "resolveRef (resolve left root) root active m ref (n + 1) = Inr (r, n')"
        by (cases rv) (auto split: if_splits)
      then show ?thesis using resolveRef_clean Suc.IH by blast
    qed
  qed (use Suc.prems in \<open>auto split: if_splits\<close>)
qed

subsection \<open>Identity of tools\<close>

lemma hex_digit_inj: "m < 16 \<Longrightarrow> n < 16 \<Longrightarrow> hexDigits ! m = hexDigits ! n \<Longrightarrow> m = n"
  by (metis hex_val_digit)

lemma of_char_lt: "(of_char c :: nat) < 256"
  by (cases c) (simp add: of_char_def horner_sum_simps of_bool_def)

lemma hex_encode_inj: "hex_encode x = hex_encode y \<Longrightarrow> x = y"
proof (induction x arbitrary: y)
  case Nil
  then show ?case by (cases y) (simp_all add: hex_encode_def)
next
  case (Cons c x)
  then obtain d y' where y: "y = d # y'" by (cases y) (simp_all add: hex_encode_def)
  with Cons.prems have e: "hexDigits ! (of_char c div 16) = hexDigits ! (of_char d div 16)"
    "hexDigits ! (of_char c mod 16) = hexDigits ! (of_char d mod 16)" "hex_encode x = hex_encode y'"
    by (simp_all add: hex_encode_def)
  have "(of_char c :: nat) div 16 < 16" "(of_char d :: nat) div 16 < 16"
    using of_char_lt [of c] of_char_lt [of d] by linarith+
  then have "(of_char c :: nat) div 16 = of_char d div 16" "(of_char c :: nat) mod 16 = of_char d mod 16"
    using hex_digit_inj [OF _ _ e(1)] hex_digit_inj [OF _ _ e(2)] by simp_all
  then have "(of_char c :: nat) = of_char d" by (metis div_mult_mod_eq)
  with e(3) Cons.IH y show ?case by simp
qed

lemma DigestBytes_eq:
  "DigestBytes sha256 a = DigestBytes sha256 b \<longleftrightarrow> sha256 a = sha256 b"
  by (auto simp: DigestBytes_def dest: hex_encode_inj)

lemma Tool_Digest_Inr:
  "normalized t = Inr v \<Longrightarrow> Tool_Digest sha256 t = Inr (DigestBytes sha256 (canon_write v))"
  by (simp add: Tool_Digest_def CanonicalForm_def)

lemma SemanticDigest_Inr:
  "normalized t = Inr v \<Longrightarrow> SemanticDigest sha256 t = Inr (DigestBytes sha256 (canon_write (stripProse v)))"
  by (simp add: SemanticDigest_def)

lemma nums_ok_strip: "nums_ok v \<Longrightarrow> nums_ok (stripProse v)"
  by (induction v rule: stripProse.induct) (auto simp: list_all_iff)

text \<open>The first levels of a resolution, whose depth and node budgets are far off.\<close>

lemma resolve_schema_depth:
  obtains d where "\<And>root. ResolveSchema root =
    bind_result (resolve (Suc (Suc (Suc (Suc d)))) root [[]] root 0) (\<lambda>(out, _). Inr out)"
proof
  have e: "MaxSchemaDepth + 1 = Suc (Suc (Suc (Suc (MaxSchemaDepth - 3))))"
    by (simp add: MaxSchemaDepth_def)
  show "ResolveSchema root = bind_result (resolve (Suc (Suc (Suc (Suc (MaxSchemaDepth - 3))))) root [[]] root 0)
      (\<lambda>(out, _). Inr out)" for root
    unfolding ResolveSchema_def e ..
qed

lemma nodes_left: "Suc n \<le> 10 \<Longrightarrow> \<not> MaxSchemaNodes < Suc n" "0 < MaxSchemaNodes"
  by (simp_all add: MaxSchemaNodes_def)

lemmas resolve_eval = nodes_left members_def without_defs_def def_key_def

subsection \<open>Properties\<close>


definition wit_schema :: json where
  "wit_schema = JObj [(''$defs'', JObj [(''a'', JStr ''x'')]), (''p'', JObj [(''$ref'', JStr ''#/$defs/a'')]),
                      (''q'', JObj [(''$ref'', JStr ''#'')])]"


text \<open>C34: a tool's digest is its identity: for two definitions that can be normalized, and provided
  SHA-256 does not collide on their canonical bytes, the digests agree exactly when the definitions
  agree up to key order, and the semantic digests exactly when they do with prose removed.\<close>

theorem digests_identify_tools:
  assumes "normalized t = Inr a" and "normalized u = Inr b" and "nums_ok a" and "nums_ok b"
    and "sha256 (canon_write a) = sha256 (canon_write b) \<longrightarrow> canon_write a = canon_write b"
    and "sha256 (canon_write (stripProse a)) = sha256 (canon_write (stripProse b)) \<longrightarrow>
         canon_write (stripProse a) = canon_write (stripProse b)"
  shows "(Tool_Digest sha256 t = Tool_Digest sha256 u \<longleftrightarrow> norm a = norm b) \<and>
    (SemanticDigest sha256 t = SemanticDigest sha256 u \<longleftrightarrow> norm (stripProse a) = norm (stripProse b))"
proof -
  have "canon_write a = canon_write b \<longleftrightarrow> norm a = norm b"
    "canon_write (stripProse a) = canon_write (stripProse b) \<longleftrightarrow> norm (stripProse a) = norm (stripProse b)"
    using assms(3,4) by (simp_all add: canon_write_iff nums_ok_strip)
  with assms(5,6) show ?thesis
    by (auto simp: Tool_Digest_Inr [OF assms(1)] Tool_Digest_Inr [OF assms(2)]
        SemanticDigest_Inr [OF assms(1)] SemanticDigest_Inr [OF assms(2)] DigestBytes_eq)
qed

definition wit_tool :: "string \<Rightarrow> CanonTool" where
  "wit_tool d = \<lparr>ct_Name = ''search'', ct_Title = [], ct_Description = d, ct_InputSchema = None,
     ct_OutputSchema = None, ct_Annotations = [], ct_Meta = []\<rparr>"

theorem digests_identify_tools_witness:
  "Tool_Digest id (wit_tool ''old'') \<noteq> Tool_Digest id (wit_tool ''new'') \<and>
   SemanticDigest id (wit_tool ''old'') = SemanticDigest id (wit_tool ''new'')"
proof -
  let ?n = "\<lambda>d. JObj [(''name'', JStr ''search''), (''description'', JStr d)]"
  have n: "normalized (wit_tool ''old'') = Inr (?n ''old'')" "normalized (wit_tool ''new'') = Inr (?n ''new'')"
    by (simp_all add: normalized_def wit_tool_def schema_member_def)
  have "norm (?n ''old'') \<noteq> norm (?n ''new'')" "norm (stripProse (?n ''old'')) = norm (stripProse (?n ''new''))"
    by (simp_all add: sortKeys_def utf16_def utf16_of_rune_def ProseFields_def)
  then show ?thesis using digests_identify_tools [OF n, of id] by simp
qed

text \<open>A parameter called \<open>definitions\<close> has no identity: the resolver drops every member of that name,
  even where it names a property rather than the legacy container, so a backend may change that
  parameter's schema arbitrarily without either digest changing.\<close>

theorem parameter_named_definitions_is_invisible:
  fixes t :: CanonTool
  defines "sch \<equiv> \<lambda>s. JObj [(''type'', JStr ''object''), (''properties'', JObj [(''definitions'', s)])]"
  shows "Tool_Digest sha256 (t\<lparr>ct_InputSchema := Some (sch s1)\<rparr>) =
           Tool_Digest sha256 (t\<lparr>ct_InputSchema := Some (sch s2)\<rparr>) \<and>
         SemanticDigest sha256 (t\<lparr>ct_InputSchema := Some (sch s1)\<rparr>) =
           SemanticDigest sha256 (t\<lparr>ct_InputSchema := Some (sch s2)\<rparr>)"
proof -
  have "ResolveSchema (sch s) = Inr (JObj [(''type'', JStr ''object''), (''properties'', JObj [])])" for s
  proof (rule resolve_schema_depth)
    fix d assume d: "\<And>root. ResolveSchema root =
      bind_result (resolve (Suc (Suc (Suc (Suc d)))) root [[]] root 0) (\<lambda>(out, _). Inr out)"
    show ?thesis unfolding d sch_def by (simp add: resolve_eval)
  qed
  then have "normalized (t\<lparr>ct_InputSchema := Some (sch s1)\<rparr>) = normalized (t\<lparr>ct_InputSchema := Some (sch s2)\<rparr>)"
    by (simp add: normalized_def schema_member_def)
  then show ?thesis by (simp add: Tool_Digest_def CanonicalForm_def SemanticDigest_def)
qed

text \<open>A prose key hides a parameter from the semantic digest: a property called \<open>title\<close> is stripped
  with its schema, so changing it is classified as cosmetic, not semantic.\<close>

theorem parameter_named_title_is_prose:
  "SemanticDigest sha256 (t\<lparr>ct_InputSchema := Some (JObj [(''properties'', JObj [(''title'', JStr s1)])])\<rparr>) =
   SemanticDigest sha256 (t\<lparr>ct_InputSchema := Some (JObj [(''properties'', JObj [(''title'', JStr s2)])])\<rparr>)"
proof -
  have "ResolveSchema (JObj [(''properties'', JObj [(''title'', JStr s)])]) =
      Inr (JObj [(''properties'', JObj [(''title'', JStr s)])])" for s
  proof (rule resolve_schema_depth)
    fix d assume d: "\<And>root. ResolveSchema root =
      bind_result (resolve (Suc (Suc (Suc (Suc d)))) root [[]] root 0) (\<lambda>(out, _). Inr out)"
    show ?thesis unfolding d by (simp add: resolve_eval)
  qed
  then show ?thesis
    by (simp add: SemanticDigest_def normalized_def schema_member_def bind_result_def ProseFields_def
        split: sum.splits)
qed

end
