(* ===== verification/Base64.thy ===== *)
theory Base64
  imports Prelude
begin

section \<open>encoding/base64: the raw URL encoding\<close>

text \<open>
  \<open>base64.RawURLEncoding\<close> on byte strings: three bytes to four characters of the URL alphabet, a
  final group of one or two bytes to two or three characters, no padding. Decoding refuses a foreign
  character and a final group of one, and, as the standard library's lenient decoder does, ignores
  the unused low bits of a final group; CR and LF, which it skips, do not occur in what is signed.
\<close>

definition b64_char :: "nat \<Rightarrow> char" where
  "b64_char n =
     (if n < 26 then char_of (n + 65) else if n < 52 then char_of (n + 71)
      else if n < 62 then char_of (n - 4) else if n = 62 then CHR ''-'' else CHR ''_'')"

definition b64_val :: "char \<Rightarrow> nat option" where
  "b64_val c =
     (let n = (of_char c :: nat)
      in if 65 \<le> n \<and> n < 91 then Some (n - 65) else if 97 \<le> n \<and> n < 123 then Some (n - 71)
         else if 48 \<le> n \<and> n < 58 then Some (n + 4) else if c = CHR ''-'' then Some 62
         else if c = CHR ''_'' then Some 63 else None)"

fun b64_encode :: "string \<Rightarrow> string" where
  "b64_encode (a # b # c # s) =
     (let n = of_char a * 65536 + of_char b * 256 + of_char c
      in b64_char (n div 262144) # b64_char (n div 4096 mod 64) # b64_char (n div 64 mod 64) #
         b64_char (n mod 64) # b64_encode s)"
| "b64_encode [a, b] =
     (let n = of_char a * 1024 + of_char b * 4
      in [b64_char (n div 4096), b64_char (n div 64 mod 64), b64_char (n mod 64)])"
| "b64_encode [a] = (let n = of_char a * 16 in [b64_char (n div 64), b64_char (n mod 64)])"
| "b64_encode [] = []"

fun b64_decode :: "string \<Rightarrow> string option" where
  "b64_decode (p # q # r # t # s) =
     (case (b64_val p, b64_val q, b64_val r, b64_val t) of
        (Some w, Some x, Some y, Some z) \<Rightarrow>
          (let n = ((w * 64 + x) * 64 + y) * 64 + z
           in map_option (\<lambda>rest. char_of (n div 65536) # char_of (n div 256 mod 256) #
                char_of (n mod 256) # rest) (b64_decode s))
      | _ \<Rightarrow> None)"
| "b64_decode [p, q, r] =
     (case (b64_val p, b64_val q, b64_val r) of
        (Some w, Some x, Some y) \<Rightarrow>
          (let n = ((w * 64 + x) * 64 + y) div 4
           in Some [char_of (n div 256), char_of (n mod 256)])
      | _ \<Rightarrow> None)"
| "b64_decode [p, q] =
     (case (b64_val p, b64_val q) of
        (Some w, Some x) \<Rightarrow> Some [char_of ((w * 64 + x) div 16)]
      | _ \<Rightarrow> None)"
| "b64_decode [p] = None"
| "b64_decode [] = Some []"

subsection \<open>Decoding inverts encoding\<close>

lemma of_char_char_of: "n < 256 \<Longrightarrow> (of_char (char_of n) :: nat) = n"
  by (simp add: take_bit_eq_mod)

lemma b64_val_char: "n < 64 \<Longrightarrow> b64_val (b64_char n) = Some n"
proof -
  assume n: "n < 64"
  then consider "n < 26" | "26 \<le> n" "n < 52" | "52 \<le> n" "n < 62" | "n = 62" | "n = 63" by linarith
  then show ?thesis
    by cases (auto simp: b64_val_def b64_char_def Let_def of_char_char_of)
qed

lemma char_of_mod: "n mod 256 = (of_char c :: nat) \<Longrightarrow> char_of n = c"
  by (metis char_of_mod_256 char_of_char)

lemma char_of_low [simp]: "char_of (256 * k + (of_char c :: nat)) = c"
  by (rule char_of_mod) simp

lemma b64_char_plain: "n < 64 \<Longrightarrow> b64_char n \<noteq> CHR ''.''"
proof
  assume "n < 64" and "b64_char n = CHR ''.''"
  then have "b64_val (CHR ''.'') = Some n" using b64_val_char by metis
  then show False by (simp add: b64_val_def)
qed

lemma char_below: "(of_char c :: nat) < 256"
  using of_char_mod_256 [of c, where 'a = nat] by (metis mod_less_divisor zero_less_numeral)

lemma digits_64:
  fixes n :: nat
  assumes "n < 16777216"
  shows "((n div 262144 * 64 + n div 4096 mod 64) * 64 + n div 64 mod 64) * 64 + n mod 64 = n"
proof -
  have "n div 262144 * 64 + n div 4096 mod 64 = n div 4096"
    using div_mult_mod_eq [of "n div 4096" 64] by (simp add: div_mult2_eq [symmetric])
  moreover have "n div 4096 * 64 + n div 64 mod 64 = n div 64"
    using div_mult_mod_eq [of "n div 64" 64] by (simp add: div_mult2_eq [symmetric])
  ultimately show ?thesis using div_mult_mod_eq [of n 64] by simp
qed

lemma split_256: "c < 256 \<Longrightarrow> (256 * k + c) div 256 = k \<and> (256 * k + c) mod 256 = (c::nat)"
  by simp

lemma bytes_of_group:
  fixes a b c :: nat
  assumes "b < 256" "c < 256"
  shows "(a * 65536 + b * 256 + c) div 65536 = a" "(a * 65536 + b * 256 + c) div 256 mod 256 = b"
    "(a * 65536 + b * 256 + c) mod 256 = c"
proof -
  have e: "a * 65536 + b * 256 + c = 256 * (256 * a + b) + c" by simp
  have d: "n div 65536 = n div 256 div 256" for n :: nat by (simp add: div_mult2_eq [symmetric])
  note low = split_256 [OF assms(2), of "256 * a + b"] and high = split_256 [OF assms(1), of a]
  show "(a * 65536 + b * 256 + c) div 65536 = a" unfolding d e using low high by metis
  show "(a * 65536 + b * 256 + c) div 256 mod 256 = b" unfolding e using low high by metis
  show "(a * 65536 + b * 256 + c) mod 256 = c" unfolding e using low by metis
qed

lemma group_bound:
  fixes a b c :: nat
  assumes "a < 256" "b < 256" "c < 256"
  shows "a * 65536 + b * 256 + c < 16777216" "(a * 65536 + b * 256 + c) div 262144 < 64"
proof -
  show n: "a * 65536 + b * 256 + c < 16777216" using assms by linarith
  then show "(a * 65536 + b * 256 + c) div 262144 < 64" by (simp add: div_less_iff_less_mult)
qed

lemma b64_roundtrip: "b64_decode (b64_encode s) = Some s"
proof (induction s rule: b64_encode.induct)
  case (1 a b c s)
  let ?a = "of_char a :: nat" and ?b = "of_char b :: nat" and ?c = "of_char c :: nat"
  let ?n = "?a * 65536 + ?b * 256 + ?c"
  have lt: "?a < 256" "?b < 256" "?c < 256" by (rule char_below)+
  note n = group_bound [OF lt]
  have z: "?n mod 64 < 64" "?n div 64 mod 64 < 64" "?n div 4096 mod 64 < 64" by simp_all
  show ?case
    unfolding b64_encode.simps b64_decode.simps Let_def
    by (simp only: b64_val_char [OF n(2)] b64_val_char [OF z(1)] b64_val_char [OF z(2)] b64_val_char [OF z(3)]
        prod.case option.case digits_64 [OF n(1)] bytes_of_group [OF lt(2,3)] char_of_char 1 [OF refl] option.map)
next
  case (2 a b)
  let ?a = "of_char a :: nat" and ?b = "of_char b :: nat"
  let ?n = "?a * 1024 + ?b * 4"
  have lt: "?a < 256" "?b < 256" by (rule char_below)+
  then have "?n < 64 * 4096" by linarith
  then have "?n div 4096 < 64" by (rule less_mult_imp_div_less)
  moreover have "(?n div 4096 * 64 + ?n div 64 mod 64) * 64 + ?n mod 64 = ?n"
    using digits_64 [of ?n] lt by simp
  ultimately show ?case
    using lt by (simp add: Let_def b64_val_char)
next
  case (3 a)
  let ?n = "of_char a * 16 :: nat"
  have "?n div 64 < 64" by (rule less_mult_imp_div_less) (use char_below [of a] in linarith)
  then show ?case
    unfolding b64_encode.simps b64_decode.simps Let_def
    using div_mult_mod_eq [of ?n 64] by (simp only: b64_val_char mod_less_divisor) simp
next
  case 4
  show ?case by simp
qed

lemma b64_no_dot: "CHR ''.'' \<notin> set (b64_encode s)"
proof (induction s rule: b64_encode.induct)
  case (1 a b c s)
  have "b64_char (n mod 64) \<noteq> CHR ''.''" for n by (rule b64_char_plain) simp
  with 1 b64_char_plain [OF group_bound(2) [OF char_below [of a] char_below [of b] char_below [of c]]]
  show ?case unfolding b64_encode.simps Let_def set_simps by (metis insertE)
next
  case (2 a b)
  have "(of_char a * 1024 + of_char b * 4) div 4096 < (64::nat)"
  proof (rule less_mult_imp_div_less)
    show "of_char a * 1024 + of_char b * 4 < (64::nat) * 4096"
      using char_below [of a] char_below [of b] by linarith
  qed
  note b64_char_plain [OF this]
  moreover have "b64_char (n mod 64) \<noteq> CHR ''.''" for n by (rule b64_char_plain) simp
  ultimately show ?case unfolding b64_encode.simps Let_def set_simps by (metis insertE empty_iff)
next
  case (3 a)
  have "of_char a * 16 div 64 < (64::nat)"
    by (rule less_mult_imp_div_less) (use char_below [of a] in linarith)
  note b64_char_plain [OF this]
  moreover have "b64_char (n mod 64) \<noteq> CHR ''.''" for n by (rule b64_char_plain) simp
  ultimately show ?case unfolding b64_encode.simps Let_def set_simps by (metis insertE empty_iff)
qed simp

end
