(* ===== verification/Edge_State.thy ===== *)
theory Edge_State
  imports Base64 Json
begin

section \<open>Signed request state (internal/dataplane/edge/requeststate.go)\<close>

text \<open>
  A call that needs client input is answered with an opaque token the client echoes back: an
  envelope under an HMAC, binding the approval to its tool, principal, tenant and arguments. HMAC,
  SHA-256 and the JSON codec of the envelope and of the arguments are the standard library's and are
  parameters (\<open>StateCodec\<close>); base64 is \<open>Base64\<close>. Times are nanoseconds since the epoch; the nonce is
  the twelve random bytes, \<open>None\<close> when the source fails.
\<close>

record stateEnvelope =
  se_Version :: string
  se_Tenant :: string
  se_Tool :: string
  se_Principal :: string
  se_ArgsDigest :: string
  se_Source :: string
  se_Backend :: string
  se_Plugin :: string
  se_IssuedAt :: int
  se_Nonce :: string

record StateCodec =
  sc_hmac :: "string \<Rightarrow> string \<Rightarrow> string"
  sc_sha256 :: "string \<Rightarrow> string"
  sc_marshal :: "stateEnvelope \<Rightarrow> string option"
  sc_unmarshal :: "string \<Rightarrow> stateEnvelope option"
  sc_arguments :: "json option \<Rightarrow> string option"

datatype StateError =
    KeyTooShort nat | NoNonce | NotEncoded
  | UnexpectedFormat | MissingSignature | SignatureEncoding | BadMAC
  | PayloadEncoding | PayloadJSON | EnvelopeVersion string | IssuedInFuture
  | ExpiredState
  | IssuedForTool string string | OtherPrincipal | OtherTenant | OtherArguments
  | NoSigner

text \<open>The three sentinel errors, as \<open>errors.Is\<close> tells them apart.\<close>

fun is_expired_state :: "StateError \<Rightarrow> bool" where
  "is_expired_state ExpiredState = True"
| "is_expired_state _ = False"

fun is_mismatched_state :: "StateError \<Rightarrow> bool" where
  "is_mismatched_state (IssuedForTool _ _) = True"
| "is_mismatched_state OtherPrincipal = True"
| "is_mismatched_state OtherTenant = True"
| "is_mismatched_state OtherArguments = True"
| "is_mismatched_state _ = False"

definition second :: int where "second = 1000000000"

definition StateTTL :: int where "StateTTL = 10 * 60 * second"

definition SourceBackend :: string where "SourceBackend = ''backend''"
definition SourcePlugin :: string where "SourcePlugin = ''plugin''"

definition stateVersion :: string where "stateVersion = ''mcpd1''"

text \<open>The signer is its key.\<close>

type_synonym StateSigner = string

definition NewStateSigner :: "string \<Rightarrow> StateError + StateSigner" where
  "NewStateSigner key = (if length key < 32 then Inl (KeyTooShort (length key)) else Inr key)"

definition state_sign :: "StateCodec \<Rightarrow> StateSigner \<Rightarrow> string \<Rightarrow> string" where
  "state_sign c key encoded = sc_hmac c key (''mcpdoll.requeststate.v1'' @ [CHR 0x00] @ encoded)"

definition Wrap ::
  "StateCodec \<Rightarrow> StateSigner \<Rightarrow> int \<Rightarrow> string option \<Rightarrow> stateEnvelope \<Rightarrow> StateError + string" where
  "Wrap c key now nonce env =
     (let env = env\<lparr>se_Version := stateVersion\<rparr>;
          env = (if se_IssuedAt env = 0 then env\<lparr>se_IssuedAt := now div second\<rparr> else env)
      in bind_result
           (if se_Nonce env = [] then (case nonce of None \<Rightarrow> Inl NoNonce
              | Some bytes \<Rightarrow> Inr (env\<lparr>se_Nonce := b64_encode bytes\<rparr>))
            else Inr env)
           (\<lambda>env. case sc_marshal c env of
              None \<Rightarrow> Inl NotEncoded
            | Some payload \<Rightarrow>
                (let encoded = b64_encode payload
                 in Inr (stateVersion @ ''.'' @ encoded @ ''.'' @ b64_encode (state_sign c key encoded)))))"

definition Unwrap :: "StateCodec \<Rightarrow> StateSigner \<Rightarrow> int \<Rightarrow> string \<Rightarrow> StateError + stateEnvelope" where
  "Unwrap c key now token =
     (case cut ''.'' token of
        None \<Rightarrow> Inl UnexpectedFormat
      | Some (version, rest) \<Rightarrow>
          if version \<noteq> stateVersion then Inl UnexpectedFormat
          else case cut ''.'' rest of
            None \<Rightarrow> Inl MissingSignature
          | Some (encoded, macPart) \<Rightarrow>
          (case b64_decode macPart of
            None \<Rightarrow> Inl SignatureEncoding
          | Some gotMAC \<Rightarrow>
              if gotMAC \<noteq> state_sign c key encoded then Inl BadMAC
              else case b64_decode encoded of
                None \<Rightarrow> Inl PayloadEncoding
              | Some payload \<Rightarrow>
              (case sc_unmarshal c payload of
                None \<Rightarrow> Inl PayloadJSON
              | Some env \<Rightarrow>
                  if se_Version env \<noteq> stateVersion then Inl (EnvelopeVersion (se_Version env))
                  else if now - se_IssuedAt env * second > StateTTL then Inl ExpiredState
                  else if se_IssuedAt env * second - now > 60 * second then Inl IssuedInFuture
                  else Inr env)))"

definition argsDigest :: "StateCodec \<Rightarrow> json option \<Rightarrow> string" where
  "argsDigest c arguments =
     (case sc_arguments c arguments of
        None \<Rightarrow> ''unbindable''
      | Some raw \<Rightarrow> b64_encode (sc_sha256 c raw))"

text \<open>The envelopes of a backend's and of a plugin's deferral.\<close>

definition call_envelope ::
  "StateCodec \<Rightarrow> string \<Rightarrow> string \<Rightarrow> string \<Rightarrow> json option \<Rightarrow> stateEnvelope" where
  "call_envelope c tool who tenant arguments =
     \<lparr>se_Version = [], se_Tenant = tenant, se_Tool = tool, se_Principal = who,
      se_ArgsDigest = argsDigest c arguments, se_Source = [], se_Backend = [], se_Plugin = [],
      se_IssuedAt = 0, se_Nonce = []\<rparr>"

definition backend_token ::
  "StateCodec \<Rightarrow> StateSigner option \<Rightarrow> int \<Rightarrow> string option \<Rightarrow> string \<Rightarrow> string \<Rightarrow> string \<Rightarrow>
   json option \<Rightarrow> string \<Rightarrow> StateError + string" where
  "backend_token c signer now nonce tool who tenant arguments backendState =
     (case signer of
        None \<Rightarrow> Inl NoSigner
      | Some key \<Rightarrow>
          Wrap c key now nonce
            ((call_envelope c tool who tenant arguments)\<lparr>se_Source := SourceBackend, se_Backend := backendState\<rparr>))"

definition IssuePluginDeferral ::
  "StateCodec \<Rightarrow> StateSigner option \<Rightarrow> int \<Rightarrow> string option \<Rightarrow> string \<Rightarrow> string \<Rightarrow> string \<Rightarrow>
   json option \<Rightarrow> string \<Rightarrow> StateError + string" where
  "IssuePluginDeferral c signer now nonce tool who tenant arguments pluginState =
     (case signer of
        None \<Rightarrow> Inl NoSigner
      | Some key \<Rightarrow>
          Wrap c key now nonce
            ((call_envelope c tool who tenant arguments)\<lparr>se_Source := SourcePlugin, se_Plugin := pluginState\<rparr>))"

record Retry =
  rt_Source :: string
  rt_BackendState :: string
  rt_PluginState :: string

definition no_retry :: Retry where
  "no_retry = \<lparr>rt_Source = [], rt_BackendState = [], rt_PluginState = []\<rparr>"

definition AnswersBackend :: "Retry \<Rightarrow> bool" where
  "AnswersBackend r \<longleftrightarrow> rt_Source r = SourceBackend"

definition AnswersPlugin :: "Retry \<Rightarrow> bool" where
  "AnswersPlugin r \<longleftrightarrow> rt_Source r = SourcePlugin"

definition UnwrapForRetry ::
  "StateCodec \<Rightarrow> StateSigner option \<Rightarrow> int \<Rightarrow> string \<Rightarrow> string \<Rightarrow> string \<Rightarrow> json option \<Rightarrow> string \<Rightarrow>
   StateError + Retry" where
  "UnwrapForRetry c signer now tool who tenant arguments token =
     (if token = [] then Inr no_retry
      else case signer of
        None \<Rightarrow> Inl NoSigner
      | Some key \<Rightarrow>
          bind_result (Unwrap c key now token) (\<lambda>env.
            if se_Tool env \<noteq> [] \<and> se_Tool env \<noteq> tool then Inl (IssuedForTool (se_Tool env) tool)
            else if se_Principal env \<noteq> [] \<and> se_Principal env \<noteq> who then Inl OtherPrincipal
            else if se_Tenant env \<noteq> [] \<and> se_Tenant env \<noteq> tenant then Inl OtherTenant
            else if se_ArgsDigest env \<noteq> [] \<and> se_ArgsDigest env \<noteq> argsDigest c arguments
            then Inl OtherArguments
            else Inr \<lparr>rt_Source = se_Source env, rt_BackendState = se_Backend env,
                     rt_PluginState = se_Plugin env\<rparr>))"

subsection \<open>What a token is worth\<close>

definition json_inverse :: "StateCodec \<Rightarrow> bool" where
  "json_inverse c \<longleftrightarrow> (\<forall>e b. sc_marshal c e = Some b \<longrightarrow> sc_unmarshal c b = Some e)"

lemma stateVersion_no_dot: "CHR ''.'' \<notin> set stateVersion"
  by (simp add: stateVersion_def)

lemma Unwrap_signed:
  assumes "b64_decode payload = Some raw"
  shows "CHR ''.'' \<notin> set payload \<Longrightarrow>
    Unwrap c key now (stateVersion @ ''.'' @ payload @ ''.'' @ b64_encode (state_sign c key payload)) =
      (case sc_unmarshal c raw of
         None \<Rightarrow> Inl PayloadJSON
       | Some env \<Rightarrow>
           if se_Version env \<noteq> stateVersion then Inl (EnvelopeVersion (se_Version env))
           else if now - se_IssuedAt env * second > StateTTL then Inl ExpiredState
           else if se_IssuedAt env * second - now > 60 * second then Inl IssuedInFuture
           else Inr env)"
proof -
  assume "CHR ''.'' \<notin> set payload"
  then have "cut ''.'' (payload @ ''.'' @ x) = Some (payload, x)"
    "cut ''.'' (stateVersion @ ''.'' @ y) = Some (stateVersion, y)" for x y
    using stateVersion_no_dot by (simp_all add: cut_char_Some)
  then show ?thesis using assms by (simp add: Unwrap_def b64_roundtrip)
qed

text \<open>Issued at \<open>now\<close>, a token unwraps at \<open>later\<close> exactly while it is fresh.\<close>

definition fresh :: "int \<Rightarrow> int \<Rightarrow> bool" where
  "fresh now later \<longleftrightarrow>
     later - now div second * second \<le> StateTTL \<and> now div second * second - later \<le> 60 * second"

lemma Unwrap_Wrap:
  assumes "json_inverse c" and "Wrap c key now nonce env = Inr token"
    and "se_IssuedAt env = 0"
  shows "\<exists>n. Unwrap c key later token =
     (if later - now div second * second > StateTTL then Inl ExpiredState
      else if now div second * second - later > 60 * second then Inl IssuedInFuture
      else Inr (env\<lparr>se_Version := stateVersion, se_IssuedAt := now div second, se_Nonce := n\<rparr>))"
proof -
  let ?e = "\<lambda>n. env\<lparr>se_Version := stateVersion, se_IssuedAt := now div second, se_Nonce := n\<rparr>"
  from assms(2,3) obtain n payload where m: "sc_marshal c (?e n) = Some payload"
    and t: "token = stateVersion @ ''.'' @ b64_encode payload @ ''.'' @
      b64_encode (state_sign c key (b64_encode payload))"
    by (cases env) (auto simp: Wrap_def Let_def bind_result_def split: if_splits option.splits)
  from m assms(1) have "sc_unmarshal c payload = Some (?e n)" by (auto simp: json_inverse_def)
  then show ?thesis
    unfolding t Unwrap_signed [OF b64_roundtrip b64_no_dot] by (intro exI [of _ n]) simp
qed

text \<open>Without the key nothing is accepted: a token that unwraps carries the MAC of its payload.\<close>

lemma Unwrap_authentic:
  assumes "Unwrap c key now token = Inr env"
  shows "\<exists>payload mac raw. token = stateVersion @ ''.'' @ payload @ ''.'' @ mac \<and>
     b64_decode mac = Some (state_sign c key payload) \<and> b64_decode payload = Some raw \<and>
     sc_unmarshal c raw = Some env"
proof -
  obtain version rest where 1: "cut ''.'' token = Some (version, rest)"
    using assms by (cases "cut ''.'' token") (auto simp: Unwrap_def)
  with assms have 2: "version = stateVersion" by (auto simp: Unwrap_def split: if_splits)
  obtain payload mac where 3: "cut ''.'' rest = Some (payload, mac)"
    using assms 1 2 by (cases "cut ''.'' rest") (auto simp: Unwrap_def)
  have "token = stateVersion @ ''.'' @ payload @ ''.'' @ mac"
    using cut_Some_append [OF 1] cut_Some_append [OF 3] 2 by simp
  then show ?thesis
    using assms 1 2 3 by (auto simp: Unwrap_def split: option.splits if_splits)
qed

text \<open>A call that presents a token is the one the token was issued for, while the token is fresh.
  An empty field binds nothing.\<close>

definition honoured ::
  "StateCodec \<Rightarrow> int \<Rightarrow> int \<Rightarrow> string \<Rightarrow> string \<Rightarrow> string \<Rightarrow> json option \<Rightarrow>
   string \<Rightarrow> string \<Rightarrow> string \<Rightarrow> json option \<Rightarrow> bool" where
  "honoured c now later tool who tenant args tool' who' tenant' args' \<longleftrightarrow>
     fresh now later \<and> (tool = [] \<or> tool' = tool) \<and> (who = [] \<or> who' = who) \<and>
     (tenant = [] \<or> tenant' = tenant) \<and>
     (argsDigest c args = [] \<or> argsDigest c args' = argsDigest c args)"

lemma Wrap_not_Nil: "Wrap c key now nonce env = Inr token \<Longrightarrow> token \<noteq> []"
  by (auto simp: Wrap_def Let_def bind_result_def stateVersion_def split: if_splits option.splits)

lemma IssuePluginDeferral_not_Nil:
  "IssuePluginDeferral c signer now nonce tool who tenant args pstate = Inr token \<Longrightarrow> token \<noteq> []"
  by (auto simp: IssuePluginDeferral_def Wrap_not_Nil split: option.splits)

lemma wrapped_honoured:
  assumes "json_inverse c"
    and w: "Wrap c key now nonce ((call_envelope c tool who tenant args)\<lparr>se_Source := src, se_Backend := bstate,
        se_Plugin := pstate\<rparr>) = Inr token"
  shows "UnwrapForRetry c (Some key) later tool' who' tenant' args' token = Inr retry \<longleftrightarrow>
     honoured c now later tool who tenant args tool' who' tenant' args' \<and>
     retry = \<lparr>rt_Source = src, rt_BackendState = bstate, rt_PluginState = pstate\<rparr>"
proof -
  let ?env = "(call_envelope c tool who tenant args)\<lparr>se_Source := src, se_Backend := bstate, se_Plugin := pstate\<rparr>"
  have z: "se_IssuedAt ?env = 0" by (simp add: call_envelope_def)
  obtain n where u: "Unwrap c key later token =
     (if later - now div second * second > StateTTL then Inl ExpiredState
      else if now div second * second - later > 60 * second then Inl IssuedInFuture
      else Inr (?env\<lparr>se_Version := stateVersion, se_IssuedAt := now div second, se_Nonce := n\<rparr>))"
    using Unwrap_Wrap [OF assms(1) w z] by blast
  show ?thesis
    using Wrap_not_Nil [OF w]
    by (auto simp: UnwrapForRetry_def u fresh_def honoured_def call_envelope_def bind_result_def)
qed

lemma deferral_honoured:
  assumes "json_inverse c"
    and "IssuePluginDeferral c (Some key) now nonce tool who tenant args pstate = Inr token"
  shows "UnwrapForRetry c (Some key) later tool' who' tenant' args' token = Inr retry \<longleftrightarrow>
     honoured c now later tool who tenant args tool' who' tenant' args' \<and>
     retry = \<lparr>rt_Source = SourcePlugin, rt_BackendState = [], rt_PluginState = pstate\<rparr>"
  using assms(2) by (intro wrapped_honoured [OF assms(1), where bstate = "[]"])
    (simp add: IssuePluginDeferral_def call_envelope_def)

lemma backend_request_honoured:
  assumes "json_inverse c"
    and "backend_token c (Some key) now nonce tool who tenant args bstate = Inr token"
  shows "UnwrapForRetry c (Some key) later tool' who' tenant' args' token = Inr retry \<longleftrightarrow>
     honoured c now later tool who tenant args tool' who' tenant' args' \<and>
     retry = \<lparr>rt_Source = SourceBackend, rt_BackendState = bstate, rt_PluginState = []\<rparr>"
  using assms(2) by (intro wrapped_honoured [OF assms(1), where pstate = "[]"])
    (simp add: backend_token_def call_envelope_def)

subsection \<open>Properties\<close>


definition wit_codec :: StateCodec where
  "wit_codec = \<lparr>sc_hmac = (\<lambda>k m. k), sc_sha256 = (\<lambda>m. m),
     sc_marshal = (\<lambda>e. if e = \<lparr>se_Version = ''mcpd1'', se_Tenant = ''acme'', se_Tool = ''crm.void'',
        se_Principal = ''ann'', se_ArgsDigest = b64_encode ''{}'', se_Source = ''plugin'', se_Backend = [],
        se_Plugin = ''st'', se_IssuedAt = 7, se_Nonce = b64_encode ''n''\<rparr> then Some ''E'' else None),
     sc_unmarshal = (\<lambda>b. Some \<lparr>se_Version = ''mcpd1'', se_Tenant = ''acme'', se_Tool = ''crm.void'',
        se_Principal = ''ann'', se_ArgsDigest = b64_encode ''{}'', se_Source = ''plugin'', se_Backend = [],
        se_Plugin = ''st'', se_IssuedAt = 7, se_Nonce = b64_encode ''n''\<rparr>),
     sc_arguments = (\<lambda>a. if a = Some (JObj []) then Some ''{}'' else Some ''{1}'')\<rparr>"

lemma wit_deferral_issued:
  "is_ok (IssuePluginDeferral wit_codec (Some ''k'') (7 * second) (Some ''n'') ''crm.void'' ''ann'' ''acme''
       (Some (JObj [])) ''st'')"
  by (simp add: IssuePluginDeferral_def Wrap_def call_envelope_def argsDigest_def wit_codec_def Let_def
      bind_result_def second_def stateVersion_def SourcePlugin_def del: b64_encode.simps)


text \<open>Arguments that cannot be encoded all have the same digest, so an approval of one such call is
  honoured for another.\<close>

theorem unbindable_arguments_match:
  "sc_arguments c a = None \<Longrightarrow> sc_arguments c b = None \<Longrightarrow> argsDigest c a = argsDigest c b"
  by (simp add: argsDigest_def)

end
