(* ===== verification/Snapshot_View.thy ===== *)
theory Snapshot_View
  imports Snapshot_Types
begin

section \<open>Indexing a snapshot for serving (internal/dataplane/snapshot/view.go)\<close>

text \<open>
  \<open>BuildWithEngine\<close> checks a snapshot and indexes it; \<open>composePrincipal\<close> filters the index to one
  principal's catalog. The Go maps of a view are association lists in insertion order, updated by
  key; the build's loops return at the first error (\<open>fold_result\<close>). The clock readings \<open>BuiltAt\<close>
  and \<open>LoadedAt\<close>, which only display and age use, are left out.
\<close>

record Tool =
  tool_Def :: ToolDefinition
  tool_Server :: Server
  tool_Namespace :: Namespace
  tool_Tenant :: Tenant
  tool_Toolset :: Toolset
  tool_ToolsetPriority :: int

definition Tool_QualifiedName :: "Tool \<Rightarrow> string" where
  "Tool_QualifiedName t = td_QualifiedName (tool_Def t)"

definition Tool_Scope :: "Tool \<Rightarrow> string" where
  "Tool_Scope t = ToolScope (t_Slug (tool_Tenant t)) (ts_Name (tool_Toolset t)) (td_Name (tool_Def t))"

record View =
  v_pb :: Snapshot
  v_Version :: int
  v_ID :: string
  v_namespaces :: "(string \<times> Namespace) list"
  v_servers :: "(string \<times> Server) list"
  v_toolsets :: "(string \<times> Toolset) list"
  v_policies :: "(string \<times> Policy) list"
  v_plugins :: "(string \<times> PluginManifest) list"
  v_tenants :: "(string \<times> Tenant) list"
  v_tenantsBySlug :: "(string \<times> Tenant) list"
  v_toolsByTenant :: "(string \<times> Tool list) list"
  v_toolsByDigest :: "(string \<times> ToolDefinition) list"

datatype BuildError =
    BadVersion int | TenantUnnamed | DuplicateTenantId string | DuplicateTenantSlug string
  | DuplicateNamespace string | SharedPrefix string string string | DuplicateToolset string
  | DuplicateServer string | ServerUnknownNamespace string string
  | BindingUnknownTenant string string | PluginConflict string string Hook int
  | ToolUnknownServer string string | ToolUnknownNamespace string string
  | ToolUnknownTenant string string | ToolUnknownToolset string string
  | QualifiedNameMismatch string string string string | NoInputSchema string
  | DuplicateToolName string string string string | OverBudget string int string int

subsection \<open>The build's loops\<close>

definition add_tenant :: "Tenant \<Rightarrow> View \<Rightarrow> BuildError + View" where
  "add_tenant t v =
     (if t_Id t = [] \<or> t_Slug t = [] then Inl TenantUnnamed
      else if map_of (v_tenants v) (t_Id t) \<noteq> None then Inl (DuplicateTenantId (t_Id t))
      else if map_of (v_tenantsBySlug v) (t_Slug t) \<noteq> None then Inl (DuplicateTenantSlug (t_Slug t))
      else Inr (v\<lparr>v_tenants := AList.update (t_Id t) t (v_tenants v),
                 v_tenantsBySlug := AList.update (t_Slug t) t (v_tenantsBySlug v)\<rparr>))"

definition add_namespace ::
  "Namespace \<Rightarrow> View \<times> (string \<times> string) list \<Rightarrow> BuildError + View \<times> (string \<times> string) list" where
  "add_namespace ns = (\<lambda>(v, prefixes).
     if map_of (v_namespaces v) (ns_Id ns) \<noteq> None then Inl (DuplicateNamespace (ns_Id ns))
     else case map_of prefixes (ns_Prefix ns) of
         Some prior \<Rightarrow> Inl (SharedPrefix prior (ns_Id ns) (ns_Prefix ns))
       | None \<Rightarrow> Inr (v\<lparr>v_namespaces := AList.update (ns_Id ns) ns (v_namespaces v)\<rparr>,
                      AList.update (ns_Prefix ns) (ns_Id ns) prefixes))"

definition add_toolset :: "Toolset \<Rightarrow> View \<Rightarrow> BuildError + View" where
  "add_toolset ts v =
     (if map_of (v_toolsets v) (ts_Id ts) \<noteq> None then Inl (DuplicateToolset (ts_Id ts))
      else Inr (v\<lparr>v_toolsets := AList.update (ts_Id ts) ts (v_toolsets v)\<rparr>))"

definition add_policy :: "Policy \<Rightarrow> View \<Rightarrow> View" where
  "add_policy p v = v\<lparr>v_policies := AList.update (pol_Id p) p (v_policies v)\<rparr>"

definition add_server :: "Server \<Rightarrow> View \<Rightarrow> BuildError + View" where
  "add_server srv v =
     (if map_of (v_servers v) (srv_Id srv) \<noteq> None then Inl (DuplicateServer (srv_Id srv))
      else if map_of (v_namespaces v) (srv_NamespaceId srv) = None
      then Inl (ServerUnknownNamespace (srv_Id srv) (srv_NamespaceId srv))
      else case find (\<lambda>b. map_of (v_tenants v) (bd_TenantId b) = None) (srv_Bindings srv) of
          Some b \<Rightarrow> Inl (BindingUnknownTenant (srv_Id srv) (bd_TenantId b))
        | None \<Rightarrow> Inr (v\<lparr>v_servers := AList.update (srv_Id srv) srv (v_servers v)\<rparr>))"

definition add_plugin :: "PluginManifest \<Rightarrow> View \<Rightarrow> View" where
  "add_plugin p v = v\<lparr>v_plugins := AList.update (pm_Id p) p (v_plugins v)\<rparr>"

type_synonym slot = "Hook \<times> int"

definition claim_slot ::
  "PluginManifest \<Rightarrow> Hook \<Rightarrow> (slot \<rightharpoonup> string) \<Rightarrow> BuildError + (slot \<rightharpoonup> string)" where
  "claim_slot p h seen =
     (case seen (h, pm_Priority p) of
        Some prior \<Rightarrow> Inl (PluginConflict prior (pm_Name p) h (pm_Priority p))
      | None \<Rightarrow> Inr (seen((h, pm_Priority p) \<mapsto> pm_Name p)))"

definition claim_slots :: "PluginManifest \<Rightarrow> (slot \<rightharpoonup> string) \<Rightarrow> BuildError + (slot \<rightharpoonup> string)" where
  "claim_slots p seen =
     (if pm_Writes p = [] then Inr seen else fold_result (claim_slot p) (pm_Hooks p) seen)"

definition checkMutatingPluginConflicts :: "PluginManifest list \<Rightarrow> BuildError + unit" where
  "checkMutatingPluginConflicts plugins =
     bind_result (fold_result claim_slots plugins Map.empty) (\<lambda>_. Inr ())"

text \<open>One admitted definition, resolved against the indexes.\<close>

definition resolve_tool :: "View \<Rightarrow> ToolDefinition \<Rightarrow> BuildError + Tool" where
  "resolve_tool v def =
     (case map_of (v_servers v) (td_ServerId def) of
        None \<Rightarrow> Inl (ToolUnknownServer (td_QualifiedName def) (td_ServerId def))
      | Some server \<Rightarrow>
     (case map_of (v_namespaces v) (td_NamespaceId def) of
        None \<Rightarrow> Inl (ToolUnknownNamespace (td_QualifiedName def) (td_NamespaceId def))
      | Some ns \<Rightarrow>
     (case map_of (v_tenants v) (td_TenantId def) of
        None \<Rightarrow> Inl (ToolUnknownTenant (td_QualifiedName def) (td_TenantId def))
      | Some tenant \<Rightarrow>
     (case map_of (v_toolsets v) (td_ToolsetId def) of
        None \<Rightarrow> Inl (ToolUnknownToolset (td_QualifiedName def) (td_ToolsetId def))
      | Some toolset \<Rightarrow>
          if td_QualifiedName def \<noteq> ns_Prefix ns @ ''.'' @ td_Name def
          then Inl (QualifiedNameMismatch (td_Name def) (td_QualifiedName def) (ns_Id ns) (ns_Prefix ns))
          else if td_InputSchemaJson def = [] then Inl (NoInputSchema (td_QualifiedName def))
          else Inr \<lparr>tool_Def = def, tool_Server = server, tool_Namespace = ns, tool_Tenant = tenant,
                    tool_Toolset = toolset, tool_ToolsetPriority = ts_Priority toolset\<rparr>))))"

text \<open>Reading an absent key of a Go map of slices gives the empty slice.\<close>

definition slice_of :: "('k \<times> 'a list) list \<Rightarrow> 'k \<Rightarrow> 'a list" where
  "slice_of m k = (case map_of m k of None \<Rightarrow> [] | Some xs \<Rightarrow> xs)"

definition add_tool :: "ToolDefinition \<Rightarrow> View \<Rightarrow> BuildError + View" where
  "add_tool def v =
     bind_result (resolve_tool v def) (\<lambda>tool.
       Inr (v\<lparr>v_toolsByTenant := AList.update (td_TenantId def)
                (slice_of (v_toolsByTenant v) (td_TenantId def) @ [tool]) (v_toolsByTenant v),
              v_toolsByDigest := AList.update (td_Digest def) def (v_toolsByDigest v)\<rparr>))"

text \<open>The stable total order of a catalog: \<open>SortStableFunc\<close> by a lexicographic key.\<close>

definition tool_key :: "Tool \<Rightarrow> int \<times> string \<times> string" where
  "tool_key t = (tool_ToolsetPriority t, ns_Prefix (tool_Namespace t), td_Name (tool_Def t))"

definition sortTools :: "Tool list \<Rightarrow> Tool list" where
  "sortTools = sort_key tool_key"

definition slug_of :: "View \<Rightarrow> string \<Rightarrow> string" where
  "slug_of v tenantID = (case map_of (v_tenants v) tenantID of None \<Rightarrow> [] | Some t \<Rightarrow> t_Slug t)"

definition check_name ::
  "string \<Rightarrow> Tool \<Rightarrow> (string \<rightharpoonup> string) \<Rightarrow> BuildError + (string \<rightharpoonup> string)" where
  "check_name slug t seen =
     (case seen (Tool_QualifiedName t) of
        Some prior \<Rightarrow> Inl (DuplicateToolName slug (Tool_QualifiedName t) prior (ts_Name (tool_Toolset t)))
      | None \<Rightarrow> Inr (seen(Tool_QualifiedName t \<mapsto> ts_Name (tool_Toolset t))))"

definition check_names :: "View \<Rightarrow> string \<times> Tool list \<Rightarrow> unit \<Rightarrow> BuildError + unit" where
  "check_names v = (\<lambda>(tenantID, tools) _.
     bind_result (fold_result (check_name (slug_of v tenantID)) tools Map.empty) (\<lambda>_. Inr ()))"

text \<open>The token sums are Go \<open>int32\<close>: they wrap around.\<close>

definition count_of :: "(string \<times> int) list \<Rightarrow> string \<Rightarrow> int" where
  "count_of m k = (case map_of m k of None \<Rightarrow> 0 | Some n \<Rightarrow> n)"

definition add_cost :: "Tool \<Rightarrow> (string \<times> int) list \<Rightarrow> (string \<times> int) list" where
  "add_cost t used =
     AList.update (ts_Id (tool_Toolset t))
       (wrap32 (count_of used (ts_Id (tool_Toolset t)) + td_TokenEstimate (tool_Def t))) used"

definition check_budget ::
  "View \<Rightarrow> string \<Rightarrow> string \<times> int \<Rightarrow> unit \<Rightarrow> BuildError + unit" where
  "check_budget v tenantID = (\<lambda>(id, used) _.
     case map_of (v_toolsets v) id of
       None \<Rightarrow> Inr ()
     | Some ts \<Rightarrow>
         if ts_TokenBudget ts > 0 \<and> used > ts_TokenBudget ts
         then Inl (OverBudget (ts_Name ts) used (slug_of v tenantID) (ts_TokenBudget ts))
         else Inr ())"

definition check_budgets :: "View \<Rightarrow> string \<times> Tool list \<Rightarrow> unit \<Rightarrow> BuildError + unit" where
  "check_budgets v = (\<lambda>(tenantID, tools) _.
     fold_result (check_budget v tenantID) (fold add_cost tools []) ())"

definition empty_view :: "Snapshot \<Rightarrow> View" where
  "empty_view snap =
     \<lparr>v_pb = snap, v_Version = sn_Version snap, v_ID = sn_Id snap, v_namespaces = [],
      v_servers = [], v_toolsets = [], v_policies = [], v_plugins = [], v_tenants = [],
      v_tenantsBySlug = [], v_toolsByTenant = [], v_toolsByDigest = []\<rparr>"

text \<open>
  The snapshot is present (Go refuses a nil one) and the engine is passed but not used by the
  build, as in the code, whose engine argument is discarded.
\<close>

definition BuildWithEngine :: "Snapshot \<Rightarrow> BuildError + View" where
  "BuildWithEngine snap =
     (if sn_Version snap \<le> 0 then Inl (BadVersion (sn_Version snap))
      else
        bind_result (fold_result add_tenant (sn_Tenants snap) (empty_view snap)) (\<lambda>v.
        bind_result (fold_result add_namespace (sn_Namespaces snap) (v, [])) (\<lambda>(v, _).
        bind_result (fold_result add_toolset (sn_Toolsets snap) v) (\<lambda>v.
        let v = fold add_policy (sn_Policies snap) v in
        bind_result (fold_result add_server (sn_Servers snap) v) (\<lambda>v.
        let v = fold add_plugin (sn_Plugins snap) v in
        bind_result (checkMutatingPluginConflicts (sn_Plugins snap)) (\<lambda>_.
        bind_result (fold_result add_tool (sn_Tools snap) v) (\<lambda>v.
        let v = v\<lparr>v_toolsByTenant := map (\<lambda>(k, tools). (k, sortTools tools)) (v_toolsByTenant v)\<rparr> in
        bind_result (fold_result (check_names v) (v_toolsByTenant v) ()) (\<lambda>_.
        bind_result (fold_result (check_budgets v) (v_toolsByTenant v) ()) (\<lambda>_.
        Inr v)))))))))"

subsection \<open>One principal's catalog\<close>

record PrincipalView =
  pv_Principal :: Principal
  pv_Tenant :: "Tenant option"
  pv_Tenants :: "Tenant list"
  pv_Tools :: "Tool list"
  pv_names :: "string list"
  pv_byQualifiedName :: "string \<rightharpoonup> Tool"
  pv_callable :: "string \<Rightarrow> bool"
  pv_Policies :: "Policy list"
  pv_pluginsByHook :: "Hook \<Rightarrow> PluginManifest list"
  pv_TTLMs :: int
  pv_TokenEstimate :: int

definition displayName :: "Tool \<Rightarrow> bool \<Rightarrow> string" where
  "displayName t spanning =
     (if \<not> spanning then Tool_QualifiedName t
      else t_Slug (tool_Tenant t) @ ''.'' @ Tool_QualifiedName t)"

text \<open>The body of the loop over a tenant's tools; the second component is \<open>contributing\<close>.\<close>

definition compose_tool ::
  "Decider \<Rightarrow> bool \<Rightarrow> Tool \<Rightarrow> PrincipalView \<times> (string \<times> Toolset) list \<Rightarrow>
   PrincipalView \<times> (string \<times> Toolset) list" where
  "compose_tool decide spanning tool = (\<lambda>(out, contributing).
     let scope = Tool_Scope tool in
     if \<not> decide PermToolList scope then (out, contributing)
     else
       let name = displayName tool spanning;
           out = out\<lparr>pv_Tools := pv_Tools out @ [tool],
                     pv_names := pv_names out @ [name],
                     pv_byQualifiedName := (pv_byQualifiedName out)(name \<mapsto> tool),
                     pv_TokenEstimate := pv_TokenEstimate out + td_TokenEstimate (tool_Def tool)\<rparr>;
           contributing = AList.update (ts_Id (tool_Toolset tool)) (tool_Toolset tool) contributing
       in (if decide PermToolCall scope
           then out\<lparr>pv_callable := (pv_callable out)(name := True)\<rparr> else out,
           contributing))"

definition compose_tenant ::
  "View \<Rightarrow> Decider \<Rightarrow> bool \<Rightarrow> Tenant \<Rightarrow> PrincipalView \<times> (string \<times> Toolset) list \<Rightarrow>
   PrincipalView \<times> (string \<times> Toolset) list" where
  "compose_tenant v decide spanning tenant =
     fold (compose_tool decide spanning) (slice_of (v_toolsByTenant v) (t_Id tenant))"

definition narrow :: "int \<Rightarrow> int \<Rightarrow> int" where
  "narrow limit ttl = (if limit > 0 \<and> (ttl = 0 \<or> limit < ttl) then limit else ttl)"

definition compose_policy :: "Policy \<Rightarrow> PrincipalView \<Rightarrow> PrincipalView" where
  "compose_policy policy out =
     out\<lparr>pv_Policies := pv_Policies out @ [policy],
         pv_TTLMs := fold (\<lambda>rule. narrow (pr_MaxTtlMs rule)) (pol_Rules policy) (pv_TTLMs out)\<rparr>"

definition pluginAppliesTo :: "PluginManifest \<Rightarrow> (string \<times> Toolset) list \<Rightarrow> bool" where
  "pluginAppliesTo p contributing =
     (if pm_ToolsetIds p = [] then True
      else list_ex (\<lambda>id. map_of contributing id \<noteq> None) (pm_ToolsetIds p))"

definition compose_plugin ::
  "(string \<times> Toolset) list \<Rightarrow> PluginManifest \<Rightarrow> (Hook \<Rightarrow> PluginManifest list) \<Rightarrow>
   Hook \<Rightarrow> PluginManifest list" where
  "compose_plugin contributing plugin byHook =
     (if \<not> pluginAppliesTo plugin contributing then byHook
      else fold (\<lambda>hook m. m(hook := m hook @ [plugin])) (pm_Hooks plugin) byHook)"

definition composePrincipal ::
  "View \<Rightarrow> Principal \<Rightarrow> Tenant list \<Rightarrow> bool \<Rightarrow> Decider \<Rightarrow> PrincipalView" where
  "composePrincipal v who tenants spanning decide =
     (let ttl = (case sn_Catalog (v_pb v) of None \<Rightarrow> 0 | Some defaults \<Rightarrow> cd_TtlMs defaults);
          out = \<lparr>pv_Principal = who,
                 pv_Tenant = (if \<not> spanning \<and> length tenants = 1 then Some (tenants ! 0) else None),
                 pv_Tenants = tenants, pv_Tools = [], pv_names = [],
                 pv_byQualifiedName = Map.empty, pv_callable = (\<lambda>_. False), pv_Policies = [],
                 pv_pluginsByHook = (\<lambda>_. []), pv_TTLMs = ttl, pv_TokenEstimate = 0\<rparr>;
          (out, contributing) = fold (compose_tenant v decide spanning) tenants (out, []);
          out = out\<lparr>pv_TTLMs := fold (\<lambda>(_, ts). narrow (ts_TtlMs ts)) contributing (pv_TTLMs out)\<rparr>;
          out = fold compose_policy (sn_Policies (v_pb v)) out;
          out = out\<lparr>pv_Policies := sort_key pol_Priority (pv_Policies out)\<rparr>;
          byHook = fold (compose_plugin contributing) (sn_Plugins (v_pb v)) (pv_pluginsByHook out)
      in out\<lparr>pv_pluginsByHook := (\<lambda>hook. sort_key pm_Priority (byHook hook))\<rparr>)"

text \<open>\<open>PrincipalView.Tool\<close>, \<open>Callable\<close>, \<open>PluginsFor\<close>, \<open>CacheScope\<close> and \<open>TenantLabel\<close>.\<close>

definition PrincipalView_Tool :: "PrincipalView \<Rightarrow> string \<Rightarrow> Tool option" where
  "PrincipalView_Tool p qualifiedName = pv_byQualifiedName p qualifiedName"

definition Callable :: "PrincipalView \<Rightarrow> string \<Rightarrow> bool" where
  "Callable p qualifiedName = pv_callable p qualifiedName"

definition PluginsFor :: "PrincipalView \<Rightarrow> Hook \<Rightarrow> PluginManifest list" where
  "PluginsFor p hook = pv_pluginsByHook p hook"

definition Spanning :: "PrincipalView \<Rightarrow> bool" where
  "Spanning p = p_SpansTenants (pv_Principal p)"

definition CacheScope :: "PrincipalView \<Rightarrow> string" where
  "CacheScope p = ''private''"

definition TenantLabel :: "PrincipalView \<Rightarrow> string" where
  "TenantLabel p =
     (case pv_Tenant p of
        Some t \<Rightarrow> t_Slug t
      | None \<Rightarrow>
          let slugs = map t_Slug (pv_Tenants p)
          in if slugs = [] then ''(none)'' else join '', '' slugs)"

definition TenantSlugs :: "View \<Rightarrow> string list" where
  "TenantSlugs v = sort (map fst (v_tenantsBySlug v))"

definition Servers :: "View \<Rightarrow> Server list" where
  "Servers v = sort_key srv_Id (map snd (v_servers v))"

datatype TenantsError = TenantNotCarried string string int | UnparseableScope string string

text \<open>The loop over the grants, then the expansion of a global grant.\<close>

fun reach_grants ::
  "View \<Rightarrow> string \<Rightarrow> Grant list \<Rightarrow> (string \<times> Tenant) list \<Rightarrow> bool \<Rightarrow>
   TenantsError + ((string \<times> Tenant) list \<times> bool)" where
  "reach_grants v subject [] reached glob = Inr (reached, glob)"
| "reach_grants v subject (grant # gs) reached glob =
     (case ParseScope (g_Scope grant) of
        None \<Rightarrow> Inl (UnparseableScope subject (g_Scope grant))
      | Some parsed \<Rightarrow>
          if ps_Global parsed then reach_grants v subject gs reached True
          else case map_of (v_tenantsBySlug v) (ps_Tenant parsed) of
              Some tenant \<Rightarrow> reach_grants v subject gs (AList.update (t_Id tenant) tenant reached) glob
            | None \<Rightarrow> reach_grants v subject gs reached glob)"

definition tenantsFor :: "View \<Rightarrow> Principal \<Rightarrow> TenantsError + Tenant list" where
  "tenantsFor v who =
     (if \<not> p_SpansTenants who
      then case map_of (v_tenants v) (p_TenantId who) of
          None \<Rightarrow> Inl (TenantNotCarried (p_Subject who) (p_TenantId who) (v_Version v))
        | Some tenant \<Rightarrow> Inr [tenant]
      else bind_result (reach_grants v (p_Subject who) (p_Grants who) [] False)
        (\<lambda>(reached, glob).
          let reached = (if glob then fold (\<lambda>(id, tenant). AList.update id tenant) (v_tenants v) reached
                         else reached)
          in Inr (sort_key t_Slug (map snd reached))))"

end
