(* ===== verification/Snapshot_Catalog.thy ===== *)
theory Snapshot_Catalog
  imports Snapshot_View
begin

section \<open>What a built view and a composed catalog contain\<close>

text \<open>
  The specification of the build: every index is the snapshot's list keyed by id, and a tenant's
  tools are the snapshot's definitions for it, resolved and sorted. The specification of a
  principal's catalog: the tenant's tools the decider lets it list, in order. The properties
  follow from these two characterisations and from the engine contract.
\<close>

subsection \<open>Indexes\<close>

definition index :: "('a \<Rightarrow> 'k) \<Rightarrow> 'a list \<Rightarrow> ('k \<times> 'a) list" where
  "index f xs = map (\<lambda>x. (f x, x)) xs"

lemma index_Nil [simp]: "index f [] = []"
  by (simp add: index_def)

lemma update_fresh: "map_of m k = None \<Longrightarrow> AList.update k x m = m @ [(k, x)]"
  by (induction m) (auto split: if_splits)

lemma map_of_index_None [simp]: "map_of (index f xs) k = None \<longleftrightarrow> k \<notin> f ` set xs"
  by (auto simp: index_def map_of_eq_None_iff image_image)

lemma update_index: "f x \<notin> f ` set xs \<Longrightarrow> AList.update (f x) x (index f xs) = index f (xs @ [x])"
  by (subst update_fresh) (auto simp: index_def map_of_eq_None_iff image_image)

lemma map_of_index:
  "distinct (map f xs) \<Longrightarrow> map_of (index f xs) k = Some x \<longleftrightarrow> x \<in> set xs \<and> f x = k"
  by (auto simp: index_def map_of_eq_Some_iff comp_def)

lemma fold_result_unit:
  "fold_result f xs () = Inr () \<longleftrightarrow> (\<forall>x\<in>set xs. f x () = Inr ())"
  by (induction xs) (auto simp: bind_result_Inr)

subsection \<open>The build's loops\<close>

lemma add_tenants:
  assumes "fold_result add_tenant ts v = Inr v'" "v_tenants v = []" "v_tenantsBySlug v = []"
  shows "v' = v\<lparr>v_tenants := index t_Id ts, v_tenantsBySlug := index t_Slug ts\<rparr> \<and>
    distinct (map t_Id ts) \<and> distinct (map t_Slug ts) \<and>
    (\<forall>t\<in>set ts. t_Id t \<noteq> [] \<and> t_Slug t \<noteq> [])"
  by (rule fold_result_inv [OF assms(1)])
    (use assms in \<open>auto simp: add_tenant_def update_index split: if_splits\<close>)

lemma add_namespaces:
  assumes "fold_result add_namespace nss (v, []) = Inr v'" "v_namespaces v = []"
  shows "v' = (v\<lparr>v_namespaces := index ns_Id nss\<rparr>, map (\<lambda>n. (ns_Prefix n, ns_Id n)) nss) \<and>
    distinct (map ns_Id nss) \<and> distinct (map ns_Prefix nss)"
  by (rule fold_result_inv [OF assms(1)])
    (use assms in \<open>auto simp: add_namespace_def index_def update_fresh map_of_eq_None_iff image_image
       split: if_splits option.splits\<close>)

lemma add_toolsets:
  assumes "fold_result add_toolset ts v = Inr v'" "v_toolsets v = []"
  shows "v' = v\<lparr>v_toolsets := index ts_Id ts\<rparr> \<and> distinct (map ts_Id ts)"
  by (rule fold_result_inv [OF assms(1)])
    (use assms in \<open>auto simp: add_toolset_def update_index split: if_splits\<close>)

lemma add_servers:
  assumes "fold_result add_server ss v = Inr v'" "v_servers v = []"
  shows "v' = v\<lparr>v_servers := index srv_Id ss\<rparr> \<and> distinct (map srv_Id ss) \<and>
    (\<forall>s\<in>set ss. map_of (v_namespaces v) (srv_NamespaceId s) \<noteq> None \<and>
       (\<forall>b\<in>set (srv_Bindings s). map_of (v_tenants v) (bd_TenantId b) \<noteq> None))"
  by (rule fold_result_inv [OF assms(1)])
    (use assms in \<open>auto simp: add_server_def update_index find_None_iff split: if_splits option.splits\<close>)

lemma add_policies: "\<exists>m. fold add_policy ps v = v\<lparr>v_policies := m\<rparr>"
proof (induction ps arbitrary: v)
  case Nil
  show ?case by (rule exI [of _ "v_policies v"]) simp
next
  case (Cons p ps)
  obtain m where "fold add_policy ps (add_policy p v) = (add_policy p v)\<lparr>v_policies := m\<rparr>"
    using Cons.IH by blast
  then show ?case by (auto simp: add_policy_def [of p v])
qed

lemma add_plugins: "\<exists>m. fold add_plugin ps v = v\<lparr>v_plugins := m\<rparr>"
proof (induction ps arbitrary: v)
  case Nil
  show ?case by (rule exI [of _ "v_plugins v"]) simp
next
  case (Cons p ps)
  obtain m where "fold add_plugin ps (add_plugin p v) = (add_plugin p v)\<lparr>v_plugins := m\<rparr>"
    using Cons.IH by blast
  then show ?case by (auto simp: add_plugin_def [of p v])
qed

definition tool_for :: "View \<Rightarrow> ToolDefinition \<Rightarrow> Tool" where
  "tool_for v d = projr (resolve_tool v d)"

lemma resolve_tool_frame [simp]:
  "resolve_tool (v\<lparr>v_toolsByTenant := m\<rparr>) = resolve_tool v"
  "resolve_tool (v\<lparr>v_toolsByDigest := dg\<rparr>) = resolve_tool v"
  by (simp_all add: resolve_tool_def fun_eq_iff split: option.split)

lemma slice_of_update [simp]:
  "slice_of (AList.update k xs m) k' = (if k' = k then xs else slice_of m k')"
  by (simp add: slice_of_def update_conv')

lemma slice_of_Nil [simp]: "slice_of [] k = []"
  by (simp add: slice_of_def)

lemma slice_of_map:
  "g [] = [] \<Longrightarrow> slice_of (map (\<lambda>(k, xs). (k, g xs)) m) k = g (slice_of m k)"
  by (induction m) (auto simp: slice_of_def)

lemma add_tools:
  assumes "fold_result add_tool ds v = Inr v'" "v_toolsByTenant v = []"
  shows "\<exists>m dg. v' = v\<lparr>v_toolsByTenant := m, v_toolsByDigest := dg\<rparr> \<and> distinct (map fst m) \<and>
    (\<forall>d\<in>set ds. resolve_tool v d = Inr (tool_for v d)) \<and>
    (\<forall>k. slice_of m k = map (tool_for v) (filter (\<lambda>d. td_TenantId d = k) ds))"
proof (rule fold_result_inv [OF assms(1)])
  show "\<exists>m dg. v = v\<lparr>v_toolsByTenant := m, v_toolsByDigest := dg\<rparr> \<and> distinct (map fst m) \<and>
    (\<forall>d\<in>set []. resolve_tool v d = Inr (tool_for v d)) \<and>
    (\<forall>k. slice_of m k = map (tool_for v) (filter (\<lambda>d. td_TenantId d = k) []))"
    by (rule exI [of _ "[]"], rule exI [of _ "v_toolsByDigest v"]) (use assms(2) in simp)
next
  fix pre d t t'
  assume "\<exists>m dg. t = v\<lparr>v_toolsByTenant := m, v_toolsByDigest := dg\<rparr> \<and> distinct (map fst m) \<and>
    (\<forall>d\<in>set pre. resolve_tool v d = Inr (tool_for v d)) \<and>
    (\<forall>k. slice_of m k = map (tool_for v) (filter (\<lambda>d. td_TenantId d = k) pre))"
  then obtain m dg where t: "t = v\<lparr>v_toolsByTenant := m, v_toolsByDigest := dg\<rparr>"
    and m: "distinct (map fst m)" "\<forall>d\<in>set pre. resolve_tool v d = Inr (tool_for v d)"
      "\<And>k. slice_of m k = map (tool_for v) (filter (\<lambda>d. td_TenantId d = k) pre)"
    by blast
  assume "add_tool d t = Inr t'"
  with t obtain tool where r: "resolve_tool v d = Inr tool" and
    t': "t' = v\<lparr>v_toolsByTenant := AList.update (td_TenantId d) (slice_of m (td_TenantId d) @ [tool]) m,
              v_toolsByDigest := AList.update (td_Digest d) d dg\<rparr>"
    by (auto simp: add_tool_def bind_result_Inr)
  have tf: "tool_for v d = tool" using r by (simp add: tool_for_def)
  show "\<exists>m dg. t' = v\<lparr>v_toolsByTenant := m, v_toolsByDigest := dg\<rparr> \<and> distinct (map fst m) \<and>
    (\<forall>d\<in>set (pre @ [d]). resolve_tool v d = Inr (tool_for v d)) \<and>
    (\<forall>k. slice_of m k = map (tool_for v) (filter (\<lambda>d. td_TenantId d = k) (pre @ [d])))"
    by (rule exI, rule exI, rule conjI, rule t') (use m r tf in \<open>auto simp: distinct_update\<close>)
qed

lemma check_names_distinct:
  assumes "fold_result (check_name slug) tools Map.empty = Inr seen"
  shows "distinct (map Tool_QualifiedName tools) \<and>
    (\<forall>n. seen n = None \<longleftrightarrow> n \<notin> Tool_QualifiedName ` set tools)"
  by (rule fold_result_inv [OF assms]) (auto simp: check_name_def split: option.splits if_splits)

text \<open>The sums of the budget check, and the inverse of a successful build.\<close>

definition toolset_cost :: "string \<Rightarrow> Tool list \<Rightarrow> int" where
  "toolset_cost i tools =
     sum_list (map (\<lambda>t. td_TokenEstimate (tool_Def t))
       (filter (\<lambda>t. ts_Id (tool_Toolset t) = i) tools))"

lemma wrap32_add [simp]: "wrap32 (wrap32 a + b) = wrap32 (a + b)"
  by (simp add: wrap32_def mod_simps algebra_simps)

lemma wrap32_0 [simp]: "wrap32 0 = 0"
  by (simp add: wrap32_def)

lemma count_of_simps [simp]:
  "count_of [] i = 0"
  "count_of (AList.update k n m) i = (if i = k then n else count_of m i)"
  by (simp_all add: count_of_def update_conv')

lemma count_of_costs: "count_of (fold add_cost tools []) i = wrap32 (toolset_cost i tools)"
  by (induction tools rule: rev_induct) (auto simp: add_cost_def toolset_cost_def)

lemma fst_costs:
  "fst ` set (fold add_cost tools []) = (\<lambda>t. ts_Id (tool_Toolset t)) ` set tools \<and>
   distinct (map fst (fold add_cost tools []))"
  by (induction tools rule: rev_induct)
    (auto simp: add_cost_def distinct_update dom_update)

lemma costs_iff:
  "(i, n) \<in> set (fold add_cost tools []) \<longleftrightarrow>
     i \<in> (\<lambda>t. ts_Id (tool_Toolset t)) ` set tools \<and> n = wrap32 (toolset_cost i tools)"
proof -
  let ?m = "fold add_cost tools []"
  have "(i, n) \<in> set ?m \<longleftrightarrow> map_of ?m i = Some n"
    using fst_costs [of tools] by simp
  also have "\<dots> \<longleftrightarrow> i \<in> fst ` set ?m \<and> n = count_of ?m i"
    by (auto simp: count_of_def map_of_eq_None_iff split: option.splits
        dest: map_of_SomeD intro: rev_image_eqI)
  finally show ?thesis using fst_costs [of tools] by (simp add: count_of_costs)
qed

text \<open>What a successful build returns: the contract of \<open>BuildWithEngine\<close>.\<close>

definition indexed_view :: "Snapshot \<Rightarrow> View \<Rightarrow> bool" where
  "indexed_view snap v \<longleftrightarrow>
     v_pb v = snap \<and> v_Version v = sn_Version snap \<and> 0 < sn_Version snap \<and>
     v_tenants v = index t_Id (sn_Tenants snap) \<and>
     v_tenantsBySlug v = index t_Slug (sn_Tenants snap) \<and>
     v_namespaces v = index ns_Id (sn_Namespaces snap) \<and>
     v_toolsets v = index ts_Id (sn_Toolsets snap) \<and>
     v_servers v = index srv_Id (sn_Servers snap) \<and>
     distinct (map t_Id (sn_Tenants snap)) \<and> distinct (map t_Slug (sn_Tenants snap)) \<and>
     (\<forall>t\<in>set (sn_Tenants snap). t_Id t \<noteq> [] \<and> t_Slug t \<noteq> []) \<and>
     distinct (map ns_Id (sn_Namespaces snap)) \<and> distinct (map ns_Prefix (sn_Namespaces snap)) \<and>
     distinct (map ts_Id (sn_Toolsets snap)) \<and> distinct (map srv_Id (sn_Servers snap)) \<and>
     (\<forall>s\<in>set (sn_Servers snap). map_of (v_namespaces v) (srv_NamespaceId s) \<noteq> None \<and>
        (\<forall>b\<in>set (srv_Bindings s). map_of (v_tenants v) (bd_TenantId b) \<noteq> None)) \<and>
     (\<forall>d\<in>set (sn_Tools snap). resolve_tool v d = Inr (tool_for v d)) \<and>
     (\<forall>k. slice_of (v_toolsByTenant v) k =
        sortTools (map (tool_for v) (filter (\<lambda>d. td_TenantId d = k) (sn_Tools snap)))) \<and>
     (\<forall>k. distinct (map Tool_QualifiedName (slice_of (v_toolsByTenant v) k))) \<and>
     (\<forall>k. check_budgets v (k, slice_of (v_toolsByTenant v) k) () = Inr ())"

lemma indexed_viewD:
  assumes "indexed_view snap v"
  shows "v_pb v = snap" "v_tenants v = index t_Id (sn_Tenants snap)"
    "v_tenantsBySlug v = index t_Slug (sn_Tenants snap)"
    "distinct (map t_Id (sn_Tenants snap))" "distinct (map t_Slug (sn_Tenants snap))"
    "distinct (map ts_Id (sn_Toolsets snap))"
    "distinct (map Tool_QualifiedName (slice_of (v_toolsByTenant v) k))"
    "check_budgets v (k, slice_of (v_toolsByTenant v) k) () = Inr ()"
    "slice_of (v_toolsByTenant v) k =
       sortTools (map (tool_for v) (filter (\<lambda>d. td_TenantId d = k) (sn_Tools snap)))"
  using assms unfolding indexed_view_def by blast+

lemma slice_of_cases:
  "distinct (map fst m) \<Longrightarrow> slice_of m k = [] \<or> (k, slice_of m k) \<in> set m"
  by (auto simp: slice_of_def split: option.splits dest: map_of_SomeD)

lemma tool_for_cong: "resolve_tool v = resolve_tool w \<Longrightarrow> tool_for v = tool_for w"
  by (simp add: tool_for_def fun_eq_iff)

lemma build_indexed:
  assumes B: "BuildWithEngine snap = Inr v"
  shows "indexed_view snap v"
proof -
  from B obtain v1 v2 p2 v3 v4 v5 where pos: "0 < sn_Version snap"
    and s1: "fold_result add_tenant (sn_Tenants snap) (empty_view snap) = Inr v1"
    and s2: "fold_result add_namespace (sn_Namespaces snap) (v1, []) = Inr (v2, p2)"
    and s3: "fold_result add_toolset (sn_Toolsets snap) v2 = Inr v3"
    and s4: "fold_result add_server (sn_Servers snap) (fold add_policy (sn_Policies snap) v3) = Inr v4"
    and s5: "fold_result add_tool (sn_Tools snap) (fold add_plugin (sn_Plugins snap) v4) = Inr v5"
    and s6: "v = v5\<lparr>v_toolsByTenant := map (\<lambda>(k, tools). (k, sortTools tools)) (v_toolsByTenant v5)\<rparr>"
    and s7: "fold_result (check_names v) (v_toolsByTenant v) () = Inr ()"
    and s8: "fold_result (check_budgets v) (v_toolsByTenant v) () = Inr ()"
    unfolding BuildWithEngine_def Let_def
    by (auto simp: bind_result_Inr split: if_splits)
  note t1 = add_tenants [OF s1, unfolded empty_view_def, simplified]
  note t2 = add_namespaces [OF s2]
  note t3 = add_toolsets [OF s3]
  obtain pols where pols: "fold add_policy (sn_Policies snap) v3 = v3\<lparr>v_policies := pols\<rparr>"
    using add_policies by blast
  note t4 = add_servers [OF s4 [unfolded pols]]
  obtain plugs where plugs: "fold add_plugin (sn_Plugins snap) v4 = v4\<lparr>v_plugins := plugs\<rparr>"
    using add_plugins by blast
  note t5 = add_tools [OF s5 [unfolded plugs]]
  have w2: "v2 = v1\<lparr>v_namespaces := index ns_Id (sn_Namespaces snap)\<rparr>" using t1 t2 by simp
  have w3: "v3 = v2\<lparr>v_toolsets := index ts_Id (sn_Toolsets snap)\<rparr>" using t1 t3 w2 by simp
  have w4: "v4 = v3\<lparr>v_policies := pols, v_servers := index srv_Id (sn_Servers snap)\<rparr>"
    using t1 t4 w2 w3 by simp
  obtain m dg where w5: "v5 = v4\<lparr>v_plugins := plugs, v_toolsByTenant := m, v_toolsByDigest := dg\<rparr>"
    and m: "distinct (map fst m)"
      "\<forall>d\<in>set (sn_Tools snap). resolve_tool (v4\<lparr>v_plugins := plugs\<rparr>) d = Inr (tool_for (v4\<lparr>v_plugins := plugs\<rparr>) d)"
      "\<And>k. slice_of m k = map (tool_for (v4\<lparr>v_plugins := plugs\<rparr>)) (filter (\<lambda>d. td_TenantId d = k) (sn_Tools snap))"
    using t5 t1 w2 w3 w4 by auto
  have r: "resolve_tool v = resolve_tool (v4\<lparr>v_plugins := plugs\<rparr>)"
    unfolding s6 w5 by simp
  note tf = tool_for_cong [OF r]
  have mv: "v_toolsByTenant v = map (\<lambda>(k, tools). (k, sortTools tools)) m"
    unfolding s6 w5 by simp
  then have dv: "distinct (map fst (v_toolsByTenant v))" using m(1) by (simp add: comp_def case_prod_beta)
  have sl: "slice_of (v_toolsByTenant v) k =
      sortTools (map (tool_for v) (filter (\<lambda>d. td_TenantId d = k) (sn_Tools snap)))" for k
    unfolding mv tf m(3) [symmetric] by (rule slice_of_map) (simp add: sortTools_def)
  have nm: "distinct (map Tool_QualifiedName (slice_of (v_toolsByTenant v) k))" for k
    using slice_of_cases [OF dv, of k] s7 check_names_distinct
    by (force simp: fold_result_unit check_names_def bind_result_Inr)
  have bd: "check_budgets v (k, slice_of (v_toolsByTenant v) k) () = Inr ()" for k
    using slice_of_cases [OF dv, of k] s8
    by (auto simp: fold_result_unit check_budgets_def)
  have fields: "v_pb v = snap" "v_Version v = sn_Version snap"
     "v_tenants v = index t_Id (sn_Tenants snap)"
     "v_tenantsBySlug v = index t_Slug (sn_Tenants snap)"
     "v_namespaces v = index ns_Id (sn_Namespaces snap)"
     "v_toolsets v = index ts_Id (sn_Toolsets snap)"
     "v_servers v = index srv_Id (sn_Servers snap)"
    using t1 by (simp_all add: s6 w5 w4 w3 w2)
  show ?thesis
    unfolding indexed_view_def fields
    using t1 t2 t3 t4 m(2) r tf sl nm bd pos by (simp add: w3 w2)
qed

lemma resolve_tool_Inr:
  "resolve_tool v d = Inr t \<longleftrightarrow>
     tool_Def t = d \<and> map_of (v_servers v) (td_ServerId d) = Some (tool_Server t) \<and>
     map_of (v_namespaces v) (td_NamespaceId d) = Some (tool_Namespace t) \<and>
     map_of (v_tenants v) (td_TenantId d) = Some (tool_Tenant t) \<and>
     map_of (v_toolsets v) (td_ToolsetId d) = Some (tool_Toolset t) \<and>
     tool_ToolsetPriority t = ts_Priority (tool_Toolset t) \<and>
     td_QualifiedName d = ns_Prefix (tool_Namespace t) @ ''.'' @ td_Name d \<and>
     td_InputSchemaJson d \<noteq> []"
  by (cases t) (auto simp: resolve_tool_def split: option.splits)

lemma indexed_tool:
  assumes "indexed_view snap v"
  shows "t \<in> set (slice_of (v_toolsByTenant v) k) \<longleftrightarrow>
     (\<exists>d\<in>set (sn_Tools snap). td_TenantId d = k \<and> resolve_tool v d = Inr t)"
  using assms by (auto simp: indexed_view_def sortTools_def image_iff tool_for_def)

lemma indexed_tool_tenant:
  assumes "indexed_view snap v" and "t \<in> set (slice_of (v_toolsByTenant v) k)"
  shows "t_Id (tool_Tenant t) = k \<and> tool_Tenant t \<in> set (sn_Tenants snap)"
  using assms(2) indexed_tool [OF assms(1)] assms(1)
  by (auto simp: resolve_tool_Inr indexed_view_def map_of_index)

subsection \<open>Composition\<close>

definition listed :: "Decider \<Rightarrow> Tool list \<Rightarrow> Tool list" where
  "listed decide = filter (\<lambda>t. decide PermToolList (Tool_Scope t))"

lemma compose_tools:
  "fold (compose_tool decide spanning) ts (out, con) =
     (out\<lparr>pv_Tools := pv_Tools out @ listed decide ts,
          pv_names := pv_names out @ map (\<lambda>t. displayName t spanning) (listed decide ts),
          pv_byQualifiedName := pv_byQualifiedName out ++
             map_of (rev (map (\<lambda>t. (displayName t spanning, t)) (listed decide ts))),
          pv_TokenEstimate := pv_TokenEstimate out +
             sum_list (map (\<lambda>t. td_TokenEstimate (tool_Def t)) (listed decide ts)),
          pv_callable := (\<lambda>n. pv_callable out n \<or>
             (\<exists>t\<in>set (listed decide ts). displayName t spanning = n \<and>
                decide PermToolCall (Tool_Scope t)))\<rparr>,
      fold (\<lambda>t. AList.update (ts_Id (tool_Toolset t)) (tool_Toolset t)) (listed decide ts) con)"
proof (induction ts arbitrary: out con)
  case Nil
  show ?case by (simp add: listed_def)
next
  case (Cons t ts)
  then show ?case
    by (auto simp: compose_tool_def listed_def Let_def fun_eq_iff intro!: PrincipalView.equality)
qed

lemma compose_tenants:
  "fold (compose_tenant v decide spanning) tenants acc =
   fold (compose_tool decide spanning) (concat (map (\<lambda>t. slice_of (v_toolsByTenant v) (t_Id t)) tenants)) acc"
  by (induction tenants arbitrary: acc) (simp_all add: compose_tenant_def)

lemma compose_policies:
  "fold compose_policy ps out =
   out\<lparr>pv_Policies := pv_Policies out @ ps,
       pv_TTLMs := fold narrow (concat (map (\<lambda>p. map pr_MaxTtlMs (pol_Rules p)) ps)) (pv_TTLMs out)\<rparr>"
  by (induction ps arbitrary: out) (simp_all add: compose_policy_def fold_map comp_def)

lemma compose_hooks:
  "fold (\<lambda>hook m. m(hook := m hook @ [p])) hs m h = m h @ replicate (count_list hs h) p"
  by (induction hs arbitrary: m) (auto simp: replicate_append_same [symmetric])

lemma compose_plugins:
  "fold (compose_plugin con) ps m h =
   m h @ concat (map (\<lambda>p. replicate (count_list (pm_Hooks p) h) p) (filter (\<lambda>p. pluginAppliesTo p con) ps))"
  by (induction ps arbitrary: m) (auto simp: compose_plugin_def compose_hooks)

lemma map_of_fold_update:
  "map_of (fold (\<lambda>t. AList.update (f t) (g t)) ts m) = map_of m ++ map_of (rev (map (\<lambda>t. (f t, g t)) ts))"
  by (induction ts arbitrary: m) (auto simp: update_conv' fun_eq_iff map_add_def split: option.splits)

lemma distinct_fold_update:
  "distinct (map fst m) \<Longrightarrow> distinct (map fst (fold (\<lambda>t. AList.update (f t) (g t)) ts m))"
  by (induction ts arbitrary: m) (auto simp: distinct_update)

text \<open>Keyed by \<open>f\<close> a list whose key determines the value holds exactly its pairs.\<close>

lemma set_fold_update:
  assumes "\<And>x y. x \<in> set ts \<Longrightarrow> y \<in> set ts \<Longrightarrow> f x = f y \<Longrightarrow> g x = g y"
  shows "set (fold (\<lambda>t. AList.update (f t) (g t)) ts []) = (\<lambda>t. (f t, g t)) ` set ts"
proof -
  let ?m = "fold (\<lambda>t. AList.update (f t) (g t)) ts []"
  have d: "distinct (map fst ?m)" by (rule distinct_fold_update) simp
  have m: "map_of ?m = map_of (rev (map (\<lambda>t. (f t, g t)) ts))"
    unfolding map_of_fold_update by simp
  have "(k, x) \<in> set ?m \<longleftrightarrow> map_of (rev (map (\<lambda>t. (f t, g t)) ts)) k = Some x" for k x
    unfolding m [symmetric] using map_of_eq_Some_iff [OF d, of k x] by blast
  moreover have "map_of (rev (map (\<lambda>t. (f t, g t)) ts)) k = Some x \<longleftrightarrow>
      (k, x) \<in> (\<lambda>t. (f t, g t)) ` set ts" for k x
  proof
    assume "map_of (rev (map (\<lambda>t. (f t, g t)) ts)) k = Some x"
    then show "(k, x) \<in> (\<lambda>t. (f t, g t)) ` set ts" by (auto dest: map_of_SomeD)
  next
    assume i: "(k, x) \<in> (\<lambda>t. (f t, g t)) ` set ts"
    then obtain y where y: "map_of (rev (map (\<lambda>t. (f t, g t)) ts)) k = Some y"
      by (cases "map_of (rev (map (\<lambda>t. (f t, g t)) ts)) k")
        (auto simp: map_of_eq_None_iff image_image)
    then have "(k, y) \<in> (\<lambda>t. (f t, g t)) ` set ts" by (auto dest: map_of_SomeD)
    with i obtain a b where "a \<in> set ts" "b \<in> set ts" "f a = f b" "x = g a" "y = g b" by auto
    with assms [of a b] have "x = y" by simp
    with y show "map_of (rev (map (\<lambda>t. (f t, g t)) ts)) k = Some x" by simp
  qed
  ultimately show ?thesis by (auto simp: set_eq_iff)
qed

definition cat_tools :: "View \<Rightarrow> Decider \<Rightarrow> Tenant list \<Rightarrow> Tool list" where
  "cat_tools v decide tenants =
     concat (map (\<lambda>t. listed decide (slice_of (v_toolsByTenant v) (t_Id t))) tenants)"

definition contributing_of :: "Tool list \<Rightarrow> (string \<times> Toolset) list" where
  "contributing_of ts = fold (\<lambda>t. AList.update (ts_Id (tool_Toolset t)) (tool_Toolset t)) ts []"

lemma listed_concat: "listed decide (concat xss) = concat (map (listed decide) xss)"
  by (simp add: listed_def filter_concat)

lemma composed:
  fixes v :: View and who :: Principal and tenants :: "Tenant list" and spanning :: bool
    and decide :: Decider
  defines "pv \<equiv> composePrincipal v who tenants spanning decide"
    and "cat \<equiv> cat_tools v decide tenants"
  shows "pv_Tools pv = cat" "pv_names pv = map (\<lambda>t. displayName t spanning) cat"
    "pv_byQualifiedName pv = map_of (rev (map (\<lambda>t. (displayName t spanning, t)) cat))"
    "pv_callable pv = (\<lambda>n. \<exists>t\<in>set cat. displayName t spanning = n \<and> decide PermToolCall (Tool_Scope t))"
    "pv_TokenEstimate pv = sum_list (map (\<lambda>t. td_TokenEstimate (tool_Def t)) cat)"
    "pv_Policies pv = sort_key pol_Priority (sn_Policies (v_pb v))"
    "pv_TTLMs pv =
       fold narrow (concat (map (\<lambda>p. map pr_MaxTtlMs (pol_Rules p)) (sn_Policies (v_pb v))))
        (fold narrow (map (\<lambda>(_, ts). ts_TtlMs ts) (contributing_of cat))
          (case sn_Catalog (v_pb v) of None \<Rightarrow> 0 | Some d \<Rightarrow> cd_TtlMs d))"
    "pv_pluginsByHook pv = (\<lambda>h. sort_key pm_Priority
       (concat (map (\<lambda>p. replicate (count_list (pm_Hooks p) h) p)
         (filter (\<lambda>p. pluginAppliesTo p (contributing_of cat)) (sn_Plugins (v_pb v))))))"
    "pv_Principal pv = who" "pv_Tenants pv = tenants"
    "pv_Tenant pv = (if \<not> spanning \<and> length tenants = 1 then Some (tenants ! 0) else None)"
  unfolding pv_def cat_def composePrincipal_def compose_tenants
  by (simp_all add: compose_tools Let_def compose_policies compose_plugins contributing_of_def
      cat_tools_def listed_concat fold_map comp_def split_def)

end
