(* ===== verification/Snapshot_Artifacts.thy ===== *)
theory Snapshot_Artifacts
  imports Snapshot_Types
begin

section \<open>Signed artifacts: signing.go, principals.go and revocation.go (internal/dataplane/snapshot)\<close>

text \<open>
  The three artifacts the data plane loads, each signed over its own context. Ed25519 and the
  protobuf codec are third-party code and parameters of the definitions: \<open>ed_sign\<close> and \<open>ed_verify\<close>,
  and a marshaller and an unmarshaller per message. The three signed messages have the same four
  fields and share one record. Clock readings (\<open>IssuedAt\<close>) are left out.
\<close>

record Signed =
  sg_Bytes :: string
  sg_KeyId :: string
  sg_Signature :: string
  sg_Algorithm :: string

definition AlgorithmEd25519 :: string where
  "AlgorithmEd25519 = ''ed25519''"

definition signingContext :: string where
  "signingContext = ''mcpdoll.snapshot.v1'' @ [CHR 0x00]"

definition principalSigningContext :: string where
  "principalSigningContext = ''mcpdoll.principals.v1'' @ [CHR 0x00]"

definition revocationSigningContext :: string where
  "revocationSigningContext = ''mcpdoll.revocations.v1'' @ [CHR 0x00]"

definition signedPayload :: "string \<Rightarrow> string" where
  "signedPayload body = signingContext @ body"

definition principalSignedPayload :: "string \<Rightarrow> string" where
  "principalSignedPayload body = principalSigningContext @ body"

definition revocationSignedPayload :: "string \<Rightarrow> string" where
  "revocationSignedPayload body = revocationSigningContext @ body"

datatype VerifyError =
    UnsupportedAlgorithm string | UntrustedKey string | BadSignature | SignatureLength nat
  | Unparseable | BadCatalog "CatalogProblem list" | PrincipalWithoutId
  | DuplicatePrincipal string | KeyPrefixTwice string | PrefixWithoutDigest string
  | EmptyRevokedId

subsection \<open>Keys\<close>

record Signer =
  sk_keyID :: string
  sk_priv :: string

datatype KeyError =
    NoTrustedKeys | KeyEntryForm string | KeyEncoding string | KeySize string nat
  | DuplicateKey string | SignerNeedsId | PrivateKeySize nat
  | BadVersionToSign int | MarshalFailed

definition PublicKeySize :: nat where "PublicKeySize = 32"
definition PrivateKeySize_bytes :: nat where "PrivateKeySize_bytes = 64"
definition SignatureSize :: nat where "SignatureSize = 64"

definition NewSigner :: "string \<Rightarrow> string \<Rightarrow> KeyError + Signer" where
  "NewSigner keyID priv =
     (if keyID = [] then Inl SignerNeedsId
      else if length priv \<noteq> PrivateKeySize_bytes then Inl (PrivateKeySize (length priv))
      else Inr \<lparr>sk_keyID = keyID, sk_priv = priv\<rparr>)"

text \<open>A verifier is its map of trusted keys.\<close>

type_synonym Verifier = "string \<rightharpoonup> string"

definition add_key :: "(string \<Rightarrow> string option) \<Rightarrow> string \<Rightarrow> Verifier \<Rightarrow> KeyError + Verifier" where
  "add_key base64_decode entry keys =
     (case cut '':'' entry of
        None \<Rightarrow> Inl (KeyEntryForm entry)
      | Some (keyID, encoded) \<Rightarrow>
          if keyID = [] \<or> encoded = [] then Inl (KeyEntryForm entry)
          else case base64_decode encoded of
              None \<Rightarrow> Inl (KeyEncoding keyID)
            | Some raw \<Rightarrow>
                if length raw \<noteq> PublicKeySize then Inl (KeySize keyID (length raw))
                else if keys keyID \<noteq> None then Inl (DuplicateKey keyID)
                else Inr (keys(keyID \<mapsto> raw)))"

definition NewVerifier :: "(string \<Rightarrow> string option) \<Rightarrow> string list \<Rightarrow> KeyError + Verifier" where
  "NewVerifier base64_decode entries =
     (if entries = [] then Inl NoTrustedKeys
      else fold_result (add_key base64_decode) entries Map.empty)"

definition TrustedKeyEntry :: "(string \<Rightarrow> string) \<Rightarrow> string \<Rightarrow> string \<Rightarrow> string" where
  "TrustedKeyEntry base64_encode keyID pub = keyID @ '':'' @ base64_encode pub"

subsection \<open>Signing\<close>

definition Sign ::
  "(string \<Rightarrow> string \<Rightarrow> string) \<Rightarrow> (Snapshot \<Rightarrow> string option) \<Rightarrow> Signer \<Rightarrow> Snapshot \<Rightarrow> KeyError + Signed" where
  "Sign ed_sign marshal s snap =
     (if sn_Version snap \<le> 0 then Inl (BadVersionToSign (sn_Version snap))
      else case marshal snap of
          None \<Rightarrow> Inl MarshalFailed
        | Some body \<Rightarrow>
            Inr \<lparr>sg_Bytes = body, sg_KeyId = sk_keyID s,
                 sg_Signature = ed_sign (sk_priv s) (signedPayload body),
                 sg_Algorithm = AlgorithmEd25519\<rparr>)"

definition SignPrincipals ::
  "(string \<Rightarrow> string \<Rightarrow> string) \<Rightarrow> (PrincipalSet \<Rightarrow> string option) \<Rightarrow> Signer \<Rightarrow> PrincipalSet \<Rightarrow>
   KeyError + Signed" where
  "SignPrincipals ed_sign marshal s pset =
     (if pset_Version pset \<le> 0 then Inl (BadVersionToSign (pset_Version pset))
      else case marshal pset of
          None \<Rightarrow> Inl MarshalFailed
        | Some body \<Rightarrow>
            Inr \<lparr>sg_Bytes = body, sg_KeyId = sk_keyID s,
                 sg_Signature = ed_sign (sk_priv s) (principalSignedPayload body),
                 sg_Algorithm = AlgorithmEd25519\<rparr>)"

definition SignRevocations ::
  "(string \<Rightarrow> string \<Rightarrow> string) \<Rightarrow> (RevocationList \<Rightarrow> string option) \<Rightarrow> Signer \<Rightarrow> RevocationList \<Rightarrow>
   KeyError + Signed" where
  "SignRevocations ed_sign marshal s lst =
     (if rl_Version lst \<le> 0 then Inl (BadVersionToSign (rl_Version lst))
      else case marshal lst of
          None \<Rightarrow> Inl MarshalFailed
        | Some body \<Rightarrow>
            Inr \<lparr>sg_Bytes = body, sg_KeyId = sk_keyID s,
                 sg_Signature = ed_sign (sk_priv s) (revocationSignedPayload body),
                 sg_Algorithm = AlgorithmEd25519\<rparr>)"

subsection \<open>Verifying a snapshot\<close>

definition Verify ::
  "(string \<Rightarrow> string \<Rightarrow> string \<Rightarrow> bool) \<Rightarrow> (string \<Rightarrow> Snapshot option) \<Rightarrow> Verifier \<Rightarrow> Signed \<Rightarrow>
   VerifyError + Snapshot" where
  "Verify ed_verify unmarshal keys signed =
     (if sg_Algorithm signed \<noteq> AlgorithmEd25519 then Inl (UnsupportedAlgorithm (sg_Algorithm signed))
      else case keys (sg_KeyId signed) of
          None \<Rightarrow> Inl (UntrustedKey (sg_KeyId signed))
        | Some pub \<Rightarrow>
            if length (sg_Signature signed) \<noteq> SignatureSize
            then Inl (SignatureLength (length (sg_Signature signed)))
            else if \<not> ed_verify pub (signedPayload (sg_Bytes signed)) (sg_Signature signed)
            then Inl BadSignature
            else case unmarshal (sg_Bytes signed) of None \<Rightarrow> Inl Unparseable | Some snap \<Rightarrow> Inr snap)"

definition ParseUnverified :: "(string \<Rightarrow> Snapshot option) \<Rightarrow> Signed \<Rightarrow> VerifyError + Snapshot" where
  "ParseUnverified unmarshal signed =
     (case unmarshal (sg_Bytes signed) of None \<Rightarrow> Inl Unparseable | Some snap \<Rightarrow> Inr snap)"

subsection \<open>Principals\<close>

record Principals =
  ps_Version :: int
  ps_catalog :: Catalog
  ps_byID :: "(string \<times> Principal) list"
  ps_byKeyPrefix :: "string \<rightharpoonup> Principal"

definition EmptyPrincipals :: Principals where
  "EmptyPrincipals = \<lparr>ps_Version = 0, ps_catalog = [], ps_byID = [], ps_byKeyPrefix = Map.empty\<rparr>"

definition ByID :: "Principals \<Rightarrow> string \<Rightarrow> Principal option" where
  "ByID p i = map_of (ps_byID p) i"

definition ByKeyPrefix :: "Principals \<Rightarrow> string \<Rightarrow> Principal option" where
  "ByKeyPrefix p prfx = ps_byKeyPrefix p prfx"

definition Principals_Count :: "Principals \<Rightarrow> nat" where
  "Principals_Count p = length (ps_byID p)"

definition Principals_IDs :: "Principals \<Rightarrow> string list" where
  "Principals_IDs p = sort (map fst (ps_byID p))"

definition decider :: "Principals \<Rightarrow> Principal \<Rightarrow> unit + Decider" where
  "decider p who = BuiltinEngine_Prepare (p_Grants who) (ps_catalog p)"

definition add_permission :: "string \<times> permission \<Rightarrow> Catalog \<Rightarrow> Catalog" where
  "add_permission = (\<lambda>(role, perm) c. AList.update role (appendUnique (role_perms c role) perm) c)"

definition add_principal :: "Principal \<Rightarrow> Principals \<Rightarrow> VerifyError + Principals" where
  "add_principal p out =
     (if p_Id p = [] then Inl PrincipalWithoutId
      else if map_of (ps_byID out) (p_Id p) \<noteq> None then Inl (DuplicatePrincipal (p_Id p))
      else
        let out = out\<lparr>ps_byID := AList.update (p_Id p) p (ps_byID out)\<rparr>
        in if p_KeyPrefix p = [] then Inr out
           else if ps_byKeyPrefix out (p_KeyPrefix p) \<noteq> None then Inl (KeyPrefixTwice (p_KeyPrefix p))
           else if p_KeySecretSha256 p = [] then Inl (PrefixWithoutDigest (p_Subject p))
           else Inr (out\<lparr>ps_byKeyPrefix := (ps_byKeyPrefix out)(p_KeyPrefix p \<mapsto> p)\<rparr>))"

definition IndexPrincipals :: "PrincipalSet \<Rightarrow> VerifyError + Principals" where
  "IndexPrincipals pset =
     (let catalog = fold add_permission (pset_RolePermissions pset) [];
          out = EmptyPrincipals\<lparr>ps_Version := pset_Version pset, ps_catalog := catalog\<rparr>
      in if catalog \<noteq> [] \<and> \<not> is_ok (ValidateCatalog catalog)
         then Inl (BadCatalog (projl (ValidateCatalog catalog)))
         else fold_result add_principal (pset_Principals pset) out)"

text \<open>Unlike \<open>Verify\<close>, an empty algorithm and a signature of any length pass to the verifier.\<close>

definition VerifyPrincipals ::
  "(string \<Rightarrow> string \<Rightarrow> string \<Rightarrow> bool) \<Rightarrow> (string \<Rightarrow> PrincipalSet option) \<Rightarrow> Verifier \<Rightarrow> Signed \<Rightarrow>
   VerifyError + Principals" where
  "VerifyPrincipals ed_verify unmarshal keys signed =
     (if sg_Algorithm signed \<noteq> [] \<and> sg_Algorithm signed \<noteq> AlgorithmEd25519
      then Inl (UnsupportedAlgorithm (sg_Algorithm signed))
      else case keys (sg_KeyId signed) of
          None \<Rightarrow> Inl (UntrustedKey (sg_KeyId signed))
        | Some pub \<Rightarrow>
            if \<not> ed_verify pub (principalSignedPayload (sg_Bytes signed)) (sg_Signature signed)
            then Inl BadSignature
            else case unmarshal (sg_Bytes signed) of
                None \<Rightarrow> Inl Unparseable | Some pset \<Rightarrow> IndexPrincipals pset)"

subsection \<open>Revocations\<close>

record Revocations =
  rv_Version :: int
  rv_PrunedThroughVersion :: int
  rv_refused :: "string list"

definition EmptyRevocations :: Revocations where
  "EmptyRevocations = \<lparr>rv_Version = 0, rv_PrunedThroughVersion = 0, rv_refused = []\<rparr>"

definition Refuses :: "Revocations \<Rightarrow> string \<Rightarrow> bool" where
  "Refuses r principalID \<longleftrightarrow> principalID \<in> set (rv_refused r)"

definition Revocations_Count :: "Revocations \<Rightarrow> nat" where
  "Revocations_Count r = length (rv_refused r)"

definition add_refused :: "string \<Rightarrow> Revocations \<Rightarrow> VerifyError + Revocations" where
  "add_refused i out =
     (if i = [] then Inl EmptyRevokedId
      else Inr (out\<lparr>rv_refused := appendUnique (rv_refused out) i\<rparr>))"

definition VerifyRevocations ::
  "(string \<Rightarrow> string \<Rightarrow> string \<Rightarrow> bool) \<Rightarrow> (string \<Rightarrow> RevocationList option) \<Rightarrow> Verifier \<Rightarrow> Signed \<Rightarrow>
   VerifyError + Revocations" where
  "VerifyRevocations ed_verify unmarshal keys signed =
     (if sg_Algorithm signed \<noteq> [] \<and> sg_Algorithm signed \<noteq> AlgorithmEd25519
      then Inl (UnsupportedAlgorithm (sg_Algorithm signed))
      else case keys (sg_KeyId signed) of
          None \<Rightarrow> Inl (UntrustedKey (sg_KeyId signed))
        | Some pub \<Rightarrow>
            if \<not> ed_verify pub (revocationSignedPayload (sg_Bytes signed)) (sg_Signature signed)
            then Inl BadSignature
            else case unmarshal (sg_Bytes signed) of
                None \<Rightarrow> Inl Unparseable
              | Some lst \<Rightarrow>
                  fold_result add_refused (rl_PrincipalIds lst)
                    \<lparr>rv_Version = rl_Version lst, rv_PrunedThroughVersion = rl_PrunedThrough lst,
                     rv_refused = []\<rparr>)"

subsection \<open>Domain separation\<close>

text \<open>What a signer signs: one of the three artifacts' bytes, under its context.\<close>

datatype Artifact = ASnapshot string | APrincipals string | ARevocations string

fun payload_of :: "Artifact \<Rightarrow> string" where
  "payload_of (ASnapshot b) = signedPayload b"
| "payload_of (APrincipals b) = principalSignedPayload b"
| "payload_of (ARevocations b) = revocationSignedPayload b"

lemmas contexts = signedPayload_def principalSignedPayload_def revocationSignedPayload_def
  signingContext_def principalSigningContext_def revocationSigningContext_def

lemma payload_inj: "payload_of a = payload_of b \<longleftrightarrow> a = b"
  by (cases a; cases b) (simp_all add: contexts)

lemma Verify_Inr:
  "Verify ed_verify un keys signed = Inr snap \<longleftrightarrow>
     sg_Algorithm signed = AlgorithmEd25519 \<and> length (sg_Signature signed) = SignatureSize \<and>
     (\<exists>pub. keys (sg_KeyId signed) = Some pub \<and>
        ed_verify pub (payload_of (ASnapshot (sg_Bytes signed))) (sg_Signature signed)) \<and>
     un (sg_Bytes signed) = Some snap"
  by (auto simp: Verify_def split: option.splits)

lemma VerifyPrincipals_Inr:
  "VerifyPrincipals ed_verify un keys signed = Inr p \<longleftrightarrow>
     sg_Algorithm signed \<in> {[], AlgorithmEd25519} \<and>
     (\<exists>pub. keys (sg_KeyId signed) = Some pub \<and>
        ed_verify pub (payload_of (APrincipals (sg_Bytes signed))) (sg_Signature signed)) \<and>
     (\<exists>pset. un (sg_Bytes signed) = Some pset \<and> IndexPrincipals pset = Inr p)"
  by (auto simp: VerifyPrincipals_def split: option.splits)

lemma add_refused_all:
  "fold_result add_refused ids r = Inr r' \<longleftrightarrow> [] \<notin> set ids \<and> r' = r\<lparr>rv_refused := fold (\<lambda>i l. appendUnique l i) ids (rv_refused r)\<rparr>"
  by (induction ids arbitrary: r) (auto simp: add_refused_def)

lemma set_fold_appendUnique: "set (fold (\<lambda>i l. appendUnique l i) ids l) = set l \<union> set ids"
  by (induction ids arbitrary: l) auto

lemma VerifyRevocations_Inr:
  "VerifyRevocations ed_verify un keys signed = Inr r \<longleftrightarrow>
     sg_Algorithm signed \<in> {[], AlgorithmEd25519} \<and>
     (\<exists>pub. keys (sg_KeyId signed) = Some pub \<and>
        ed_verify pub (payload_of (ARevocations (sg_Bytes signed))) (sg_Signature signed)) \<and>
     (\<exists>lst. un (sg_Bytes signed) = Some lst \<and> [] \<notin> set (rl_PrincipalIds lst) \<and>
        r = \<lparr>rv_Version = rl_Version lst, rv_PrunedThroughVersion = rl_PrunedThrough lst,
             rv_refused = fold (\<lambda>i l. appendUnique l i) (rl_PrincipalIds lst) []\<rparr>)"
  by (auto simp: VerifyRevocations_def add_refused_all split: option.splits)

subsection \<open>Indexing principals\<close>

lemma role_perms_add:
  "set (role_perms (add_permission (role, perm) c) r) =
     (if r = role then insert perm (set (role_perms c r)) else set (role_perms c r))"
  by (auto simp: add_permission_def role_perms_def update_conv' split: option.splits)

lemma role_perms_fold_add:
  "set (role_perms (fold add_permission rps c) r) = set (role_perms c r) \<union> {p. (r, p) \<in> set rps}"
  by (induction rps arbitrary: c) (auto simp: role_perms_add split: if_splits)

lemma fold_add_permission_Nil: "fold add_permission rps c = [] \<longleftrightarrow> rps = [] \<and> c = []"
proof (induction rps arbitrary: c)
  case (Cons rp rps)
  have "add_permission rp c \<noteq> []"
    by (cases rp) (auto simp: add_permission_def split: list.splits dest: arg_cong [of _ _ length])
  with Cons show ?case by simp
qed simp

lemma add_principals:
  assumes "fold_result add_principal ps out = Inr out'" "ps_byID out = []" "ps_byKeyPrefix out = Map.empty"
  shows "ps_Version out' = ps_Version out \<and> ps_catalog out' = ps_catalog out \<and>
    distinct (map p_Id ps) \<and> (\<forall>p\<in>set ps. p_Id p \<noteq> [] \<and> (p_KeyPrefix p \<noteq> [] \<longrightarrow> p_KeySecretSha256 p \<noteq> [])) \<and>
    (\<forall>i p. map_of (ps_byID out') i = Some p \<longleftrightarrow> p \<in> set ps \<and> p_Id p = i) \<and>
    (\<forall>k p. ps_byKeyPrefix out' k = Some p \<longleftrightarrow> p \<in> set ps \<and> p_KeyPrefix p = k \<and> k \<noteq> [])"
proof (rule fold_result_inv [OF assms(1)])
  show "ps_Version out = ps_Version out \<and> ps_catalog out = ps_catalog out \<and>
    distinct (map p_Id []) \<and> (\<forall>p\<in>set []. p_Id p \<noteq> [] \<and> (p_KeyPrefix p \<noteq> [] \<longrightarrow> p_KeySecretSha256 p \<noteq> [])) \<and>
    (\<forall>i p. map_of (ps_byID out) i = Some p \<longleftrightarrow> p \<in> set [] \<and> p_Id p = i) \<and>
    (\<forall>k p. ps_byKeyPrefix out k = Some p \<longleftrightarrow> p \<in> set [] \<and> p_KeyPrefix p = k \<and> k \<noteq> [])"
    using assms by simp
next
  fix pre p t t'
  assume I: "ps_Version t = ps_Version out \<and> ps_catalog t = ps_catalog out \<and>
    distinct (map p_Id pre) \<and> (\<forall>p\<in>set pre. p_Id p \<noteq> [] \<and> (p_KeyPrefix p \<noteq> [] \<longrightarrow> p_KeySecretSha256 p \<noteq> [])) \<and>
    (\<forall>i p. map_of (ps_byID t) i = Some p \<longleftrightarrow> p \<in> set pre \<and> p_Id p = i) \<and>
    (\<forall>k p. ps_byKeyPrefix t k = Some p \<longleftrightarrow> p \<in> set pre \<and> p_KeyPrefix p = k \<and> k \<noteq> [])"
    and f: "add_principal p t = Inr t'"
  from f have none: "map_of (ps_byID t) (p_Id p) = None" and nz: "p_Id p \<noteq> []"
    by (auto simp: add_principal_def Let_def split: if_splits)
  from I have byID: "\<And>i q. map_of (ps_byID t) i = Some q \<longleftrightarrow> q \<in> set pre \<and> p_Id q = i" by blast
  have fresh: "p_Id p \<notin> p_Id ` set pre"
  proof
    assume "p_Id p \<in> p_Id ` set pre"
    then obtain q where "q \<in> set pre" "p_Id q = p_Id p" by auto
    with byID [of "p_Id p" q] none show False by simp
  qed
  then have fresh': "\<And>q. q \<in> set pre \<Longrightarrow> p_Id q \<noteq> p_Id p" by (metis imageI)
  from f have t': "t' = (if p_KeyPrefix p = [] then t\<lparr>ps_byID := AList.update (p_Id p) p (ps_byID t)\<rparr>
      else t\<lparr>ps_byID := AList.update (p_Id p) p (ps_byID t),
             ps_byKeyPrefix := (ps_byKeyPrefix t)(p_KeyPrefix p \<mapsto> p)\<rparr>)"
    and pf: "p_KeyPrefix p \<noteq> [] \<Longrightarrow> ps_byKeyPrefix t (p_KeyPrefix p) = None \<and> p_KeySecretSha256 p \<noteq> []"
    by (auto simp: add_principal_def Let_def split: if_splits)
  have free: "p_KeyPrefix p \<noteq> [] \<Longrightarrow> q \<in> set pre \<Longrightarrow> p_KeyPrefix q \<noteq> p_KeyPrefix p" for q
    using I pf by (metis option.distinct(1))
  show "ps_Version t' = ps_Version out \<and> ps_catalog t' = ps_catalog out \<and>
    distinct (map p_Id (pre @ [p])) \<and>
    (\<forall>p\<in>set (pre @ [p]). p_Id p \<noteq> [] \<and> (p_KeyPrefix p \<noteq> [] \<longrightarrow> p_KeySecretSha256 p \<noteq> [])) \<and>
    (\<forall>i q. map_of (ps_byID t') i = Some q \<longleftrightarrow> q \<in> set (pre @ [p]) \<and> p_Id q = i) \<and>
    (\<forall>k q. ps_byKeyPrefix t' k = Some q \<longleftrightarrow> q \<in> set (pre @ [p]) \<and> p_KeyPrefix q = k \<and> k \<noteq> [])"
    using I fresh fresh' nz pf free unfolding t' by (auto simp: update_conv')
qed

lemma IndexPrincipals_lookup:
  assumes "IndexPrincipals pset = Inr p"
  shows "(ByKeyPrefix p k = Some q \<longleftrightarrow> q \<in> set (pset_Principals pset) \<and> p_KeyPrefix q = k \<and> k \<noteq> []) \<and>
    (ByID p i = Some q \<longleftrightarrow> q \<in> set (pset_Principals pset) \<and> p_Id q = i)"
proof -
  let ?c = "fold add_permission (pset_RolePermissions pset) []"
  let ?o = "EmptyPrincipals\<lparr>ps_Version := pset_Version pset, ps_catalog := ?c\<rparr>"
  have f: "fold_result add_principal (pset_Principals pset) ?o = Inr p"
    using assms by (auto simp: IndexPrincipals_def Let_def split: if_splits)
  from add_principals [OF f] show ?thesis by (simp add: EmptyPrincipals_def ByKeyPrefix_def ByID_def)
qed

lemmas IndexPrincipals_ByKeyPrefix = IndexPrincipals_lookup [THEN conjunct1]
lemmas IndexPrincipals_ByID = IndexPrincipals_lookup [THEN conjunct2]

subsection \<open>Properties\<close>

text \<open>C9: with unforgeable signatures, an artifact that verifies is one a trusted key signed as that
  kind of artifact: no snapshot, principal set or revocation list can stand in for another, and
  what is returned is the content of the signed bytes.\<close>

theorem only_signed_artifacts_verify:
  assumes "\<forall>pub m sig. ed_verify pub m sig \<longrightarrow> (\<exists>a\<in>published pub. m = payload_of a)"
  shows "(Verify ed_verify un_s keys signed = Inr snap \<longrightarrow>
       (\<exists>pub. keys (sg_KeyId signed) = Some pub \<and> ASnapshot (sg_Bytes signed) \<in> published pub) \<and>
       un_s (sg_Bytes signed) = Some snap) \<and>
     (VerifyPrincipals ed_verify un_p keys signed = Inr principals \<longrightarrow>
       (\<exists>pub. keys (sg_KeyId signed) = Some pub \<and> APrincipals (sg_Bytes signed) \<in> published pub) \<and>
       (\<exists>pset. un_p (sg_Bytes signed) = Some pset \<and> IndexPrincipals pset = Inr principals)) \<and>
     (VerifyRevocations ed_verify un_r keys signed = Inr revocations \<longrightarrow>
       (\<exists>pub. keys (sg_KeyId signed) = Some pub \<and> ARevocations (sg_Bytes signed) \<in> published pub) \<and>
       (\<exists>lst. un_r (sg_Bytes signed) = Some lst \<and> set (rl_PrincipalIds lst) = set (rv_refused revocations) \<and>
          rv_Version revocations = rl_Version lst))"
proof -
  have S: "\<exists>pub. keys i = Some pub \<and> a \<in> published pub"
    if "\<exists>pub. keys i = Some pub \<and> ed_verify pub (payload_of a) sig" for i a sig
    using that assms by (metis payload_inj)
  note S = S [of "sg_KeyId signed" _ "sg_Signature signed"]
  show ?thesis
  proof (intro conjI impI)
    assume "Verify ed_verify un_s keys signed = Inr snap"
    then show "\<exists>pub. keys (sg_KeyId signed) = Some pub \<and> ASnapshot (sg_Bytes signed) \<in> published pub"
      "un_s (sg_Bytes signed) = Some snap"
      unfolding Verify_Inr using S by blast+
  next
    assume "VerifyPrincipals ed_verify un_p keys signed = Inr principals"
    then show "\<exists>pub. keys (sg_KeyId signed) = Some pub \<and> APrincipals (sg_Bytes signed) \<in> published pub"
      "\<exists>pset. un_p (sg_Bytes signed) = Some pset \<and> IndexPrincipals pset = Inr principals"
      unfolding VerifyPrincipals_Inr using S by blast+
  next
    assume "VerifyRevocations ed_verify un_r keys signed = Inr revocations"
    then show "\<exists>pub. keys (sg_KeyId signed) = Some pub \<and> ARevocations (sg_Bytes signed) \<in> published pub"
      "\<exists>lst. un_r (sg_Bytes signed) = Some lst \<and> set (rl_PrincipalIds lst) = set (rv_refused revocations) \<and>
         rv_Version revocations = rl_Version lst"
      unfolding VerifyRevocations_Inr using S by (blast, auto simp: set_fold_appendUnique simp del: appendUnique.simps)
  qed
qed

definition wit_verify :: "string \<Rightarrow> string \<Rightarrow> string \<Rightarrow> bool" where
  "wit_verify pub m sig \<longleftrightarrow> m = payload_of (ARevocations ''r1'')"

definition wit_signed :: Signed where
  "wit_signed = \<lparr>sg_Bytes = ''r1'', sg_KeyId = ''k'', sg_Signature = [], sg_Algorithm = ''ed25519''\<rparr>"

definition wit_unmarshal :: "string \<Rightarrow> RevocationList option" where
  "wit_unmarshal b = Some \<lparr>rl_Version = 1, rl_PrincipalIds = [''u1''], rl_PrunedThrough = 0\<rparr>"

theorem only_signed_artifacts_verify_witness:
  "\<exists>r. VerifyRevocations wit_verify wit_unmarshal [''k'' \<mapsto> ''pub''] wit_signed = Inr r \<and>
     Refuses r ''u1'' \<and> ARevocations (sg_Bytes wit_signed) \<in> {ARevocations ''r1''}"
proof -
  let ?r = "\<lparr>rv_Version = 1, rv_PrunedThroughVersion = 0, rv_refused = [''u1'']\<rparr>"
  have u: "\<forall>pub m sig. wit_verify pub m sig \<longrightarrow> (\<exists>a\<in>{ARevocations ''r1''}. m = payload_of a)"
    by (simp add: wit_verify_def)
  have v: "VerifyRevocations wit_verify wit_unmarshal [''k'' \<mapsto> ''pub''] wit_signed = Inr ?r"
    by (simp add: VerifyRevocations_Inr wit_signed_def AlgorithmEd25519_def wit_verify_def wit_unmarshal_def)
  note T = only_signed_artifacts_verify [where published = "\<lambda>_. {ARevocations ''r1''}", OF u,
      where un_r = wit_unmarshal and keys = "[''k'' \<mapsto> ''pub'']" and signed = wit_signed]
  have "ARevocations (sg_Bytes wit_signed) \<in> {ARevocations ''r1''}"
    using mp [OF T [THEN conjunct2, THEN conjunct2] v] by (elim conjE exE)
  with v show ?thesis by (simp add: Refuses_def)
qed

text \<open>The principal index answers exactly for the set it was built from: an id or a non-empty key
  prefix finds its one holder, every key prefix has a digest to check a secret against, and roles
  hold exactly the set's permissions, under a valid catalog.\<close>

theorem principals_indexed_exactly:
  assumes "IndexPrincipals pset = Inr p"
  shows "(ByID p i = Some q \<longleftrightarrow> q \<in> set (pset_Principals pset) \<and> p_Id q = i) \<and>
     (ByKeyPrefix p k = Some q \<longleftrightarrow> q \<in> set (pset_Principals pset) \<and> p_KeyPrefix q = k \<and> k \<noteq> []) \<and>
     (ByKeyPrefix p k = Some q \<longrightarrow> p_KeySecretSha256 q \<noteq> []) \<and>
     set (role_perms (ps_catalog p) r) = {x. (r, x) \<in> set (pset_RolePermissions pset)} \<and>
     ps_Version p = pset_Version pset \<and> ValidateCatalog (ps_catalog p) = Inr ()"
proof -
  let ?c = "fold add_permission (pset_RolePermissions pset) []"
  let ?o = "EmptyPrincipals\<lparr>ps_Version := pset_Version pset, ps_catalog := ?c\<rparr>"
  have f: "fold_result add_principal (pset_Principals pset) ?o = Inr p"
    and v: "?c = [] \<or> is_ok (ValidateCatalog ?c)"
    using assms by (auto simp: IndexPrincipals_def Let_def split: if_splits)
  have "ValidateCatalog ?c = Inr ()"
    using v by (auto simp: is_ok_iff ValidateCatalog_ok)
  with add_principals [OF f] show ?thesis
    by (simp add: EmptyPrincipals_def ByID_def ByKeyPrefix_def role_perms_fold_add role_perms_def [of "[]"])
qed

definition wit_pset :: PrincipalSet where
  "wit_pset = \<lparr>pset_Version = 3, pset_RolePermissions = [(''viewer'', PermToolList)],
     pset_Principals = [\<lparr>p_Id = ''u1'', p_TenantId = ''t1'', p_Subject = ''ann'', p_Grants = [],
       p_KeyPrefix = ''mk_1'', p_KeySecretSha256 = ''sha256:x'', p_SpansTenants = False\<rparr>]\<rparr>"

theorem principals_indexed_exactly_witness:
  "\<exists>p. IndexPrincipals wit_pset = Inr p \<and> ByKeyPrefix p ''mk_1'' = Some (hd (pset_Principals wit_pset)) \<and>
     ByKeyPrefix p [] = None"
proof -
  let ?p = "projr (IndexPrincipals wit_pset)"
  have "is_ok (IndexPrincipals wit_pset)" by code_simp
  then have i: "IndexPrincipals wit_pset = Inr ?p" by (cases "IndexPrincipals wit_pset") simp_all
  note T = principals_indexed_exactly [OF i]
  have "hd (pset_Principals wit_pset) \<in> set (pset_Principals wit_pset)"
    "p_KeyPrefix (hd (pset_Principals wit_pset)) = ''mk_1''"
    by (simp_all add: wit_pset_def)
  with T have "ByKeyPrefix ?p ''mk_1'' = Some (hd (pset_Principals wit_pset))" by blast
  moreover have "ByKeyPrefix ?p [] = None" using T by (metis not_None_eq)
  ultimately show ?thesis using i by blast
qed

text \<open>C40: what the control plane signs, a data plane that trusts the signer's key accepts and reads
  back: with the key published in the configuration's form, verifying a signed snapshot returns it.\<close>

theorem sign_verify_roundtrip:
  assumes "NewSigner keyID priv = Inr s" and "CHR '':'' \<notin> set keyID"
    and "enc pub \<noteq> []" and "dec (enc pub) = Some pub" and "length pub = PublicKeySize"
    and "\<forall>m. ed_verify pub m (ed_sign priv m) \<and> length (ed_sign priv m) = SignatureSize"
    and "\<forall>b. marshal snap = Some b \<longrightarrow> unmarshal b = Some snap"
    and "Sign ed_sign marshal s snap = Inr signed"
  shows "\<exists>keys. NewVerifier dec [TrustedKeyEntry enc keyID pub] = Inr keys \<and>
     Verify ed_verify unmarshal keys signed = Inr snap"
proof -
  have k: "keyID \<noteq> []" and s: "s = \<lparr>sk_keyID = keyID, sk_priv = priv\<rparr>"
    using assms(1) by (auto simp: NewSigner_def split: if_splits)
  have c: "cut '':'' (TrustedKeyEntry enc keyID pub) = Some (keyID, enc pub)"
    unfolding TrustedKeyEntry_def by (simp add: cut_char_Some assms(2))
  have "NewVerifier dec [TrustedKeyEntry enc keyID pub] = Inr [keyID \<mapsto> pub]"
    using c assms(3-5) k by (simp add: NewVerifier_def add_key_def)
  moreover have "Verify ed_verify unmarshal [keyID \<mapsto> pub] signed = Inr snap"
    using assms(6-8) unfolding Verify_Inr
    by (auto simp: Sign_def s split: if_splits option.splits)
  ultimately show ?thesis by blast
qed

definition wit_signable :: Snapshot where
  "wit_signable = \<lparr>sn_Version = 1, sn_Id = [], sn_Namespaces = [], sn_Servers = [], sn_Tools = [],
     sn_Policies = [], sn_Plugins = [], sn_Catalog = None, sn_Tenants = [], sn_Toolsets = []\<rparr>"

theorem sign_verify_roundtrip_witness:
  "\<exists>keys. NewVerifier Some [''k1:'' @ replicate 32 (CHR ''p'')] = Inr keys \<and>
     Verify (\<lambda>_ _ _. True) (\<lambda>_. Some wit_signable) keys
       \<lparr>sg_Bytes = ''b'', sg_KeyId = ''k1'', sg_Signature = replicate 64 (CHR ''x''),
        sg_Algorithm = ''ed25519''\<rparr> = Inr wit_signable"
proof -
  let ?sig = "replicate 64 (CHR ''x'')"
  let ?pub = "replicate 32 (CHR ''p'')"
  let ?sgd = "\<lparr>sg_Bytes = ''b'', sg_KeyId = ''k1'', sg_Signature = ?sig, sg_Algorithm = ''ed25519''\<rparr>"
  have n: "NewSigner ''k1'' (replicate 64 (CHR ''s'')) = Inr \<lparr>sk_keyID = ''k1'', sk_priv = replicate 64 (CHR ''s'')\<rparr>"
    by (simp add: NewSigner_def PrivateKeySize_bytes_def)
  have sg: "Sign (\<lambda>_ _. ?sig) (\<lambda>_. Some ''b'') \<lparr>sk_keyID = ''k1'', sk_priv = replicate 64 (CHR ''s'')\<rparr> wit_signable = Inr ?sgd"
    by (simp add: Sign_def wit_signable_def AlgorithmEd25519_def)
  have "\<exists>keys. NewVerifier Some [TrustedKeyEntry (\<lambda>x. x) ''k1'' ?pub] = Inr keys \<and>
      Verify (\<lambda>_ _ _. True) (\<lambda>_. Some wit_signable) keys ?sgd = Inr wit_signable"
    by (rule sign_verify_roundtrip [OF n _ _ _ _ _ _ sg])
      (simp_all add: PublicKeySize_def SignatureSize_def)
  then show ?thesis by (simp add: TrustedKeyEntry_def)
qed

end
