(* ===== verification/Snapshot_Store.thy ===== *)
theory Snapshot_Store
  imports Snapshot_Catalog Snapshot_Artifacts
begin

section \<open>The serving store (internal/dataplane/snapshot/store.go)\<close>

text \<open>
  The store holds the snapshot being served, the principal set, the revocation list, the retained
  history and the cache of composed catalogs. \<open>vfy\<close> is the verifier a caller passes to
  \<open>Activate\<close> (\<open>Verify\<close> of \<open>Snapshot_Artifacts\<close> on its keys) and \<open>prep\<close> the registered preparer:
  \<open>Some\<close> is its error, and no preparer is the one that never fails. The observers run after a swap
  and read the store; they are the edge's and the model returns the view they are handed.

  Each operation is a function on the state. Operations that release the lock in the middle
  (\<open>Activate\<close> and \<open>Rollback\<close> while the edge prepares, \<open>PrincipalView\<close> while it composes) are also
  split at that point: the step relation interleaves the halves of any number of callers.
\<close>

record historyEntry =
  he_version :: int
  he_signed :: Signed
  he_view :: View

record composedKey =
  ck_snapshotVersion :: int
  ck_principalVersion :: int
  ck_principalID :: string

datatype StoreError =
    NotVerified VerifyError | StaleVersion int int | NotBuilt BuildError | CannotServe int string
  | NotInHistory int | RebuildFailed int BuildError | NoLongerServed int string
  | NoSnapshot | NoPrincipal string int | NoTenants TenantsError | GrantsNotCompiled string
  | StalePrincipals | StaleRevocations | RevocationsAheadOfSnapshot

record Store =
  st_current :: "View option"
  st_principals :: "Principals option"
  st_composed :: "composedKey \<rightharpoonup> PrincipalView"
  st_revocations :: "Revocations option"
  st_history :: "historyEntry list"
  st_maxHistory :: nat
  st_lastReject :: "int \<times> StoreError option"

definition NewStore :: "int \<Rightarrow> Store" where
  "NewStore maxHistory =
     \<lparr>st_current = None, st_principals = None, st_composed = Map.empty, st_revocations = None,
      st_history = [], st_maxHistory = (if maxHistory < 1 then 1 else nat maxHistory),
      st_lastReject = (0, None)\<rparr>"

definition Store_Version :: "Store \<Rightarrow> int" where
  "Store_Version s = (case st_current s of None \<Rightarrow> 0 | Some v \<Rightarrow> v_Version v)"

definition Store_Principals :: "Store \<Rightarrow> Principals" where
  "Store_Principals s = (case st_principals s of None \<Rightarrow> EmptyPrincipals | Some p \<Rightarrow> p)"

definition Store_Revocations :: "Store \<Rightarrow> Revocations" where
  "Store_Revocations s = (case st_revocations s of None \<Rightarrow> EmptyRevocations | Some r \<Rightarrow> r)"

definition History :: "Store \<Rightarrow> int list" where
  "History s = map he_version (st_history s)"

definition Store_Signed :: "int \<Rightarrow> Store \<Rightarrow> StoreError + Signed" where
  "Store_Signed version s =
     (case find (\<lambda>e. he_version e = version) (st_history s) of
        None \<Rightarrow> Inl (NotInHistory version) | Some e \<Rightarrow> Inr (he_signed e))"

subsection \<open>Principals and revocations\<close>

definition ApplyPrincipals :: "Principals \<Rightarrow> Store \<Rightarrow> StoreError + Store" where
  "ApplyPrincipals next s =
     (case st_principals s of
        Some held \<Rightarrow>
          if ps_Version next \<le> ps_Version held then Inl StalePrincipals
          else Inr (s\<lparr>st_principals := Some next, st_composed := Map.empty\<rparr>)
      | None \<Rightarrow> Inr (s\<lparr>st_principals := Some next, st_composed := Map.empty\<rparr>))"

definition ApplyRevocations :: "Revocations \<Rightarrow> Store \<Rightarrow> StoreError + Store" where
  "ApplyRevocations next s =
     (if (case st_revocations s of None \<Rightarrow> False | Some held \<Rightarrow> rv_Version next \<le> rv_Version held)
      then Inl StaleRevocations
      else if rv_PrunedThroughVersion next > Store_Version s then Inl RevocationsAheadOfSnapshot
      else Inr (s\<lparr>st_revocations := Some next\<rparr>))"

subsection \<open>Composed catalogs\<close>

definition compose_for :: "View \<Rightarrow> Principals \<Rightarrow> string \<Rightarrow> StoreError + PrincipalView" where
  "compose_for view ps i =
     (case ByID ps i of
        None \<Rightarrow> Inl (NoPrincipal i (ps_Version ps))
      | Some who \<Rightarrow>
          (case tenantsFor view who of
             Inl e \<Rightarrow> Inl (NoTenants e)
           | Inr tenants \<Rightarrow>
               (case decider ps who of
                  Inl _ \<Rightarrow> Inl (GrantsNotCompiled (p_Subject who))
                | Inr decide \<Rightarrow> Inr (composePrincipal view who tenants (p_SpansTenants who) decide))))"

text \<open>The first half: a cached view (\<open>Inl\<close>), or a freshly composed one with its key.\<close>

definition lookup_view ::
  "string \<Rightarrow> Store \<Rightarrow> StoreError + (PrincipalView + composedKey \<times> PrincipalView)" where
  "lookup_view i s =
     (case st_current s of
        None \<Rightarrow> Inl NoSnapshot
      | Some view \<Rightarrow>
          let ps = Store_Principals s;
              key = \<lparr>ck_snapshotVersion = v_Version view, ck_principalVersion = ps_Version ps,
                     ck_principalID = i\<rparr>
          in case st_composed s key of
               Some cached \<Rightarrow> Inr (Inl cached)
             | None \<Rightarrow> bind_result (compose_for view ps i) (\<lambda>pv. Inr (Inr (key, pv))))"

text \<open>The second half, under the cache's lock.\<close>

definition cache_view :: "composedKey \<Rightarrow> PrincipalView \<Rightarrow> Store \<Rightarrow> Store \<times> PrincipalView" where
  "cache_view key pv s =
     (case st_composed s key of
        Some existing \<Rightarrow> (s, existing)
      | None \<Rightarrow> (s\<lparr>st_composed := (st_composed s)(key \<mapsto> pv)\<rparr>, pv))"

definition Store_PrincipalView :: "string \<Rightarrow> Store \<Rightarrow> Store \<times> (StoreError + PrincipalView)" where
  "Store_PrincipalView i s =
     (case lookup_view i s of
        Inl e \<Rightarrow> (s, Inl e)
      | Inr (Inl cached) \<Rightarrow> (s, Inr cached)
      | Inr (Inr (key, pv)) \<Rightarrow> (case cache_view key pv s of (s', pv') \<Rightarrow> (s', Inr pv')))"

subsection \<open>Activation\<close>

definition recordReject :: "int \<Rightarrow> StoreError \<Rightarrow> Store \<Rightarrow> Store" where
  "recordReject version reason s = s\<lparr>st_lastReject := (version, Some reason)\<rparr>"

definition stale :: "int \<Rightarrow> Store \<Rightarrow> bool" where
  "stale version s = (case st_current s of None \<Rightarrow> False | Some serving \<Rightarrow> version \<le> v_Version serving)"

definition reject :: "int \<Rightarrow> StoreError \<Rightarrow> Store \<Rightarrow> Store \<times> (StoreError + 'a)" where
  "reject version e s = (recordReject version e s, Inl e)"

text \<open>Everything up to the last lock: verification, the version checks, the build, the preparer.\<close>

definition admit ::
  "(Signed \<Rightarrow> VerifyError + Snapshot) \<Rightarrow> (View \<Rightarrow> string option) \<Rightarrow> Signed \<Rightarrow> Store \<Rightarrow>
   Store \<times> (StoreError + View)" where
  "admit vfy prep signed s =
     (case vfy signed of
        Inl e \<Rightarrow> reject 0 (NotVerified e) s
      | Inr snap \<Rightarrow>
          if stale (sn_Version snap) s
          then reject (sn_Version snap) (StaleVersion (sn_Version snap) (Store_Version s)) s
          else case BuildWithEngine snap of
              Inl e \<Rightarrow> reject (sn_Version snap) (NotBuilt e) s
            | Inr view \<Rightarrow>
                if stale (v_Version view) s
                then reject (v_Version view) (StaleVersion (v_Version view) (Store_Version s)) s
                else case prep view of
                    Some err \<Rightarrow> reject (v_Version view) (CannotServe (v_Version view) err) s
                  | None \<Rightarrow> (s, Inr view))"

definition commit :: "Signed \<Rightarrow> View \<Rightarrow> Store \<Rightarrow> Store \<times> (StoreError + View)" where
  "commit signed view s =
     (if stale (v_Version view) s
      then reject (v_Version view) (StaleVersion (v_Version view) (Store_Version s)) s
      else
        let history = st_history s @ [\<lparr>he_version = v_Version view, he_signed = signed, he_view = view\<rparr>];
            history = (if length history > st_maxHistory s
                       then drop (length history - st_maxHistory s) history else history)
        in (s\<lparr>st_history := history, st_current := Some view, st_lastReject := (0, None)\<rparr>, Inr view))"

definition Activate ::
  "(Signed \<Rightarrow> VerifyError + Snapshot) \<Rightarrow> (View \<Rightarrow> string option) \<Rightarrow> Signed \<Rightarrow> Store \<Rightarrow>
   Store \<times> (StoreError + View)" where
  "Activate vfy prep signed s =
     (case admit vfy prep signed s of
        (s', Inl e) \<Rightarrow> (s', Inl e)
      | (s', Inr view) \<Rightarrow> commit signed view s')"

subsection \<open>Rollback\<close>

definition rollback_target :: "(View \<Rightarrow> string option) \<Rightarrow> int \<Rightarrow> Store \<Rightarrow> StoreError + View" where
  "rollback_target prep version s =
     (case find (\<lambda>e. he_version e = version) (st_history s) of
        None \<Rightarrow> Inl (NotInHistory version)
      | Some target \<Rightarrow>
          (case BuildWithEngine (v_pb (he_view target)) of
             Inl e \<Rightarrow> Inl (RebuildFailed version e)
           | Inr view \<Rightarrow>
               (case prep view of
                  Some err \<Rightarrow> Inl (NoLongerServed version err)
                | None \<Rightarrow> Inr view)))"

definition Rollback ::
  "(View \<Rightarrow> string option) \<Rightarrow> int \<Rightarrow> Store \<Rightarrow> Store \<times> (StoreError + View)" where
  "Rollback prep version s =
     (case rollback_target prep version s of
        Inl e \<Rightarrow> (s, Inl e)
      | Inr view \<Rightarrow> (s\<lparr>st_current := Some view\<rparr>, Inr view))"

subsection \<open>Concurrent callers\<close>

text \<open>
  The store with the operations in flight: activations past their preparer, rollbacks past theirs,
  and catalogs composed and not yet cached.
\<close>

record World =
  w_store :: Store
  w_activating :: "(Signed \<times> View) list"
  w_rolling :: "View list"
  w_composing :: "(composedKey \<times> PrincipalView) list"

inductive step ::
  "(Signed \<Rightarrow> VerifyError + Snapshot) \<Rightarrow> (View \<Rightarrow> string option) \<Rightarrow> World \<Rightarrow> World \<Rightarrow> bool"
  for vfy prep where
  Refused: "admit vfy prep signed (w_store w) = (s, Inl e) \<Longrightarrow> step vfy prep w (w\<lparr>w_store := s\<rparr>)"
| Admitted: "admit vfy prep signed (w_store w) = (s, Inr view) \<Longrightarrow>
    step vfy prep w (w\<lparr>w_store := s, w_activating := (signed, view) # w_activating w\<rparr>)"
| Committed: "(signed, view) \<in> set (w_activating w) \<Longrightarrow> commit signed view (w_store w) = (s, r) \<Longrightarrow>
    step vfy prep w (w\<lparr>w_store := s, w_activating := remove1 (signed, view) (w_activating w)\<rparr>)"
| RollbackPrepared: "rollback_target prep version (w_store w) = Inr view \<Longrightarrow>
    step vfy prep w (w\<lparr>w_rolling := view # w_rolling w\<rparr>)"
| RolledBack: "view \<in> set (w_rolling w) \<Longrightarrow>
    step vfy prep w (w\<lparr>w_store := (w_store w)\<lparr>st_current := Some view\<rparr>,
                      w_rolling := remove1 view (w_rolling w)\<rparr>)"
| PrincipalsApplied: "ApplyPrincipals next (w_store w) = Inr s \<Longrightarrow> step vfy prep w (w\<lparr>w_store := s\<rparr>)"
| RevocationsApplied: "ApplyRevocations next (w_store w) = Inr s \<Longrightarrow> step vfy prep w (w\<lparr>w_store := s\<rparr>)"
| Composing: "lookup_view i (w_store w) = Inr (Inr (key, pv)) \<Longrightarrow>
    step vfy prep w (w\<lparr>w_composing := (key, pv) # w_composing w\<rparr>)"
| Composed: "(key, pv) \<in> set (w_composing w) \<Longrightarrow> cache_view key pv (w_store w) = (s, pv') \<Longrightarrow>
    step vfy prep w (w\<lparr>w_store := s, w_composing := remove1 (key, pv) (w_composing w)\<rparr>)"

inductive_cases step_cases: "step vfy prep w w'"

definition initial :: "int \<Rightarrow> World" where
  "initial n = \<lparr>w_store = NewStore n, w_activating = [], w_rolling = [], w_composing = []\<rparr>"

inductive reachable ::
  "(Signed \<Rightarrow> VerifyError + Snapshot) \<Rightarrow> (View \<Rightarrow> string option) \<Rightarrow> World \<Rightarrow> bool"
  for vfy prep where
  Start: "reachable vfy prep (initial n)"
| Step: "reachable vfy prep w \<Longrightarrow> step vfy prep w w' \<Longrightarrow> reachable vfy prep w'"

end
