(* ===== verification/Snapshot_Props.thy ===== *)
theory Snapshot_Props
  imports Snapshot_Catalog
begin

section \<open>Properties of built views and composed catalogs\<close>

text \<open>
  The properties of \<open>Build\<close>, \<open>tenantsFor\<close> and \<open>composePrincipal\<close>: what is indexed, who sees and calls
  what, in which order, under which names and for how long. Each rests on the characterisations of
  \<open>Snapshot_Catalog\<close> and on the contract of the authorization engine.
\<close>

subsection \<open>Names and lookups\<close>

lemma map_of_rev_keyed:
  assumes "distinct (map f xs)"
  shows "map_of (rev (map (\<lambda>x. (f x, x)) xs)) n = Some x \<longleftrightarrow> x \<in> set xs \<and> f x = n"
proof -
  have "distinct (map fst (rev (map (\<lambda>x. (f x, x)) xs)))"
    using assms by (simp add: rev_map comp_def flip: rev_map)
  from map_of_eq_Some_iff [OF this] show ?thesis by auto
qed

lemma set_cat_tools:
  "t \<in> set (cat_tools v decide tenants) \<longleftrightarrow>
     (\<exists>k\<in>set tenants. t \<in> set (slice_of (v_toolsByTenant v) (t_Id k))) \<and> decide PermToolList (Tool_Scope t)"
  by (auto simp: cat_tools_def listed_def)

lemma distinct_filter_map: "distinct (map f xs) \<Longrightarrow> distinct (map f (filter P xs))"
  by (induction xs) auto

lemma displayName_inj:
  assumes "CHR ''.'' \<notin> set (t_Slug (tool_Tenant s))" and "CHR ''.'' \<notin> set (t_Slug (tool_Tenant t))"
    and "displayName s True = displayName t True"
  shows "t_Slug (tool_Tenant s) = t_Slug (tool_Tenant t) \<and> Tool_QualifiedName s = Tool_QualifiedName t"
  using assms by (simp add: displayName_def sep_free_append_eq)

text \<open>The names of a catalog are distinct: within a tenant by the build's check, and across tenants
  when no slug contains the separator.\<close>

lemma distinct_names_one:
  assumes "indexed_view snap v"
  shows "distinct (map Tool_QualifiedName (cat_tools v decide [k]))"
  using indexed_viewD(7) [OF assms, of "t_Id k"]
  by (simp add: cat_tools_def listed_def distinct_filter_map)

lemma build_indexes_in:
  assumes "BuildWithEngine snap = Inr v" and "t \<in> set (slice_of (v_toolsByTenant v) k)"
  shows "tool_Toolset t \<in> set (sn_Toolsets snap)"
  using assms(2) build_indexed [OF assms(1)]
  by (auto simp: indexed_tool [OF build_indexed [OF assms(1)]] resolve_tool_Inr indexed_view_def map_of_index)

lemma indexed_slug:
  assumes "indexed_view snap v" and "t \<in> set (slice_of (v_toolsByTenant v) (t_Id k))"
    and "k \<in> set (sn_Tenants snap)"
  shows "tool_Tenant t = k"
  using indexed_tool_tenant [OF assms(1,2)] assms(1,3)
  by (auto simp: indexed_view_def distinct_map dest: inj_onD)

lemma distinct_names_spanning:
  assumes ix: "indexed_view snap v" and "set tenants \<subseteq> set (sn_Tenants snap)"
    and "distinct (map t_Slug tenants)"
    and "\<And>k. k \<in> set tenants \<Longrightarrow> CHR ''.'' \<notin> set (t_Slug k)"
  shows "distinct (map (\<lambda>t. displayName t True) (cat_tools v decide tenants))"
  using assms(2-)
proof (induction tenants)
  case Nil
  show ?case by (simp add: cat_tools_def)
next
  case (Cons k ks)
  have split: "cat_tools v decide (k # ks) = cat_tools v decide [k] @ cat_tools v decide ks"
    by (simp add: cat_tools_def)
  have own: "tool_Tenant t = k" if "t \<in> set (cat_tools v decide [k])" for t
    using that indexed_slug [OF ix] Cons.prems(1) by (auto simp: set_cat_tools)
  have other: "tool_Tenant t \<in> set ks" if "t \<in> set (cat_tools v decide ks)" for t
    using that indexed_slug [OF ix] Cons.prems(1) by (fastforce simp: set_cat_tools)
  have "distinct (map (\<lambda>t. displayName t True) (cat_tools v decide [k]))"
  proof -
    have "inj_on (\<lambda>t. displayName t True) (set (cat_tools v decide [k]))"
    proof (rule inj_onI)
      fix s t assume st: "s \<in> set (cat_tools v decide [k])" "t \<in> set (cat_tools v decide [k])"
        "displayName s True = displayName t True"
      then have "Tool_QualifiedName s = Tool_QualifiedName t"
        using displayName_inj [of s t] own Cons.prems(3) by simp
      with st distinct_names_one [OF ix, of decide k] show "s = t"
        by (auto simp: distinct_map dest: inj_onD)
    qed
    with distinct_names_one [OF ix, of decide k] show ?thesis by (simp add: distinct_map)
  qed
  moreover have "distinct (map (\<lambda>t. displayName t True) (cat_tools v decide ks))"
    using Cons by simp
  moreover have "displayName s True \<noteq> displayName t True"
    if "s \<in> set (cat_tools v decide [k])" "t \<in> set (cat_tools v decide ks)" for s t
    using displayName_inj [of s t] own [OF that(1)] other [OF that(2)] Cons.prems(2,3)
    by (metis image_eqI list.set_intros(1,2) list.set_map distinct.simps(2) list.simps(9))
  ultimately show ?case unfolding split by auto
qed

subsection \<open>Which tenants a credential reaches\<close>

definition found :: "View \<Rightarrow> Grant \<Rightarrow> Tenant option" where
  "found v g = (case ParseScope (g_Scope g) of None \<Rightarrow> None
     | Some p \<Rightarrow> if ps_Global p then None else map_of (v_tenantsBySlug v) (ps_Tenant p))"

lemma reach_grants_Inr:
  assumes "reach_grants v subject gs reached glob = Inr (r, g)"
  shows "r = fold (\<lambda>t. AList.update (t_Id t) t) (List.map_filter (found v) gs) reached \<and>
    (g \<longleftrightarrow> glob \<or> (\<exists>g\<in>set gs. \<exists>p. ParseScope (g_Scope g) = Some p \<and> ps_Global p)) \<and>
    (\<forall>g\<in>set gs. ParseScope (g_Scope g) \<noteq> None)"
  using assms
proof (induction gs arbitrary: reached glob)
  case Nil
  then show ?case by (simp add: List.map_filter_def)
next
  case (Cons x gs)
  obtain p where p: "ParseScope (g_Scope x) = Some p"
    using Cons.prems by (auto split: option.splits)
  consider (Glob) "ps_Global p" | (Miss) "\<not> ps_Global p" "map_of (v_tenantsBySlug v) (ps_Tenant p) = None"
    | (Hit) t where "\<not> ps_Global p" "map_of (v_tenantsBySlug v) (ps_Tenant p) = Some t"
    by fastforce
  then show ?case
    by cases (use Cons.IH Cons.prems p in \<open>auto simp: found_def List.map_filter_simps\<close>)
qed

lemma sorted_key_distinct:
  "distinct xs \<Longrightarrow> distinct (sort_key f xs)"
  by simp

lemma tenants_spanning:
  assumes ix: "indexed_view snap v" and sp: "p_SpansTenants who" and T: "tenantsFor v who = Inr tenants"
  shows "set tenants = {t \<in> set (sn_Tenants snap). AnyReaches (p_Grants who) (t_Slug t)}"
    and "sorted (map t_Slug tenants)" and "distinct (map t_Slug tenants)"
proof -
  from sp T obtain r g where rg: "reach_grants v (p_Subject who) (p_Grants who) [] False = Inr (r, g)"
    and t: "tenants = sort_key t_Slug (map snd
      (if g then fold (\<lambda>(id, tenant). AList.update id tenant) (v_tenants v) r else r))"
    by (auto simp: tenantsFor_def bind_result_Inr Let_def)
  note R = reach_grants_Inr [OF rg]
  have vt: "v_tenants v = index t_Id (sn_Tenants snap)" "v_tenantsBySlug v = index t_Slug (sn_Tenants snap)"
    and di: "distinct (map t_Id (sn_Tenants snap))" "distinct (map t_Slug (sn_Tenants snap))"
    using indexed_viewD [OF ix] by blast+
  define L where "L = List.map_filter (found v) (p_Grants who) @ (if g then sn_Tenants snap else [])"
  define m where "m = fold (\<lambda>t. AList.update (t_Id t) t) L []"
  have t': "tenants = sort_key t_Slug (map snd m)"
    using R unfolding t m_def L_def
    by (cases g) (simp_all add: vt index_def fold_map comp_def split_def)
  have fset: "x \<in> set (List.map_filter (found v) (p_Grants who)) \<longleftrightarrow>
      (\<exists>h\<in>set (p_Grants who). found v h = Some x)" for x
    by (force simp: List.map_filter_def image_iff)
  have fnd: "found v h = Some x \<longleftrightarrow> x \<in> set (sn_Tenants snap) \<and>
      (\<exists>p. ParseScope (g_Scope h) = Some p \<and> \<not> ps_Global p \<and> ps_Tenant p = t_Slug x)" for h x
    by (auto simp: found_def vt map_of_index [OF di(2)] split: option.splits if_splits)
  have L: "x \<in> set L \<longleftrightarrow> x \<in> set (sn_Tenants snap) \<and> AnyReaches (p_Grants who) (t_Slug x)" for x
  proof -
    have "g \<longleftrightarrow> (\<exists>h\<in>set (p_Grants who). \<exists>p. ParseScope (g_Scope h) = Some p \<and> ps_Global p)"
      using R by simp
    moreover have "x \<in> set L \<longleftrightarrow> x \<in> set (sn_Tenants snap) \<and> (g \<or>
        (\<exists>h\<in>set (p_Grants who). \<exists>p. ParseScope (g_Scope h) = Some p \<and> \<not> ps_Global p \<and> ps_Tenant p = t_Slug x))"
      unfolding L_def set_append Un_iff fset fnd by (cases g) auto
    ultimately show ?thesis unfolding AnyReaches_iff by blast
  qed
  have inj: "inj_on t_Id (set (sn_Tenants snap))" "inj_on t_Slug (set (sn_Tenants snap))"
    using di by (simp_all add: distinct_map)
  have "x = y" if "x \<in> set L" "y \<in> set L" "t_Id x = t_Id y" for x y
    using inj_onD [OF inj(1) that(3)] that(1,2) L by blast
  then have sm: "set m = (\<lambda>t. (t_Id t, t)) ` set L"
    unfolding m_def by (rule set_fold_update)
  show s: "set tenants = {t \<in> set (sn_Tenants snap). AnyReaches (p_Grants who) (t_Slug t)}"
    using L by (auto simp: t' sm image_image)
  show "sorted (map t_Slug tenants)" by (simp add: t')
  have "distinct (map fst m)" unfolding m_def by (rule distinct_fold_update) simp
  moreover have "\<And>p. p \<in> set m \<Longrightarrow> fst p = t_Id (snd p)" using sm by auto
  ultimately have "distinct (map (\<lambda>p. t_Id (snd p)) m)" by (simp cong: map_cong)
  then have "distinct tenants" by (simp add: t' distinct_map inj_on_def)
  moreover have "inj_on t_Slug (set tenants)"
    using inj(2) by (rule inj_on_subset) (use s in blast)
  ultimately show "distinct (map t_Slug tenants)" by (simp add: distinct_map)
qed

lemma tenants_single:
  assumes ix: "indexed_view snap v" and "\<not> p_SpansTenants who" and "tenantsFor v who = Inr tenants"
  obtains k where "tenants = [k]" "k \<in> set (sn_Tenants snap)" "t_Id k = p_TenantId who"
  using assms that by (auto simp: tenantsFor_def indexed_view_def map_of_index split: option.splits)

subsection \<open>A snapshot the witnesses evaluate\<close>

definition wit_tool_def :: "string \<Rightarrow> string \<Rightarrow> string \<Rightarrow> int \<Rightarrow> ToolDefinition" where
  "wit_tool_def tenant ts name cost =
     \<lparr>td_Digest = tenant @ name, td_SemanticDigest = [], td_ServerId = ''s1'', td_NamespaceId = ''n1'',
      td_TenantId = tenant, td_ToolsetId = ts, td_Name = name, td_QualifiedName = ''crm.'' @ name,
      td_Title = [], td_Description = [], td_InputSchemaJson = ''{}'', td_OutputSchemaJson = [],
      td_AnnotationsJson = [], td_EffectClass = EFFECT_READ, td_TokenEstimate = cost,
      td_RequiresIdempotencyKey = False\<rparr>"

definition wit_snap :: "ToolDefinition list \<Rightarrow> Snapshot" where
  "wit_snap tools =
     \<lparr>sn_Version = 7, sn_Id = ''snap'', sn_Namespaces = [\<lparr>ns_Id = ''n1'', ns_Name = ''crm'', ns_Prefix = ''crm''\<rparr>],
      sn_Servers = [\<lparr>srv_Id = ''s1'', srv_Name = ''crm'', srv_NamespaceId = ''n1'',
         srv_ServingMode = SERVING_STRICT,
         srv_Bindings = [\<lparr>bd_TenantId = ''t1'', bd_Primary = ''http://a'', bd_Replicas = []\<rparr>],
         srv_Health = None, srv_CanaryTool = [], srv_TokenExchange = None\<rparr>],
      sn_Tools = tools,
      sn_Policies = [\<lparr>pol_Id = ''p1'', pol_Priority = 1, pol_Rules = [\<lparr>pr_MaxTtlMs = 40000\<rparr>]\<rparr>],
      sn_Plugins = [], sn_Catalog = Some \<lparr>cd_TtlMs = 60000, cd_DegradedTtlMs = 0\<rparr>,
      sn_Tenants = [\<lparr>t_Id = ''t1'', t_Slug = ''acme'', t_Name = [], t_Status = []\<rparr>,
                    \<lparr>t_Id = ''t2'', t_Slug = ''globex'', t_Name = [], t_Status = []\<rparr>],
      sn_Toolsets = [\<lparr>ts_Id = ''k1'', ts_Name = ''core'', ts_Priority = 1, ts_TokenBudget = 1000, ts_TtlMs = 30000\<rparr>,
                     \<lparr>ts_Id = ''k2'', ts_Name = ''ops'', ts_Priority = 2, ts_TokenBudget = 0, ts_TtlMs = 0\<rparr>]\<rparr>"

definition wit_defs :: "ToolDefinition list" where
  "wit_defs = [wit_tool_def ''t1'' ''k2'' ''purge'' 10, wit_tool_def ''t1'' ''k1'' ''search'' 20,
               wit_tool_def ''t2'' ''k1'' ''search'' 20]"

definition wit_view :: View where
  "wit_view = projr (BuildWithEngine (wit_snap wit_defs))"

definition wit_who :: "bool \<Rightarrow> Grant list \<Rightarrow> Principal" where
  "wit_who spans grants =
     \<lparr>p_Id = ''u1'', p_TenantId = ''t1'', p_Subject = ''ann'', p_Grants = grants,
      p_KeyPrefix = [], p_KeySecretSha256 = [], p_SpansTenants = spans\<rparr>"

lemma wit_built: "BuildWithEngine (wit_snap wit_defs) = Inr wit_view"
  unfolding wit_view_def by (rule is_ok_projr) code_simp

subsection \<open>Properties\<close>

text \<open>C32: a snapshot that builds is referentially closed and indexed without loss: a tenant's tools
  are exactly the snapshot's definitions for it, each joined with the server, namespace, tenant and
  toolset its ids name, called by its namespace's prefix and its name, with a schema; they are in
  catalog order, and no two have the same name.\<close>

theorem build_indexes_exactly:
  assumes "BuildWithEngine snap = Inr v"
  shows "(tool \<in> set (slice_of (v_toolsByTenant v) tid) \<longleftrightarrow>
       tool_Def tool \<in> set (sn_Tools snap) \<and> td_TenantId (tool_Def tool) = tid \<and>
       tool_Server tool \<in> set (sn_Servers snap) \<and> srv_Id (tool_Server tool) = td_ServerId (tool_Def tool) \<and>
       tool_Namespace tool \<in> set (sn_Namespaces snap) \<and>
         ns_Id (tool_Namespace tool) = td_NamespaceId (tool_Def tool) \<and>
       tool_Tenant tool \<in> set (sn_Tenants snap) \<and> t_Id (tool_Tenant tool) = tid \<and>
       tool_Toolset tool \<in> set (sn_Toolsets snap) \<and>
         ts_Id (tool_Toolset tool) = td_ToolsetId (tool_Def tool) \<and>
       tool_ToolsetPriority tool = ts_Priority (tool_Toolset tool) \<and>
       Tool_QualifiedName tool = ns_Prefix (tool_Namespace tool) @ ''.'' @ td_Name (tool_Def tool) \<and>
       td_InputSchemaJson (tool_Def tool) \<noteq> []) \<and>
     length (slice_of (v_toolsByTenant v) tid) = length (filter (\<lambda>d. td_TenantId d = tid) (sn_Tools snap)) \<and>
     sorted (map tool_key (slice_of (v_toolsByTenant v) tid)) \<and>
     distinct (map Tool_QualifiedName (slice_of (v_toolsByTenant v) tid))"
proof -
  note ix = build_indexed [OF assms]
  have "tool \<in> set (slice_of (v_toolsByTenant v) tid) \<longleftrightarrow>
      tool_Def tool \<in> set (sn_Tools snap) \<and> td_TenantId (tool_Def tool) = tid \<and>
      resolve_tool v (tool_Def tool) = Inr tool"
    unfolding indexed_tool [OF ix] by (auto simp: resolve_tool_Inr)
  moreover have "length (slice_of (v_toolsByTenant v) tid) =
      length (filter (\<lambda>d. td_TenantId d = tid) (sn_Tools snap))"
    "sorted (map tool_key (slice_of (v_toolsByTenant v) tid))"
    by (simp_all add: indexed_viewD(9) [OF ix] sortTools_def)
  ultimately show ?thesis
    using indexed_viewD(7) [OF ix, of tid] ix
    unfolding resolve_tool_Inr indexed_view_def Tool_QualifiedName_def
    by (auto simp: map_of_index)
qed

theorem build_indexes_exactly_witness:
  "map Tool_QualifiedName (slice_of (v_toolsByTenant wit_view) ''t1'') = [''crm.search'', ''crm.purge''] \<and>
   sorted (map tool_key (slice_of (v_toolsByTenant wit_view) ''t1''))"
proof -
  have "map Tool_QualifiedName (slice_of (v_toolsByTenant wit_view) ''t1'') = [''crm.search'', ''crm.purge'']"
    by code_simp
  with build_indexes_exactly [OF wit_built, of _ "''t1''"] show ?thesis by blast
qed

text \<open>C1: an ordinary credential sees and calls exactly what its grants allow: a name resolves to a
  tool of its own tenant exactly when the grants allow listing it, and is callable exactly when it
  resolves to a tool the grants allow calling.\<close>

theorem catalog_enforces_grants:
  assumes "BuildWithEngine snap = Inr v" and "tenantsFor v who = Inr tenants"
    and "\<not> p_SpansTenants who"
    and "ValidateCatalog c = Inr ()" and "BuiltinEngine_Prepare (p_Grants who) c = Inr decide"
    and "pv = composePrincipal v who tenants (p_SpansTenants who) decide"
  shows "(PrincipalView_Tool pv n = Some tool \<longleftrightarrow>
       tool \<in> set (slice_of (v_toolsByTenant v) (p_TenantId who)) \<and> Tool_QualifiedName tool = n \<and>
       policy_allows (p_Grants who) c PermToolList (Tool_Scope tool)) \<and>
     (Callable pv n \<longleftrightarrow> (\<exists>tool. PrincipalView_Tool pv n = Some tool \<and>
       policy_allows (p_Grants who) c PermToolCall (Tool_Scope tool)))"
proof -
  note ix = build_indexed [OF assms(1)]
  have d: "decide = policy_allows (p_Grants who) c" using builtin.prepared_fun assms(4,5) by blast
  obtain k where k: "tenants = [k]" "t_Id k = p_TenantId who"
    using tenants_single [OF ix assms(3,2)] by metis
  note P = composed [of v who tenants False decide, folded assms(6) [simplified assms(3)]]
  have "distinct (map (\<lambda>t. displayName t False) (cat_tools v decide tenants))"
    using distinct_names_one [OF ix] k by (simp add: displayName_def)
  note look = map_of_rev_keyed [OF this]
  have pv: "pv = composePrincipal v who tenants False decide" using assms(3,6) by simp
  show ?thesis
    unfolding PrincipalView_Tool_def Callable_def pv composed look
    using policy_call_list [OF assms(4)] by (auto simp: set_cat_tools k d displayName_def)
qed

definition wit_grants :: "Grant list" where
  "wit_grants = [\<lparr>g_Role = RoleToolUser, g_Scope = ''t/acme/ts/core''\<rparr>]"

theorem catalog_enforces_grants_witness:
  "\<exists>tool. PrincipalView_Tool (composePrincipal wit_view (wit_who False wit_grants)
       [\<lparr>t_Id = ''t1'', t_Slug = ''acme'', t_Name = [], t_Status = []\<rparr>] False
       (policy_allows wit_grants DefaultCatalog)) ''crm.search'' = Some tool \<and>
     policy_allows wit_grants DefaultCatalog PermToolList (Tool_Scope tool) \<and>
     \<not> policy_allows wit_grants DefaultCatalog PermToolCall ''t/acme/ts/ops/purge''"
proof -
  let ?who = "wit_who False wit_grants"
  let ?ts = "[\<lparr>t_Id = ''t1'', t_Slug = ''acme'', t_Name = [], t_Status = []\<rparr>]"
  let ?pv = "composePrincipal wit_view ?who ?ts (p_SpansTenants ?who) (policy_allows (p_Grants ?who) DefaultCatalog)"
  have w: "p_SpansTenants ?who = False" "p_Grants ?who = wit_grants" by (simp_all add: wit_who_def)
  have t: "tenantsFor wit_view ?who = Inr ?ts" and s: "\<not> p_SpansTenants ?who"
    and c: "ValidateCatalog DefaultCatalog = Inr ()"
    and call: "Callable ?pv ''crm.search''"
    and no: "\<not> policy_allows wit_grants DefaultCatalog PermToolCall ''t/acme/ts/ops/purge''"
    by code_simp+
  note T = catalog_enforces_grants [OF wit_built t s c builtin_decides refl]
  from T call obtain tool where "PrincipalView_Tool ?pv ''crm.search'' = Some tool" by blast
  moreover from this T have "policy_allows (p_Grants ?who) DefaultCatalog PermToolList (Tool_Scope tool)"
    by blast
  ultimately show ?thesis using no unfolding w by blast
qed

text \<open>C29: a spanning credential draws from exactly the tenants its grants reach, in slug order, and
  with dot-free slugs every tool it may list in one of them has a name of its own.\<close>

theorem spanning_catalog_exact:
  assumes "BuildWithEngine snap = Inr v" and "tenantsFor v who = Inr tenants" and "p_SpansTenants who"
    and "\<forall>t\<in>set (sn_Tenants snap). CHR ''.'' \<notin> set (t_Slug t)"
    and "pv = composePrincipal v who tenants (p_SpansTenants who) decide"
  shows "set (pv_Tenants pv) = {t \<in> set (sn_Tenants snap). AnyReaches (p_Grants who) (t_Slug t)} \<and>
     sorted (map t_Slug (pv_Tenants pv)) \<and> distinct (map t_Slug (pv_Tenants pv)) \<and>
     distinct (pv_names pv) \<and>
     (PrincipalView_Tool pv n = Some tool \<longleftrightarrow>
        (\<exists>t\<in>set (sn_Tenants snap). AnyReaches (p_Grants who) (t_Slug t) \<and>
           tool \<in> set (slice_of (v_toolsByTenant v) (t_Id t)) \<and>
           n = t_Slug t @ ''.'' @ Tool_QualifiedName tool \<and> decide PermToolList (Tool_Scope tool)))"
proof -
  note ix = build_indexed [OF assms(1)]
  note T = tenants_spanning [OF ix assms(3,2)]
  have pv: "pv = composePrincipal v who tenants True decide" using assms(3,5) by simp
  have dn: "distinct (map (\<lambda>t. displayName t True) (cat_tools v decide tenants))"
    by (rule distinct_names_spanning [OF ix _ T(3)]) (use T(1) assms(4) in auto)
  have own: "tool_Tenant tool = t" if "t \<in> set (sn_Tenants snap)"
    "tool \<in> set (slice_of (v_toolsByTenant v) (t_Id t))" for t
    using indexed_slug [OF ix that(2,1)] .
  have "PrincipalView_Tool pv n = Some tool \<longleftrightarrow>
      tool \<in> set (cat_tools v decide tenants) \<and> displayName tool True = n"
    unfolding PrincipalView_Tool_def pv composed map_of_rev_keyed [OF dn] ..
  also have "\<dots> \<longleftrightarrow> (\<exists>t\<in>set (sn_Tenants snap). AnyReaches (p_Grants who) (t_Slug t) \<and>
      tool \<in> set (slice_of (v_toolsByTenant v) (t_Id t)) \<and>
      n = t_Slug t @ ''.'' @ Tool_QualifiedName tool \<and> decide PermToolList (Tool_Scope tool))"
    unfolding set_cat_tools T(1) displayName_def using own by auto
  finally show ?thesis
    using T dn by (simp add: pv composed)
qed

definition wit_span_grants :: "Grant list" where
  "wit_span_grants = [\<lparr>g_Role = RoleToolUser, g_Scope = ''*''\<rparr>]"

theorem spanning_catalog_exact_witness:
  "\<exists>tenants. tenantsFor wit_view (wit_who True wit_span_grants) = Inr tenants \<and>
     map t_Slug tenants = [''acme'', ''globex''] \<and>
     distinct (pv_names (composePrincipal wit_view (wit_who True wit_span_grants) tenants True (\<lambda>_ _. True)))"
proof -
  let ?who = "wit_who True wit_span_grants"
  let ?ts = "projr (tenantsFor wit_view ?who)"
  have t: "tenantsFor wit_view ?who = Inr ?ts" by (rule is_ok_projr) code_simp
  have m: "map t_Slug ?ts = [''acme'', ''globex'']" and s: "p_SpansTenants ?who"
    and d: "\<forall>t\<in>set (sn_Tenants (wit_snap wit_defs)). CHR ''.'' \<notin> set (t_Slug t)"
    by code_simp+
  have s': "p_SpansTenants ?who = True" using s by simp
  have "distinct (pv_names (composePrincipal wit_view ?who ?ts (p_SpansTenants ?who) (\<lambda>_ _. True)))"
    by (rule spanning_catalog_exact [OF wit_built t s d refl,
          THEN conjunct2, THEN conjunct2, THEN conjunct2, THEN conjunct1])
  then have n: "distinct (pv_names (composePrincipal wit_view ?who ?ts True (\<lambda>_ _. True)))"
    unfolding s' .
  show ?thesis by (rule exI [of _ ?ts]) (intro conjI t m n)
qed

lemma fold_narrow:
  "0 \<le> t \<Longrightarrow> 0 \<le> fold narrow ls t \<and>
     (fold narrow ls t = 0 \<longleftrightarrow> (\<forall>l\<in>set (t # ls). l \<le> 0)) \<and>
     (fold narrow ls t > 0 \<longrightarrow> fold narrow ls t \<in> set (t # ls) \<and>
        (\<forall>l\<in>set (t # ls). 0 < l \<longrightarrow> fold narrow ls t \<le> l))"
proof (induction ls arbitrary: t)
  case Nil
  then show ?case by auto
next
  case (Cons l ls)
  have "0 \<le> narrow l t" using Cons.prems by (simp add: narrow_def)
  from Cons.IH [OF this] show ?case using Cons.prems by (auto simp: narrow_def split: if_splits)
qed

lemma toolset_by_id:
  assumes ix: "indexed_view snap v"
    and "s \<in> set (slice_of (v_toolsByTenant v) k)" and "t \<in> set (slice_of (v_toolsByTenant v) l)"
    and "ts_Id (tool_Toolset s) = ts_Id (tool_Toolset t)"
  shows "tool_Toolset s = tool_Toolset t"
proof -
  have tl: "v_toolsets v = index ts_Id (sn_Toolsets snap)" using ix by (simp add: indexed_view_def)
  have "tool_Toolset s \<in> set (sn_Toolsets snap)" "tool_Toolset t \<in> set (sn_Toolsets snap)"
    using assms(2,3) map_of_index [OF indexed_viewD(6) [OF ix]]
    by (auto simp: indexed_tool [OF ix] resolve_tool_Inr tl)
  with assms(4) indexed_viewD(6) [OF ix] show ?thesis by (auto simp: distinct_map dest: inj_onD)
qed

lemma set_contributing:
  assumes ix: "indexed_view snap v"
  shows "set (contributing_of (cat_tools v decide tenants)) =
     (\<lambda>t. (ts_Id (tool_Toolset t), tool_Toolset t)) ` set (cat_tools v decide tenants)"
  unfolding contributing_of_def
  by (rule set_fold_update) (auto simp: set_cat_tools intro: toolset_by_id [OF ix])

text \<open>The lifetime of a catalog is the tightest positive limit among the deployment's default,
  the toolsets that contribute a tool and every policy rule, and 0 only when there is none.\<close>

theorem catalog_ttl_is_tightest:
  assumes "BuildWithEngine snap = Inr v"
    and "pv = composePrincipal v who tenants spanning decide"
    and "base = (case sn_Catalog snap of None \<Rightarrow> 0 | Some d \<Rightarrow> cd_TtlMs d)" and "0 \<le> base"
    and "limits = insert base ((\<lambda>t. ts_TtlMs (tool_Toolset t)) ` set (pv_Tools pv) \<union>
       {pr_MaxTtlMs r |r p. p \<in> set (sn_Policies snap) \<and> r \<in> set (pol_Rules p)})"
  shows "(\<forall>l\<in>limits. 0 < l \<longrightarrow> 0 < pv_TTLMs pv \<and> pv_TTLMs pv \<le> l) \<and>
     (pv_TTLMs pv = 0 \<or> pv_TTLMs pv \<in> limits)"
proof -
  note ix = build_indexed [OF assms(1)]
  let ?cat = "cat_tools v decide tenants"
  let ?ls = "map (\<lambda>(_, ts). ts_TtlMs ts) (contributing_of ?cat) @
    concat (map (\<lambda>p. map pr_MaxTtlMs (pol_Rules p)) (sn_Policies snap))"
  have t: "pv_TTLMs pv = fold narrow ?ls base"
    unfolding assms(2,3) composed indexed_viewD(1) [OF ix] by simp
  have "set (base # ?ls) = limits"
    using set_contributing [OF ix, of decide tenants]
    by (auto simp: assms(2,5) composed image_iff split_def)
  with fold_narrow [OF assms(4), of ?ls] show ?thesis
    unfolding t by (metis leD le_less)
qed

theorem catalog_ttl_is_tightest_witness:
  "pv_TTLMs (composePrincipal wit_view (wit_who True []) (sn_Tenants (wit_snap wit_defs)) True (\<lambda>_ _. True)) \<le> 30000 \<and>
   pv_TTLMs (composePrincipal wit_view (wit_who True []) (sn_Tenants (wit_snap wit_defs)) True (\<lambda>_ _. True)) = 30000"
proof -
  let ?pv = "composePrincipal wit_view (wit_who True []) (sn_Tenants (wit_snap wit_defs)) True (\<lambda>_ _. True)"
  have e: "pv_TTLMs ?pv = 30000" "30000 \<in> (\<lambda>t. ts_TtlMs (tool_Toolset t)) ` set (pv_Tools ?pv)"
    by code_simp+
  have b: "(60000::int) = (case sn_Catalog (wit_snap wit_defs) of None \<Rightarrow> 0 | Some d \<Rightarrow> cd_TtlMs d)"
    by (simp add: wit_snap_def)
  from catalog_ttl_is_tightest [OF wit_built refl b _ refl, of "wit_who True []"
      "sn_Tenants (wit_snap wit_defs)" True "\<lambda>_ _. True"] e
  show ?thesis by simp
qed

lemma resolve_tool_indexes:
  assumes "indexed_view snap v" and "indexed_view snap' v'"
    and "sn_Servers snap' = sn_Servers snap" "sn_Namespaces snap' = sn_Namespaces snap"
      "sn_Tenants snap' = sn_Tenants snap" "sn_Toolsets snap' = sn_Toolsets snap"
  shows "resolve_tool v' = resolve_tool v"
proof -
  have eqs: "v_servers v' = v_servers v" "v_namespaces v' = v_namespaces v"
    "v_tenants v' = v_tenants v" "v_toolsets v' = v_toolsets v"
    using assms by (simp_all add: indexed_view_def)
  show ?thesis unfolding resolve_tool_def fun_eq_iff eqs by simp
qed

lemma sortTools_filter: "filter P (sortTools ts) = sortTools (filter P ts)"
  by (simp add: sortTools_def filter_sort)

text \<open>Publishing one more tool moves no tool of any catalog: without the new entry, each
  tenant's tools are those of the previous snapshot, in the same order.\<close>

theorem adding_a_tool_keeps_order:
  assumes "BuildWithEngine snap = Inr v" and "sn_Tools snap = xs @ ys"
    and "BuildWithEngine (snap\<lparr>sn_Tools := xs @ d # ys\<rparr>) = Inr v'"
  shows "filter (\<lambda>t. tool_Def t \<noteq> d) (slice_of (v_toolsByTenant v') k) = slice_of (v_toolsByTenant v) k"
proof -
  note ix = build_indexed [OF assms(1)] and ix' = build_indexed [OF assms(3)]
  have "resolve_tool v' = resolve_tool v" by (rule resolve_tool_indexes [OF ix ix']) simp_all
  then have tf: "tool_for v' = tool_for v" by (rule tool_for_cong)
  let ?of = "\<lambda>k. filter (\<lambda>d. td_TenantId d = k)"
  have sl': "slice_of (v_toolsByTenant v') k = sortTools (map (tool_for v) (?of k (xs @ d # ys)))" for k
    using indexed_viewD(9) [OF ix', of k] by (simp add: tf)
  have Def: "tool_Def (tool_for v e) = e" if "e \<in> set (xs @ ys)" for e
    using ix that assms(2) unfolding indexed_view_def
    by (metis resolve_tool_Inr)
  have "d \<notin> set (xs @ ys)"
  proof
    assume "d \<in> set (xs @ ys)"
    moreover have "distinct (map Tool_QualifiedName (sortTools (map (tool_for v) (?of (td_TenantId d) (xs @ d # ys)))))"
      using indexed_viewD(7) [OF ix', of "td_TenantId d"] unfolding sl' .
    then have "distinct (map (tool_for v) (?of (td_TenantId d) (xs @ d # ys)))"
      by (auto simp: sortTools_def distinct_map)
    ultimately show False by auto
  qed
  then have "filter (\<lambda>e. tool_Def (tool_for v e) \<noteq> d) (?of k (xs @ ys)) = ?of k (xs @ ys)"
    using Def by (intro filter_True) auto
  moreover have "filter (\<lambda>t. tool_Def t \<noteq> d) (map (tool_for v) (?of k (xs @ d # ys))) =
      map (tool_for v) (filter (\<lambda>e. tool_Def (tool_for v e) \<noteq> d) (?of k (xs @ ys)))"
  proof -
    have "tool_Def (tool_for v d) = d"
      using ix' unfolding indexed_view_def tf by (simp add: resolve_tool_Inr)
    then show ?thesis by (simp add: filter_map comp_def)
  qed
  ultimately show ?thesis
    unfolding sl' sortTools_filter by (simp add: indexed_viewD(9) [OF ix] assms(2))
qed

theorem adding_a_tool_keeps_order_witness:
  "\<exists>v'. BuildWithEngine ((wit_snap wit_defs)\<lparr>sn_Tools :=
       [wit_tool_def ''t1'' ''k2'' ''purge'' 10] @ wit_tool_def ''t1'' ''k1'' ''list'' 5 # tl wit_defs\<rparr>) = Inr v' \<and>
     filter (\<lambda>t. tool_Def t \<noteq> wit_tool_def ''t1'' ''k1'' ''list'' 5) (slice_of (v_toolsByTenant v') ''t1'')
       = slice_of (v_toolsByTenant wit_view) ''t1''"
proof -
  let ?s = "(wit_snap wit_defs)\<lparr>sn_Tools :=
       [wit_tool_def ''t1'' ''k2'' ''purge'' 10] @ wit_tool_def ''t1'' ''k1'' ''list'' 5 # tl wit_defs\<rparr>"
  have b: "BuildWithEngine ?s = Inr (projr (BuildWithEngine ?s))" by (rule is_ok_projr) code_simp
  have t: "sn_Tools (wit_snap wit_defs) = [wit_tool_def ''t1'' ''k2'' ''purge'' 10] @ tl wit_defs"
    by (simp add: wit_snap_def wit_defs_def)
  note adding_a_tool_keeps_order [OF wit_built t b, of "''t1''"]
  with b show ?thesis by blast
qed

lemma budget_checked:
  assumes "indexed_view snap v" and "ts \<in> set (sn_Toolsets snap)" and "0 < ts_TokenBudget ts"
    and "\<exists>t\<in>set (slice_of (v_toolsByTenant v) k). tool_Toolset t = ts"
  shows "wrap32 (toolset_cost (ts_Id ts) (slice_of (v_toolsByTenant v) k)) \<le> ts_TokenBudget ts"
proof -
  let ?tools = "slice_of (v_toolsByTenant v) k"
  have "(ts_Id ts, wrap32 (toolset_cost (ts_Id ts) ?tools)) \<in> set (fold add_cost ?tools [])"
    unfolding costs_iff using assms(4) by auto
  then have "check_budget v k (ts_Id ts, wrap32 (toolset_cost (ts_Id ts) ?tools)) () = Inr ()"
    using indexed_viewD(8) [OF assms(1), of k] unfolding check_budgets_def by (auto simp: fold_result_unit)
  moreover have "map_of (v_toolsets v) (ts_Id ts) = Some ts"
    using assms(1,2) by (simp add: indexed_view_def map_of_index)
  ultimately show ?thesis using assms(3) by (auto simp: check_budget_def split: if_splits)
qed

text \<open>A published toolset stays within its token budget for every tenant, as long as the
  tenant's estimates do not overflow the 32-bit sum the check computes.\<close>

theorem token_budget_enforced:
  assumes "BuildWithEngine snap = Inr v"
    and "ts \<in> set (sn_Toolsets snap)" and "0 < ts_TokenBudget ts"
    and "- (2 ^ 31) \<le> toolset_cost (ts_Id ts) (slice_of (v_toolsByTenant v) k)"
    and "toolset_cost (ts_Id ts) (slice_of (v_toolsByTenant v) k) < 2 ^ 31"
  shows "toolset_cost (ts_Id ts) (slice_of (v_toolsByTenant v) k) \<le> ts_TokenBudget ts"
proof (cases "\<exists>t\<in>set (slice_of (v_toolsByTenant v) k). tool_Toolset t = ts")
  case True
  from budget_checked [OF build_indexed [OF assms(1)] assms(2,3) True] assms(4,5)
  show ?thesis by (simp add: wrap32_id)
next
  case False
  note ix = build_indexed [OF assms(1)]
  have "ts_Id (tool_Toolset t) \<noteq> ts_Id ts" if "t \<in> set (slice_of (v_toolsByTenant v) k)" for t
  proof
    assume eq: "ts_Id (tool_Toolset t) = ts_Id ts"
    have "tool_Toolset t \<in> set (sn_Toolsets snap)"
      using build_indexes_in [OF assms(1) that] .
    with eq assms(2) indexed_viewD(6) [OF ix] have "tool_Toolset t = ts"
      by (auto simp: distinct_map dest: inj_onD)
    with False that show False by blast
  qed
  then have "toolset_cost (ts_Id ts) (slice_of (v_toolsByTenant v) k) = 0"
    unfolding toolset_cost_def by (simp add: filter_False)
  with assms(3) show ?thesis by simp
qed

theorem token_budget_enforced_witness:
  "toolset_cost ''k1'' (slice_of (v_toolsByTenant wit_view) ''t1'') = 20 \<and>
   toolset_cost ''k1'' (slice_of (v_toolsByTenant wit_view) ''t1'') \<le> 1000"
proof -
  let ?ts = "\<lparr>ts_Id = ''k1'', ts_Name = ''core'', ts_Priority = 1, ts_TokenBudget = 1000, ts_TtlMs = 30000\<rparr>"
  have m: "?ts \<in> set (sn_Toolsets (wit_snap wit_defs))" by (simp add: wit_snap_def)
  have e: "toolset_cost (ts_Id ?ts) (slice_of (v_toolsByTenant wit_view) ''t1'') = 20" by code_simp
  from token_budget_enforced [OF wit_built m, of "''t1''"] e show ?thesis by simp
qed

text \<open>Beyond that bound the check is void: two tools of \<open>2 ^ 30\<close> tokens each pass a budget of 1000,
  because their sum is negative in 32 bits.\<close>

theorem token_budget_wraps:
  "\<exists>v. BuildWithEngine (wit_snap [wit_tool_def ''t1'' ''k1'' ''a'' (2 ^ 30),
                                   wit_tool_def ''t1'' ''k1'' ''b'' (2 ^ 30)]) = Inr v \<and>
     toolset_cost ''k1'' (slice_of (v_toolsByTenant v) ''t1'') = 2 ^ 31"
proof -
  let ?r = "BuildWithEngine (wit_snap [wit_tool_def ''t1'' ''k1'' ''a'' (2 ^ 30),
                                       wit_tool_def ''t1'' ''k1'' ''b'' (2 ^ 30)])"
  have "?r = Inr (projr ?r)" by (rule is_ok_projr) code_simp
  moreover have "toolset_cost ''k1'' (slice_of (v_toolsByTenant (projr ?r)) ''t1'') = 2 ^ 31" by code_simp
  ultimately show ?thesis by blast
qed

end
