(* ===== verification/Snapshot_Store_Props.thy ===== *)
theory Snapshot_Store_Props
  imports Snapshot_Store Snapshot_Props
begin

section \<open>Properties of the serving store\<close>

text \<open>
  The invariants of every reachable store, whatever the interleaving of its callers, and what one
  operation does to it. Everything served was verified, built and prepared; versions go back only by
  a rollback; a composed catalog is that of the artifacts in effect.
\<close>

lemma reject_simps [simp]:
  "st_current (recordReject n e s) = st_current s" "st_history (recordReject n e s) = st_history s"
  "st_principals (recordReject n e s) = st_principals s" "st_composed (recordReject n e s) = st_composed s"
  "st_revocations (recordReject n e s) = st_revocations s"
  "st_maxHistory (recordReject n e s) = st_maxHistory s"
  "Store_Version (recordReject n e s) = Store_Version s"
  "Store_Principals (recordReject n e s) = Store_Principals s"
  by (simp_all add: recordReject_def Store_Version_def Store_Principals_def)

subsection \<open>One activation\<close>

definition servable ::
  "(Signed \<Rightarrow> VerifyError + Snapshot) \<Rightarrow> (View \<Rightarrow> string option) \<Rightarrow> Signed \<Rightarrow> View \<Rightarrow> bool" where
  "servable vfy prep signed view \<longleftrightarrow>
     (\<exists>snap. vfy signed = Inr snap \<and> BuildWithEngine snap = Inr view) \<and> prep view = None"

lemma admit_cases:
  assumes "admit vfy prep signed s = (s', r)"
  shows "(\<exists>n e. r = Inl e \<and> s' = recordReject n e s) \<or>
    (\<exists>view. r = Inr view \<and> s' = s \<and> servable vfy prep signed view \<and> \<not> stale (v_Version view) s)"
  using assms
  by (auto simp: admit_def reject_def servable_def split: sum.splits option.splits if_splits)

lemma commit_cases:
  assumes "commit signed view s = (s', r)"
  shows "(\<exists>n e. r = Inl e \<and> s' = recordReject n e s) \<or>
    (r = Inr view \<and> \<not> stale (v_Version view) s \<and>
     s' = s\<lparr>st_history := (let h = st_history s @ [\<lparr>he_version = v_Version view, he_signed = signed, he_view = view\<rparr>]
              in drop (length h - st_maxHistory s) h),
            st_current := Some view, st_lastReject := (0, None)\<rparr>)"
  using assms by (auto simp: commit_def reject_def Let_def split: if_splits)

lemma built_version: "BuildWithEngine snap = Inr view \<Longrightarrow> v_pb view = snap \<and> v_Version view = sn_Version snap \<and> 0 < v_Version view"
  using build_indexed by (auto simp: indexed_view_def)

lemma not_stale_newer:
  "servable vfy prep signed view \<Longrightarrow> \<not> stale (v_Version view) s \<Longrightarrow> Store_Version s < v_Version view"
  by (auto simp: stale_def Store_Version_def servable_def dest: built_version split: option.splits)

lemma rollback_servable:
  assumes "rollback_target prep version s = Inr view"
    and "\<forall>e\<in>set (st_history s). \<exists>snap. vfy (he_signed e) = Inr snap \<and> BuildWithEngine snap = Inr (he_view e)"
  shows "\<exists>e\<in>set (st_history s). he_view e = view \<and> he_version e = version \<and> servable vfy prep (he_signed e) view"
proof -
  from assms(1) obtain e where f: "find (\<lambda>e. he_version e = version) (st_history s) = Some e"
    and b: "BuildWithEngine (v_pb (he_view e)) = Inr view" and p: "prep view = None"
    by (auto simp: rollback_target_def split: option.splits sum.splits)
  from f have e: "e \<in> set (st_history s)" "he_version e = version"
    by (auto simp: find_Some_iff)
  with assms(2) obtain snap where s: "vfy (he_signed e) = Inr snap" "BuildWithEngine snap = Inr (he_view e)"
    by blast
  with b have "he_view e = view" using built_version by fastforce
  with e s p show ?thesis by (auto simp: servable_def)
qed

subsection \<open>Everything served was verified\<close>

definition entry_ok ::
  "(Signed \<Rightarrow> VerifyError + Snapshot) \<Rightarrow> (View \<Rightarrow> string option) \<Rightarrow> historyEntry \<Rightarrow> bool" where
  "entry_ok vfy prep e \<longleftrightarrow>
     servable vfy prep (he_signed e) (he_view e) \<and> he_version e = v_Version (he_view e)"

definition serving_inv ::
  "(Signed \<Rightarrow> VerifyError + Snapshot) \<Rightarrow> (View \<Rightarrow> string option) \<Rightarrow> World \<Rightarrow> bool" where
  "serving_inv vfy prep w \<longleftrightarrow>
     (\<forall>e\<in>set (st_history (w_store w)). entry_ok vfy prep e) \<and>
     (\<forall>view. st_current (w_store w) = Some view \<longrightarrow> (\<exists>signed. servable vfy prep signed view)) \<and>
     (\<forall>(signed, view)\<in>set (w_activating w). servable vfy prep signed view) \<and>
     (\<forall>view\<in>set (w_rolling w). \<exists>signed. servable vfy prep signed view) \<and>
     1 \<le> st_maxHistory (w_store w) \<and>
     length (st_history (w_store w)) \<le> st_maxHistory (w_store w)"

lemma serving_inv_initial: "serving_inv vfy prep (initial n)"
  by (auto simp: serving_inv_def initial_def NewStore_def Suc_le_eq)

lemma serving_inv_cong:
  assumes "serving_inv vfy prep w"
    and "st_history (w_store w') = st_history (w_store w)" "st_current (w_store w') = st_current (w_store w)"
    and "st_maxHistory (w_store w') = st_maxHistory (w_store w)"
    and "set (w_activating w') \<subseteq> set (w_activating w)" "set (w_rolling w') \<subseteq> set (w_rolling w)"
  shows "serving_inv vfy prep w'"
  using assms unfolding serving_inv_def by auto

lemma apply_principals_frame:
  "ApplyPrincipals next s = Inr s' \<Longrightarrow> s' = s\<lparr>st_principals := Some next, st_composed := Map.empty\<rparr>"
  by (auto simp: ApplyPrincipals_def split: option.splits if_splits)

lemma apply_revocations_frame:
  "ApplyRevocations next s = Inr s' \<Longrightarrow>
     s' = s\<lparr>st_revocations := Some next\<rparr> \<and> rv_PrunedThroughVersion next \<le> Store_Version s \<and>
     (\<forall>held. st_revocations s = Some held \<longrightarrow> rv_Version held < rv_Version next)"
  by (auto simp: ApplyRevocations_def split: option.splits if_splits)

lemma cache_view_frame:
  "cache_view key pv s = (s', pv') \<Longrightarrow>
     (s' = s \<and> st_composed s key = Some pv') \<or>
     (st_composed s key = None \<and> pv' = pv \<and> s' = s\<lparr>st_composed := (st_composed s)(key \<mapsto> pv)\<rparr>)"
  by (auto simp: cache_view_def split: option.splits)

lemma serving_inv_step:
  assumes "serving_inv vfy prep w" and "step vfy prep w w'"
  shows "serving_inv vfy prep w'"
  using assms(2)
proof cases
  case (Refused signed s e)
  with admit_cases [OF Refused(2)] show ?thesis
    by (auto intro: serving_inv_cong [OF assms(1)])
next
  case (Admitted signed s view)
  with admit_cases [OF Admitted(2)] assms(1) show ?thesis by (auto simp: serving_inv_def)
next
  case (Committed signed view s r)
  have sv: "servable vfy prep signed view" using Committed(2) assms(1) by (auto simp: serving_inv_def)
  from commit_cases [OF Committed(3)] show ?thesis
  proof (elim disjE exE conjE)
    fix n e assume "s = recordReject n e (w_store w)"
    with Committed show ?thesis
      by (auto intro!: serving_inv_cong [OF assms(1)] dest: set_mp [OF set_remove1_subset])
  next
    let ?h = "st_history (w_store w) @ [\<lparr>he_version = v_Version view, he_signed = signed, he_view = view\<rparr>]"
    assume s: "s = (w_store w)\<lparr>st_history := (let h = ?h in drop (length h - st_maxHistory (w_store w)) h),
            st_current := Some view, st_lastReject := (0, None)\<rparr>"
    have "\<forall>e\<in>set ?h. entry_ok vfy prep e" using assms(1) sv by (auto simp: serving_inv_def entry_ok_def)
    then have "\<forall>e\<in>set (st_history s). entry_ok vfy prep e"
      unfolding s by (auto simp: Let_def dest: in_set_dropD)
    moreover have "length (st_history s) \<le> st_maxHistory (w_store w)" unfolding s by (simp add: Let_def)
    moreover have "st_maxHistory s = st_maxHistory (w_store w)" "st_current s = Some view"
      unfolding s by simp_all
    ultimately show ?thesis
      using assms(1) sv Committed(1)
      unfolding serving_inv_def by (auto dest: set_mp [OF set_remove1_subset])
  qed
next
  case (RollbackPrepared version view)
  have "\<exists>signed. servable vfy prep signed view"
    using rollback_servable [OF RollbackPrepared(2), of vfy] assms(1)
    by (fastforce simp: serving_inv_def entry_ok_def servable_def)
  with RollbackPrepared assms(1) show ?thesis by (auto simp: serving_inv_def)
next
  case (RolledBack view)
  with assms(1) show ?thesis
    by (auto simp: serving_inv_def dest: set_mp [OF set_remove1_subset])
next
  case (PrincipalsApplied "next" s)
  with apply_principals_frame show ?thesis by (fastforce intro: serving_inv_cong [OF assms(1)])
next
  case (RevocationsApplied "next" s)
  with apply_revocations_frame show ?thesis by (fastforce intro: serving_inv_cong [OF assms(1)])
next
  case (Composing i key pv)
  then show ?thesis by (auto intro: serving_inv_cong [OF assms(1)])
next
  case (Composed key pv s pv')
  with cache_view_frame [OF Composed(3)] show ?thesis by (auto intro: serving_inv_cong [OF assms(1)])
qed

lemma reachable_serving: "reachable vfy prep w \<Longrightarrow> serving_inv vfy prep w"
  by (induction rule: reachable.induct) (auto intro: serving_inv_initial serving_inv_step)

subsection \<open>The cache of composed catalogs\<close>

definition composed_entries :: "World \<Rightarrow> (composedKey \<times> PrincipalView) set" where
  "composed_entries w =
     {(key, pv). st_composed (w_store w) key = Some pv} \<union> set (w_composing w)"

definition fresh_entry ::
  "(Signed \<Rightarrow> VerifyError + Snapshot) \<Rightarrow> (View \<Rightarrow> string option) \<Rightarrow> Principals \<Rightarrow>
   composedKey \<times> PrincipalView \<Rightarrow> bool" where
  "fresh_entry vfy prep ps = (\<lambda>(key, pv).
     ck_principalVersion key \<le> ps_Version ps \<and>
     (ck_principalVersion key = ps_Version ps \<longrightarrow>
       (\<exists>signed view. servable vfy prep signed view \<and> v_Version view = ck_snapshotVersion key \<and>
          compose_for view ps (ck_principalID key) = Inr pv)))"

definition cache_inv ::
  "(Signed \<Rightarrow> VerifyError + Snapshot) \<Rightarrow> (View \<Rightarrow> string option) \<Rightarrow> World \<Rightarrow> bool" where
  "cache_inv vfy prep w \<longleftrightarrow>
     (case st_principals (w_store w) of
        None \<Rightarrow> composed_entries w = {}
      | Some ps \<Rightarrow> \<forall>e\<in>composed_entries w. fresh_entry vfy prep ps e)"

lemma cache_inv_cong:
  assumes "cache_inv vfy prep w" and "st_principals (w_store w') = st_principals (w_store w)"
    and "composed_entries w' \<subseteq> composed_entries w"
  shows "cache_inv vfy prep w'"
  using assms unfolding cache_inv_def by (auto split: option.splits)

lemma compose_nobody: "compose_for view EmptyPrincipals i = Inl (NoPrincipal i 0)"
  by (simp add: compose_for_def ByID_def EmptyPrincipals_def)

lemma lookup_view_composes:
  assumes "lookup_view i s = Inr (Inr (key, pv))"
  shows "\<exists>view ps. st_current s = Some view \<and> st_principals s = Some ps \<and>
     key = \<lparr>ck_snapshotVersion = v_Version view, ck_principalVersion = ps_Version ps, ck_principalID = i\<rparr> \<and>
     compose_for view ps i = Inr pv"
proof (cases "st_principals s")
  case None
  with assms show ?thesis
    by (auto simp: lookup_view_def Store_Principals_def Let_def compose_nobody split: option.splits)
next
  case (Some ps)
  with assms show ?thesis
    by (auto simp: lookup_view_def Store_Principals_def Let_def bind_result_Inr split: option.splits)
qed

lemma cache_inv_step:
  assumes "cache_inv vfy prep w" and inv: "serving_inv vfy prep w" and "step vfy prep w w'"
  shows "cache_inv vfy prep w'"
  using assms(3)
proof cases
  case (Refused signed s e)
  with admit_cases [OF Refused(2)] show ?thesis
    by (auto simp: composed_entries_def intro!: cache_inv_cong [OF assms(1)])
next
  case (Admitted signed s view)
  with admit_cases [OF Admitted(2)] show ?thesis
    by (auto simp: composed_entries_def intro!: cache_inv_cong [OF assms(1)])
next
  case (Committed signed view s r)
  with commit_cases [OF Committed(3)] show ?thesis
    by (auto simp: composed_entries_def intro!: cache_inv_cong [OF assms(1)])
next
  case (PrincipalsApplied "next" s)
  note s = apply_principals_frame [OF PrincipalsApplied(2)]
  have "fresh_entry vfy prep next e" if "e \<in> set (w_composing w)" for e
  proof -
    have "e \<in> composed_entries w" using that by (simp add: composed_entries_def)
    with assms(1) obtain ps where "st_principals (w_store w) = Some ps" "fresh_entry vfy prep ps e"
      unfolding cache_inv_def by (cases "st_principals (w_store w)") auto
    moreover from this have "ps_Version ps < ps_Version next"
      using PrincipalsApplied(2) by (auto simp: ApplyPrincipals_def split: if_splits)
    ultimately show ?thesis by (auto simp: fresh_entry_def)
  qed
  with PrincipalsApplied(1) s show ?thesis by (auto simp: cache_inv_def composed_entries_def)
next
  case (RevocationsApplied "next" s)
  with apply_revocations_frame show ?thesis
    by (fastforce simp: composed_entries_def intro!: cache_inv_cong [OF assms(1)])
next
  case (Composing i key pv)
  from lookup_view_composes [OF Composing(2)] obtain view ps where
    v: "st_current (w_store w) = Some view" "st_principals (w_store w) = Some ps"
    and k: "key = \<lparr>ck_snapshotVersion = v_Version view, ck_principalVersion = ps_Version ps, ck_principalID = i\<rparr>"
      "compose_for view ps i = Inr pv"
    by blast
  from v inv obtain signed where "servable vfy prep signed view" by (auto simp: serving_inv_def)
  with k have "fresh_entry vfy prep ps (key, pv)" by (auto simp: fresh_entry_def)
  with Composing(1) v assms(1) show ?thesis by (auto simp: cache_inv_def composed_entries_def)
next
  case (Composed key pv s pv')
  have "composed_entries w' \<subseteq> composed_entries w"
    using cache_view_frame [OF Composed(3)] Composed(1,2)
    by (auto simp: composed_entries_def split: if_splits dest: set_mp [OF set_remove1_subset])
  with cache_view_frame [OF Composed(3)] Composed(1) show ?thesis
    by (auto intro!: cache_inv_cong [OF assms(1)])
qed (auto simp: composed_entries_def intro!: cache_inv_cong [OF assms(1)])

lemma reachable_cache: "reachable vfy prep w \<Longrightarrow> cache_inv vfy prep w"
proof (induction rule: reachable.induct)
  case (Start n)
  show ?case by (simp add: cache_inv_def initial_def NewStore_def composed_entries_def)
next
  case (Step w w')
  with cache_inv_step reachable_serving show ?case by blast
qed

text \<open>A catalog the store hands out was composed from the principal set in effect and a snapshot of the
  version being served.\<close>

lemma handed_out_composed:
  assumes "reachable vfy prep w" and "Store_PrincipalView i (w_store w) = (s', Inr pv)"
  shows "\<exists>view ps v' a b. st_current (w_store w) = Some view \<and> st_principals (w_store w) = Some ps \<and>
     servable vfy prep a view \<and> servable vfy prep b v' \<and> v_Version v' = v_Version view \<and>
     compose_for v' ps i = Inr pv"
proof -
  let ?s = "w_store w"
  obtain view where v: "st_current ?s = Some view"
    using assms(2) by (auto simp: Store_PrincipalView_def lookup_view_def split: option.splits)
  obtain a where a: "servable vfy prep a view"
    using reachable_serving [OF assms(1)] v by (auto simp: serving_inv_def)
  let ?key = "\<lparr>ck_snapshotVersion = v_Version view, ck_principalVersion = ps_Version (Store_Principals ?s),
     ck_principalID = i\<rparr>"
  show ?thesis
  proof (cases "st_composed ?s ?key")
    case None
    with assms(2) v have c: "compose_for view (Store_Principals ?s) i = Inr pv"
      by (auto simp: Store_PrincipalView_def lookup_view_def Let_def bind_result_def cache_view_def
          split: sum.splits)
    then obtain ps where "st_principals ?s = Some ps"
      by (cases "st_principals ?s") (simp_all add: Store_Principals_def compose_nobody)
    with c v a show ?thesis by (auto simp: Store_Principals_def)
  next
    case (Some cached)
    with assms(2) v have pv: "pv = cached"
      by (simp add: Store_PrincipalView_def lookup_view_def Let_def)
    have e: "(?key, cached) \<in> composed_entries w" using Some by (simp add: composed_entries_def)
    with reachable_cache [OF assms(1)] obtain ps where ps: "st_principals ?s = Some ps"
      "fresh_entry vfy prep ps (?key, cached)"
      unfolding cache_inv_def by (cases "st_principals ?s") auto
    have "Store_Principals ?s = ps" using ps by (simp add: Store_Principals_def)
    with ps v a pv show ?thesis by (fastforce simp: fresh_entry_def)
  qed
qed

subsection \<open>Properties\<close>

text \<open>C8: whatever the interleaving of its callers, a store serves and retains only snapshots that a
  trusted key signed, that build, and that the edge could prepare, and retains at most the
  configured number of them.\<close>

theorem served_snapshots_are_verified:
  assumes "reachable (Verify ed_verify unmarshal keys) prep w"
  shows "(\<forall>view. st_current (w_store w) = Some view \<longrightarrow>
       (\<exists>signed snap. Verify ed_verify unmarshal keys signed = Inr snap \<and>
          BuildWithEngine snap = Inr view \<and> prep view = None)) \<and>
     (\<forall>e\<in>set (st_history (w_store w)). \<exists>snap.
          Verify ed_verify unmarshal keys (he_signed e) = Inr snap \<and>
          BuildWithEngine snap = Inr (he_view e) \<and> prep (he_view e) = None \<and>
          he_version e = sn_Version snap) \<and>
     length (History (w_store w)) \<le> st_maxHistory (w_store w)"
proof (intro conjI)
  note inv = reachable_serving [OF assms]
  then show "\<forall>view. st_current (w_store w) = Some view \<longrightarrow>
       (\<exists>signed snap. Verify ed_verify unmarshal keys signed = Inr snap \<and>
          BuildWithEngine snap = Inr view \<and> prep view = None)"
    unfolding serving_inv_def servable_def by blast
  show "\<forall>e\<in>set (st_history (w_store w)). \<exists>snap.
          Verify ed_verify unmarshal keys (he_signed e) = Inr snap \<and>
          BuildWithEngine snap = Inr (he_view e) \<and> prep (he_view e) = None \<and>
          he_version e = sn_Version snap"
  proof
    fix e assume "e \<in> set (st_history (w_store w))"
    with inv have "entry_ok (Verify ed_verify unmarshal keys) prep e" by (simp add: serving_inv_def)
    then obtain snap where "Verify ed_verify unmarshal keys (he_signed e) = Inr snap"
      "BuildWithEngine snap = Inr (he_view e)" "prep (he_view e) = None" "he_version e = v_Version (he_view e)"
      by (auto simp: entry_ok_def servable_def)
    with built_version show "\<exists>snap. Verify ed_verify unmarshal keys (he_signed e) = Inr snap \<and>
          BuildWithEngine snap = Inr (he_view e) \<and> prep (he_view e) = None \<and>
          he_version e = sn_Version snap" by fastforce
  qed
  show "length (History (w_store w)) \<le> st_maxHistory (w_store w)"
    using inv by (simp add: serving_inv_def History_def)
qed

definition wit_store_signed :: Signed where
  "wit_store_signed = \<lparr>sg_Bytes = ''b'', sg_KeyId = ''k'', sg_Signature = replicate 64 (CHR ''x''),
     sg_Algorithm = ''ed25519''\<rparr>"

definition wit_vfy :: "Signed \<Rightarrow> VerifyError + Snapshot" where
  "wit_vfy = Verify (\<lambda>_ _ _. True) (\<lambda>_. Some (wit_snap wit_defs)) [''k'' \<mapsto> ''p'']"

definition wit_store :: Store where
  "wit_store = (NewStore 2)\<lparr>st_history := [\<lparr>he_version = 7, he_signed = wit_store_signed, he_view = wit_view\<rparr>],
     st_current := Some wit_view\<rparr>"

lemma wit_verified: "wit_vfy wit_store_signed = Inr (wit_snap wit_defs)"
  by (simp add: wit_vfy_def Verify_Inr wit_store_signed_def AlgorithmEd25519_def SignatureSize_def)

lemma wit_version: "v_Version wit_view = 7"
  using built_version [OF wit_built] by (simp add: wit_snap_def)

lemma wit_admit: "admit wit_vfy (\<lambda>_. None) wit_store_signed (NewStore 2) = (NewStore 2, Inr wit_view)"
  by (simp add: admit_def wit_verified wit_built stale_def NewStore_def)

lemma wit_commit: "commit wit_store_signed wit_view (NewStore 2) = (wit_store, Inr wit_view)"
  by (simp add: commit_def stale_def NewStore_def wit_store_def wit_version)

definition wit_world :: World where
  "wit_world = (initial 2)\<lparr>w_store := wit_store\<rparr>"

lemma wit_reachable: "reachable wit_vfy (\<lambda>_. None) wit_world"
proof -
  let ?w0 = "initial 2" and ?w1 = "(initial 2)\<lparr>w_activating := [(wit_store_signed, wit_view)]\<rparr>"
  have "step wit_vfy (\<lambda>_. None) ?w0 ?w1"
    using step.Admitted [of wit_vfy "\<lambda>_. None" wit_store_signed ?w0] wit_admit by (simp add: initial_def)
  moreover have "step wit_vfy (\<lambda>_. None) ?w1 wit_world"
    using step.Committed [of wit_store_signed wit_view ?w1 wit_store "Inr wit_view" wit_vfy "\<lambda>_. None"] wit_commit
    by (simp add: initial_def wit_world_def)
  ultimately show ?thesis by (blast intro: reachable.intros)
qed

theorem served_snapshots_are_verified_witness:
  "st_current (w_store wit_world) = Some wit_view \<and>
   (\<exists>signed snap. Verify (\<lambda>_ _ _. True) (\<lambda>_. Some (wit_snap wit_defs)) [''k'' \<mapsto> ''p''] signed = Inr snap \<and>
      BuildWithEngine snap = Inr wit_view)"
proof -
  have c: "st_current (w_store wit_world) = Some wit_view" by (simp add: wit_world_def wit_store_def)
  note T = served_snapshots_are_verified [OF wit_reachable [unfolded wit_vfy_def], THEN conjunct1,
      rule_format, OF c]
  then obtain signed snap where
    "Verify (\<lambda>_ _ _. True) (\<lambda>_. Some (wit_snap wit_defs)) [''k'' \<mapsto> ''p''] signed = Inr snap"
    "BuildWithEngine snap = Inr wit_view" by (elim exE conjE)
  with c show ?thesis by (intro conjI exI)
qed

lemma history_trim:
  "\<exists>dropped. h = dropped @ drop (length h - n) h \<and> (dropped \<noteq> [] \<longrightarrow> length (drop (length h - n) h) = n)"
  by (rule exI [of _ "take (length h - n) h"]) auto

text \<open>An activation happens entirely or not at all. Refused, it leaves the store as it was but
  for the recorded reason; accepted, the snapshot verified, built and was prepared, is strictly newer
  than what was served, and is served and retained.\<close>

theorem activation_all_or_nothing:
  assumes "Activate vfy prep signed s = (s', r)"
  shows "(\<exists>n e. r = Inl e \<and> s' = s\<lparr>st_lastReject := (n, Some e)\<rparr>) \<or>
    (\<exists>snap view. r = Inr view \<and> vfy signed = Inr snap \<and> BuildWithEngine snap = Inr view \<and>
       prep view = None \<and> Store_Version s < v_Version view \<and>
       (\<exists>dropped. st_history s @ [\<lparr>he_version = v_Version view, he_signed = signed, he_view = view\<rparr>] =
          dropped @ st_history s' \<and> (dropped \<noteq> [] \<longrightarrow> length (st_history s') = st_maxHistory s)) \<and>
       s' = s\<lparr>st_history := st_history s', st_current := Some view, st_lastReject := (0, None)\<rparr>)"
proof -
  have rej: "recordReject n e s = s\<lparr>st_lastReject := (n, Some e)\<rparr>" for n e by (simp add: recordReject_def)
  obtain s1 r1 where a: "admit vfy prep signed s = (s1, r1)" by fastforce
  from admit_cases [OF a] show ?thesis
  proof (elim disjE exE conjE)
    fix n e assume "r1 = Inl e" "s1 = recordReject n e s"
    with a assms rej show ?thesis by (auto simp: Activate_def recordReject_def reject_def admit_def
      split: sum.splits option.splits if_splits)
  next
    fix view assume v: "r1 = Inr view" "s1 = s" "servable vfy prep signed view" "\<not> stale (v_Version view) s"
    with a assms have c: "commit signed view s = (s', r)" by (simp add: Activate_def)
    have new: "Store_Version s < v_Version view" using not_stale_newer v(3,4) by blast
    let ?h = "st_history s @ [\<lparr>he_version = v_Version view, he_signed = signed, he_view = view\<rparr>]"
    from commit_cases [OF c] v(4) have r: "r = Inr view"
      and s': "s' = s\<lparr>st_history := drop (length ?h - st_maxHistory s) ?h, st_current := Some view,
                     st_lastReject := (0, None)\<rparr>"
      using c by (auto simp: commit_def Let_def reject_def split: if_splits)
    have "\<exists>dropped. ?h = dropped @ st_history s' \<and> (dropped \<noteq> [] \<longrightarrow> length (st_history s') = st_maxHistory s)"
      unfolding s' using history_trim [of ?h "st_maxHistory s"] by simp
    moreover have "s' = s\<lparr>st_history := st_history s', st_current := Some view, st_lastReject := (0, None)\<rparr>"
      unfolding s' by simp
    ultimately show ?thesis using r new v(3) by (auto simp: servable_def)
  qed
qed

theorem activation_all_or_nothing_witness:
  "Activate wit_vfy (\<lambda>_. None) wit_store_signed (NewStore 2) = (wit_store, Inr wit_view) \<and>
   Store_Version (NewStore 2) < v_Version wit_view"
proof -
  have a: "Activate wit_vfy (\<lambda>_. None) wit_store_signed (NewStore 2) = (wit_store, Inr wit_view)"
    by (simp add: Activate_def wit_admit wit_commit)
  from activation_all_or_nothing [OF a] have "Store_Version (NewStore 2) < v_Version wit_view"
    by (elim disjE exE conjE) simp_all
  with a show ?thesis by (intro conjI)
qed



definition unique_versions :: "(Signed \<Rightarrow> VerifyError + Snapshot) \<Rightarrow> bool" where
  "unique_versions vfy \<longleftrightarrow>
     (\<forall>a b s t. vfy a = Inr s \<and> vfy b = Inr t \<and> sn_Version s = sn_Version t \<longrightarrow> s = t)"

lemma servable_unique:
  assumes "unique_versions vfy" and "servable vfy prep a v" and "servable vfy prep b v'"
    and "v_Version v = v_Version v'"
  shows "v = v'"
proof -
  obtain s t where st: "vfy a = Inr s" "BuildWithEngine s = Inr v" "vfy b = Inr t" "BuildWithEngine t = Inr v'"
    using assms(2,3) by (auto simp: servable_def)
  with assms(4) have "sn_Version s = sn_Version t"
    using built_version [of s v] built_version [of t v'] by simp
  with st assms(1) have "s = t" unfolding unique_versions_def by blast
  with st show ?thesis by simp
qed

text \<open>C21: a catalog the store hands out, cached or fresh, is the one composed from the snapshot being
  served and the principal set in effect, provided no two verified snapshots share a version.\<close>

theorem catalog_is_current:
  assumes "reachable vfy prep w" and "unique_versions vfy"
    and "Store_PrincipalView i (w_store w) = (s', Inr pv)"
  shows "\<exists>view. st_current (w_store w) = Some view \<and>
     compose_for view (Store_Principals (w_store w)) i = Inr pv \<and>
     st_current s' = st_current (w_store w) \<and> st_principals s' = st_principals (w_store w)"
proof -
  let ?s = "w_store w"
  have frame: "st_current s' = st_current ?s \<and> st_principals s' = st_principals ?s"
    using assms(3) cache_view_frame
    by (fastforce simp: Store_PrincipalView_def split: sum.splits prod.splits)
  obtain view ps v' a b where h: "st_current ?s = Some view" "st_principals ?s = Some ps"
    "servable vfy prep a view" "servable vfy prep b v'" "v_Version v' = v_Version view"
    "compose_for v' ps i = Inr pv"
    using handed_out_composed [OF assms(1,3)] by (elim exE conjE)
  have "v' = view" by (rule servable_unique [OF assms(2) h(4,3,5)])
  with h frame show ?thesis by (simp add: Store_Principals_def)
qed

definition wit_principals :: Principals where
  "wit_principals = \<lparr>ps_Version = 1, ps_catalog = DefaultCatalog, ps_byID = [(''u1'', wit_who False wit_grants)],
     ps_byKeyPrefix = Map.empty\<rparr>"

theorem catalog_is_current_witness:
  "\<exists>pv. snd (Store_PrincipalView ''u1'' (wit_store\<lparr>st_principals := Some wit_principals\<rparr>)) = Inr pv \<and>
     compose_for wit_view wit_principals ''u1'' = Inr pv"
proof -
  let ?w = "wit_world\<lparr>w_store := wit_store\<lparr>st_principals := Some wit_principals\<rparr>\<rparr>"
  have ap: "ApplyPrincipals wit_principals (w_store wit_world) = Inr (w_store ?w)"
    by (simp add: ApplyPrincipals_def wit_world_def wit_store_def NewStore_def)
  have r: "reachable wit_vfy (\<lambda>_. None) ?w"
    using reachable.Step [OF wit_reachable step.PrincipalsApplied [OF ap]] by simp
  have u: "unique_versions wit_vfy"
    by (simp add: unique_versions_def wit_vfy_def Verify_Inr)
  have "is_ok (compose_for wit_view wit_principals ''u1'')" by code_simp
  then obtain pv where c: "compose_for wit_view wit_principals ''u1'' = Inr pv" by (auto simp: is_ok_iff)
  have "snd (Store_PrincipalView ''u1'' (w_store ?w)) = Inr pv"
    by (simp add: Store_PrincipalView_def lookup_view_def Let_def wit_store_def NewStore_def
        Store_Principals_def cache_view_def c)
  then have v: "Store_PrincipalView ''u1'' (w_store ?w) = (fst (Store_PrincipalView ''u1'' (w_store ?w)), Inr pv)"
    by (metis prod.collapse)
  from catalog_is_current [OF r u v] have "compose_for wit_view wit_principals ''u1'' = Inr pv"
    by (elim exE conjE) (simp add: wit_store_def Store_Principals_def NewStore_def)
  with \<open>snd _ = Inr pv\<close> show ?thesis by (intro exI [of _ pv] conjI) simp_all
qed

text \<open>Without that proviso it is not: after a rollback, a snapshot that reuses a version already
  composed serves the catalog of the snapshot it replaced, because the cache is keyed by the version
  and activation does not drop it.\<close>

definition snap_at :: "int \<Rightarrow> ToolDefinition list \<Rightarrow> Snapshot" where
  "snap_at version tools = (wit_snap tools)\<lparr>sn_Version := version\<rparr>"

definition store_serving :: "Snapshot \<Rightarrow> Store \<Rightarrow> Store" where
  "store_serving snap s = fst (Activate (\<lambda>_. Inr snap) (\<lambda>_. None) wit_store_signed s)"

definition wit_reissue :: "Snapshot \<Rightarrow> Store" where
  "wit_reissue snap =
     (let s = store_serving (snap_at 1 []) ((NewStore 3)\<lparr>st_principals := Some wit_principals\<rparr>);
          s = store_serving (snap_at 2 wit_defs) s;
          s = fst (Store_PrincipalView ''u1'' s);
          s = fst (Rollback (\<lambda>_. None) 1 s)
      in store_serving snap s)"

theorem reissued_version_serves_old_catalog:
  "(case snd (Store_PrincipalView ''u1'' (wit_reissue (snap_at 2 []))) of
      Inl _ \<Rightarrow> False | Inr pv \<Rightarrow> pv_names pv = [''crm.search'']) \<and>
   (case st_current (wit_reissue (snap_at 2 [])) of
      None \<Rightarrow> False | Some v \<Rightarrow> v_Version v = 2 \<and> sn_Tools (v_pb v) = [])"
  by code_simp

text \<open>A rollback serves again exactly what the store retains under the version asked for, and
  touches nothing else; refused, it changes nothing.\<close>

theorem rollback_restores_retained:
  assumes "reachable vfy prep w" and "Rollback prep version (w_store w) = (s', r)"
  shows "(\<exists>e. r = Inl e \<and> s' = w_store w) \<or>
    (\<exists>e\<in>set (st_history (w_store w)). he_version e = version \<and> r = Inr (he_view e) \<and>
       s' = (w_store w)\<lparr>st_current := Some (he_view e)\<rparr>)"
proof (cases "rollback_target prep version (w_store w)")
  case (Inl e)
  with assms(2) have "r = Inl e \<and> s' = w_store w" by (auto simp: Rollback_def)
  then show ?thesis by blast
next
  case (Inr view)
  have "\<forall>e\<in>set (st_history (w_store w)). \<exists>snap. vfy (he_signed e) = Inr snap \<and> BuildWithEngine snap = Inr (he_view e)"
    using reachable_serving [OF assms(1)] by (auto simp: serving_inv_def entry_ok_def servable_def)
  from rollback_servable [OF Inr this] assms(2) Inr show ?thesis by (auto simp: Rollback_def)
qed

theorem rollback_restores_retained_witness:
  "Rollback (\<lambda>_. None) 7 (w_store wit_world) = (wit_store, Inr wit_view) \<and>
   Rollback (\<lambda>_. None) 6 (w_store wit_world) = (wit_store, Inl (NotInHistory 6))"
proof -
  have st_pb_ok: "BuildWithEngine (v_pb wit_view) = Inr wit_view"
    using built_version [OF wit_built] wit_built by simp
  have r: "Rollback (\<lambda>_. None) 7 (w_store wit_world) = (wit_store, Inr wit_view)"
    by (simp add: Rollback_def rollback_target_def wit_world_def wit_store_def st_pb_ok)
  have n: "Rollback (\<lambda>_. None) 6 (w_store wit_world) = (wit_store, Inl (NotInHistory 6))"
    by (simp add: Rollback_def rollback_target_def wit_world_def wit_store_def)
  from rollback_restores_retained [OF wit_reachable r] have "wit_store = (w_store wit_world)\<lparr>st_current := Some wit_view\<rparr>"
    by (elim disjE exE bexE conjE) simp_all
  with r n show ?thesis by (intro conjI)
qed

end
