(* ===== verification/Edge_Identity.thy ===== *)
theory Edge_Identity
  imports Snapshot_Store_Props
begin

section \<open>Who is calling (internal/dataplane/edge/identity.go)\<close>

text \<open>
  A resolver turns the HTTP headers of a request into the principal it acts for. A header is the
  association list of an \<open>http.Header\<close>; letter case is ASCII's. SHA-256 is a parameter; the hexadecimal
  digits of its result are written here.
\<close>

record Caller =
  cl_ID :: string
  cl_Subject :: string
  cl_Groups :: "string list"
  cl_Claims :: "(string \<times> string) list"
  cl_Tenant :: string

datatype IdentityError = Unauthenticated | ProductionEnvironment string

type_synonym Header = "(string \<times> string list) list"

subsection \<open>Header names\<close>

definition ascii_lower :: "char \<Rightarrow> char" where
  "ascii_lower c = (if CHR ''A'' \<le> c \<and> c \<le> CHR ''Z'' then char_of (of_char c + 32 :: nat) else c)"

definition ascii_upper :: "char \<Rightarrow> char" where
  "ascii_upper c = (if CHR ''a'' \<le> c \<and> c \<le> CHR ''z'' then char_of (of_char c - 32 :: nat) else c)"

definition to_lower :: "string \<Rightarrow> string" where
  "to_lower = map ascii_lower"

definition ascii_alnum :: "nat \<Rightarrow> bool" where
  "ascii_alnum n = (48 \<le> n \<and> n < 58 \<or> 65 \<le> n \<and> n < 91 \<or> 97 \<le> n \<and> n < 123)"

definition header_byte :: "char \<Rightarrow> bool" where
  "header_byte c \<longleftrightarrow>
     ascii_alnum (of_char c) \<or> c = CHR 0x27 \<or> c \<in> set ''!#$%&*+-.^_`|~''"

fun capitalize :: "bool \<Rightarrow> string \<Rightarrow> string" where
  "capitalize start [] = []"
| "capitalize start (c # s) =
     (if start then ascii_upper c else ascii_lower c) # capitalize (c = CHR ''-'') s"

text \<open>\<open>http.CanonicalHeaderKey\<close>: a name that is not a header token is returned as it is.\<close>

definition CanonicalHeaderKey :: "string \<Rightarrow> string" where
  "CanonicalHeaderKey s = (if list_all header_byte s then capitalize True s else s)"

definition header_get :: "Header \<Rightarrow> string \<Rightarrow> string" where
  "header_get h name =
     (case map_of h (CanonicalHeaderKey name) of Some (v # _) \<Rightarrow> v | _ \<Rightarrow> [])"

subsection \<open>The development resolver\<close>

definition HeaderSubject :: string where "HeaderSubject = ''X-MCPDoll-Subject''"
definition HeaderGroups :: string where "HeaderGroups = ''X-MCPDoll-Groups''"
definition HeaderClaim :: string where "HeaderClaim = ''X-MCPDoll-Claim-''"

record HeaderIdentityResolver =
  hi_DefaultSubject :: string
  hi_DefaultGroups :: "string list"

definition NewHeaderIdentityResolver ::
  "string \<Rightarrow> string \<Rightarrow> string list \<Rightarrow> IdentityError + HeaderIdentityResolver" where
  "NewHeaderIdentityResolver env defaultSubject defaultGroups =
     (if to_lower env \<in> {''production'', ''prod''} then Inl (ProductionEnvironment env)
      else Inr \<lparr>hi_DefaultSubject = defaultSubject, hi_DefaultGroups = defaultGroups\<rparr>)"

definition splitAndTrim :: "string \<Rightarrow> string list" where
  "splitAndTrim raw = filter (\<lambda>p. p \<noteq> []) (map trim_space (split_on (CHR '','') raw))"

definition add_claim :: "string \<times> string list \<Rightarrow> (string \<times> string) list \<Rightarrow> (string \<times> string) list" where
  "add_claim = (\<lambda>(name, values) claims.
     if \<not> prefix (CanonicalHeaderKey HeaderClaim) (CanonicalHeaderKey name) then claims
     else
       let key = to_lower (trim_prefix (CanonicalHeaderKey HeaderClaim) (CanonicalHeaderKey name))
       in if key \<noteq> [] \<and> values \<noteq> [] then AList.update key (hd values) claims else claims)"

definition Header_Resolve :: "HeaderIdentityResolver \<Rightarrow> Header \<Rightarrow> IdentityError + Caller" where
  "Header_Resolve r header =
     (let subject = header_get header HeaderSubject;
          subject = (if subject = [] then hi_DefaultSubject r else subject)
      in if subject = [] then Inl Unauthenticated
         else
           let raw = header_get header HeaderGroups;
               groups = (if raw \<noteq> [] then splitAndTrim raw else hi_DefaultGroups r)
           in Inr \<lparr>cl_ID = subject, cl_Subject = subject, cl_Groups = groups,
                   cl_Claims = fold add_claim header [], cl_Tenant = []\<rparr>)"

subsection \<open>API keys\<close>

definition splitPresentedKey :: "string \<Rightarrow> IdentityError + string \<times> string" where
  "splitPresentedKey presented =
     (case split_on (CHR ''.'') presented of
        [m, p, secret] \<Rightarrow>
          if m \<noteq> ''mcpd'' \<or> p = [] \<or> secret = [] then Inl Unauthenticated else Inr (p, secret)
      | _ \<Rightarrow> Inl Unauthenticated)"

definition verifyKeyDigest :: "(string \<Rightarrow> string) \<Rightarrow> string \<Rightarrow> string \<Rightarrow> bool" where
  "verifyKeyDigest hexsha secret stored \<longleftrightarrow> ''sha256:'' @ hexsha secret = stored"

definition presented_key :: "Header \<Rightarrow> string" where
  "presented_key header = trim_space (trim_prefix ''Bearer '' (header_get header ''Authorization''))"

text \<open>The caller a verified key stands for: a spanning key names no tenant.\<close>

definition key_caller :: "View \<Rightarrow> Principal \<Rightarrow> IdentityError + Caller" where
  "key_caller view who =
     bind_result
       (if p_SpansTenants who then Inr []
        else case map_of (v_tenants view) (p_TenantId who) of
            None \<Rightarrow> Inl Unauthenticated
          | Some tenant \<Rightarrow> Inr (t_Slug tenant))
       (\<lambda>slug. Inr \<lparr>cl_ID = p_Id who, cl_Subject = p_Subject who, cl_Groups = [], cl_Claims = [],
                   cl_Tenant = slug\<rparr>)"

definition APIKey_Resolve :: "(string \<Rightarrow> string) \<Rightarrow> Store \<Rightarrow> Header \<Rightarrow> IdentityError + Caller" where
  "APIKey_Resolve hexsha store header =
     (let presented = presented_key header
      in if presented = [] then Inl Unauthenticated
         else case st_current store of
             None \<Rightarrow> Inl Unauthenticated
           | Some view \<Rightarrow>
         bind_result (splitPresentedKey presented) (\<lambda>(prfx, secret).
         case ByKeyPrefix (Store_Principals store) prfx of
           None \<Rightarrow> Inl Unauthenticated
         | Some who \<Rightarrow>
             if \<not> verifyKeyDigest hexsha secret (p_KeySecretSha256 who) then Inl Unauthenticated
             else key_caller view who))"

text \<open>A chain takes the first resolver that succeeds.\<close>

fun chain_Resolve :: "(Header \<Rightarrow> IdentityError + Caller) list \<Rightarrow> Header \<Rightarrow> IdentityError + Caller" where
  "chain_Resolve [] header = Inl Unauthenticated"
| "chain_Resolve (r # rs) header =
     (case r header of Inr who \<Rightarrow> Inr who | Inl _ \<Rightarrow> chain_Resolve rs header)"

subsection \<open>What a key proves\<close>

lemma splitPresentedKey_Inr:
  "splitPresentedKey s = Inr (p, secret) \<longleftrightarrow>
     s = ''mcpd.'' @ p @ ''.'' @ secret \<and> p \<noteq> [] \<and> secret \<noteq> [] \<and> CHR ''.'' \<notin> set p \<and> CHR ''.'' \<notin> set secret"
  (is "?l \<longleftrightarrow> ?r")
proof
  assume ?l
  then have sp: "split_on (CHR ''.'') s = [''mcpd'', p, secret]" and ne: "p \<noteq> []" "secret \<noteq> []"
    by (auto simp: splitPresentedKey_def split: list.splits if_splits)
  have "s = join ''.'' [''mcpd'', p, secret]" using join_split_on [of "CHR ''.''" s] sp by simp
  moreover have "CHR ''.'' \<notin> set p" "CHR ''.'' \<notin> set secret"
    using split_on_parts_free [of _ "CHR ''.''" s] sp by auto
  ultimately show ?r using ne by simp
next
  assume r: ?r
  have "split_on (CHR ''.'') (join [CHR ''.''] [''mcpd'', p, secret]) = [''mcpd'', p, secret]"
    by (rule split_on_join) (use r in auto)
  then have "split_on (CHR ''.'') s = [''mcpd'', p, secret]" using r by simp
  then show ?l using r by (simp add: splitPresentedKey_def)
qed

text \<open>The caller a principal is: itself, in its own tenant, asserting no group and no claim.\<close>

definition speaks_for :: "View \<Rightarrow> Principal \<Rightarrow> Caller \<Rightarrow> bool" where
  "speaks_for view who caller \<longleftrightarrow>
     cl_ID caller = p_Id who \<and> cl_Subject caller = p_Subject who \<and>
     cl_Groups caller = [] \<and> cl_Claims caller = [] \<and>
     (if p_SpansTenants who then cl_Tenant caller = []
      else \<exists>tenant. map_of (v_tenants view) (p_TenantId who) = Some tenant \<and>
             cl_Tenant caller = t_Slug tenant)"

lemma key_caller_Inr: "key_caller view who = Inr caller \<longleftrightarrow> speaks_for view who caller"
  by (cases caller) (auto simp: key_caller_def speaks_for_def bind_result_Inr split: option.splits)

lemma APIKey_Resolve_Inr:
  "APIKey_Resolve hexsha store header = Inr caller \<longleftrightarrow>
     (\<exists>view p secret who. st_current store = Some view \<and>
        splitPresentedKey (presented_key header) = Inr (p, secret) \<and>
        ByKeyPrefix (Store_Principals store) p = Some who \<and>
        p_KeySecretSha256 who = ''sha256:'' @ hexsha secret \<and> speaks_for view who caller)"
  (is "?l \<longleftrightarrow> ?r")
proof
  assume l: ?l
  then obtain view where v: "st_current store = Some view"
    by (auto simp: APIKey_Resolve_def Let_def split: if_splits option.splits)
  with l obtain p secret where s: "splitPresentedKey (presented_key header) = Inr (p, secret)"
    by (auto simp: APIKey_Resolve_def Let_def bind_result_Inr split: if_splits)
  with l v obtain who where w: "ByKeyPrefix (Store_Principals store) p = Some who"
    by (auto simp: APIKey_Resolve_def Let_def split: if_splits option.splits)
  with l v s have "verifyKeyDigest hexsha secret (p_KeySecretSha256 who)" "key_caller view who = Inr caller"
    by (simp_all add: APIKey_Resolve_def Let_def split: if_splits)
  with v s w show ?r
    unfolding verifyKeyDigest_def key_caller_Inr by (intro exI conjI) (assumption | rule sym)+
next
  assume ?r
  then obtain view p secret who where r: "st_current store = Some view"
    "splitPresentedKey (presented_key header) = Inr (p, secret)"
    "ByKeyPrefix (Store_Principals store) p = Some who"
    "p_KeySecretSha256 who = ''sha256:'' @ hexsha secret" "speaks_for view who caller"
    by (elim exE conjE)
  from r(2) have "presented_key header \<noteq> []" by (auto simp: splitPresentedKey_Inr)
  with r show ?l by (simp add: APIKey_Resolve_def Let_def verifyKeyDigest_def key_caller_Inr)
qed

subsection \<open>Properties\<close>

text \<open>C14: a key authenticates exactly the published principal that holds it. Against the set that
  was verified and indexed, a request is resolved when its bearer token is \<open>mcpd.\<close>, the prefix and
  the secret of one of the set's principals and the secret has that principal's digest; the caller
  is that principal, in its own tenant, with no group and no claim it could assert for itself.\<close>

theorem key_resolves_to_its_holder:
  assumes "IndexPrincipals pset = Inr ps" and "st_principals store = Some ps"
    and "st_current store = Some view"
  shows "APIKey_Resolve hexsha store header = Inr caller \<longleftrightarrow>
     (\<exists>who\<in>set (pset_Principals pset). \<exists>secret.
        presented_key header = ''mcpd.'' @ p_KeyPrefix who @ ''.'' @ secret \<and>
        p_KeyPrefix who \<noteq> [] \<and> secret \<noteq> [] \<and> CHR ''.'' \<notin> set (p_KeyPrefix who) \<and> CHR ''.'' \<notin> set secret \<and>
        p_KeySecretSha256 who = ''sha256:'' @ hexsha secret \<and> speaks_for view who caller)"
    (is "?l \<longleftrightarrow> ?r")
proof -
  have held: "ByKeyPrefix ps k = Some p \<longleftrightarrow> p \<in> set (pset_Principals pset) \<and> p_KeyPrefix p = k \<and> k \<noteq> []" for k p
    by (rule IndexPrincipals_ByKeyPrefix [OF assms(1)])
  have "?l \<longleftrightarrow> (\<exists>p secret who. splitPresentedKey (presented_key header) = Inr (p, secret) \<and>
      ByKeyPrefix ps p = Some who \<and> p_KeySecretSha256 who = ''sha256:'' @ hexsha secret \<and>
      speaks_for view who caller)"
    unfolding APIKey_Resolve_Inr by (simp add: assms(2,3) Store_Principals_def)
  also have "\<dots> \<longleftrightarrow> ?r"
    unfolding held splitPresentedKey_Inr
    by (rule iffI; elim exE bexE conjE; intro bexI exI conjI; (assumption | simp))
  finally show ?thesis .
qed

definition wit_key :: "string \<Rightarrow> Header" where
  "wit_key secret = [(''Authorization'', [''Bearer mcpd.mk_1.'' @ secret])]"

theorem key_resolves_to_its_holder_witness:
  "APIKey_Resolve (\<lambda>s. s) ((NewStore 3)\<lparr>st_current := Some wit_view, st_principals := Some (projr (IndexPrincipals wit_pset))\<rparr>)
     (wit_key ''x'') = Inr \<lparr>cl_ID = ''u1'', cl_Subject = ''ann'', cl_Groups = [], cl_Claims = [], cl_Tenant = ''acme''\<rparr>"
proof -
  let ?ps = "projr (IndexPrincipals wit_pset)" and ?who = "hd (pset_Principals wit_pset)"
  let ?c = "\<lparr>cl_ID = ''u1'', cl_Subject = ''ann'', cl_Groups = [], cl_Claims = [], cl_Tenant = ''acme''\<rparr>"
  have ps: "IndexPrincipals wit_pset = Inr ?ps" by (rule is_ok_projr) code_simp
  have s: "st_principals ((NewStore 3)\<lparr>st_current := Some wit_view, st_principals := Some ?ps\<rparr>) = Some ?ps"
    "st_current ((NewStore 3)\<lparr>st_current := Some wit_view, st_principals := Some ?ps\<rparr>) = Some wit_view"
    by simp_all
  have t: "map_of (v_tenants wit_view) ''t1'' = Some \<lparr>t_Id = ''t1'', t_Slug = ''acme'', t_Name = [], t_Status = []\<rparr>"
    by code_simp
  have w: "?who \<in> set (pset_Principals wit_pset)" by (simp add: wit_pset_def)
  have "presented_key (wit_key ''x'') = ''mcpd.'' @ p_KeyPrefix ?who @ ''.'' @ ''x'' \<and>
      p_KeyPrefix ?who \<noteq> [] \<and> ''x'' \<noteq> [] \<and> CHR ''.'' \<notin> set (p_KeyPrefix ?who) \<and> CHR ''.'' \<notin> set ''x''"
    by code_simp
  moreover have "p_KeySecretSha256 ?who = ''sha256:'' @ (\<lambda>s. s) ''x''" by code_simp
  moreover have "speaks_for wit_view ?who ?c" using t by (simp add: speaks_for_def wit_pset_def)
  ultimately show ?thesis
    unfolding key_resolves_to_its_holder [OF ps s] using w by (intro bexI exI conjI) (elim conjE; assumption)+
qed

text \<open>The resolver that trusts client headers cannot be built for production, and behind a key
  resolver it never overrides a valid key, whatever subject the request also claims.\<close>

theorem header_identity_confined:
  "(\<exists>r. NewHeaderIdentityResolver env s g = Inr r) \<longleftrightarrow> to_lower env \<notin> {''production'', ''prod''}"
  "APIKey_Resolve hexsha store header = Inr caller \<Longrightarrow>
     chain_Resolve (APIKey_Resolve hexsha store # rs) header = Inr caller"
  by (auto simp: NewHeaderIdentityResolver_def)

end
