(* ===== verification/Health_Drift.thy ===== *)
theory Health_Drift
  imports Snapshot_Types Canonical_Schema
begin

section \<open>Drift (internal/dataplane/health/drift.go, internal/mcp/mcp.go)\<close>

text \<open>
  Comparing what a backend publishes with what was admitted. Catalogs are Go maps keyed by the
  backend's tool name, here association lists with distinct keys whose order is the map's. The
  specification is a function per name (\<open>drift_of\<close>); the report lists exactly its values, most severe
  first, and does not depend on any map's iteration order.
\<close>

datatype DriftKind = DriftCosmetic | DriftSemantic | DriftRemoved | DriftAdded

definition Severity :: "DriftKind \<Rightarrow> int" where
  "Severity k = (case k of DriftRemoved \<Rightarrow> 3 | DriftSemantic \<Rightarrow> 2 | DriftCosmetic \<Rightarrow> 1 | DriftAdded \<Rightarrow> 0)"

text \<open>The kinds are ordered by severity.\<close>

instantiation DriftKind :: linorder
begin

definition less_eq_DriftKind :: "DriftKind \<Rightarrow> DriftKind \<Rightarrow> bool" where
  "less_eq_DriftKind a b = (Severity a \<le> Severity b)"

definition less_DriftKind :: "DriftKind \<Rightarrow> DriftKind \<Rightarrow> bool" where
  "less_DriftKind a b = (Severity a < Severity b)"

instance
  by standard
     (auto simp: less_eq_DriftKind_def less_DriftKind_def Severity_def split: DriftKind.splits)

end

definition kind_Blocking :: "DriftKind \<Rightarrow> bool" where
  "kind_Blocking k = (k = DriftSemantic \<or> k = DriftRemoved)"

record ToolDigests =
  dg_Full :: string
  dg_Semantic :: string
  dg_Definition :: "CanonTool option"

record ToolDrift =
  d_Name :: string
  d_QualifiedName :: string
  d_Kind :: DriftKind
  d_AdmittedDigest :: string
  d_ObservedDigest :: string
  d_Detail :: string

subsection \<open>What changed\<close>

definition cosmeticDetail :: "ToolDefinition \<Rightarrow> ToolDigests \<Rightarrow> string" where
  "cosmeticDetail def obs =
     (let changed = (case dg_Definition obs of
          None \<Rightarrow> []
        | Some t \<Rightarrow>
            (if ct_Description t \<noteq> td_Description def then [''description''] else []) @
            (if ct_Title t \<noteq> td_Title def then [''title''] else []))
      in if changed = [] then ''prose changed; the schema is unchanged''
         else join '' and '' changed @ '' changed; the schema is unchanged'')"

text \<open>\<open>isEmptyValue\<close>: nil and the empty map.\<close>

definition isEmptyValue :: "json option \<Rightarrow> bool" where
  "isEmptyValue v = (case v of None \<Rightarrow> True | Some (JObj m) \<Rightarrow> m = [] | Some _ \<Rightarrow> False)"

definition sameCanonical :: "json option \<Rightarrow> string \<Rightarrow> bool" where
  "sameCanonical observed admitted =
     (if isEmptyValue observed then admitted = []
      else canon_write (the observed) = admitted)"

definition semanticDetail :: "ToolDefinition \<Rightarrow> ToolDigests \<Rightarrow> string" where
  "semanticDetail def obs =
     (case dg_Definition obs of
        None \<Rightarrow> ''the schema or annotations changed''
      | Some t \<Rightarrow>
          let changed =
            (if \<not> sameCanonical (ct_InputSchema t) (td_InputSchemaJson def) then [''input schema''] else []) @
            (if \<not> sameCanonical (ct_OutputSchema t) (td_OutputSchemaJson def) then [''output schema''] else []) @
            (if \<not> sameCanonical (Some (JObj (ct_Annotations t))) (td_AnnotationsJson def)
             then [''annotations''] else [])
          in if changed = [] then ''the canonical definition changed in a way that is not prose''
             else join '' and '' changed @ '' changed'')"

subsection \<open>The report\<close>

definition admitted_drift :: "(string \<times> ToolDigests) list \<Rightarrow> string \<times> ToolDefinition \<Rightarrow> ToolDrift list" where
  "admitted_drift observed = (\<lambda>(name, def).
     (case map_of observed name of
        None \<Rightarrow>
          [\<lparr>d_Name = name, d_QualifiedName = td_QualifiedName def, d_Kind = DriftRemoved,
            d_AdmittedDigest = td_Digest def, d_ObservedDigest = [],
            d_Detail = ''the backend no longer publishes this tool''\<rparr>]
      | Some obs \<Rightarrow>
          if dg_Full obs = td_Digest def then []
          else if dg_Semantic obs = td_SemanticDigest def then
            [\<lparr>d_Name = name, d_QualifiedName = td_QualifiedName def, d_Kind = DriftCosmetic,
              d_AdmittedDigest = td_Digest def, d_ObservedDigest = dg_Full obs,
              d_Detail = cosmeticDetail def obs\<rparr>]
          else
            [\<lparr>d_Name = name, d_QualifiedName = td_QualifiedName def, d_Kind = DriftSemantic,
              d_AdmittedDigest = td_SemanticDigest def, d_ObservedDigest = dg_Semantic obs,
              d_Detail = semanticDetail def obs\<rparr>]))"

definition added_drift :: "(string \<times> ToolDefinition) list \<Rightarrow> string \<times> ToolDigests \<Rightarrow> ToolDrift list" where
  "added_drift admitted = (\<lambda>(name, obs).
     (if map_of admitted name = None then
        [\<lparr>d_Name = name, d_QualifiedName = [], d_Kind = DriftAdded, d_AdmittedDigest = [],
          d_ObservedDigest = [],
          d_Detail = ''the backend publishes this tool; it has not been admitted, so it is not served''\<rparr>]
      else []))"

definition Diff :: "(string \<times> ToolDefinition) list \<Rightarrow> (string \<times> ToolDigests) list \<Rightarrow> ToolDrift list" where
  "Diff admitted observed =
     sort_key (\<lambda>d. (- Severity (d_Kind d), d_Name d))
       (concat (map (admitted_drift observed) admitted) @ concat (map (added_drift admitted) observed))"

definition Blocking :: "ToolDrift list \<Rightarrow> ToolDrift list" where
  "Blocking drifts = filter (\<lambda>d. kind_Blocking (d_Kind d)) drifts"

text \<open>Two live catalogs (prober.go): same classification, no admitted names, no sorting.\<close>

definition diffObserved :: "(string \<times> ToolDigests) list \<Rightarrow> (string \<times> ToolDigests) list \<Rightarrow> ToolDrift list" where
  "diffObserved primary replica =
     concat (map (\<lambda>(name, want).
       (case map_of replica name of
          None \<Rightarrow>
            [\<lparr>d_Name = name, d_QualifiedName = [], d_Kind = DriftRemoved, d_AdmittedDigest = [],
              d_ObservedDigest = [],
              d_Detail = ''the primary publishes this tool and the replica does not''\<rparr>]
        | Some got \<Rightarrow>
            if dg_Full got = dg_Full want then []
            else if dg_Semantic got = dg_Semantic want then
              [\<lparr>d_Name = name, d_QualifiedName = [], d_Kind = DriftCosmetic, d_AdmittedDigest = [],
                d_ObservedDigest = [],
                d_Detail = ''prose differs from the primary; the schema matches''\<rparr>]
            else
              [\<lparr>d_Name = name, d_QualifiedName = [], d_Kind = DriftSemantic,
                d_AdmittedDigest = dg_Semantic want, d_ObservedDigest = dg_Semantic got,
                d_Detail = ''the schema differs from the primary''\<rparr>])) primary) @
     concat (map (\<lambda>(name, _).
       if map_of primary name = None then
         [\<lparr>d_Name = name, d_QualifiedName = [], d_Kind = DriftAdded, d_AdmittedDigest = [],
           d_ObservedDigest = [],
           d_Detail = ''the replica publishes a tool the primary does not''\<rparr>]
       else []) replica)"

subsection \<open>Digesting a discovered catalog\<close>

text \<open>\<open>DigestTools\<close> on converted tools, keyed by name in publication order; a repeated name is refused.\<close>

datatype DigestError = CannotNormalize SchemaError | PublishedTwice string

fun digest_tools ::
  "(string \<Rightarrow> string) \<Rightarrow> (string \<times> ToolDigests) list \<Rightarrow> CanonTool list \<Rightarrow>
   DigestError + (string \<times> ToolDigests) list" where
  "digest_tools sha256 out [] = Inr out"
| "digest_tools sha256 out (t # ts) =
     (case Tool_Digest sha256 t of
        Inl e \<Rightarrow> Inl (CannotNormalize e)
      | Inr full \<Rightarrow>
          (case SemanticDigest sha256 t of
             Inl e \<Rightarrow> Inl (CannotNormalize e)
           | Inr semantic \<Rightarrow>
               if map_of out (ct_Name t) \<noteq> None then Inl (PublishedTwice (ct_Name t))
               else digest_tools sha256
                 (obj_set (ct_Name t)
                    \<lparr>dg_Full = full, dg_Semantic = semantic, dg_Definition = Some t\<rparr> out) ts))"

definition DigestTools ::
  "(string \<Rightarrow> string) \<Rightarrow> CanonTool list \<Rightarrow> DigestError + (string \<times> ToolDigests) list" where
  "DigestTools sha256 tools = digest_tools sha256 [] tools"

subsection \<open>The specification\<close>

definition drift_of ::
  "(string \<times> ToolDefinition) list \<Rightarrow> (string \<times> ToolDigests) list \<Rightarrow> string \<Rightarrow> DriftKind option" where
  "drift_of admitted observed name =
     (case (map_of admitted name, map_of observed name) of
        (None, None) \<Rightarrow> None
      | (None, Some _) \<Rightarrow> Some DriftAdded
      | (Some _, None) \<Rightarrow> Some DriftRemoved
      | (Some def, Some obs) \<Rightarrow>
          if dg_Full obs = td_Digest def then None
          else if dg_Semantic obs = td_SemanticDigest def then Some DriftCosmetic
          else Some DriftSemantic)"

lemma Diff_set:
  "set (Diff a ob) = (\<Union>p\<in>set a. set (admitted_drift ob p)) \<union> (\<Union>p\<in>set ob. set (added_drift a p))"
  by (simp add: Diff_def)

lemma admitted_drift_kind:
  "d \<in> set (admitted_drift ob (n, def)) \<Longrightarrow> map_of a n = Some def \<Longrightarrow>
   d_Name d = n \<and> drift_of a ob n = Some (d_Kind d)"
  by (auto simp: admitted_drift_def drift_of_def split: option.splits if_splits)

lemma added_drift_kind:
  "d \<in> set (added_drift a (n, obs)) \<Longrightarrow> map_of ob n = Some obs \<Longrightarrow>
   d_Name d = n \<and> drift_of a ob n = Some (d_Kind d)"
  by (auto simp: added_drift_def drift_of_def split: option.splits if_splits)

lemma Diff_sound:
  assumes "distinct (map fst a)" and "distinct (map fst ob)" and "d \<in> set (Diff a ob)"
  shows "drift_of a ob (d_Name d) = Some (d_Kind d)"
proof -
  from assms(3) consider n def where "(n, def) \<in> set a" "d \<in> set (admitted_drift ob (n, def))"
    | n obs where "(n, obs) \<in> set ob" "d \<in> set (added_drift a (n, obs))"
    by (auto simp: Diff_set)
  then show ?thesis
  proof cases
    case 1
    with assms(1) admitted_drift_kind [of d ob n def a] show ?thesis by simp
  next
    case 2
    with assms(2) added_drift_kind [of d a n obs ob] show ?thesis by simp
  qed
qed

lemma Diff_complete:
  assumes "drift_of a ob n = Some k"
  shows "\<exists>d\<in>set (Diff a ob). d_Name d = n \<and> d_Kind d = k"
proof (cases "map_of a n")
  case None
  with assms obtain obs where obs: "map_of ob n = Some obs" "k = DriftAdded"
    by (auto simp: drift_of_def split: option.splits)
  have "\<exists>d\<in>set (added_drift a (n, obs)). d_Name d = n \<and> d_Kind d = k"
    using None obs(2) by (simp add: added_drift_def)
  with map_of_SomeD [OF obs(1)] show ?thesis unfolding Diff_set by blast
next
  case (Some def)
  have "\<exists>d\<in>set (admitted_drift ob (n, def)). d_Name d = n \<and> d_Kind d = k"
    using assms Some by (auto simp: drift_of_def admitted_drift_def split: option.splits if_splits)
  with map_of_SomeD [OF Some] show ?thesis unfolding Diff_set by blast
qed

text \<open>Each name is reported once, so the sort key is unique and the report has one order.\<close>

lemma distinct_concat_names:
  assumes "distinct (map fst m)" and "\<And>n v d. d \<in> set (f (n, v)) \<Longrightarrow> d_Name d = n"
    and "\<And>p. length (f p) \<le> 1"
  shows "distinct (map d_Name (concat (map f m)))"
  using assms(1)
proof (induction m)
  case (Cons p m)
  obtain n v where p: "p = (n, v)" by (cases p)
  have "d_Name ` set (concat (map f m)) \<subseteq> fst ` set m" using assms(2) by force
  moreover have "d_Name ` set (f p) \<subseteq> {n}" using assms(2) p by auto
  moreover have "distinct (map d_Name (f p))"
    using assms(3) [of p] by (cases "f p" rule: remdups_adj.cases) auto
  ultimately show ?case using Cons p by auto
qed simp

lemma Diff_names_distinct:
  assumes "distinct (map fst a)" and "distinct (map fst ob)"
  shows "distinct (map d_Name (concat (map (admitted_drift ob) a) @ concat (map (added_drift a) ob)))"
proof -
  have "distinct (map d_Name (concat (map (admitted_drift ob) a)))"
    by (rule distinct_concat_names [OF assms(1)]) (auto simp: admitted_drift_def split: option.splits if_splits)
  moreover have "distinct (map d_Name (concat (map (added_drift a) ob)))"
    by (rule distinct_concat_names [OF assms(2)]) (auto simp: added_drift_def split: if_splits)
  moreover have "d_Name ` set (concat (map (admitted_drift ob) a)) \<subseteq> fst ` set a"
    by (force simp: admitted_drift_def split: option.splits if_splits)
  moreover have "d_Name ` set (concat (map (added_drift a) ob)) \<inter> fst ` set a = {}"
    by (force simp: added_drift_def map_of_eq_None_iff split: if_splits)
  ultimately show ?thesis by auto
qed

lemma Diff_perm:
  assumes "distinct (map fst a)" and "distinct (map fst ob)" and "mset a = mset a'" and "mset ob = mset ob'"
  shows "Diff a ob = Diff a' ob'"
proof -
  let ?l = "concat (map (admitted_drift ob) a) @ concat (map (added_drift a) ob)"
  let ?r = "concat (map (admitted_drift ob') a') @ concat (map (added_drift a') ob')"
  have m: "map_of a = map_of a'" "map_of ob = map_of ob'"
    using assms by (simp_all add: map_of_perm)
  then have f: "admitted_drift ob = admitted_drift ob'" "added_drift a = added_drift a'"
    by (simp_all add: admitted_drift_def added_drift_def fun_eq_iff)
  have c: "mset (concat (map g xs)) = mset (concat (map g ys))" if "mset xs = mset ys"
    for g :: "'x \<Rightarrow> ToolDrift list" and xs ys
    using that by (simp add: mset_concat flip: mset_map sum_mset_sum_list) (simp add: image_mset.compositionality)
  have "mset ?l = mset ?r"
    using c [OF assms(3), of "admitted_drift ob"] c [OF assms(4), of "added_drift a"] f by simp
  moreover have "inj_on (\<lambda>d. (- Severity (d_Kind d), d_Name d)) (set ?l)"
  proof (rule inj_onI)
    fix x y assume "x \<in> set ?l" "y \<in> set ?l"
      and "(- Severity (d_Kind x), d_Name x) = (- Severity (d_Kind y), d_Name y)"
    moreover have "inj_on d_Name (set ?l)"
      using Diff_names_distinct [OF assms(1,2)] unfolding distinct_map by blast
    ultimately show "x = y" by (meson inj_onD prod.inject)
  qed
  ultimately show ?thesis
    unfolding Diff_def by (rule sort_key_eq_sort_key)
qed

subsection \<open>Properties\<close>

text \<open>The drift report is complete, exact and stable. Each tool name is reported with kind k exactly
  when the specification says so (removed, added, prose only, or meaning changed), the report is
  ordered by falling severity and then name, and it is the same whatever order the two catalogs are
  iterated in.\<close>

theorem drift_report_exact:
  assumes "distinct (map fst a)" and "distinct (map fst ob)"
  shows "((\<exists>d\<in>set (Diff a ob). d_Name d = n \<and> d_Kind d = k) \<longleftrightarrow> drift_of a ob n = Some k) \<and>
    sorted (map (\<lambda>d. (- Severity (d_Kind d), d_Name d)) (Diff a ob)) \<and>
    (mset a = mset a' \<and> mset ob = mset ob' \<longrightarrow> Diff a' ob' = Diff a ob)"
proof (intro conjI)
  show "(\<exists>d\<in>set (Diff a ob). d_Name d = n \<and> d_Kind d = k) \<longleftrightarrow> drift_of a ob n = Some k"
    using Diff_sound [OF assms] Diff_complete by metis
  show "sorted (map (\<lambda>d. (- Severity (d_Kind d), d_Name d)) (Diff a ob))"
    by (simp add: Diff_def)
  show "mset a = mset a' \<and> mset ob = mset ob' \<longrightarrow> Diff a' ob' = Diff a ob"
    using Diff_perm [OF assms] by auto
qed

definition wit_def :: "string \<Rightarrow> ToolDefinition" where
  "wit_def q = \<lparr>td_Digest = ''d'', td_SemanticDigest = ''s'', td_ServerId = ''srv'', td_NamespaceId = ''ns'',
     td_TenantId = ''tn'', td_ToolsetId = ''ts'', td_Name = q, td_QualifiedName = ''crm.'' @ q, td_Title = [],
     td_Description = [], td_InputSchemaJson = ''{}'', td_OutputSchemaJson = [], td_AnnotationsJson = [],
     td_EffectClass = EFFECT_READ, td_TokenEstimate = 1,
     td_RequiresIdempotencyKey = False\<rparr>"

theorem drift_report_exact_witness:
  "(\<exists>d\<in>set (Diff [(''a'', wit_def ''a''), (''b'', wit_def ''b'')]
       [(''b'', \<lparr>dg_Full = ''d2'', dg_Semantic = ''s'', dg_Definition = None\<rparr>)]). d_Name d = ''a'' \<and> d_Kind d = DriftRemoved)"
proof -
  let ?a = "[(''a'', wit_def ''a''), (''b'', wit_def ''b'')]"
  let ?o = "[(''b'', \<lparr>dg_Full = ''d2'', dg_Semantic = ''s'', dg_Definition = None\<rparr>)]"
  have "distinct (map fst ?a)" "distinct (map fst ?o)" "drift_of ?a ?o ''a'' = Some DriftRemoved"
    by (simp_all add: drift_of_def)
  then show ?thesis using drift_report_exact by blast
qed

end
