(* ===== verification/Health_Registry.thy ===== *)
theory Health_Registry
  imports Complex_Main Health_Drift
begin

section \<open>Backend conditions (internal/dataplane/health/state.go, prober.go)\<close>

text \<open>
  The registry of every backend's condition and the set of tools the gateway must refuse. The code
  keeps the refused set beside the conditions and rebuilds it on every write; the invariant is that
  it is always the one derived from the conditions. Instants and durations are integers
  (nanoseconds), \<open>None\<close> the zero time; the smoothing factor is a rational and its product is
  truncated as the conversion to a duration does. Each operation holds the registry's lock, so it is
  one step.
\<close>

datatype HealthState =
  StateNone | StateUnknown | StateHealthy | StateDegraded | StateUnavailable | StateDrifted

text \<open>\<open>backends.Target\<close>: a server and a tenant.\<close>

type_synonym Target = "string \<times> string"

record Replica =
  rp_Endpoint :: string
  rp_NegotiatedVersion :: string
  rp_Routable :: bool
  rp_Error :: string
  rp_Diverged :: "ToolDrift list"

record Backend =
  b_Target :: Target
  b_ServerID :: string
  b_ServerName :: string
  b_TenantSlug :: string
  b_Endpoint :: string
  b_State :: HealthState
  b_ServingMode :: string
  b_LastProbe :: "int option"
  b_LastSuccess :: "int option"
  b_ConsecutiveFailures :: int
  b_LatencyEWMAMs :: int
  b_NegotiatedVersion :: string
  b_Error :: string
  b_ToolsAdmitted :: int
  b_ToolsObserved :: int
  b_Drift :: "ToolDrift list"
  b_Replicas :: "Replica list"

definition zero_backend :: Backend where
  "zero_backend =
     \<lparr>b_Target = ([], []), b_ServerID = [], b_ServerName = [], b_TenantSlug = [], b_Endpoint = [],
      b_State = StateNone, b_ServingMode = [], b_LastProbe = None, b_LastSuccess = None,
      b_ConsecutiveFailures = 0, b_LatencyEWMAMs = 0, b_NegotiatedVersion = [], b_Error = [],
      b_ToolsAdmitted = 0, b_ToolsObserved = 0, b_Drift = [], b_Replicas = []\<rparr>"

definition BlockedTools :: "Backend \<Rightarrow> string list" where
  "BlockedTools b =
     (if b_ServingMode b \<noteq> ''strict'' then []
      else sort (map d_QualifiedName
        (filter (\<lambda>d. kind_Blocking (d_Kind d) \<and> d_QualifiedName d \<noteq> []) (b_Drift b))))"

subsection \<open>The registry\<close>

record blockReason =
  bl_server :: string
  bl_kind :: DriftKind
  bl_detail :: string

record Registry =
  r_backends :: "(Target \<times> Backend) list"
  r_blocked :: "(string \<times> blockReason) list"

definition NewRegistry :: Registry where
  "NewRegistry = \<lparr>r_backends = [], r_blocked = []\<rparr>"

text \<open>The reason of a blocked name is the first drift of the backend that carries it.\<close>

definition block_entry :: "Backend \<Rightarrow> string \<Rightarrow> (string \<times> blockReason) list \<Rightarrow> (string \<times> blockReason) list" where
  "block_entry b name blocked =
     (case filter (\<lambda>d. d_QualifiedName d = name) (b_Drift b) of
        [] \<Rightarrow> blocked
      | d # _ \<Rightarrow> obj_set name \<lparr>bl_server = b_ServerName b, bl_kind = d_Kind d, bl_detail = d_Detail d\<rparr> blocked)"

definition derive_blocked :: "(Target \<times> Backend) list \<Rightarrow> (string \<times> blockReason) list" where
  "derive_blocked bs = fold (\<lambda>(_, b). fold (block_entry b) (BlockedTools b)) bs []"

definition rebuildBlockedLocked :: "Registry \<Rightarrow> Registry" where
  "rebuildBlockedLocked r = r\<lparr>r_blocked := derive_blocked (r_backends r)\<rparr>"

fun set_backend :: "Target \<Rightarrow> Backend \<Rightarrow> (Target \<times> Backend) list \<Rightarrow> (Target \<times> Backend) list" where
  "set_backend t b [] = [(t, b)]"
| "set_backend t b ((t', b') # bs) = (if t' = t then (t, b) # bs else (t', b') # set_backend t b bs)"

definition Registry_Set :: "Backend \<Rightarrow> Registry \<Rightarrow> Registry" where
  "Registry_Set b r = rebuildBlockedLocked (r\<lparr>r_backends := set_backend (b_Target b) b (r_backends r)\<rparr>)"

definition Forget :: "(Target \<Rightarrow> bool) \<Rightarrow> Registry \<Rightarrow> Registry" where
  "Forget keep r = rebuildBlockedLocked (r\<lparr>r_backends := filter (\<lambda>p. keep (fst p)) (r_backends r)\<rparr>)"

definition Blocked :: "string \<Rightarrow> Registry \<Rightarrow> string option" where
  "Blocked qualifiedName r =
     (case map_of (r_blocked r) qualifiedName of
        None \<Rightarrow> None
      | Some entry \<Rightarrow>
          (case bl_kind entry of
             DriftRemoved \<Rightarrow> Some (''the backend serving this tool no longer publishes it, and this '' @
               ''gateway is configured to serve only admitted definitions'')
           | _ \<Rightarrow> Some (''this tool's definition has changed at the backend since it was '' @
               ''admitted ('' @ bl_detail entry @ ''), and this gateway is configured to '' @
               ''serve only admitted definitions'')))"

definition Registry_Backend :: "Target \<Rightarrow> Registry \<Rightarrow> Backend option" where
  "Registry_Backend t r = map_of (r_backends r) t"

definition All :: "Registry \<Rightarrow> Backend list" where
  "All r = sort_key (\<lambda>b. (b_TenantSlug b, b_ServerName b)) (map snd (r_backends r))"

record Summary =
  sm_Total :: nat
  sm_Healthy :: nat
  sm_Degraded :: nat
  sm_Unavailable :: nat
  sm_Drifted :: nat
  sm_Unknown :: nat
  sm_BlockedTools :: nat

definition Registry_Summary :: "Registry \<Rightarrow> Summary" where
  "Registry_Summary r =
     (let n = (\<lambda>P. length (filter (\<lambda>p. P (b_State (snd p))) (r_backends r))) in
      \<lparr>sm_Total = length (r_backends r), sm_Healthy = n (\<lambda>s. s = StateHealthy),
       sm_Degraded = n (\<lambda>s. s = StateDegraded), sm_Unavailable = n (\<lambda>s. s = StateUnavailable),
       sm_Drifted = n (\<lambda>s. s = StateDrifted),
       sm_Unknown = n (\<lambda>s. s \<notin> {StateHealthy, StateDegraded, StateUnavailable, StateDrifted}),
       sm_BlockedTools = length (r_blocked r)\<rparr>)"

subsection \<open>Classification\<close>

definition classify :: "bool \<Rightarrow> ToolDrift list \<Rightarrow> int option \<Rightarrow> int \<Rightarrow> int \<Rightarrow> HealthState" where
  "classify failed drifts lastSuccess now graceWindow =
     (if failed then
        (case lastSuccess of
           None \<Rightarrow> StateUnavailable
         | Some t \<Rightarrow> if now - t < graceWindow then StateDegraded else StateUnavailable)
      else if Blocking drifts \<noteq> [] then StateDrifted
      else StateHealthy)"

text \<open>Conversion to an integer truncates towards zero.\<close>

definition truncate_rat :: "rat \<Rightarrow> int" where
  "truncate_rat q = (if q < 0 then - \<lfloor>- q\<rfloor> else \<lfloor>q\<rfloor>)"

definition ewma :: "int \<Rightarrow> int \<Rightarrow> rat \<Rightarrow> int" where
  "ewma previous sample alpha =
     (if previous \<le> 0 then sample
      else truncate_rat (alpha * of_int sample + (1 - alpha) * of_int previous))"

definition stateCode :: "HealthState \<Rightarrow> int" where
  "stateCode s = (case s of
     StateHealthy \<Rightarrow> 1 | StateDegraded \<Rightarrow> 2 | StateUnavailable \<Rightarrow> 3 | StateDrifted \<Rightarrow> 4 | _ \<Rightarrow> 0)"

definition servingModeName :: "ServingMode \<Rightarrow> string" where
  "servingModeName m = (case m of SERVING_ADVISORY \<Rightarrow> ''advisory'' | _ \<Rightarrow> ''strict'')"

subsection \<open>Probing\<close>

text \<open>The admitted tools of each (server, tenant), keyed by the backend's own name; a later tool of the
  same name replaces an earlier one.\<close>

definition admitted_for :: "Snapshot \<Rightarrow> Target \<Rightarrow> (string \<times> ToolDefinition) list" where
  "admitted_for snap t =
     fold (\<lambda>d. obj_set (td_Name d) d)
       (filter (\<lambda>d. (td_ServerId d, td_TenantId d) = t) (sn_Tools snap)) []"

text \<open>What one probe met: the listing's error or its tools already digested (or not), the clock
  readings, the negotiated version and the replicas' findings.\<close>

record ProbeResult =
  pr_Listing :: "string + (string + (string \<times> ToolDigests) list) \<times> int"
  pr_ProbedAt :: int
  pr_Started :: int
  pr_Ended :: int
  pr_Settled :: int
  pr_Version :: string
  pr_Replicas :: "Replica list"

definition probe ::
  "int \<Rightarrow> rat \<Rightarrow> string \<Rightarrow> Server \<Rightarrow> Binding \<Rightarrow> (string \<times> ToolDefinition) list \<Rightarrow> ProbeResult \<Rightarrow> Registry \<Rightarrow> Registry" where
  "probe graceWindow alpha tenantSlug server binding admitted pr r =
     (let target = (srv_Id server, bd_TenantId binding);
          previous = (case Registry_Backend target r of None \<Rightarrow> zero_backend | Some b \<Rightarrow> b);
          current = zero_backend
            \<lparr>b_Target := target, b_ServerName := srv_Name server, b_TenantSlug := tenantSlug,
             b_Endpoint := bd_Primary binding, b_ServingMode := servingModeName (srv_ServingMode server),
             b_LastProbe := Some (pr_ProbedAt pr), b_LastSuccess := b_LastSuccess previous,
             b_LatencyEWMAMs := b_LatencyEWMAMs previous, b_ToolsAdmitted := int (length admitted)\<rparr>;
          elapsed = pr_Ended pr - pr_Started pr
      in case pr_Listing pr of
           Inl err \<Rightarrow>
             Registry_Set (current
               \<lparr>b_ConsecutiveFailures := b_ConsecutiveFailures previous + 1, b_Error := err,
                b_Drift := b_Drift previous, b_ToolsObserved := b_ToolsObserved previous,
                b_State := classify True (b_Drift previous) (b_LastSuccess previous) (pr_Settled pr) graceWindow\<rparr>) r
         | Inr (digests, n_tools) \<Rightarrow>
             (let answered = current
                \<lparr>b_LastSuccess := Some (pr_Settled pr),
                 b_LatencyEWMAMs := tdiv (ewma (b_LatencyEWMAMs previous * 1000000) elapsed alpha) 1000000,
                 b_NegotiatedVersion := pr_Version pr, b_ToolsObserved := n_tools\<rparr>
              in case digests of
                   Inl digestErr \<Rightarrow>
                     Registry_Set (answered
                       \<lparr>b_Error := ''the backend's catalog could not be canonicalized: '' @ digestErr,
                        b_State := StateDrifted, b_Drift := b_Drift previous\<rparr>) r
                 | Inr observed \<Rightarrow>
                     Registry_Set (answered
                       \<lparr>b_Drift := Diff admitted observed, b_Replicas := pr_Replicas pr,
                        b_State := classify False (Diff admitted observed) (Some (pr_Settled pr))
                          (pr_Settled pr) graceWindow\<rparr>) r))"

text \<open>One replica, from its discovery's error or its version and digested catalog.\<close>

definition probe_replica ::
  "(string \<times> ToolDigests) list \<Rightarrow> string \<Rightarrow> string + (string \<times> (string + (string \<times> ToolDigests) list)) \<Rightarrow> Replica" where
  "probe_replica primary endpoint discovered =
     (let blank = \<lparr>rp_Endpoint = endpoint, rp_NegotiatedVersion = [], rp_Routable = False, rp_Error = [],
                   rp_Diverged = []\<rparr> in
      case discovered of
        Inl err \<Rightarrow> blank\<lparr>rp_Error := err\<rparr>
      | Inr (version, Inl err) \<Rightarrow>
          blank\<lparr>rp_NegotiatedVersion := version, rp_Error := ''catalog could not be canonicalized: '' @ err\<rparr>
      | Inr (version, Inr observed) \<Rightarrow>
          (let diverged = Blocking (diffObserved primary observed)
           in blank\<lparr>rp_NegotiatedVersion := version, rp_Diverged := diverged, rp_Routable := (diverged = [])\<rparr>))"

subsection \<open>Histories of the registry\<close>

text \<open>The registries the gateway can hold: from the empty one, by writes and by forgetting.\<close>

inductive reachable :: "Registry \<Rightarrow> bool" where
  start: "reachable NewRegistry"
| set: "reachable r \<Longrightarrow> reachable (Registry_Set b r)"
| forget: "reachable r \<Longrightarrow> reachable (Forget keep r)"

text \<open>A backend refuses a name when it is strict and carries blocking drift on it.\<close>

definition refuses :: "Backend \<Rightarrow> string \<Rightarrow> bool" where
  "refuses b q = (b_ServingMode b = ''strict'' \<and> q \<noteq> [] \<and>
     (\<exists>d\<in>set (b_Drift b). kind_Blocking (d_Kind d) \<and> d_QualifiedName d = q))"

lemma BlockedTools_iff: "q \<in> set (BlockedTools b) \<longleftrightarrow> refuses b q"
  by (auto simp: BlockedTools_def refuses_def)

lemma block_entry_dom:
  "dom (map_of (block_entry b n acc)) =
     dom (map_of acc) \<union> (if \<exists>d\<in>set (b_Drift b). d_QualifiedName d = n then {n} else {})"
proof (cases "filter (\<lambda>d. d_QualifiedName d = n) (b_Drift b)")
  case Nil
  then show ?thesis by (auto simp: block_entry_def filter_empty_conv)
next
  case (Cons d ds)
  then have "d \<in> set (filter (\<lambda>d. d_QualifiedName d = n) (b_Drift b))" by simp
  with Cons show ?thesis by (auto simp: block_entry_def)
qed

lemma block_entries_dom:
  "dom (map_of (fold (block_entry b) ns acc)) =
     dom (map_of acc) \<union> {n \<in> set ns. \<exists>d\<in>set (b_Drift b). d_QualifiedName d = n}"
  by (induction ns arbitrary: acc) (auto simp: block_entry_dom split: if_splits)

lemma derive_blocked_dom:
  "dom (map_of (derive_blocked bs)) = {q. \<exists>p\<in>set bs. refuses (snd p) q}"
proof -
  have one: "dom (map_of (fold (block_entry b) (BlockedTools b) acc)) = dom (map_of acc) \<union> {q. refuses b q}"
    for b acc by (auto simp: block_entries_dom BlockedTools_iff) (auto simp: refuses_def)
  have "dom (map_of (fold (\<lambda>(_, b). fold (block_entry b) (BlockedTools b)) bs acc)) =
      dom (map_of acc) \<union> {q. \<exists>p\<in>set bs. refuses (snd p) q}" for acc
  proof (induction bs arbitrary: acc)
    case (Cons p bs)
    obtain t b where p: "p = (t, b)" by (cases p)
    show ?case unfolding p fold_Cons comp_def by (simp only: Cons.IH case_prod_conv one) auto
  qed simp
  from this [of "[]"] show ?thesis by (simp add: derive_blocked_def)
qed

lemma map_of_set_backend [simp]: "map_of (set_backend t b bs) = (map_of bs)(t \<mapsto> b)"
  by (induction bs) (auto simp: fun_eq_iff)

lemma keys_set_backend: "fst ` set (set_backend t b bs) = insert t (fst ` set bs)"
proof (induction bs)
  case (Cons p bs)
  then show ?case by (cases p) (simp add: insert_commute)
qed simp

lemma distinct_set_backend: "distinct (map fst bs) \<Longrightarrow> distinct (map fst (set_backend t b bs))"
proof (induction bs)
  case (Cons p bs)
  then show ?case using keys_set_backend [of t b bs] by (cases p) (auto simp: image_iff)
qed simp

definition registry_inv :: "Registry \<Rightarrow> bool" where
  "registry_inv r = (r_blocked r = derive_blocked (r_backends r) \<and> distinct (map fst (r_backends r)))"

lemma registry_reachable_inv: "reachable r \<Longrightarrow> registry_inv r"
proof (induction rule: reachable.induct)
  case start
  then show ?case by (simp add: registry_inv_def NewRegistry_def derive_blocked_def)
next
  case (set r b)
  then show ?case
    by (simp add: registry_inv_def Registry_Set_def rebuildBlockedLocked_def distinct_set_backend)
next
  case (forget r keep)
  then show ?case
    by (simp add: registry_inv_def Forget_def rebuildBlockedLocked_def distinct_map_filter)
qed

lemma Blocked_None: "Blocked q r = None \<longleftrightarrow> map_of (r_blocked r) q = None"
  by (auto simp: Blocked_def split: option.splits DriftKind.splits)

lemma Blocked_iff:
  assumes "registry_inv r"
  shows "Blocked q r \<noteq> None \<longleftrightarrow> (\<exists>t b. Registry_Backend t r = Some b \<and> refuses b q)"
proof -
  have "Blocked q r \<noteq> None \<longleftrightarrow> q \<in> dom (map_of (derive_blocked (r_backends r)))"
    using assms by (auto simp: Blocked_None registry_inv_def)
  also have "\<dots> \<longleftrightarrow> (\<exists>p\<in>set (r_backends r). refuses (snd p) q)" by (simp add: derive_blocked_dom)
  also have "\<dots> \<longleftrightarrow> (\<exists>t b. Registry_Backend t r = Some b \<and> refuses b q)"
    using assms by (force simp: Registry_Backend_def registry_inv_def)
  finally show ?thesis .
qed

lemma Registry_Set_simps [simp]:
  "Registry_Backend t (Registry_Set b r) = (if t = b_Target b then Some b else Registry_Backend t r)"
  by (simp add: Registry_Backend_def Registry_Set_def rebuildBlockedLocked_def)

subsection \<open>Properties\<close>

text \<open>C28: a tool is refused exactly for cause. After any history of writes and forgets, the gateway
  refuses a qualified name if and only if some recorded backend is in strict mode and has removed or
  semantically changed the tool of that name; an advisory backend or a reworded description never
  blocks anything.\<close>

theorem blocked_iff_strict_drift:
  assumes "reachable r"
  shows "Blocked q r \<noteq> None \<longleftrightarrow>
    (\<exists>t b. Registry_Backend t r = Some b \<and> b_ServingMode b = ''strict'' \<and> q \<noteq> [] \<and>
       (\<exists>d\<in>set (b_Drift b). kind_Blocking (d_Kind d) \<and> d_QualifiedName d = q))"
  unfolding Blocked_iff [OF registry_reachable_inv [OF assms]] refuses_def ..

definition wit_backend :: "string \<Rightarrow> string \<Rightarrow> DriftKind \<Rightarrow> Backend" where
  "wit_backend tenant mode k = zero_backend
     \<lparr>b_Target := (''srv'', tenant), b_ServingMode := mode,
      b_Drift := [\<lparr>d_Name = ''search'', d_QualifiedName = ''crm.search'', d_Kind = k,
                  d_AdmittedDigest = [], d_ObservedDigest = [], d_Detail = ''input schema changed''\<rparr>]\<rparr>"

theorem blocked_iff_strict_drift_witness:
  "Blocked ''crm.search'' (Registry_Set (wit_backend ''a'' ''strict'' DriftSemantic) NewRegistry) \<noteq> None \<and>
   Blocked ''crm.search'' (Registry_Set (wit_backend ''a'' ''advisory'' DriftSemantic) NewRegistry) = None"
proof -
  have r: "reachable (Registry_Set b NewRegistry)" for b by (intro reachable.intros)
  have empty: "Registry_Backend t NewRegistry = None" for t
    by (simp add: Registry_Backend_def NewRegistry_def)
  show ?thesis
    using blocked_iff_strict_drift [OF r, of "''crm.search''" "wit_backend ''a'' ''strict'' DriftSemantic"]
      blocked_iff_strict_drift [OF r, of "''crm.search''" "wit_backend ''a'' ''advisory'' DriftSemantic"]
    by (auto simp: wit_backend_def kind_Blocking_def empty split: if_splits)
qed

text \<open>An outage never unblocks. When a probe of a recorded backend fails, exactly the same names stay
  refused as before, the failure is counted, and the backend is degraded only within the grace window
  of its last success and unavailable otherwise.\<close>

theorem failed_probe_keeps_blocks:
  assumes "reachable r" and "Registry_Backend (srv_Id server, bd_TenantId binding) r = Some prev"
    and "b_ServingMode prev = servingModeName (srv_ServingMode server)"
    and "pr_Listing pr = Inl err"
    and "r' = probe graceWindow alpha slug server binding admitted pr r"
  shows "(\<forall>q. Blocked q r' \<noteq> None \<longleftrightarrow> Blocked q r \<noteq> None) \<and>
    (\<exists>b. Registry_Backend (srv_Id server, bd_TenantId binding) r' = Some b \<and>
       b_ConsecutiveFailures b = b_ConsecutiveFailures prev + 1 \<and>
       b_State b = (case b_LastSuccess prev of
         None \<Rightarrow> StateUnavailable
       | Some t \<Rightarrow> if pr_Settled pr - t < graceWindow then StateDegraded else StateUnavailable))"
proof -
  let ?t = "(srv_Id server, bd_TenantId binding)"
  obtain b where b: "r' = Registry_Set b r" "b_Target b = ?t" "b_Drift b = b_Drift prev"
    "b_ServingMode b = b_ServingMode prev" "b_ConsecutiveFailures b = b_ConsecutiveFailures prev + 1"
    "b_State b = classify True (b_Drift prev) (b_LastSuccess prev) (pr_Settled pr) graceWindow"
    using assms(2-5) by (simp add: probe_def Let_def)
  have "refuses b q \<longleftrightarrow> refuses prev q" for q using b(3,4) by (simp add: refuses_def)
  moreover have "registry_inv r" "registry_inv r'"
    using assms(1) b(1) by (auto intro: registry_reachable_inv reachable.set)
  moreover have "(\<exists>t c. Registry_Backend t r' = Some c \<and> refuses c q) \<longleftrightarrow>
      (\<exists>t c. Registry_Backend t r = Some c \<and> refuses c q)" if "refuses b q \<longleftrightarrow> refuses prev q" for q
    using b(1,2) assms(2) that by (metis Registry_Set_simps option.inject)
  ultimately have "Blocked q r' \<noteq> None \<longleftrightarrow> Blocked q r \<noteq> None" for q
    unfolding Blocked_iff [OF \<open>registry_inv r\<close>] Blocked_iff [OF \<open>registry_inv r'\<close>] by blast
  with b show ?thesis by (auto simp: classify_def)
qed

definition wit_server :: Server where
  "wit_server = \<lparr>srv_Id = ''srv'', srv_Name = ''crm'', srv_NamespaceId = ''ns'', srv_ServingMode = SERVING_STRICT,
     srv_Bindings = [], srv_Health = None, srv_CanaryTool = [], srv_TokenExchange = None\<rparr>"

definition wit_binding :: Binding where
  "wit_binding = \<lparr>bd_TenantId = ''a'', bd_Primary = ''https://a'', bd_Replicas = []\<rparr>"

definition wit_probe :: ProbeResult where
  "wit_probe = \<lparr>pr_Listing = Inl ''refused'', pr_ProbedAt = 1, pr_Started = 1, pr_Ended = 2, pr_Settled = 2,
     pr_Version = [], pr_Replicas = []\<rparr>"

theorem failed_probe_keeps_blocks_witness:
  "Blocked ''crm.search'' (probe 10 (1 / 5) ''acme'' wit_server wit_binding [] wit_probe
     (Registry_Set (wit_backend ''a'' ''strict'' DriftSemantic) NewRegistry)) \<noteq> None"
proof -
  let ?r = "Registry_Set (wit_backend ''a'' ''strict'' DriftSemantic) NewRegistry"
  have r: "reachable ?r" by (intro reachable.intros)
  have p: "Registry_Backend (srv_Id wit_server, bd_TenantId wit_binding) ?r =
      Some (wit_backend ''a'' ''strict'' DriftSemantic)"
    and m: "b_ServingMode (wit_backend ''a'' ''strict'' DriftSemantic) = servingModeName (srv_ServingMode wit_server)"
    and l: "pr_Listing wit_probe = Inl ''refused''"
    by (simp_all add: wit_server_def wit_binding_def wit_backend_def wit_probe_def servingModeName_def)
  have "Blocked ''crm.search'' ?r \<noteq> None"
    using Blocked_iff [OF registry_reachable_inv [OF r], of "''crm.search''"]
    by (force simp: wit_backend_def refuses_def kind_Blocking_def)
  with failed_probe_keeps_blocks [OF r p m l refl] show ?thesis by blast
qed

text \<open>The refusal does not know tenants: a backend that drifted for one tenant makes the gateway refuse
  the tool of the same name that another tenant's own backend publishes exactly as admitted.\<close>

lemma drift_blocks_other_tenants:
  "\<exists>r a b. reachable r \<and> Registry_Backend (''srv'', ''a'') r = Some a \<and> Registry_Backend (''srv'', ''b'') r = Some b \<and>
     b_Drift b = [] \<and> Blocked ''crm.search'' r \<noteq> None"
proof -
  let ?r = "Registry_Set (zero_backend\<lparr>b_Target := (''srv'', ''b''), b_ServingMode := ''strict''\<rparr>)
    (Registry_Set (wit_backend ''a'' ''strict'' DriftSemantic) NewRegistry)"
  have r: "reachable ?r" by (intro reachable.intros)
  moreover have a: "Registry_Backend (''srv'', ''a'') ?r = Some (wit_backend ''a'' ''strict'' DriftSemantic)"
    by (simp add: wit_backend_def)
  moreover have "Blocked ''crm.search'' ?r \<noteq> None"
    unfolding Blocked_iff [OF registry_reachable_inv [OF r]] using a
    by (intro exI [of _ "(''srv'', ''a'')"]) (simp add: wit_backend_def refuses_def kind_Blocking_def)
  ultimately show ?thesis by (intro exI [of _ ?r]) (auto simp: zero_backend_def)
qed

end
