(* ===== verification/Edge_Dispatch.thy ===== *)
theory Edge_Dispatch
  imports Edge_State Edge_Identity Health_Registry
begin

section \<open>Dispatching a tool call (internal/dataplane/edge/dispatch.go, contract.go)\<close>

text \<open>
  The closure the edge registers for one tool of one principal's catalog. The pipeline and the
  backend pool are the record \<open>EdgeEnv\<close> of what the edge's options hold: the pipeline's two hooks as
  functions, the pool's \<open>CallTool\<close> as a function on the pool's state \<open>'s\<close>, so that any pipeline and
  any pool are covered; \<open>Edge_Wiring\<close> and \<open>Backend_Pool\<close> provide the ones the program runs. Spans,
  metrics and log lines are left out; the trace context \<open>_meta\<close> carries is the argument \<open>meta\<close>.

  The handler answers with the result or the protocol error, the calls it made on the pipeline and
  the pool, in order, the pool's new state and the outcome label of its metrics.
\<close>

subsection \<open>MCP results and errors\<close>

datatype Content = TextContent string "(string \<times> json) list" | OtherContent json

record CallToolResult =
  cr_Content :: "Content list"
  cr_StructuredContent :: "json option"
  cr_IsError :: bool
  cr_Meta :: "(string \<times> json) list"
  cr_InputRequests :: "(string \<times> json) list"
  cr_RequestState :: string

definition empty_result :: CallToolResult where
  "empty_result = \<lparr>cr_Content = [], cr_StructuredContent = None, cr_IsError = False, cr_Meta = [],
     cr_InputRequests = [], cr_RequestState = []\<rparr>"

text \<open>A Go error with what it wraps; an instant is nanoseconds, \<open>None\<close> the zero time.\<close>

datatype GoError =
    ErrCircuitOpen string "int option"
  | ErrNotConnected string GoError
  | DeadlineExceeded
  | ContextCanceled
  | Wrapped string GoError
  | OtherError string

fun error_chain :: "GoError \<Rightarrow> GoError list" where
  "error_chain (ErrNotConnected b cause) = ErrNotConnected b cause # error_chain cause"
| "error_chain (Wrapped m cause) = Wrapped m cause # error_chain cause"
| "error_chain e = [e]"

fun is_open :: "GoError \<Rightarrow> bool" where
  "is_open (ErrCircuitOpen _ _) = True"
| "is_open _ = False"

fun is_not_connected :: "GoError \<Rightarrow> bool" where
  "is_not_connected (ErrNotConnected _ _) = True"
| "is_not_connected _ = False"

definition classifyDispatchError :: "GoError \<Rightarrow> string" where
  "classifyDispatchError err =
     (if list_ex is_open (error_chain err) then ''circuit_open''
      else if list_ex is_not_connected (error_chain err) then ''unreachable''
      else if DeadlineExceeded \<in> set (error_chain err) then ''timeout''
      else if ContextCanceled \<in> set (error_chain err) then ''cancelled''
      else ''error'')"

subsection \<open>The contract with the pipeline (contract.go)\<close>

record ToolCallRequest =
  tq_PrincipalView :: PrincipalView
  tq_Tool :: Tool
  tq_Principal :: Caller
  tq_Arguments :: "json option"
  tq_Meta :: "(string \<times> json) list"
  tq_RequestState :: string
  tq_InputResponses :: "(string \<times> json) list"

record ToolCallDecision =
  tc_Decision :: string
  tc_Reason :: string
  tc_Arguments :: "json option"
  tc_InputRequests :: "(string \<times> json) list"
  tc_RequestState :: string

definition Call_Denied :: "ToolCallDecision \<Rightarrow> bool" where
  "Call_Denied d \<longleftrightarrow> tc_Decision d = ''deny''"

definition Call_Deferred :: "ToolCallDecision \<Rightarrow> bool" where
  "Call_Deferred d \<longleftrightarrow> tc_Decision d = ''defer'' \<and> length (tc_InputRequests d) > 0"

record ToolResultRequest =
  rr_PrincipalView :: PrincipalView
  rr_Tool :: Tool
  rr_Principal :: Caller
  rr_Result :: CallToolResult

record ToolResultDecision =
  trd_Decision :: string
  trd_Reason :: string
  trd_Result :: "CallToolResult option"

definition Result_Denied :: "ToolResultDecision \<Rightarrow> bool" where
  "Result_Denied d \<longleftrightarrow> trd_Decision d = ''deny''"

text \<open>A tool as the SDK serves it, and the catalog hook over it.\<close>

record MCPTool =
  mt_Name :: string
  mt_Title :: string
  mt_Description :: string
  mt_InputSchema :: "string option"
  mt_OutputSchema :: "string option"

record CatalogRequest =
  gq_PrincipalView :: PrincipalView
  gq_Principal :: Caller
  gq_Tools :: "MCPTool list"

text \<open>\<open>None\<close> serves the catalog unchanged, \<open>Some []\<close> serves nothing.\<close>

record CatalogDecision =
  cd_Tools :: "MCPTool list option"
  cd_IdentityFiltered :: bool

text \<open>One outbound invocation (\<open>backends.Call\<close>).\<close>

record Call =
  ca_Target :: Target
  ca_ToolName :: string
  ca_Arguments :: "json option"
  ca_Meta :: "(string \<times> json) list"
  ca_RequestState :: string
  ca_InputResponses :: "(string \<times> json) list"

record Pipeline =
  pl_OnCatalog :: "CatalogRequest \<Rightarrow> string + CatalogDecision"
  pl_OnToolCall :: "ToolCallRequest \<Rightarrow> string + ToolCallDecision"
  pl_OnToolResult :: "ToolResultRequest \<Rightarrow> string + ToolResultDecision"

record 's EdgeEnv =
  ee_Pipeline :: "Pipeline option"
  ee_CallTool :: "'s \<Rightarrow> Call \<Rightarrow> Caller \<Rightarrow> 's \<times> (GoError + CallToolResult)"
  ee_DriftGuard :: "(string \<Rightarrow> string option) option"
  ee_Resolve :: "Header \<Rightarrow> IdentityError + Caller"
  ee_NeedsInput :: "CallToolResult \<Rightarrow> bool"
  ee_RFC3339 :: "int \<Rightarrow> string"
  ee_Codec :: StateCodec
  ee_Signer :: "StateSigner option"
  ee_now :: int
  ee_nonce :: "string option"

text \<open>A request as the handler receives it: what \<open>serveMCP\<close> put in the context, the headers the SDK
  passes on, and the call's parameters.\<close>

record CallRequest =
  cq_Scope :: "Caller option"
  cq_Header :: "Header option"
  cq_Arguments :: "json option"
  cq_Meta :: "(string \<times> json) list"
  cq_RequestState :: string
  cq_InputResponses :: "(string \<times> json) list"

definition principalFor :: "(Header \<Rightarrow> IdentityError + Caller) \<Rightarrow> CallRequest \<Rightarrow> IdentityError + Caller" where
  "principalFor identify req =
     (case cq_Scope req of
        Some who \<Rightarrow>
          if cl_Subject who \<noteq> [] then Inr who
          else (case cq_Header req of Some h \<Rightarrow> identify h | None \<Rightarrow> Inl Unauthenticated)
      | None \<Rightarrow> (case cq_Header req of Some h \<Rightarrow> identify h | None \<Rightarrow> Inl Unauthenticated))"

subsection \<open>Model-legible refusals\<close>

definition tool_error :: "string \<Rightarrow> (string \<times> json) list \<Rightarrow> CallToolResult" where
  "tool_error text detail =
     empty_result\<lparr>cr_IsError := True, cr_Content := [TextContent text []],
       cr_Meta := [(''mcpdoll'', JObj detail)]\<rparr>"

definition deniedResult :: "Tool \<Rightarrow> string \<Rightarrow> CallToolResult" where
  "deniedResult tool reason =
     (let reason = (if reason = [] then ''the gateway policy for this tool did not permit the call'' else reason)
      in tool_error (Tool_QualifiedName tool @ '' was not permitted: '' @ reason)
           [(''outcome'', JStr ''denied''), (''reason'', JStr reason), (''tool'', JStr (Tool_QualifiedName tool))])"

definition driftBlockedResult :: "Tool \<Rightarrow> string \<Rightarrow> CallToolResult" where
  "driftBlockedResult tool reason =
     tool_error (Tool_QualifiedName tool @ '' cannot be called: '' @ reason @
         ''. This is a configuration state, not a transient failure '' @
         [CHR 0xE2, CHR 0x80, CHR 0x94] @ '' retrying will not help.'')
       [(''outcome'', JStr ''drift_blocked''), (''tool'', JStr (Tool_QualifiedName tool)),
        (''backend'', JStr (srv_Name (tool_Server tool))), (''retryable'', JBool False),
        (''reason'', JStr reason)]"

definition open_until :: "GoError \<Rightarrow> int option" where
  "open_until err =
     (case find is_open (error_chain err) of Some (ErrCircuitOpen _ until) \<Rightarrow> until | _ \<Rightarrow> None)"

definition unavailableResult :: "(int \<Rightarrow> string) \<Rightarrow> Tool \<Rightarrow> GoError \<Rightarrow> CallToolResult" where
  "unavailableResult rfc3339 tool cause =
     (let detail =
            [(''outcome'', JStr ''backend_unavailable''), (''tool'', JStr (Tool_QualifiedName tool)),
             (''backend'', JStr (srv_Name (tool_Server tool))), (''kind'', JStr (classifyDispatchError cause))];
          advice = ''The upstream service for this tool is temporarily unavailable. '' @
            ''Do not retry immediately; try a different approach or tell the user.'';
          (detail, advice) =
            (case open_until cause of
               None \<Rightarrow> (detail, advice)
             | Some until \<Rightarrow>
                 (detail @ [(''retry_after'', JStr (rfc3339 until))],
                  ''The upstream service for this tool is unavailable and will not be retried '' @
                  ''before '' @ rfc3339 until @ ''. Try a different approach or tell the user.''))
      in tool_error (Tool_QualifiedName tool @ '' is currently unavailable. '' @ advice) detail)"

definition invalid_state_kind :: "StateError \<Rightarrow> string" where
  "invalid_state_kind cause =
     (if is_expired_state cause then ''expired''
      else if is_mismatched_state cause then ''mismatched'' else ''invalid'')"

definition invalidStateResult :: "Tool \<Rightarrow> StateError \<Rightarrow> CallToolResult" where
  "invalidStateResult tool cause =
     (let kind = invalid_state_kind cause
      in tool_error (''The confirmation for '' @ Tool_QualifiedName tool @ '' could not be verified ('' @ kind @
             ''). Start the operation again.'')
           [(''outcome'', JStr ''invalid_request_state''), (''kind'', JStr kind),
            (''tool'', JStr (Tool_QualifiedName tool))])"

subsection \<open>Who is answered by a retry\<close>

definition backendResponses :: "Retry \<Rightarrow> (string \<times> json) list \<Rightarrow> (string \<times> json) list" where
  "backendResponses retry responses =
     (if rt_Source retry = [] then responses else if AnswersBackend retry then responses else [])"

definition pluginResponses :: "Retry \<Rightarrow> (string \<times> json) list \<Rightarrow> (string \<times> json) list" where
  "pluginResponses retry responses =
     (if rt_Source retry = [] then responses else if AnswersPlugin retry then responses else [])"

definition wrapBackendInputRequest ::
  "'s EdgeEnv \<Rightarrow> Tool \<Rightarrow> string \<Rightarrow> string \<Rightarrow> json option \<Rightarrow> CallToolResult \<Rightarrow> StateError + CallToolResult" where
  "wrapBackendInputRequest env tool who tenant arguments res =
     bind_result
       (backend_token (ee_Codec env) (ee_Signer env) (ee_now env) (ee_nonce env)
          (Tool_QualifiedName tool) who tenant arguments (cr_RequestState res))
       (\<lambda>token. Inr (empty_result\<lparr>cr_InputRequests := cr_InputRequests res, cr_RequestState := token,
                      cr_Meta := cr_Meta res\<rparr>))"

subsection \<open>The handler\<close>

datatype Event =
    AskedPipeline ToolCallRequest
  | CalledBackend Call Caller
  | ReviewedResult ToolResultRequest

datatype HandlerError =
    ListedNotCallable string
  | NotAuthenticated IdentityError
  | PipelineFailed string
  | DeferralNotWrapped StateError
  | InputRequestNotWrapped StateError

text \<open>\<open>None\<close> as the outcome: the handler returned before its metrics were set up.\<close>

record 's Answer =
  an_Result :: "HandlerError + CallToolResult"
  an_Events :: "Event list"
  an_Pool :: 's
  an_Outcome :: "string option"

definition answer ::
  "Event list \<Rightarrow> 's \<Rightarrow> string \<Rightarrow> HandlerError + CallToolResult \<Rightarrow> 's Answer" where
  "answer events s outcome r =
     \<lparr>an_Result = r, an_Events = events, an_Pool = s, an_Outcome = Some outcome\<rparr>"

text \<open>From the backend's result on: a request for input is wrapped, any other result is reviewed.\<close>

definition finish_call ::
  "'s EdgeEnv \<Rightarrow> PrincipalView \<Rightarrow> Tool \<Rightarrow> Caller \<Rightarrow> json option \<Rightarrow> Event list \<Rightarrow> 's \<Rightarrow> CallToolResult \<Rightarrow>
   's Answer" where
  "finish_call env av tool who arguments events s res =
     (if ee_NeedsInput env res
      then (case wrapBackendInputRequest env tool (cl_Subject who) (t_Slug (tool_Tenant tool)) arguments res of
          Inl e \<Rightarrow> answer events s ''mrtr_wrap_error'' (Inl (InputRequestNotWrapped e))
        | Inr wrapped \<Rightarrow> answer events s ''input_required'' (Inr wrapped))
      else
        let label = (\<lambda>res. if cr_IsError res then ''tool_error'' else ''ok'')
        in (case ee_Pipeline env of
            None \<Rightarrow> answer events s (label res) (Inr res)
          | Some pl \<Rightarrow>
              let rq = \<lparr>rr_PrincipalView = av, rr_Tool = tool, rr_Principal = who, rr_Result = res\<rparr>;
                  events = events @ [ReviewedResult rq]
              in (case pl_OnToolResult pl rq of
                    Inl e \<Rightarrow> answer events s ''pipeline_error'' (Inl (PipelineFailed e))
                  | Inr decision \<Rightarrow>
                      if Result_Denied decision
                      then answer events s ''result_denied'' (Inr (deniedResult tool (trd_Reason decision)))
                      else
                        let res = (case trd_Result decision of None \<Rightarrow> res | Some r \<Rightarrow> r)
                        in answer events s (label res) (Inr res))))"

definition outbound_call :: "Tool \<Rightarrow> json option \<Rightarrow> (string \<times> json) list \<Rightarrow> Retry \<Rightarrow> CallRequest \<Rightarrow> Call" where
  "outbound_call tool arguments meta retry req =
     \<lparr>ca_Target = (srv_Id (tool_Server tool), t_Id (tool_Tenant tool)), ca_ToolName = td_Name (tool_Def tool),
      ca_Arguments = arguments, ca_Meta = meta, ca_RequestState = rt_BackendState retry,
      ca_InputResponses = backendResponses retry (cq_InputResponses req)\<rparr>"

definition dispatch ::
  "'s EdgeEnv \<Rightarrow> PrincipalView \<Rightarrow> Tool \<Rightarrow> (string \<times> json) list \<Rightarrow> CallRequest \<Rightarrow> Caller \<Rightarrow> Retry \<Rightarrow>
   json option \<Rightarrow> Event list \<Rightarrow> 's \<Rightarrow> 's Answer" where
  "dispatch env av tool meta req who retry arguments events s =
     (let call = outbound_call tool arguments meta retry req;
          events = events @ [CalledBackend call who]
      in case ee_CallTool env s call who of
           (s, Inl err) \<Rightarrow>
             answer events s (classifyDispatchError err) (Inr (unavailableResult (ee_RFC3339 env) tool err))
         | (s, Inr res) \<Rightarrow> finish_call env av tool who arguments events s res)"

text \<open>ON_TOOL_CALL, then the dispatch.\<close>

definition review_call ::
  "'s EdgeEnv \<Rightarrow> PrincipalView \<Rightarrow> Tool \<Rightarrow> (string \<times> json) list \<Rightarrow> CallRequest \<Rightarrow> Caller \<Rightarrow> Retry \<Rightarrow> 's \<Rightarrow>
   's Answer" where
  "review_call env av tool meta req who retry s =
     (let arguments = cq_Arguments req
      in case ee_Pipeline env of
           None \<Rightarrow> dispatch env av tool meta req who retry arguments [] s
         | Some pl \<Rightarrow>
             let rq = \<lparr>tq_PrincipalView = av, tq_Tool = tool, tq_Principal = who, tq_Arguments = arguments,
                       tq_Meta = cq_Meta req, tq_RequestState = rt_PluginState retry,
                       tq_InputResponses = pluginResponses retry (cq_InputResponses req)\<rparr>;
                 events = [AskedPipeline rq]
             in (case pl_OnToolCall pl rq of
                   Inl e \<Rightarrow> answer events s ''pipeline_error'' (Inl (PipelineFailed e))
                 | Inr decision \<Rightarrow>
                     if Call_Denied decision
                     then answer events s ''denied'' (Inr (deniedResult tool (tc_Reason decision)))
                     else if Call_Deferred decision
                     then (case IssuePluginDeferral (ee_Codec env) (ee_Signer env) (ee_now env) (ee_nonce env)
                              (Tool_QualifiedName tool) (cl_Subject who) (t_Slug (tool_Tenant tool)) arguments
                              (tc_RequestState decision) of
                         Inl e \<Rightarrow> answer events s ''mrtr_wrap_error'' (Inl (DeferralNotWrapped e))
                       | Inr token \<Rightarrow>
                           answer events s ''input_required''
                             (Inr (empty_result\<lparr>cr_InputRequests := tc_InputRequests decision,
                                                cr_RequestState := token\<rparr>)))
                     else
                       let arguments = (if tc_Arguments decision \<noteq> None then tc_Arguments decision else arguments)
                       in dispatch env av tool meta req who retry arguments events s))"

definition toolHandler ::
  "'s EdgeEnv \<Rightarrow> PrincipalView \<Rightarrow> Tool \<Rightarrow> string \<Rightarrow> (string \<times> json) list \<Rightarrow> CallRequest \<Rightarrow> 's \<Rightarrow> 's Answer" where
  "toolHandler env av tool name meta req s =
     (if \<not> Callable av name
      then \<lparr>an_Result = Inl (ListedNotCallable name), an_Events = [], an_Pool = s, an_Outcome = None\<rparr>
      else case principalFor (ee_Resolve env) req of
          Inl e \<Rightarrow> answer [] s ''unauthenticated'' (Inl (NotAuthenticated e))
        | Inr who \<Rightarrow>
            let who = who\<lparr>cl_Tenant := t_Slug (tool_Tenant tool)\<rparr>
            in (case (case ee_DriftGuard env of None \<Rightarrow> None | Some blocked \<Rightarrow> blocked (Tool_QualifiedName tool)) of
                  Some reason \<Rightarrow> answer [] s ''drift_blocked'' (Inr (driftBlockedResult tool reason))
                | None \<Rightarrow>
                    (case (if cq_RequestState req \<noteq> []
                           then UnwrapForRetry (ee_Codec env) (ee_Signer env) (ee_now env)
                             (Tool_QualifiedName tool) (cl_Subject who) (t_Slug (tool_Tenant tool))
                             (cq_Arguments req) (cq_RequestState req)
                           else Inr no_retry) of
                       Inl e \<Rightarrow> answer [] s ''invalid_request_state'' (Inr (invalidStateResult tool e))
                     | Inr retry \<Rightarrow> review_call env av tool meta req who retry s)))"

subsection \<open>The catalog\<close>

definition CacheScopePublic :: string where "CacheScopePublic = ''public''"
definition CacheScopePrivate :: string where "CacheScopePrivate = ''private''"

definition cacheScopeFor :: "bool \<Rightarrow> string" where
  "cacheScopeFor identityFiltered = CacheScopePrivate"

record ListToolsResult =
  lt_Tools :: "MCPTool list"
  lt_TTLMs :: int
  lt_CacheScope :: string

datatype MethodResult = ToolsListed ListToolsResult | OtherMethodResult json

text \<open>\<open>nxt\<close> is the SDK's own handler of the method.\<close>

definition catalogMiddleware ::
  "'s EdgeEnv \<Rightarrow> PrincipalView \<Rightarrow> string \<Rightarrow> HandlerError + MethodResult \<Rightarrow> CallRequest \<Rightarrow>
   HandlerError + MethodResult" where
  "catalogMiddleware env av method nxt req =
     (if method \<noteq> ''tools/list'' then nxt
      else bind_result nxt (\<lambda>result. case result of
          OtherMethodResult r \<Rightarrow> Inr result
        | ToolsListed lst \<Rightarrow>
            (case principalFor (ee_Resolve env) req of
               Inl e \<Rightarrow> Inl (NotAuthenticated e)
             | Inr who \<Rightarrow>
                 let who = who\<lparr>cl_Tenant := TenantLabel av\<rparr>
                 in bind_result
                      (case ee_Pipeline env of
                         None \<Rightarrow> Inr (lst, True)
                       | Some pl \<Rightarrow>
                           (case pl_OnCatalog pl \<lparr>gq_PrincipalView = av, gq_Principal = who, gq_Tools = lt_Tools lst\<rparr> of
                              Inl e \<Rightarrow> Inl (PipelineFailed e)
                            | Inr decision \<Rightarrow>
                                Inr (case cd_Tools decision of
                                       None \<Rightarrow> lst | Some tools \<Rightarrow> lst\<lparr>lt_Tools := tools\<rparr>,
                                     True \<or> cd_IdentityFiltered decision)))
                      (\<lambda>(lst, identityFiltered).
                        Inr (ToolsListed (lst\<lparr>lt_TTLMs := pv_TTLMs av,
                               lt_CacheScope := cacheScopeFor identityFiltered\<rparr>))))))"

end
