(* ===== verification/Edge_Dispatch_Props.thy ===== *)
theory Edge_Dispatch_Props
  imports Edge_Dispatch
begin

section \<open>What a dispatched call has passed\<close>

text \<open>
  The stages of \<open>toolHandler\<close> seen from their events. \<open>admitted_call\<close> is the specification: the
  conditions under which a backend is called at all, and with what.
\<close>

definition review_request :: "PrincipalView \<Rightarrow> Tool \<Rightarrow> CallRequest \<Rightarrow> Caller \<Rightarrow> Retry \<Rightarrow> ToolCallRequest" where
  "review_request av tool req who retry =
     \<lparr>tq_PrincipalView = av, tq_Tool = tool, tq_Principal = who, tq_Arguments = cq_Arguments req,
      tq_Meta = cq_Meta req, tq_RequestState = rt_PluginState retry,
      tq_InputResponses = pluginResponses retry (cq_InputResponses req)\<rparr>"

text \<open>The pipeline neither refuses nor defers the call, and leaves it these arguments.\<close>

definition pipeline_passes ::
  "'s EdgeEnv \<Rightarrow> PrincipalView \<Rightarrow> Tool \<Rightarrow> CallRequest \<Rightarrow> Caller \<Rightarrow> Retry \<Rightarrow> json option \<Rightarrow> bool" where
  "pipeline_passes env av tool req who retry arguments \<longleftrightarrow>
     (case ee_Pipeline env of
        None \<Rightarrow> arguments = cq_Arguments req
      | Some pl \<Rightarrow>
          \<exists>d. pl_OnToolCall pl (review_request av tool req who retry) = Inr d \<and>
            \<not> Call_Denied d \<and> \<not> Call_Deferred d \<and>
            arguments = (if tc_Arguments d = None then cq_Arguments req else tc_Arguments d))"

definition verified_retry :: "'s EdgeEnv \<Rightarrow> Tool \<Rightarrow> CallRequest \<Rightarrow> string \<Rightarrow> Retry \<Rightarrow> bool" where
  "verified_retry env tool req subject retry \<longleftrightarrow>
     (if cq_RequestState req = [] then retry = no_retry
      else UnwrapForRetry (ee_Codec env) (ee_Signer env) (ee_now env) (Tool_QualifiedName tool) subject
             (t_Slug (tool_Tenant tool)) (cq_Arguments req) (cq_RequestState req) = Inr retry)"

definition not_drifted :: "'s EdgeEnv \<Rightarrow> Tool \<Rightarrow> bool" where
  "not_drifted env tool \<longleftrightarrow> (\<forall>blocked. ee_DriftGuard env = Some blocked \<longrightarrow> blocked (Tool_QualifiedName tool) = None)"

definition admitted_call ::
  "'s EdgeEnv \<Rightarrow> PrincipalView \<Rightarrow> Tool \<Rightarrow> string \<Rightarrow> CallRequest \<Rightarrow> Caller \<Rightarrow> Retry \<Rightarrow> json option \<Rightarrow> bool" where
  "admitted_call env av tool name req who retry arguments \<longleftrightarrow>
     Callable av name \<and>
     (\<exists>p. principalFor (ee_Resolve env) req = Inr p \<and> who = p\<lparr>cl_Tenant := t_Slug (tool_Tenant tool)\<rparr>) \<and>
     not_drifted env tool \<and> verified_retry env tool req (cl_Subject who) retry \<and>
     pipeline_passes env av tool req who retry arguments"

fun backend_call :: "Event \<Rightarrow> (Call \<times> Caller) list" where
  "backend_call (CalledBackend c w) = [(c, w)]"
| "backend_call _ = []"

definition backend_calls :: "Event list \<Rightarrow> (Call \<times> Caller) list" where
  "backend_calls es = concat (map backend_call es)"

lemma backend_calls_simps [simp]:
  "backend_calls [] = []"
  "backend_calls (e # es) = backend_call e @ backend_calls es"
  "backend_calls (es @ es') = backend_calls es @ backend_calls es'"
  by (simp_all add: backend_calls_def)

lemma answer_simps [simp]:
  "an_Events (answer events s outcome r) = events"
  "an_Result (answer events s outcome r) = r"
  "an_Pool (answer events s outcome r) = s"
  "an_Outcome (answer events s outcome r) = Some outcome"
  by (simp_all add: answer_def)

lemma finish_call_calls [simp]:
  "backend_calls (an_Events (finish_call env av tool who arguments events s res)) = backend_calls events"
  by (auto simp: finish_call_def Let_def split: sum.split option.split)

lemma finish_call_pool [simp]:
  "an_Pool (finish_call env av tool who arguments events s res) = s"
  by (auto simp: finish_call_def Let_def split: sum.split option.split)

lemma dispatch_calls:
  "backend_calls (an_Events (dispatch env av tool meta req who retry arguments events s)) =
     backend_calls events @ [(outbound_call tool arguments meta retry req, who)]"
  by (auto simp: dispatch_def Let_def split: prod.split sum.split)

lemma dispatch_pool:
  "an_Pool (dispatch env av tool meta req who retry arguments events s) =
     fst (ee_CallTool env s (outbound_call tool arguments meta retry req) who)"
  by (auto simp: dispatch_def Let_def split: prod.split sum.split)

lemma pipeline_passes_unique:
  "pipeline_passes env av tool req who retry a \<Longrightarrow> pipeline_passes env av tool req who retry b \<Longrightarrow> a = b"
  by (auto simp: pipeline_passes_def split: option.splits)

lemma review_call_passes:
  assumes "pipeline_passes env av tool req who retry arguments"
  shows "\<exists>events. backend_calls events = [] \<and>
     review_call env av tool meta req who retry s = dispatch env av tool meta req who retry arguments events s"
proof (cases "ee_Pipeline env")
  case None
  then show ?thesis using assms by (intro exI [of _ "[]"]) (simp add: review_call_def pipeline_passes_def)
next
  case (Some pl)
  then show ?thesis using assms
    by (intro exI [of _ "[AskedPipeline (review_request av tool req who retry)]"])
       (auto simp: review_call_def pipeline_passes_def Let_def review_request_def)
qed

lemma review_call_stops:
  assumes "\<nexists>arguments. pipeline_passes env av tool req who retry arguments"
  shows "backend_calls (an_Events (review_call env av tool meta req who retry s)) = [] \<and>
     an_Pool (review_call env av tool meta req who retry s) = s"
proof -
  obtain pl where p: "ee_Pipeline env = Some pl"
    using assms by (cases "ee_Pipeline env") (auto simp: pipeline_passes_def)
  show ?thesis
  proof (cases "pl_OnToolCall pl (review_request av tool req who retry)")
    case (Inl e)
    then show ?thesis using p by (simp add: review_call_def review_request_def Let_def)
  next
    case (Inr d)
    with assms p have "Call_Denied d \<or> Call_Deferred d" by (auto simp: pipeline_passes_def)
    then show ?thesis using p Inr
      by (auto simp: review_call_def review_request_def Let_def split: sum.split)
  qed
qed

lemma review_call_asks:
  assumes "ee_Pipeline env = Some pl"
  shows "\<exists>es. an_Events (review_call env av tool meta req who retry s) =
     AskedPipeline (review_request av tool req who retry) # es"
proof -
  have d: "\<exists>es. an_Events (dispatch env av tool meta req who retry arguments [e] s) = e # es" for arguments e
    by (auto simp: dispatch_def finish_call_def Let_def split: prod.split sum.split option.split)
  show ?thesis
    using d assms by (auto simp: review_call_def review_request_def Let_def split: sum.split)
qed

lemma review_call_outbound:
  assumes "(call, w) \<in> set (backend_calls (an_Events (review_call env av tool meta req who retry s)))"
  shows "\<exists>arguments. call = outbound_call tool arguments meta retry req"
proof (cases "\<exists>arguments. pipeline_passes env av tool req who retry arguments")
  case True
  then obtain arguments where p: "pipeline_passes env av tool req who retry arguments" by (elim exE)
  from review_call_passes [OF p, of meta s] assms show ?thesis by (elim exE conjE) (auto simp: dispatch_calls)
next
  case False
  from review_call_stops [OF False] assms show ?thesis by auto
qed

lemma toolHandler_reviewed:
  assumes "Callable av name" and "principalFor (ee_Resolve env) req = Inr p"
    and "who = p\<lparr>cl_Tenant := t_Slug (tool_Tenant tool)\<rparr>"
    and "not_drifted env tool" and "verified_retry env tool req (cl_Subject who) retry"
  shows "toolHandler env av tool name meta req s = review_call env av tool meta req who retry s"
proof -
  have "(case ee_DriftGuard env of None \<Rightarrow> None | Some blocked \<Rightarrow> blocked (Tool_QualifiedName tool)) = None"
    using assms(4) by (auto simp: not_drifted_def split: option.split)
  with assms show ?thesis by (auto simp: toolHandler_def verified_retry_def Let_def split: if_splits)
qed

lemma toolHandler_refused:
  assumes "\<nexists>who p retry. Callable av name \<and> principalFor (ee_Resolve env) req = Inr p \<and>
     who = p\<lparr>cl_Tenant := t_Slug (tool_Tenant tool)\<rparr> \<and> not_drifted env tool \<and>
     verified_retry env tool req (cl_Subject who) retry"
  shows "an_Events (toolHandler env av tool name meta req s) = [] \<and>
     an_Pool (toolHandler env av tool name meta req s) = s"
proof (cases "Callable av name \<and> not_drifted env tool \<and> (\<exists>p. principalFor (ee_Resolve env) req = Inr p)")
  case True
  then obtain p where p: "principalFor (ee_Resolve env) req = Inr p" by auto
  let ?r = "if cq_RequestState req \<noteq> [] then UnwrapForRetry (ee_Codec env) (ee_Signer env) (ee_now env)
     (Tool_QualifiedName tool) (cl_Subject p) (t_Slug (tool_Tenant tool)) (cq_Arguments req) (cq_RequestState req)
     else Inr no_retry"
  have "\<exists>e. ?r = Inl e"
  proof (cases ?r)
    case (Inr retry)
    with assms True p show ?thesis by (auto simp: verified_retry_def split: if_splits)
  qed blast
  then show ?thesis using True p
    by (auto simp: toolHandler_def Let_def not_drifted_def split: option.split if_splits)
next
  case False
  then show ?thesis
    by (auto simp: toolHandler_def Let_def not_drifted_def split: option.split sum.split)
qed

text \<open>The conditions determine the caller, the retry and the arguments.\<close>

lemma admitted_call_unique:
  assumes "admitted_call env av tool name req who retry arguments"
    and "admitted_call env av tool name req who' retry' arguments'"
  shows "who = who' \<and> retry = retry' \<and> arguments = arguments'"
proof -
  have w: "who = who'" using assms by (auto simp: admitted_call_def)
  moreover have r: "retry = retry'"
    using assms w by (auto simp: admitted_call_def verified_retry_def split: if_splits)
  ultimately show ?thesis
    using assms pipeline_passes_unique unfolding admitted_call_def by blast
qed

lemma toolHandler_calls:
  "admitted_call env av tool name req who retry arguments \<Longrightarrow>
     backend_calls (an_Events (toolHandler env av tool name meta req s)) =
       [(outbound_call tool arguments meta retry req, who)] \<and>
     an_Pool (toolHandler env av tool name meta req s) =
       fst (ee_CallTool env s (outbound_call tool arguments meta retry req) who)"
  (is "?a \<Longrightarrow> ?t")
proof -
  assume a: ?a
  then obtain p where p: "Callable av name" "principalFor (ee_Resolve env) req = Inr p"
    "who = p\<lparr>cl_Tenant := t_Slug (tool_Tenant tool)\<rparr>" "not_drifted env tool"
    "verified_retry env tool req (cl_Subject who) retry"
    and pp: "pipeline_passes env av tool req who retry arguments"
    unfolding admitted_call_def by (elim conjE exE)
  from review_call_passes [OF pp, of meta s] obtain events where "backend_calls events = []"
    "review_call env av tool meta req who retry s = dispatch env av tool meta req who retry arguments events s"
    by (elim exE conjE)
  then show ?t
    unfolding toolHandler_reviewed [OF p] by (simp add: dispatch_calls dispatch_pool)
qed

lemma toolHandler_no_calls:
  assumes "\<nexists>who retry arguments. admitted_call env av tool name req who retry arguments"
  shows "backend_calls (an_Events (toolHandler env av tool name meta req s)) = [] \<and>
     an_Pool (toolHandler env av tool name meta req s) = s"
proof (cases "\<exists>who p retry. Callable av name \<and> principalFor (ee_Resolve env) req = Inr p \<and>
     who = p\<lparr>cl_Tenant := t_Slug (tool_Tenant tool)\<rparr> \<and> not_drifted env tool \<and>
     verified_retry env tool req (cl_Subject who) retry")
  case True
  then obtain who p retry where p: "Callable av name" "principalFor (ee_Resolve env) req = Inr p"
    "who = p\<lparr>cl_Tenant := t_Slug (tool_Tenant tool)\<rparr>" "not_drifted env tool"
    "verified_retry env tool req (cl_Subject who) retry" by (elim exE conjE)
  with assms have "\<nexists>arguments. pipeline_passes env av tool req who retry arguments"
    unfolding admitted_call_def by blast
  from review_call_stops [OF this, of meta s] show ?thesis unfolding toolHandler_reviewed [OF p] .
next
  case False
  from toolHandler_refused [OF False, of meta s] show ?thesis by simp
qed

text \<open>The answer to a call the pipeline defers.\<close>

lemma deferred_result:
  assumes "Callable av name" "principalFor (ee_Resolve env) req = Inr p" "not_drifted env tool"
    "cq_RequestState req = []" "ee_Pipeline env = Some pl"
    "pl_OnToolCall pl (review_request av tool req (p\<lparr>cl_Tenant := t_Slug (tool_Tenant tool)\<rparr>) no_retry) = Inr d"
    "Call_Deferred d"
  shows "an_Result (toolHandler env av tool name meta req s) =
     (case IssuePluginDeferral (ee_Codec env) (ee_Signer env) (ee_now env) (ee_nonce env) (Tool_QualifiedName tool)
        (cl_Subject p) (t_Slug (tool_Tenant tool)) (cq_Arguments req) (tc_RequestState d) of
        Inl e \<Rightarrow> Inl (DeferralNotWrapped e)
      | Inr token \<Rightarrow> Inr (empty_result\<lparr>cr_InputRequests := tc_InputRequests d, cr_RequestState := token\<rparr>))"
proof -
  let ?w = "p\<lparr>cl_Tenant := t_Slug (tool_Tenant tool)\<rparr>"
  have v: "verified_retry env tool req (cl_Subject ?w) no_retry" using assms(4) by (simp add: verified_retry_def)
  have nd: "\<not> Call_Denied d" using assms(7) by (auto simp: Call_Denied_def Call_Deferred_def)
  show ?thesis
    using assms(5-7) nd unfolding toolHandler_reviewed [OF assms(1,2) refl assms(3) v]
    by (simp add: review_call_def review_request_def Let_def split: sum.split)
qed

subsection \<open>What the edge relies on in a pool\<close>

text \<open>
  \<open>entry\<close> observes what a pool keeps for one target, \<open>ok\<close> its invariant. A call keeps the invariant and
  touches its own target only; then so does a handled request, whatever the pipeline does.
\<close>

locale backend_pool =
  fixes call_tool :: "'s \<Rightarrow> Call \<Rightarrow> Caller \<Rightarrow> 's \<times> (GoError + CallToolResult)"
    and entry :: "Target \<Rightarrow> 's \<Rightarrow> 'e option"
    and ok :: "'s \<Rightarrow> bool"
  assumes call_ok: "ok s \<Longrightarrow> ok (fst (call_tool s call who))"
    and call_isolated: "t \<noteq> ca_Target call \<Longrightarrow> entry t (fst (call_tool s call who)) = entry t s"
    and call_keeps: "entry t (fst (call_tool s call who)) = None \<longleftrightarrow> entry t s = None"
begin

lemma handled_pool:
  assumes "ee_CallTool env = call_tool"
  shows "an_Pool (toolHandler env av tool name meta req s) = s \<or>
    (\<exists>call who. ca_Target call = (srv_Id (tool_Server tool), t_Id (tool_Tenant tool)) \<and>
       an_Pool (toolHandler env av tool name meta req s) = fst (call_tool s call who))"
proof (cases "\<exists>who retry arguments. admitted_call env av tool name req who retry arguments")
  case True
  then obtain who retry arguments where a: "admitted_call env av tool name req who retry arguments" by (elim exE)
  have "an_Pool (toolHandler env av tool name meta req s) =
      fst (call_tool s (outbound_call tool arguments meta retry req) who)"
    using toolHandler_calls [OF a, of meta s] assms by simp
  then show ?thesis by (intro disjI2 exI conjI) (simp_all add: outbound_call_def)
next
  case False
  then show ?thesis by (intro disjI1 toolHandler_no_calls [THEN conjunct2])
qed

lemma handled_ok:
  "ee_CallTool env = call_tool \<Longrightarrow> ok s \<Longrightarrow> ok (an_Pool (toolHandler env av tool name meta req s))"
  using handled_pool call_ok by metis

lemma handled_isolated:
  "ee_CallTool env = call_tool \<Longrightarrow> t \<noteq> (srv_Id (tool_Server tool), t_Id (tool_Tenant tool)) \<Longrightarrow>
     entry t (an_Pool (toolHandler env av tool name meta req s)) = entry t s"
  using handled_pool call_isolated by metis

lemma handled_keeps:
  "ee_CallTool env = call_tool \<Longrightarrow>
     entry t (an_Pool (toolHandler env av tool name meta req s)) = None \<longleftrightarrow> entry t s = None"
  using handled_pool call_keeps by metis

end

subsection \<open>Properties\<close>

text \<open>C2: a backend is called exactly when the principal may call the tool, is authenticated, the
  tool has not drifted, a presented approval verifies for this very call, and the pipeline neither
  denies nor defers; then it is called once, on the tool's own server for the tool's own tenant,
  under the backend's own name, with the backend's own state.\<close>

theorem backend_called_iff_admitted:
  "((call, who) \<in> set (backend_calls (an_Events (toolHandler env av tool name meta req s))) \<longleftrightarrow>
     (\<exists>retry arguments. admitted_call env av tool name req who retry arguments \<and>
        call = outbound_call tool arguments meta retry req)) \<and>
   length (backend_calls (an_Events (toolHandler env av tool name meta req s))) \<le> 1"
  (is "((call, who) \<in> set ?calls \<longleftrightarrow> ?r) \<and> _")
proof (cases "\<exists>who retry arguments. admitted_call env av tool name req who retry arguments")
  case True
  then obtain w r a where a: "admitted_call env av tool name req w r a" by (elim exE)
  have c: "?calls = [(outbound_call tool a meta r req, w)]" using toolHandler_calls [OF a] by (rule conjunct1)
  have "(call, who) \<in> set ?calls \<longleftrightarrow> ?r"
  proof
    assume "(call, who) \<in> set ?calls"
    then have "call = outbound_call tool a meta r req" "who = w" unfolding c by simp_all
    with a show ?r by blast
  next
    assume ?r
    then obtain retry arguments where "admitted_call env av tool name req who retry arguments"
      "call = outbound_call tool arguments meta retry req" by (elim exE conjE)
    then show "(call, who) \<in> set ?calls" using admitted_call_unique [OF a] unfolding c by simp
  qed
  then show ?thesis unfolding c by simp
next
  case False
  then have "?calls = []" by (rule toolHandler_no_calls [THEN conjunct1])
  with False show ?thesis by auto
qed


definition wit_void :: Tool where
  "wit_void = \<lparr>tool_Def = wit_tool_def ''t1'' ''k1'' ''void'' 1,
     tool_Server = \<lparr>srv_Id = ''s1'', srv_Name = ''crm'', srv_NamespaceId = ''n1'', srv_ServingMode = SERVING_STRICT,
       srv_Bindings = [], srv_Health = None, srv_CanaryTool = [], srv_TokenExchange = None\<rparr>,
     tool_Namespace = \<lparr>ns_Id = ''n1'', ns_Name = ''crm'', ns_Prefix = ''crm''\<rparr>,
     tool_Tenant = \<lparr>t_Id = ''t1'', t_Slug = ''acme'', t_Name = [], t_Status = []\<rparr>,
     tool_Toolset = \<lparr>ts_Id = ''k1'', ts_Name = ''core'', ts_Priority = 1, ts_TokenBudget = 0, ts_TtlMs = 0\<rparr>,
     tool_ToolsetPriority = 1\<rparr>"

definition wit_av :: PrincipalView where
  "wit_av = \<lparr>pv_Principal = wit_who False [], pv_Tenant = Some (tool_Tenant wit_void),
     pv_Tenants = [tool_Tenant wit_void], pv_Tools = [wit_void], pv_names = [''crm.void''],
     pv_byQualifiedName = [''crm.void'' \<mapsto> wit_void], pv_callable = (\<lambda>n. n = ''crm.void''), pv_Policies = [],
     pv_pluginsByHook = (\<lambda>_. []), pv_TTLMs = 0, pv_TokenEstimate = 1\<rparr>"

definition wit_caller :: Caller where
  "wit_caller = \<lparr>cl_ID = ''u1'', cl_Subject = ''ann'', cl_Groups = [], cl_Claims = [], cl_Tenant = ''acme''\<rparr>"

definition wit_req :: "string \<Rightarrow> CallRequest" where
  "wit_req token = \<lparr>cq_Scope = Some wit_caller, cq_Header = None, cq_Arguments = Some (JObj []),
     cq_Meta = [], cq_RequestState = token, cq_InputResponses = []\<rparr>"

text \<open>A step-up plugin that defers the first call, and a mutating one over a backend that asks.\<close>

definition wit_stepup :: Pipeline where
  "wit_stepup = \<lparr>pl_OnCatalog = (\<lambda>_. Inr \<lparr>cd_Tools = None, cd_IdentityFiltered = False\<rparr>),
     pl_OnToolCall = (\<lambda>rq. Inr \<lparr>tc_Decision = (if tq_RequestState rq = [] then ''defer'' else ''allow''), tc_Reason = [],
       tc_Arguments = None, tc_InputRequests = [(''ok'', JNull)], tc_RequestState = ''st''\<rparr>),
     pl_OnToolResult = (\<lambda>_. Inr \<lparr>trd_Decision = ''allow'', trd_Reason = [], trd_Result = None\<rparr>)\<rparr>"

definition wit_env :: "Pipeline \<Rightarrow> StateCodec \<Rightarrow> nat EdgeEnv" where
  "wit_env pl codec = \<lparr>ee_Pipeline = Some pl,
     ee_CallTool = (\<lambda>n call who. (Suc n, Inr (empty_result\<lparr>cr_InputRequests := [(''pin'', JNull)],
       cr_RequestState := ''b''\<rparr>))),
     ee_DriftGuard = None, ee_Resolve = (\<lambda>_. Inl Unauthenticated),
     ee_NeedsInput = (\<lambda>r. cr_InputRequests r \<noteq> []), ee_RFC3339 = (\<lambda>_. []),
     ee_Codec = codec, ee_Signer = Some ''k'', ee_now = 7 * second, ee_nonce = Some ''n''\<rparr>"

lemma wit_first_call:
  "Callable wit_av ''crm.void''" "principalFor (ee_Resolve (wit_env pl c)) (wit_req token) = Inr wit_caller"
  "not_drifted (wit_env pl c) wit_void" "cq_RequestState (wit_req token) = token"
  by (simp_all add: Callable_def wit_av_def principalFor_def wit_req_def wit_caller_def not_drifted_def wit_env_def)

lemma wit_json_inverse: "json_inverse wit_codec"
  by (simp add: json_inverse_def wit_codec_def)


text \<open>A backend's request for input is bound to the arguments the pipeline left, not to those the
  client sent: when a plugin has changed them, the client's honest retry of its own call is never
  accepted, by any tool at any time, and nothing runs.\<close>

theorem mutated_call_cannot_be_confirmed:
  assumes env: "json_inverse (ee_Codec env)" "ee_Signer env = Some key"
    and first: "admitted_call env av tool name req who retry arguments"
      "argsDigest (ee_Codec env) arguments \<notin> {[], argsDigest (ee_Codec env) (cq_Arguments req)}"
      "ee_CallTool env s (outbound_call tool arguments meta retry req) who = (s1, Inr bres)"
      "ee_NeedsInput env bres" "an_Result (toolHandler env av tool name meta req s) = Inr res"
    and second: "cq_Arguments req' = cq_Arguments req" "cq_RequestState req' = cr_RequestState res"
      "again = toolHandler (env\<lparr>ee_now := later\<rparr>) av' tool' name' meta' req' s'"
  shows "an_Events again = []"
proof -
  obtain p where p: "Callable av name" "principalFor (ee_Resolve env) req = Inr p"
    "who = p\<lparr>cl_Tenant := t_Slug (tool_Tenant tool)\<rparr>" "not_drifted env tool"
    "verified_retry env tool req (cl_Subject who) retry"
    and pp: "pipeline_passes env av tool req who retry arguments"
    using first(1) unfolding admitted_call_def by (elim conjE exE)
  from review_call_passes [OF pp, of meta s] obtain events where
    "review_call env av tool meta req who retry s = dispatch env av tool meta req who retry arguments events s"
    by (elim exE conjE)
  then have "wrapBackendInputRequest env tool (cl_Subject who) (t_Slug (tool_Tenant tool)) arguments bres = Inr res"
    using first(3-5) unfolding toolHandler_reviewed [OF p]
    by (auto simp: dispatch_def finish_call_def Let_def split: sum.splits)
  then have t: "backend_token (ee_Codec env) (Some key) (ee_now env) (ee_nonce env) (Tool_QualifiedName tool)
      (cl_Subject who) (t_Slug (tool_Tenant tool)) arguments (cr_RequestState bres) = Inr (cr_RequestState res)"
    using env(2) by (auto simp: wrapBackendInputRequest_def bind_result_Inr)
  then have ne: "cr_RequestState res \<noteq> []"
    by (auto simp: backend_token_def Wrap_not_Nil)
  have nv: "\<not> verified_retry (env\<lparr>ee_now := later\<rparr>) tool' req' subject r" for subject r
    using ne backend_request_honoured [OF env(1) t] first(2) env(2)
    by (auto simp: verified_retry_def second(1,2) honoured_def)
  show ?thesis
    unfolding second(3) by (rule toolHandler_refused [THEN conjunct1]) (use nv in blast)
qed

definition wit_codec2 :: StateCodec where
  "wit_codec2 = (let e = \<lparr>se_Version = ''mcpd1'', se_Tenant = ''acme'', se_Tool = ''crm.void'',
        se_Principal = ''ann'', se_ArgsDigest = b64_encode ''{1}'', se_Source = ''backend'', se_Backend = ''b'',
        se_Plugin = [], se_IssuedAt = 7, se_Nonce = b64_encode ''n''\<rparr>
     in wit_codec\<lparr>sc_marshal := (\<lambda>e'. if e' = e then Some ''E'' else None), sc_unmarshal := (\<lambda>b. Some e)\<rparr>)"

definition wit_mutator :: Pipeline where
  "wit_mutator = wit_stepup\<lparr>pl_OnToolCall := (\<lambda>rq. Inr \<lparr>tc_Decision = ''mutate'', tc_Reason = [],
     tc_Arguments = Some JNull, tc_InputRequests = [], tc_RequestState = []\<rparr>)\<rparr>"

theorem mutated_call_cannot_be_confirmed_witness:
  "\<exists>res. an_Result (toolHandler (wit_env wit_mutator wit_codec2) wit_av wit_void ''crm.void'' [] (wit_req []) 0) = Inr res \<and>
     an_Events (toolHandler (wit_env wit_mutator wit_codec2\<lparr>ee_now := 8 * second\<rparr>) wit_av wit_void ''crm.void'' []
       (wit_req (cr_RequestState res)) 0) = []"
proof -
  let ?e = "wit_env wit_mutator wit_codec2" and ?w = "wit_caller\<lparr>cl_Tenant := t_Slug (tool_Tenant wit_void)\<rparr>"
  let ?b = "empty_result\<lparr>cr_InputRequests := [(''pin'', JNull)], cr_RequestState := ''b''\<rparr>"
  have env: "json_inverse (ee_Codec ?e)" "ee_Signer ?e = Some ''k''" "ee_Codec ?e = wit_codec2"
    by (simp_all add: wit_env_def json_inverse_def wit_codec2_def Let_def)
  have adm: "admitted_call ?e wit_av wit_void ''crm.void'' (wit_req []) ?w no_retry (Some JNull)"
    unfolding admitted_call_def
  proof (intro conjI exI [of _ wit_caller] wit_first_call refl)
    show "verified_retry ?e wit_void (wit_req []) (cl_Subject ?w) no_retry"
      by (simp add: verified_retry_def wit_req_def)
    show "pipeline_passes ?e wit_av wit_void (wit_req []) ?w no_retry (Some JNull)"
      by (simp add: pipeline_passes_def wit_env_def wit_mutator_def Call_Denied_def Call_Deferred_def)
  qed
  have dig: "argsDigest (ee_Codec ?e) (Some JNull) \<notin> {[], argsDigest (ee_Codec ?e) (cq_Arguments (wit_req []))}"
    unfolding env(3) by (simp add: argsDigest_def wit_codec2_def wit_codec_def Let_def wit_req_def)
  have call: "ee_CallTool ?e 0 c ?w = (1, Inr ?b)" "ee_NeedsInput ?e ?b" for c
    by (simp_all add: wit_env_def)
  have tool: "Tool_QualifiedName wit_void = ''crm.void''" "t_Slug (tool_Tenant wit_void) = ''acme''"
    by (simp_all add: Tool_QualifiedName_def wit_void_def wit_tool_def_def)
  have "\<exists>res. wrapBackendInputRequest ?e wit_void (cl_Subject ?w) (t_Slug (tool_Tenant wit_void)) (Some JNull) ?b = Inr res"
    by (simp add: wrapBackendInputRequest_def backend_token_def Wrap_def call_envelope_def argsDigest_def
        wit_codec2_def wit_codec_def Let_def bind_result_def second_def stateVersion_def SourceBackend_def
        wit_env_def tool wit_caller_def del: b64_encode.simps)
  then obtain res where w: "wrapBackendInputRequest ?e wit_void (cl_Subject ?w) (t_Slug (tool_Tenant wit_void))
      (Some JNull) ?b = Inr res" by (elim exE)
  obtain p where p: "Callable wit_av ''crm.void''" "principalFor (ee_Resolve ?e) (wit_req []) = Inr p"
    "?w = p\<lparr>cl_Tenant := t_Slug (tool_Tenant wit_void)\<rparr>" "not_drifted ?e wit_void"
    "verified_retry ?e wit_void (wit_req []) (cl_Subject ?w) no_retry"
    and pp: "pipeline_passes ?e wit_av wit_void (wit_req []) ?w no_retry (Some JNull)"
    using adm unfolding admitted_call_def by (elim conjE exE)
  have r: "an_Result (toolHandler ?e wit_av wit_void ''crm.void'' [] (wit_req []) 0) = Inr res"
    unfolding toolHandler_reviewed [OF p] using review_call_passes [OF pp, of "[]" 0] w call
    by (auto simp: dispatch_def finish_call_def Let_def)
  have "an_Events (toolHandler (?e\<lparr>ee_now := 8 * second\<rparr>) wit_av wit_void ''crm.void'' []
       (wit_req (cr_RequestState res)) 0) = []"
    by (rule mutated_call_cannot_be_confirmed [OF env(1,2) adm dig call r _ _ refl])
      (simp_all add: wit_req_def)
  with r show ?thesis by (intro exI conjI)
qed

end
