(* ===== verification/Backend_Breaker.thy ===== *)
theory Backend_Breaker
  imports Breaker_Contract
begin

section \<open>The backend circuit breaker (internal/dataplane/backends/breaker.go)\<close>

text \<open>
  A consecutive-failure breaker with an explicit half-open state. Each operation holds the mutex
  throughout, so it is one atomic step on the record; the clock reading is an argument.
\<close>

datatype State = StateClosed | StateOpen | StateHalfOpen

definition State_String :: "State \<Rightarrow> string" where
  "State_String s =
     (case s of StateOpen \<Rightarrow> ''open'' | StateHalfOpen \<Rightarrow> ''half_open'' | StateClosed \<Rightarrow> ''closed'')"

record breaker =
  br_threshold :: int
  br_cooldown :: int
  br_consecutive :: int
  br_state :: State
  br_openedAt :: int
  br_probeInFlight :: bool

definition newBreaker :: "int \<Rightarrow> int \<Rightarrow> breaker" where
  "newBreaker threshold cooldown =
     \<lparr>br_threshold = (if threshold < 1 then 1 else threshold), br_cooldown = cooldown,
      br_consecutive = 0, br_state = StateClosed, br_openedAt = 0, br_probeInFlight = False\<rparr>"

definition Allow :: "int \<Rightarrow> breaker \<Rightarrow> bool \<times> breaker" where
  "Allow now b =
     (case br_state b of
        StateClosed \<Rightarrow> (True, b)
      | StateOpen \<Rightarrow>
          if now - br_openedAt b < br_cooldown b then (False, b)
          else (True, b\<lparr>br_state := StateHalfOpen, br_probeInFlight := True\<rparr>)
      | StateHalfOpen \<Rightarrow>
          if br_probeInFlight b then (False, b)
          else (True, b\<lparr>br_probeInFlight := True\<rparr>))"

definition Success :: "breaker \<Rightarrow> breaker" where
  "Success b = b\<lparr>br_consecutive := 0, br_state := StateClosed, br_probeInFlight := False\<rparr>"

definition Failure :: "int \<Rightarrow> breaker \<Rightarrow> breaker" where
  "Failure now b =
     (if br_state b = StateHalfOpen
      then b\<lparr>br_state := StateOpen, br_openedAt := now, br_probeInFlight := False\<rparr>
      else
        let b' = b\<lparr>br_consecutive := br_consecutive b + 1\<rparr>
        in if br_consecutive b' \<ge> br_threshold b'
           then b'\<lparr>br_state := StateOpen, br_openedAt := now, br_probeInFlight := False\<rparr>
           else b')"

definition StateOf :: "int \<Rightarrow> breaker \<Rightarrow> State" where
  "StateOf now b =
     (if br_state b = StateOpen \<and> now - br_openedAt b \<ge> br_cooldown b then StateHalfOpen
      else br_state b)"

text \<open>\<open>None\<close> is the zero time.\<close>

definition OpenUntil :: "breaker \<Rightarrow> int option" where
  "OpenUntil b =
     (if br_state b \<noteq> StateOpen then None else Some (br_openedAt b + br_cooldown b))"

definition Consecutive :: "breaker \<Rightarrow> int" where
  "Consecutive b = br_consecutive b"

subsection \<open>The invariant and the contract\<close>

text \<open>Half-open always has its probe in flight, so the free half-open slot of \<open>Allow\<close> is never met;
  the breaker is closed exactly while the count is below the threshold.\<close>

definition breaker_inv :: "breaker \<Rightarrow> bool" where
  "breaker_inv b =
     (1 \<le> br_threshold b \<and> (br_probeInFlight b \<longleftrightarrow> br_state b = StateHalfOpen) \<and>
      (br_state b = StateClosed \<longleftrightarrow> br_consecutive b < br_threshold b))"

definition is_closed :: "breaker \<Rightarrow> bool" where
  "is_closed b = (br_state b = StateClosed)"

definition retry_time :: "breaker \<Rightarrow> int" where
  "retry_time b = br_openedAt b + br_cooldown b"

lemmas breaker_ops = Allow_def Success_def Failure_def Let_def
lemmas breaker_obs = breaker_inv_def is_closed_def retry_time_def

lemma newBreaker_inv: "breaker_inv (newBreaker threshold cooldown)"
  by (simp add: newBreaker_def breaker_inv_def)

interpretation backend: circuit_breaker Allow Success Failure breaker_inv is_closed
  br_probeInFlight retry_time br_threshold br_consecutive br_cooldown
  by unfold_locales
     (auto simp: breaker_ops breaker_obs split: State.splits if_splits)

lemma reachable_inv: "breaker_inv (backend.run es (newBreaker threshold cooldown))"
  by (rule backend.inv_run [OF newBreaker_inv])

subsection \<open>Properties\<close>

text \<open>A new breaker stays closed for fewer than \<open>threshold\<close> consecutive failures (a threshold
  below one counts as one) and is open after that many or more, whenever they happen.\<close>

theorem backend_breaker_opens_at_threshold:
  "br_state (backend.run (map Fail ts) (newBreaker threshold cooldown)) =
     (if int (length ts) < max 1 threshold then StateClosed else StateOpen)"
proof -
  let ?b = "newBreaker threshold cooldown" and ?c = "backend.run (map Fail ts) (newBreaker threshold cooldown)"
  have b: "breaker_inv ?b" "\<not> br_probeInFlight ?b"
    by (simp_all add: newBreaker_inv) (simp add: newBreaker_def)
  have "is_closed ?c \<longleftrightarrow> int (length ts) < max 1 threshold"
    using backend.opens_at_limit [OF b, of ts] by (auto simp: newBreaker_def max_def)
  moreover have "br_state ?c \<noteq> StateHalfOpen"
    using backend.failures_count [OF b, of ts] reachable_inv [of "map Fail ts"]
    by (auto simp: breaker_inv_def)
  ultimately show ?thesis by (cases "br_state ?c") (auto simp: is_closed_def split: if_splits)
qed

text \<open>C27: whatever happened before, a breaker that is not closed lets at most one request through
  until it is told an outcome: a burst of requests, at any times, cannot hammer a recovering
  backend.\<close>

theorem backend_breaker_single_probe:
  assumes "b = backend.run es (newBreaker threshold cooldown)" and "br_state b \<noteq> StateClosed"
  shows "backend.granted (map Req instants) b \<le> 1"
  using assms reachable_inv
  by (intro backend.single_probe) (auto simp: is_closed_def)

theorem backend_breaker_single_probe_witness:
  "backend.granted (map Req [31, 32, 40]) (backend.run [Fail 0, Fail 1] (newBreaker 2 30)) = 1"
proof -
  have "br_state (backend.run [Fail 0, Fail 1] (newBreaker 2 30)) \<noteq> StateClosed"
    by (simp add: newBreaker_def Failure_def)
  from backend_breaker_single_probe [OF refl this]
  have "backend.granted (map Req [31, 32, 40]) (backend.run [Fail 0, Fail 1] (newBreaker 2 30)) \<le> 1" .
  moreover have "1 \<le> backend.granted (map Req [31, 32, 40]) (backend.run [Fail 0, Fail 1] (newBreaker 2 30))"
    by (simp add: newBreaker_def Failure_def Allow_def)
  ultimately show ?thesis by simp
qed

text \<open>C36: an open breaker keeps its promise to the client. No request is let through before the
  instant \<open>OpenUntil\<close> reports, even while failures of earlier requests keep arriving after it
  opened; a request at that instant or later is let through, and its success closes the breaker.\<close>

theorem backend_breaker_honours_open_until:
  assumes "b = backend.run es (newBreaker threshold cooldown)" and "OpenUntil b = Some until"
  shows "((\<forall>t. Req t \<in> set later \<longrightarrow> t < until) \<and> (\<forall>t. Fail t \<in> set later \<longrightarrow> br_openedAt b \<le> t) \<and>
            Ok \<notin> set later \<longrightarrow> backend.granted later b = 0) \<and>
         (until \<le> t \<longrightarrow> backend.granted [Req t] b = 1 \<and>
            br_state (backend.run [Req t, Ok] b) = StateClosed)"
proof -
  have b: "breaker_inv b" "\<not> is_closed b" "\<not> br_probeInFlight b" and u: "until = retry_time b"
    using assms reachable_inv [of es threshold cooldown]
    by (auto simp: OpenUntil_def is_closed_def breaker_inv_def retry_time_def split: if_splits)
  show ?thesis
  proof (intro conjI impI)
    assume "(\<forall>t. Req t \<in> set later \<longrightarrow> t < until) \<and>
      (\<forall>t. Fail t \<in> set later \<longrightarrow> br_openedAt b \<le> t) \<and> Ok \<notin> set later"
    then show "backend.granted later b = 0"
      using backend.cooldown_refuses [OF b(1,2), of until later] u by (auto simp: retry_time_def)
  qed (use backend.recovers [OF b] u in \<open>simp_all add: is_closed_def\<close>)
qed

theorem backend_breaker_honours_open_until_witness:
  "backend.granted [Req 20, Fail 21, Req 30] (backend.run [Fail 0, Fail 1] (newBreaker 2 30)) = 0 \<and>
   backend.granted [Req 31] (backend.run [Fail 0, Fail 1] (newBreaker 2 30)) = 1"
proof -
  have o: "OpenUntil (backend.run [Fail 0, Fail 1] (newBreaker 2 30)) = Some 31"
    and a: "br_openedAt (backend.run [Fail 0, Fail 1] (newBreaker 2 30)) = 1"
    by (simp_all add: newBreaker_def Failure_def OpenUntil_def)
  show ?thesis
    using backend_breaker_honours_open_until [OF refl o, of "[Req 20, Fail 21, Req 30]" 31] a
    by auto
qed

end
