(* ===== verification/Backend_Pool.thy ===== *)
theory Backend_Pool
  imports Edge_Dispatch_Props Backend_Breaker
begin

section \<open>The backend pool (internal/dataplane/backends/pool.go)\<close>

text \<open>
  One entry per backend and tenant, with its session, its breaker and its cached credentials. What
  is outside the process is the record \<open>Net\<close>: connecting, calling, listing and the token exchange
  act on the world \<open>'w\<close>, whose clock \<open>nt_now\<close> reads; \<open>'c\<close> is a client session of the SDK. The pool is an
  association list keyed by target. Every access to an entry holds its lock, and \<open>session\<close> is split
  where it releases it, so that two callers dialling at once are covered.
\<close>

record Credential =
  cr_Header :: string
  cr_Value :: string
  cr_Extra :: "(string \<times> string) list"
  cr_ExpiresAt :: "int option"

definition no_credential :: Credential where
  "no_credential = \<lparr>cr_Header = [], cr_Value = [], cr_Extra = [], cr_ExpiresAt = None\<rparr>"

record CallToolParams =
  cp_Name :: string
  cp_Arguments :: "json option"
  cp_RequestState :: string
  cp_InputResponses :: "(string \<times> json) list"
  cp_Meta :: "(string \<times> json) list"

record ('w, 'c) Net =
  nt_now :: "'w \<Rightarrow> int"
  nt_Exchange :: "(Server \<Rightarrow> Caller \<Rightarrow> 'w \<Rightarrow> 'w \<times> (GoError + Credential)) option"
  nt_Connect :: "string \<Rightarrow> Credential \<Rightarrow> 'w \<Rightarrow> 'w \<times> (GoError + 'c \<times> string)"
  nt_CallTool :: "'c \<Rightarrow> CallToolParams \<Rightarrow> 'w \<Rightarrow> 'w \<times> (GoError + CallToolResult)"
  nt_ListTools :: "'c \<Rightarrow> string \<Rightarrow> 'w \<Rightarrow> 'w \<times> (GoError + MCPTool list \<times> string)"
  nt_Close :: "'c \<Rightarrow> 'w \<Rightarrow> 'w"

record PoolOptions =
  po_FailureThreshold :: int
  po_Cooldown :: int

definition pool_New :: "PoolOptions \<Rightarrow> PoolOptions" where
  "pool_New opts =
     \<lparr>po_FailureThreshold = (if po_FailureThreshold opts < 1 then 5 else po_FailureThreshold opts),
      po_Cooldown = (if po_Cooldown opts \<le> 0 then 30 * second else po_Cooldown opts)\<rparr>"

record 'c entry =
  pe_server :: Server
  pe_endpoint :: string
  pe_session :: "'c option"
  pe_negotiated :: string
  pe_connectErr :: "GoError option"
  pe_breaker :: breaker
  pe_creds :: "(string \<times> Credential) list"

type_synonym 'c Pool = "(Target \<times> 'c entry) list"

definition Target_String :: "Target \<Rightarrow> string" where
  "Target_String = (\<lambda>(serverID, tenantID). serverID @ ''@'' @ tenantID)"

subsection \<open>Reconciling with a snapshot\<close>

definition newEntry :: "PoolOptions \<Rightarrow> Server \<Rightarrow> string \<Rightarrow> 'c entry" where
  "newEntry opts s endpoint =
     (let threshold =
            (case srv_Health s of
               None \<Rightarrow> po_FailureThreshold opts
             | Some h \<Rightarrow> if hp_EjectAfterFailures h > 0 then hp_EjectAfterFailures h else po_FailureThreshold opts)
      in \<lparr>pe_server = s, pe_endpoint = endpoint, pe_session = None, pe_negotiated = [], pe_connectErr = None,
          pe_breaker = newBreaker threshold (po_Cooldown opts), pe_creds = []\<rparr>)"

definition add_wanted :: "Server \<Rightarrow> (Target \<times> Server \<times> string) list \<Rightarrow> (Target \<times> Server \<times> string) list" where
  "add_wanted s wanted =
     fold (\<lambda>b. AList.update (srv_Id s, bd_TenantId b) (s, bd_Primary b)) (srv_Bindings s) wanted"

definition wanted_targets :: "Server list \<Rightarrow> (Target \<times> Server \<times> string) list" where
  "wanted_targets servers = fold add_wanted servers []"

text \<open>One held entry: dropped, replaced or kept; a dropped or replaced one is closed.\<close>

definition sync_entry ::
  "PoolOptions \<Rightarrow> (Target \<times> Server \<times> string) list \<Rightarrow> Target \<times> 'c entry \<Rightarrow> 'c Pool" where
  "sync_entry opts wanted = (\<lambda>(target, e).
     case map_of wanted target of
       None \<Rightarrow> []
     | Some (server, endpoint) \<Rightarrow>
         if endpoint \<noteq> pe_endpoint e then [(target, newEntry opts server endpoint)]
         else [(target, e\<lparr>pe_server := server\<rparr>)])"

definition closes :: "(Target \<times> Server \<times> string) list \<Rightarrow> Target \<times> 'c entry \<Rightarrow> 'c list" where
  "closes wanted = (\<lambda>(target, e).
     case map_of wanted target of
       Some (server, endpoint) \<Rightarrow>
         if endpoint \<noteq> pe_endpoint e then (case pe_session e of None \<Rightarrow> [] | Some c \<Rightarrow> [c]) else []
     | None \<Rightarrow> (case pe_session e of None \<Rightarrow> [] | Some c \<Rightarrow> [c]))"

definition missing_entries ::
  "PoolOptions \<Rightarrow> 'c Pool \<Rightarrow> Target \<times> Server \<times> string \<Rightarrow> 'c Pool" where
  "missing_entries opts pool = (\<lambda>(target, server, endpoint).
     case map_of pool target of Some _ \<Rightarrow> [] | None \<Rightarrow> [(target, newEntry opts server endpoint)])"

definition Sync ::
  "PoolOptions \<Rightarrow> ('w, 'c) Net \<Rightarrow> Server list \<Rightarrow> 'c Pool \<times> 'w \<Rightarrow> 'c Pool \<times> 'w" where
  "Sync opts net servers = (\<lambda>(pool, w).
     let wanted = wanted_targets servers;
         w = fold (nt_Close net) (concat (map (closes wanted) pool)) w;
         kept = concat (map (sync_entry opts wanted) pool)
     in (kept @ concat (map (missing_entries opts kept) wanted), w))"

definition pool_Close :: "('w, 'c) Net \<Rightarrow> 'c Pool \<times> 'w \<Rightarrow> 'c Pool \<times> 'w" where
  "pool_Close net = (\<lambda>(pool, w). ([], fold (nt_Close net) (concat (map (closes []) pool)) w))"

definition Targets :: "'c Pool \<Rightarrow> Target list" where
  "Targets pool = map fst pool"

definition entryFor :: "Target \<Rightarrow> 'c Pool \<Rightarrow> 'c entry option" where
  "entryFor target pool = map_of pool target"

definition NegotiatedVersion :: "Target \<Rightarrow> 'c Pool \<Rightarrow> string" where
  "NegotiatedVersion target pool = (case entryFor target pool of None \<Rightarrow> [] | Some e \<Rightarrow> pe_negotiated e)"

definition pool_CircuitState :: "int \<Rightarrow> Target \<Rightarrow> 'c Pool \<Rightarrow> State" where
  "pool_CircuitState t target pool =
     (case entryFor target pool of None \<Rightarrow> StateClosed | Some e \<Rightarrow> StateOf t (pe_breaker e))"

subsection \<open>Sessions and credentials\<close>

definition cached_credential :: "int \<Rightarrow> Caller \<Rightarrow> 'c entry \<Rightarrow> Credential option" where
  "cached_credential t who e =
     (case map_of (pe_creds e) (cl_Subject who) of
        None \<Rightarrow> None
      | Some c \<Rightarrow>
          (case cr_ExpiresAt c of
             None \<Rightarrow> Some c
           | Some expires \<Rightarrow> if expires - t > 30 * second then Some c else None))"

definition credential ::
  "('w, 'c) Net \<Rightarrow> Caller \<Rightarrow> 'c entry \<times> 'w \<Rightarrow> ('c entry \<times> 'w) \<times> (GoError + Credential)" where
  "credential net who = (\<lambda>(e, w).
     case (srv_TokenExchange (pe_server e), nt_Exchange net) of
       (Some _, Some exchange) \<Rightarrow>
         (case cached_credential (nt_now net w) who e of
            Some c \<Rightarrow> ((e, w), Inr c)
          | None \<Rightarrow>
              (case exchange (pe_server e) who w of
                 (w, Inl err) \<Rightarrow>
                   ((e, w), Inl (Wrapped (''backends: '' @ srv_Name (pe_server e) @ '': token exchange'') err))
               | (w, Inr c) \<Rightarrow>
                   ((e\<lparr>pe_creds := AList.update (cl_Subject who) c (pe_creds e)\<rparr>, w), Inr c)))
     | _ \<Rightarrow> ((e, w), Inr no_credential))"

text \<open>After the dial, the entry as it is found then: a session somebody else won is kept.\<close>

definition install_session ::
  "('w, 'c) Net \<Rightarrow> 'c \<Rightarrow> string \<Rightarrow> 'c entry \<times> 'w \<Rightarrow> ('c entry \<times> 'w) \<times> 'c" where
  "install_session net c negotiated = (\<lambda>(e, w).
     case pe_session e of
       Some other \<Rightarrow> ((e, nt_Close net c w), other)
     | None \<Rightarrow> ((e\<lparr>pe_session := Some c, pe_negotiated := negotiated, pe_connectErr := None\<rparr>, w), c))"

definition session ::
  "('w, 'c) Net \<Rightarrow> Caller \<Rightarrow> 'c entry \<times> 'w \<Rightarrow> ('c entry \<times> 'w) \<times> (GoError + 'c)" where
  "session net who = (\<lambda>(e, w).
     case pe_session e of
       Some c \<Rightarrow> ((e, w), Inr c)
     | None \<Rightarrow>
         (case credential net who (e, w) of
            ((e, w), Inl err) \<Rightarrow> ((e, w), Inl err)
          | ((e, w), Inr cred) \<Rightarrow>
              (case nt_Connect net (pe_endpoint e) cred w of
                 (w, Inl err) \<Rightarrow>
                   ((e\<lparr>pe_connectErr := Some err\<rparr>, w), Inl (ErrNotConnected (srv_Name (pe_server e)) err))
               | (w, Inr (c, negotiated)) \<Rightarrow>
                   (case install_session net c negotiated (e, w) of (ew, c) \<Rightarrow> (ew, Inr c)))))"

text \<open>Only the exchanged credential is added to an outbound request.\<close>

definition header_set :: "string \<Rightarrow> string \<Rightarrow> Header \<Rightarrow> Header" where
  "header_set name v h = AList.update (CanonicalHeaderKey name) [v] h"

definition RoundTrip :: "Credential \<Rightarrow> Header \<Rightarrow> Header" where
  "RoundTrip cred header =
     (let out = (if cr_Value cred \<noteq> []
                 then header_set (if cr_Header cred = [] then ''Authorization'' else cr_Header cred)
                        (cr_Value cred) header
                 else header)
      in fold (\<lambda>(k, v). header_set k v) (cr_Extra cred) out)"

definition credentialedClient :: "Credential \<Rightarrow> Header \<Rightarrow> Header" where
  "credentialedClient cred header =
     (if cr_Value cred = [] \<and> cr_Extra cred = [] then header else RoundTrip cred header)"

subsection \<open>Calls\<close>

definition call_params :: "Call \<Rightarrow> CallToolParams" where
  "call_params call =
     \<lparr>cp_Name = ca_ToolName call, cp_Arguments = ca_Arguments call, cp_RequestState = ca_RequestState call,
      cp_InputResponses = ca_InputResponses call, cp_Meta = ca_Meta call\<rparr>"

definition call_entry ::
  "('w, 'c) Net \<Rightarrow> Call \<Rightarrow> Caller \<Rightarrow> 'c entry \<times> 'w \<Rightarrow> ('c entry \<times> 'w) \<times> (GoError + CallToolResult)" where
  "call_entry net call who = (\<lambda>(e, w).
     case Allow (nt_now net w) (pe_breaker e) of
       (False, b) \<Rightarrow>
         ((e\<lparr>pe_breaker := b\<rparr>, w), Inl (ErrCircuitOpen (srv_Name (pe_server e)) (OpenUntil b)))
     | (True, b) \<Rightarrow>
         (case session net who (e\<lparr>pe_breaker := b\<rparr>, w) of
            ((e, w), Inl err) \<Rightarrow>
              ((e\<lparr>pe_breaker := Failure (nt_now net w) (pe_breaker e)\<rparr>, w), Inl err)
          | ((e, w), Inr c) \<Rightarrow>
              (case nt_CallTool net c (call_params call) w of
                 (w, Inl err) \<Rightarrow>
                   ((e\<lparr>pe_breaker := Failure (nt_now net w) (pe_breaker e)\<rparr>, w),
                    Inl (Wrapped (''backends: '' @ srv_Name (pe_server e) @ '': calling '' @ ca_ToolName call) err))
               | (w, Inr res) \<Rightarrow>
                   ((e\<lparr>pe_breaker := Success (pe_breaker e)\<rparr>, w), Inr res))))"

definition pool_CallTool ::
  "('w, 'c) Net \<Rightarrow> 'c Pool \<times> 'w \<Rightarrow> Call \<Rightarrow> Caller \<Rightarrow> ('c Pool \<times> 'w) \<times> (GoError + CallToolResult)" where
  "pool_CallTool net = (\<lambda>(pool, w) call who.
     case entryFor (ca_Target call) pool of
       None \<Rightarrow> ((pool, w), Inl (ErrNotConnected (Target_String (ca_Target call)) (OtherError ''no pool entry'')))
     | Some e \<Rightarrow>
         (case call_entry net call who (e, w) of
            ((e, w), r) \<Rightarrow> ((AList.update (ca_Target call) e pool, w), r)))"

text \<open>The prober's listing. A backend that pages for ever makes it run for ever: no value.\<close>

definition maxToolsPerBackend :: nat where "maxToolsPerBackend = 10000"

partial_function (option) list_pages ::
  "('w, 'c) Net \<Rightarrow> string \<Rightarrow> 'c \<Rightarrow> string \<Rightarrow> MCPTool list \<Rightarrow> 'w \<Rightarrow> ('w \<times> (GoError + MCPTool list)) option" where
  "list_pages net name c cursor out w =
     (case nt_ListTools net c cursor w of
        (w, Inl err) \<Rightarrow> Some (w, Inl (Wrapped (''backends: '' @ name @ '': listing tools'') err))
      | (w, Inr (tools, next)) \<Rightarrow>
          let out = out @ tools
          in if next = [] then Some (w, Inr out)
             else if length out > maxToolsPerBackend
             then Some (w, Inl (OtherError (''backends: '' @ name @ '': returned too many tools; refusing to page further'')))
             else list_pages net name c next out w)"

definition pool_ListTools ::
  "('w, 'c) Net \<Rightarrow> 'c Pool \<times> 'w \<Rightarrow> Target \<Rightarrow> Caller \<Rightarrow> (('c Pool \<times> 'w) \<times> (GoError + MCPTool list)) option" where
  "pool_ListTools net = (\<lambda>(pool, w) target who.
     case entryFor target pool of
       None \<Rightarrow> Some ((pool, w), Inl (ErrNotConnected (Target_String target) (OtherError ''no pool entry'')))
     | Some e \<Rightarrow>
         (case session net who (e, w) of
            ((e, w), Inl err) \<Rightarrow> Some ((AList.update target e pool, w), Inl err)
          | ((e, w), Inr c) \<Rightarrow>
              map_option (\<lambda>(w, r). ((AList.update target e pool, w), r))
                (list_pages net (srv_Name (pe_server e)) c [] [] w)))"

end
