(* ===== verification/Backend_Pool_Props.thy ===== *)
theory Backend_Pool_Props
  imports Backend_Pool
begin

section \<open>Properties of the backend pool\<close>

text \<open>
  The pool holds one entry per wanted target after a \<open>Sync\<close>; a call keeps the pool's invariant and
  touches its own target only, which is the contract \<open>backend_pool\<close> the edge's handler relies on.
\<close>

subsection \<open>What a call does to its entry\<close>

lemma credential_frame:
  "credential net who (e, w) = ((e', w'), r) \<Longrightarrow>
     pe_server e' = pe_server e \<and> pe_endpoint e' = pe_endpoint e \<and> pe_session e' = pe_session e \<and>
     pe_breaker e' = pe_breaker e"
  by (auto simp: credential_def split: option.splits prod.splits sum.splits)

lemma session_frame:
  assumes "session net who (e, w) = ((e', w'), r)"
  shows "pe_server e' = pe_server e \<and> pe_endpoint e' = pe_endpoint e \<and> pe_breaker e' = pe_breaker e \<and>
     (case r of Inr c \<Rightarrow> pe_session e' = Some c | Inl _ \<Rightarrow> pe_session e' = None)"
proof (cases "pe_session e")
  case None
  obtain e1 w1 r1 where c: "credential net who (e, w) = ((e1, w1), r1)"
    by (metis prod.collapse)
  from credential_frame [OF c] None c assms show ?thesis
    by (auto simp: session_def install_session_def split: sum.splits prod.splits)
qed (use assms in \<open>auto simp: session_def\<close>)

lemma session_held: "pe_session e = Some c \<Longrightarrow> session net who (e, w) = ((e, w), Inr c)"
  by (simp add: session_def)

definition entry_inv :: "'c entry \<Rightarrow> bool" where
  "entry_inv e \<longleftrightarrow> breaker_inv (pe_breaker e) \<and> \<not> br_probeInFlight (pe_breaker e)"

text \<open>What the outcome of a call does to the breaker, and when the network is not touched.\<close>

lemma call_entry_outcome:
  assumes "call_entry net call who (e, w) = ((e', w'), r)"
  shows "pe_server e' = pe_server e \<and> pe_endpoint e' = pe_endpoint e \<and>
    (if \<not> fst (Allow (nt_now net w) (pe_breaker e))
     then w' = w \<and> r = Inl (ErrCircuitOpen (srv_Name (pe_server e)) (OpenUntil (pe_breaker e'))) \<and>
       pe_breaker e' = snd (Allow (nt_now net w) (pe_breaker e))
     else
       (case r of
          Inr _ \<Rightarrow> pe_breaker e' = Success (snd (Allow (nt_now net w) (pe_breaker e)))
        | Inl _ \<Rightarrow> \<exists>t. pe_breaker e' = Failure t (snd (Allow (nt_now net w) (pe_breaker e)))))"
proof -
  obtain ok b where a: "Allow (nt_now net w) (pe_breaker e) = (ok, b)" by (cases "Allow (nt_now net w) (pe_breaker e)")
  obtain e1 w1 r1 where s: "session net who (e\<lparr>pe_breaker := b\<rparr>, w) = ((e1, w1), r1)"
    by (metis prod.collapse)
  from session_frame [OF s] assms a s show ?thesis
    by (cases ok; cases r1) (auto simp: call_entry_def split: sum.splits prod.splits)
qed

lemma Allow_refused_inv:
  "breaker_inv b \<Longrightarrow> \<not> br_probeInFlight b \<Longrightarrow> \<not> fst (Allow t b) \<Longrightarrow> snd (Allow t b) = b"
  by (simp add: backend.allow_refused)

lemma call_entry_inv:
  assumes "call_entry net call who (e, w) = ((e', w'), r)" and "entry_inv e"
  shows "entry_inv e'"
proof -
  let ?a = "Allow (nt_now net w) (pe_breaker e)"
  have b: "breaker_inv (snd ?a)" using assms(2) by (simp add: entry_inv_def backend.inv_allow)
  show ?thesis
  proof (cases "fst ?a")
    case True
    with call_entry_outcome [OF assms(1)] consider
      "pe_breaker e' = Success (snd ?a)" | t where "pe_breaker e' = Failure t (snd ?a)"
      by (cases r) auto
    then show ?thesis
    proof cases
      case 1
      with b show ?thesis by (simp add: entry_inv_def backend.inv_success) (simp add: Success_def)
    next
      case 2
      with b show ?thesis by (simp add: entry_inv_def backend.inv_failure backend.failure_idle)
    qed
  next
    case False
    with call_entry_outcome [OF assms(1)] assms(2) show ?thesis
      by (auto simp: entry_inv_def Allow_refused_inv)
  qed
qed

subsection \<open>The pool keeps the edge's contract\<close>

definition pool_inv :: "'c Pool \<times> 'w \<Rightarrow> bool" where
  "pool_inv = (\<lambda>(pool, w). distinct (map fst pool) \<and> (\<forall>(target, e)\<in>set pool. entry_inv e))"

definition pool_entry :: "Target \<Rightarrow> 'c Pool \<times> 'w \<Rightarrow> 'c entry option" where
  "pool_entry target = (\<lambda>(pool, w). entryFor target pool)"

lemma set_update_subset: "set (AList.update k v m) \<subseteq> insert (k, v) (set m)"
  by (induction m) auto

lemma pool_CallTool_entry:
  assumes "map_of pool (ca_Target call) = Some e" and "call_entry net call who (e, w) = ((e', w'), r)"
  shows "pool_CallTool net (pool, w) call who = ((AList.update (ca_Target call) e' pool, w'), r)"
  using assms by (simp add: pool_CallTool_def entryFor_def)

lemma pool_CallTool_none:
  "map_of pool (ca_Target call) = None \<Longrightarrow> fst (pool_CallTool net (pool, w) call who) = (pool, w)"
  by (simp add: pool_CallTool_def entryFor_def)

lemma pool_CallTool_cases:
  obtains "map_of pool (ca_Target call) = None" "fst (pool_CallTool net (pool, w) call who) = (pool, w)"
  | e e' w' r where "map_of pool (ca_Target call) = Some e" "call_entry net call who (e, w) = ((e', w'), r)"
    "pool_CallTool net (pool, w) call who = ((AList.update (ca_Target call) e' pool, w'), r)"
proof (cases "map_of pool (ca_Target call)")
  case None
  with that(1) pool_CallTool_none show ?thesis by metis
next
  case (Some e)
  obtain e' w' r where "call_entry net call who (e, w) = ((e', w'), r)" by (metis prod.collapse)
  with Some that(2) pool_CallTool_entry show ?thesis by metis
qed

lemma pool_CallTool_inv: "pool_inv pw \<Longrightarrow> pool_inv (fst (pool_CallTool net pw call who))"
proof (cases pw)
  case (Pair pool w)
  assume inv: "pool_inv pw"
  show ?thesis
  proof (cases rule: pool_CallTool_cases [of pool call net w who])
    case 1
    with inv Pair show ?thesis by simp
  next
    case (2 e e' w' r)
    have "entry_inv e" using inv Pair map_of_SomeD [OF 2(1)] by (auto simp: pool_inv_def)
    with 2(2) have "entry_inv e'" by (rule call_entry_inv)
    with inv Pair 2(3) set_update_subset [of "ca_Target call" e' pool] show ?thesis
      by (auto simp: pool_inv_def distinct_update)
  qed
qed

interpretation pool: backend_pool "pool_CallTool net" pool_entry pool_inv for net :: "('w, 'c) Net"
proof
  fix s :: "'c Pool \<times> 'w" and call who t
  show "pool_inv s \<Longrightarrow> pool_inv (fst (pool_CallTool net s call who))" by (rule pool_CallTool_inv)
  obtain pool w where s: "s = (pool, w)" by (cases s)
  show "t \<noteq> ca_Target call \<Longrightarrow> pool_entry t (fst (pool_CallTool net s call who)) = pool_entry t s"
    unfolding s by (cases rule: pool_CallTool_cases [of pool call net w who])
      (simp_all add: pool_entry_def entryFor_def update_conv')
  show "(pool_entry t (fst (pool_CallTool net s call who)) = None) = (pool_entry t s = None)"
    unfolding s by (cases rule: pool_CallTool_cases [of pool call net w who])
      (simp_all add: pool_entry_def entryFor_def update_conv')
qed

subsection \<open>Reconciling\<close>

lemma wanted_keys:
  "fst ` set (fold (\<lambda>b. AList.update (srv_Id s, bd_TenantId b) (s, bd_Primary b)) bs wanted) =
     fst ` set wanted \<union> {(srv_Id s, bd_TenantId b) | b. b \<in> set bs}"
  by (induction bs arbitrary: wanted) (auto simp: dom_update)

lemma wanted_targets_keys:
  "fst ` set (wanted_targets servers) = {(srv_Id s, bd_TenantId b) | s b. s \<in> set servers \<and> b \<in> set (srv_Bindings s)}"
proof -
  have "fst ` set (fold add_wanted servers wanted) =
      fst ` set wanted \<union> {(srv_Id s, bd_TenantId b) | s b. s \<in> set servers \<and> b \<in> set (srv_Bindings s)}" for wanted
    by (induction servers arbitrary: wanted) (auto simp: add_wanted_def wanted_keys)
  then show ?thesis by (simp add: wanted_targets_def)
qed

lemma wanted_distinct: "distinct (map fst (wanted_targets servers))"
proof -
  have a: "distinct (map fst wanted) \<Longrightarrow>
      distinct (map fst (fold (\<lambda>b. AList.update (srv_Id s, bd_TenantId b) (s, bd_Primary b)) bs wanted))" for s bs wanted
    by (induction bs arbitrary: wanted) (simp_all add: distinct_update)
  have "distinct (map fst wanted) \<Longrightarrow> distinct (map fst (fold add_wanted servers wanted))" for wanted
    by (induction servers arbitrary: wanted) (simp_all add: add_wanted_def a)
  then show ?thesis by (simp add: wanted_targets_def)
qed

text \<open>Dropping or rewriting entries in place, then appending the missing ones.\<close>

lemma map_of_concat_keyed:
  assumes "\<And>k v. f (k, v) = (case g k v of None \<Rightarrow> [] | Some u \<Rightarrow> [(k, u)])" and "distinct (map fst m)"
  shows "map_of (concat (map f m)) k = (case map_of m k of None \<Rightarrow> None | Some v \<Rightarrow> g k v) \<and>
    distinct (map fst (concat (map f m))) \<and> fst ` set (concat (map f m)) \<subseteq> fst ` set m"
  using assms(2)
proof (induction m)
  case (Cons p m)
  obtain k' v where p: "p = (k', v)" by (cases p)
  have IH: "map_of (concat (map f m)) k = (case map_of m k of None \<Rightarrow> None | Some v \<Rightarrow> g k v)"
    "distinct (map fst (concat (map f m)))" "fst ` set (concat (map f m)) \<subseteq> fst ` set m"
    and k': "k' \<notin> fst ` set m"
    using Cons p by auto
  have "map_of m k' = None" using k' by (simp add: map_of_eq_None_iff)
  with IH k' show ?case
    by (cases "g k' v") (auto simp: p assms(1) map_add_def split: option.splits)
qed simp

definition reconciled :: "PoolOptions \<Rightarrow> 'c Pool \<Rightarrow> Target \<Rightarrow> Server \<Rightarrow> string \<Rightarrow> 'c entry" where
  "reconciled opts pool target server endpoint =
     (case map_of pool target of
        Some e \<Rightarrow> if pe_endpoint e = endpoint then e\<lparr>pe_server := server\<rparr> else newEntry opts server endpoint
      | None \<Rightarrow> newEntry opts server endpoint)"

lemma Sync_entries:
  assumes "distinct (map fst pool)" and "Sync opts net servers (pool, w) = (pool', w')"
  shows "distinct (map fst pool') \<and>
    map_of pool' t = (case map_of (wanted_targets servers) t of
       None \<Rightarrow> None
     | Some (server, endpoint) \<Rightarrow> Some (reconciled opts pool t server endpoint))"
proof -
  let ?w = "wanted_targets servers"
  let ?kept = "concat (map (sync_entry opts ?w) pool)"
  let ?new = "concat (map (missing_entries opts ?kept) ?w)"
  have pool': "pool' = ?kept @ ?new" using assms(2) by (simp add: Sync_def Let_def)
  let ?g = "\<lambda>t e. case map_of ?w t of None \<Rightarrow> None
      | Some (server, endpoint) \<Rightarrow> Some (if endpoint \<noteq> pe_endpoint e then newEntry opts server endpoint
          else e\<lparr>pe_server := server\<rparr>)"
  let ?h = "\<lambda>t (server, endpoint).
      case map_of ?kept t of Some _ \<Rightarrow> None | None \<Rightarrow> Some (newEntry opts server endpoint)"
  have g: "sync_entry opts ?w (k, v) = (case ?g k v of None \<Rightarrow> [] | Some u \<Rightarrow> [(k, u)])" for k v
    by (simp add: sync_entry_def split: option.split prod.split)
  have h: "missing_entries opts ?kept (k, v) = (case ?h k v of None \<Rightarrow> [] | Some u \<Rightarrow> [(k, u)])" for k v
    by (simp add: missing_entries_def split: option.split prod.split)
  note K = map_of_concat_keyed [of "sync_entry opts ?w" ?g, OF g assms(1)]
  note N = map_of_concat_keyed [of "missing_entries opts ?kept" ?h, OF h wanted_distinct]
  have K1: "map_of ?kept t = (case map_of pool t of None \<Rightarrow> None | Some e \<Rightarrow> ?g t e)" for t
    using K by (rule conjunct1)
  have K2: "distinct (map fst ?kept)" using K [THEN conjunct2] by (rule conjunct1)
  have N1: "map_of ?new t = (case map_of ?w t of None \<Rightarrow> None | Some x \<Rightarrow> ?h t x)" for t
    using N by (rule conjunct1)
  have N2: "distinct (map fst ?new)" using N [THEN conjunct2] by (rule conjunct1)
  have "fst ` set ?kept \<inter> fst ` set ?new = {}"
  proof (intro equals0I, elim IntE)
    fix k assume k: "k \<in> fst ` set ?kept" "k \<in> fst ` set ?new"
    then have "map_of ?kept k \<noteq> None" "map_of ?new k \<noteq> None" by (simp_all add: map_of_eq_None_iff)
    with N1 [of k] show False by (auto split: option.splits)
  qed
  then have "distinct (map fst pool')" unfolding pool' using K2 N2 by simp
  moreover have "map_of pool' t = (case map_of ?w t of None \<Rightarrow> None
      | Some (server, endpoint) \<Rightarrow> Some (reconciled opts pool t server endpoint))"
    unfolding pool' map_of_append map_add_def N1 K1
    by (auto simp: reconciled_def split: option.splits)
  ultimately show ?thesis by (rule conjI)
qed

lemma newEntry_inv: "entry_inv (newEntry opts server endpoint)"
  by (simp add: entry_inv_def newEntry_def Let_def newBreaker_inv) (simp add: newBreaker_def)

lemma Sync_inv: "pool_inv pw \<Longrightarrow> pool_inv (Sync opts net servers pw)"
proof -
  assume inv: "pool_inv pw"
  obtain pool w pool' w' where p: "pw = (pool, w)" "Sync opts net servers (pool, w) = (pool', w')"
    by (cases pw; cases "Sync opts net servers pw") auto
  have d: "distinct (map fst pool)" and e: "\<And>t e. map_of pool t = Some e \<Longrightarrow> entry_inv e"
    using inv p by (auto simp: pool_inv_def dest: map_of_SomeD)
  note S = Sync_entries [OF d p(2)]
  have r: "entry_inv (reconciled opts pool t server endpoint)" for t server endpoint
    using e [of t] newEntry_inv by (auto simp: reconciled_def entry_inv_def split: option.split)
  have "entry_inv x" if "(t, x) \<in> set pool'" for t x
  proof -
    have "map_of pool' t = Some x" using S [THEN conjunct1] that by (rule map_of_is_SomeI)
    with S [of t] r [of t] show ?thesis by (auto split: option.splits)
  qed
  with S p show ?thesis by (auto simp: pool_inv_def)
qed

subsection \<open>Properties\<close>

text \<open>C33: after a reconciliation the pool holds exactly one entry per backend and tenant of the
  snapshot. An entry whose endpoint has not moved keeps its session, its credentials and its
  breaker, so a publish is no evidence that a failing backend recovered; a moved endpoint starts
  over, and health is never shared between tenants.\<close>

theorem sync_keeps_unmoved_backends:
  assumes "pool_inv (pool, w)" and "Sync opts net servers (pool, w) = (pool', w')"
  shows "set (Targets pool') = {(srv_Id s, bd_TenantId b) | s b. s \<in> set servers \<and> b \<in> set (srv_Bindings s)} \<and>
     distinct (Targets pool') \<and>
     (\<forall>t server endpoint. map_of (wanted_targets servers) t = Some (server, endpoint) \<longrightarrow>
        (\<exists>e'. entryFor t pool' = Some e' \<and> pe_server e' = server \<and> pe_endpoint e' = endpoint \<and>
          (case entryFor t pool of
             Some e \<Rightarrow> if pe_endpoint e = endpoint
               then pe_session e' = pe_session e \<and> pe_creds e' = pe_creds e \<and> pe_breaker e' = pe_breaker e
               else e' = newEntry opts server endpoint
           | None \<Rightarrow> e' = newEntry opts server endpoint)))"
proof -
  have d: "distinct (map fst pool)" using assms(1) by (simp add: pool_inv_def)
  note S = Sync_entries [OF d assms(2)]
  have k: "t \<in> fst ` set pool' \<longleftrightarrow> t \<in> fst ` set (wanted_targets servers)" for t
    using S [of t] map_of_eq_None_iff [of pool' t] map_of_eq_None_iff [of "wanted_targets servers" t]
    by (auto split: option.splits)
  have "set (Targets pool') = fst ` set (wanted_targets servers)"
    unfolding Targets_def set_map by (rule set_eqI) (rule k)
  moreover have "distinct (Targets pool')" using S by (simp add: Targets_def)
  moreover have "\<exists>e'. entryFor t pool' = Some e' \<and> pe_server e' = server \<and> pe_endpoint e' = endpoint \<and>
          (case entryFor t pool of
             Some e \<Rightarrow> if pe_endpoint e = endpoint
               then pe_session e' = pe_session e \<and> pe_creds e' = pe_creds e \<and> pe_breaker e' = pe_breaker e
               else e' = newEntry opts server endpoint
           | None \<Rightarrow> e' = newEntry opts server endpoint)"
    if "map_of (wanted_targets servers) t = Some (server, endpoint)" for t server endpoint
    using S [of t] that
    by (intro exI [of _ "reconciled opts pool t server endpoint"])
      (auto simp: entryFor_def reconciled_def newEntry_def Let_def split: option.split)
  ultimately show ?thesis unfolding wanted_targets_keys by blast
qed

definition wit_backend_server :: Server where
  "wit_backend_server = \<lparr>srv_Id = ''s1'', srv_Name = ''crm'', srv_NamespaceId = ''n1'', srv_ServingMode = SERVING_STRICT,
     srv_Bindings = [\<lparr>bd_TenantId = ''t1'', bd_Primary = ''http://a'', bd_Replicas = []\<rparr>], srv_Health = None,
     srv_CanaryTool = [], srv_TokenExchange = Some \<lparr>te_TokenEndpoint = [], te_Audience = [], te_Scopes = [],
       te_ClientCredentialRef = [], te_Header = [], te_ClaimHeaders = []\<rparr>\<rparr>"

text \<open>A network whose world counts the calls; a session is the credential it was opened with.\<close>

definition wit_net :: "(int, string) Net" where
  "wit_net = \<lparr>nt_now = (\<lambda>w. w),
     nt_Exchange = Some (\<lambda>s who w. (w + 1, Inr (no_credential\<lparr>cr_Value := cl_Subject who\<rparr>))),
     nt_Connect = (\<lambda>endpoint cred w. (w + 1, Inr (cr_Value cred, ''2025-11-25''))),
     nt_CallTool = (\<lambda>c params w. (w + 1, Inr (empty_result\<lparr>cr_IsError := True, cr_Content := [TextContent c []]\<rparr>))),
     nt_ListTools = (\<lambda>c cursor w. (w, Inr ([], ''more''))), nt_Close = (\<lambda>c w. w)\<rparr>"

definition wit_pool :: "string Pool" where
  "wit_pool = [((''s1'', ''t1''), newEntry \<lparr>po_FailureThreshold = 5, po_Cooldown = 30\<rparr> wit_backend_server ''http://a'')]"

lemma wit_pool_inv: "pool_inv (wit_pool, w)"
  by (simp add: pool_inv_def wit_pool_def newEntry_inv)

theorem sync_keeps_unmoved_backends_witness:
  "\<exists>e. entryFor (''s1'', ''t1'') (fst (Sync \<lparr>po_FailureThreshold = 5, po_Cooldown = 30\<rparr> wit_net [wit_backend_server] (wit_pool, 0))) = Some e \<and>
     pe_endpoint e = ''http://a''"
proof -
  obtain pool' w' where s: "Sync \<lparr>po_FailureThreshold = 5, po_Cooldown = 30\<rparr> wit_net [wit_backend_server] (wit_pool, 0) = (pool', w')"
    by (metis prod.collapse)
  have m: "map_of (wanted_targets [wit_backend_server]) (''s1'', ''t1'') = Some (wit_backend_server, ''http://a'')"
    by (simp add: wanted_targets_def add_wanted_def wit_backend_server_def)
  note T = sync_keeps_unmoved_backends [OF wit_pool_inv s, THEN conjunct2, THEN conjunct2, rule_format, OF m]
  show ?thesis unfolding s fst_conv using T by (elim exE conjE; intro exI conjI)
qed

text \<open>The breaker learns the outcome of every call it lets through and of no other. A shed call
  does not touch the network or the entry; a result, even one that says the tool failed, closes the
  breaker; any other outcome is a failure; and no probe is left in flight, so after its cooldown a
  backend is always tried again.\<close>

theorem calls_settle_the_breaker:
  assumes "pool_inv (pool, w)" and "entryFor (ca_Target call) pool = Some e"
    and "pool_CallTool net (pool, w) call who = ((pool', w'), r)"
  shows "\<exists>e'. entryFor (ca_Target call) pool' = Some e' \<and> \<not> br_probeInFlight (pe_breaker e') \<and>
     (if fst (Allow (nt_now net w) (pe_breaker e))
      then (case r of
          Inr _ \<Rightarrow> br_state (pe_breaker e') = StateClosed \<and> br_consecutive (pe_breaker e') = 0
        | Inl _ \<Rightarrow> br_state (pe_breaker e') = StateOpen \<or>
            br_consecutive (pe_breaker e') = br_consecutive (pe_breaker e) + 1)
      else w' = w \<and> pe_breaker e' = pe_breaker e \<and>
        r = Inl (ErrCircuitOpen (srv_Name (pe_server e)) (OpenUntil (pe_breaker e))))"
proof -
  let ?a = "Allow (nt_now net w) (pe_breaker e)"
  obtain e' w1 r1 where c: "call_entry net call who (e, w) = ((e', w1), r1)" by (metis prod.collapse)
  have m: "map_of pool (ca_Target call) = Some e" using assms(2) by (simp add: entryFor_def)
  from pool_CallTool_entry [OF m c] assms(3) have p: "pool' = AList.update (ca_Target call) e' pool" "w' = w1" "r = r1"
    by simp_all
  have inv: "entry_inv e" using assms(1) map_of_SomeD [OF m] by (auto simp: pool_inv_def)
  have i': "entry_inv e'" using c inv by (rule call_entry_inv)
  have cons: "br_consecutive (snd ?a) = br_consecutive (pe_breaker e)" by (rule backend.allow_fails)
  have fl: "br_state (Failure t b) = StateOpen \<or> br_consecutive (Failure t b) = br_consecutive b + 1" for t b
    by (simp add: Failure_def Let_def)
  have fl': "br_consecutive (Failure t b) \<noteq> br_consecutive b + 1 \<Longrightarrow> br_state (Failure t b) = StateOpen" for t b
    using fl by metis
  note O = call_entry_outcome [OF c]
  have "if fst ?a
      then (case r of
          Inr _ \<Rightarrow> br_state (pe_breaker e') = StateClosed \<and> br_consecutive (pe_breaker e') = 0
        | Inl _ \<Rightarrow> br_state (pe_breaker e') = StateOpen \<or>
            br_consecutive (pe_breaker e') = br_consecutive (pe_breaker e) + 1)
      else w' = w \<and> pe_breaker e' = pe_breaker e \<and>
        r = Inl (ErrCircuitOpen (srv_Name (pe_server e)) (OpenUntil (pe_breaker e)))"
  proof (cases "fst ?a")
    case True
    with O show ?thesis
      unfolding p(3) by (cases r1) (auto simp: Success_def cons [symmetric] dest!: fl')
  next
    case False
    with O inv show ?thesis unfolding p by (simp add: entry_inv_def Allow_refused_inv)
  qed
  moreover have "entryFor (ca_Target call) pool' = Some e'"
    unfolding p entryFor_def by (simp add: update_conv')
  ultimately show ?thesis using i' unfolding entry_inv_def by (intro exI [of _ e'] conjI) simp_all
qed

definition wit_call :: Call where
  "wit_call = \<lparr>ca_Target = (''s1'', ''t1''), ca_ToolName = ''search'', ca_Arguments = None, ca_Meta = [],
     ca_RequestState = [], ca_InputResponses = []\<rparr>"

theorem calls_settle_the_breaker_witness:
  "\<exists>e. entryFor (''s1'', ''t1'') (fst (fst (pool_CallTool wit_net (wit_pool, 0) wit_call wit_caller))) = Some e \<and>
     \<not> br_probeInFlight (pe_breaker e)"
proof -
  let ?e = "newEntry \<lparr>po_FailureThreshold = 5, po_Cooldown = 30\<rparr> wit_backend_server ''http://a''"
  obtain pool' w' r where c: "pool_CallTool wit_net (wit_pool, 0) wit_call wit_caller = ((pool', w'), r)"
    by (metis prod.collapse)
  have e: "entryFor (ca_Target wit_call) wit_pool = Some ?e" by (simp add: entryFor_def wit_call_def wit_pool_def)
  from calls_settle_the_breaker [OF wit_pool_inv e c] show ?thesis
    unfolding c by (elim exE conjE) (auto simp: wit_call_def)
qed

text \<open>C26: handling a request, whatever its tool and the pipeline do, leaves the pool's entries for every
  other tenant and backend untouched: one tenant's outage or traffic is never another's.\<close>

theorem requests_isolate_tenants:
  assumes "ee_CallTool env = pool_CallTool net"
    and "(server, tenant) \<noteq> (srv_Id (tool_Server tool), t_Id (tool_Tenant tool))"
  shows "pool_entry (server, tenant) (an_Pool (toolHandler env av tool name meta req s)) =
     pool_entry (server, tenant) s"
  using assms by (rule pool.handled_isolated)

theorem requests_isolate_tenants_witness:
  "pool_entry (''s1'', ''t2'') (an_Pool (toolHandler
       \<lparr>ee_Pipeline = None, ee_CallTool = pool_CallTool wit_net, ee_DriftGuard = None,
        ee_Resolve = (\<lambda>_. Inl Unauthenticated), ee_NeedsInput = (\<lambda>_. False), ee_RFC3339 = (\<lambda>_. []),
        ee_Codec = wit_codec, ee_Signer = None, ee_now = 0, ee_nonce = None\<rparr>
       wit_av wit_void ''crm.void'' [] (wit_req []) (wit_pool, 0))) = None"
proof -
  have n: "(''s1'', ''t2'') \<noteq> (srv_Id (tool_Server wit_void), t_Id (tool_Tenant wit_void))"
    by (simp add: wit_void_def)
  show ?thesis
    by (subst requests_isolate_tenants [OF _ n]) (simp_all add: pool_entry_def entryFor_def wit_pool_def)
qed

text \<open>Once a backend has a session it is used for every caller: who the caller is, and what a token
  exchange would give that caller, has no influence on the call. The credential attached to the
  session is that of whoever called first.\<close>

theorem session_outlives_its_principal:
  fixes net :: "('w, 'c) Net"
  assumes "entryFor (ca_Target call) pool = Some e" and "pe_session e = Some c"
  shows "pool_CallTool net (pool, w) call who = pool_CallTool (net\<lparr>nt_Exchange := exchange, nt_Connect := dial\<rparr>) (pool, w) call who'"
proof -
  have "call_entry net call who (e, w) =
      call_entry (net\<lparr>nt_Exchange := exchange, nt_Connect := dial\<rparr>) call who' (e, w)"
    by (simp add: call_entry_def session_held assms(2) split: prod.split bool.split)
  then show ?thesis using assms(1) by (simp add: pool_CallTool_def)
qed

definition wit_bob :: Caller where
  "wit_bob = wit_caller\<lparr>cl_ID := ''u2'', cl_Subject := ''bob''\<rparr>"

theorem session_outlives_its_principal_witness:
  "snd (pool_CallTool wit_net (fst (pool_CallTool wit_net (wit_pool, 0) wit_call wit_caller)) wit_call wit_bob) =
     Inr (empty_result\<lparr>cr_IsError := True, cr_Content := [TextContent ''ann'' []]\<rparr>)"
proof -
  let ?p = "fst (pool_CallTool wit_net (wit_pool, 0) wit_call wit_caller)"
  have "pe_session (the (entryFor (ca_Target wit_call) (fst ?p))) = Some ''ann''"
    "entryFor (ca_Target wit_call) (fst ?p) \<noteq> None" by code_simp+
  then obtain e where e: "entryFor (ca_Target wit_call) (fst ?p) = Some e" "pe_session e = Some ''ann''" by auto
  have "pool_CallTool wit_net ?p wit_call wit_bob =
      pool_CallTool (wit_net\<lparr>nt_Exchange := None, nt_Connect := (\<lambda>_ _ w. (w, Inl (OtherError [])))\<rparr>) ?p wit_call wit_caller"
    using session_outlives_its_principal [OF e, of wit_net "snd ?p"] by simp
  moreover have "snd (pool_CallTool (wit_net\<lparr>nt_Exchange := None, nt_Connect := (\<lambda>_ _ w. (w, Inl (OtherError [])))\<rparr>)
      ?p wit_call wit_caller) = Inr (empty_result\<lparr>cr_IsError := True, cr_Content := [TextContent ''ann'' []]\<rparr>)"
    by code_simp
  ultimately show ?thesis by simp
qed

subsection \<open>Listing a backend's tools\<close>

text \<open>Every page but the last has a tool.\<close>

definition progressing :: "('w, 'c) Net \<Rightarrow> bool" where
  "progressing net \<longleftrightarrow>
     (\<forall>c cursor w w' tools nxt. nt_ListTools net c cursor w = (w', Inr (tools, nxt)) \<and> nxt \<noteq> [] \<longrightarrow> tools \<noteq> [])"

lemma list_pages_step:
  "list_pages net name c cursor out w =
     (case nt_ListTools net c cursor w of
        (w', Inl err) \<Rightarrow> Some (w', Inl (Wrapped (''backends: '' @ name @ '': listing tools'') err))
      | (w', Inr (tools, nxt)) \<Rightarrow>
          if nxt = [] then Some (w', Inr (out @ tools))
          else if length (out @ tools) > maxToolsPerBackend
          then Some (w', Inl (OtherError (''backends: '' @ name @ '': returned too many tools; refusing to page further'')))
          else list_pages net name c nxt (out @ tools) w')"
  by (subst list_pages.simps) (simp add: Let_def split: prod.split sum.split)

text \<open>C35: listing a backend's tools ends for every backend whose pages make progress, with the pages'
  tools or an error, however many pages it has.\<close>

theorem listing_terminates:
  assumes "progressing net"
  shows "\<exists>w' r. list_pages net name c cursor out w = Some (w', r)"
proof (induction "Suc maxToolsPerBackend - length out" arbitrary: cursor out w rule: less_induct)
  case less
  obtain w' r where p: "nt_ListTools net c cursor w = (w', r)" by (cases "nt_ListTools net c cursor w")
  show ?case
  proof (cases "\<exists>tools nxt. r = Inr (tools, nxt) \<and> nxt \<noteq> [] \<and> length (out @ tools) \<le> maxToolsPerBackend")
    case True
    then obtain tools nxt where r: "r = Inr (tools, nxt)" "nxt \<noteq> []" "length (out @ tools) \<le> maxToolsPerBackend"
      by (elim exE conjE)
    have "tools \<noteq> []" using assms p r(1,2) unfolding progressing_def by blast
    then have "Suc maxToolsPerBackend - length (out @ tools) < Suc maxToolsPerBackend - length out"
      using r(3) by (simp add: diff_less_mono2 length_greater_0_conv)
    from less(1) [OF this, of nxt w'] r p show ?thesis
      by (subst list_pages_step) simp
  next
    case False
    with p show ?thesis by (subst list_pages_step) (auto split: sum.split)
  qed
qed

theorem listing_terminates_witness:
  "\<exists>w' r. list_pages (wit_net\<lparr>nt_ListTools := (\<lambda>c cursor w. (w, Inr ([], [])))\<rparr>) ''crm'' ''x'' [] [] 0 = Some (w', r)"
  by (rule listing_terminates) (simp add: progressing_def)

text \<open>But a page need not have a tool: the limit counts tools, not pages, and a backend that answers
  with empty pages for ever keeps the prober for ever.\<close>

theorem empty_pages_never_end:
  "list_pages wit_net name c cursor [] w = None"
proof -
  have "list_pages net name c cursor out w = Some r \<Longrightarrow>
      length out \<le> maxToolsPerBackend \<longrightarrow> nt_ListTools net \<noteq> nt_ListTools wit_net"
    for net :: "(int, string) Net" and cursor out w r
  proof (erule list_pages.raw_induct [rotated])
    fix rec and net :: "(int, string) Net" and name c cursor out w r
    assume IH: "\<And>net name c cursor out w r. rec net name c cursor out w = Some r \<Longrightarrow>
        length out \<le> maxToolsPerBackend \<longrightarrow> nt_ListTools net \<noteq> nt_ListTools wit_net"
      and body: "(case nt_ListTools net c cursor w of
        (w, Inl err) \<Rightarrow> Some (w, Inl (Wrapped (''backends: '' @ name @ '': listing tools'') err))
      | (w, Inr (tools, nxt)) \<Rightarrow>
          let out = out @ tools
          in if nxt = [] then Some (w, Inr out)
             else if length out > maxToolsPerBackend
             then Some (w, Inl (OtherError (''backends: '' @ name @ '': returned too many tools; refusing to page further'')))
             else rec net name c nxt out w) = Some r"
    show "length out \<le> maxToolsPerBackend \<longrightarrow> nt_ListTools net \<noteq> nt_ListTools wit_net"
    proof (intro impI notI)
      assume l: "length out \<le> maxToolsPerBackend" and n: "nt_ListTools net = nt_ListTools wit_net"
      with body have "rec net name c ''more'' out w = Some r" by (simp add: wit_net_def)
      from IH [OF this] l n show False by simp
    qed
  qed
  from this [of wit_net cursor "[]" w] show ?thesis
    by (cases "list_pages wit_net name c cursor [] w") auto
qed

end
