(* ===== verification/Edge_Server.thy ===== *)
theory Edge_Server
  imports Backend_Pool_Props
begin

section \<open>The MCP endpoint (internal/dataplane/edge/edge.go)\<close>

text \<open>
  The gateway's state is the serving store, the pool, the version being served and one MCP server per
  principal, built on first use. A server is what the edge registers with the SDK: its instructions
  and its tools, each with the closure's captures. \<open>panics\<close> is the SDK's \<open>AddTool\<close> on a definition it
  refuses. The edge registers \<open>rebuild\<close> as the store's preparer, so it runs inside an activation or
  a rollback, before the swap; the server cache is also purged after a new principal set is applied.
  Those moments are separate steps: requests run in between.
\<close>

record principalServer =
  sv_view :: PrincipalView
  sv_from :: View
  sv_instructions :: string
  sv_tools :: "(MCPTool \<times> Tool \<times> string) list"

datatype ServeError = NoServingSnapshot | ViewRefused StoreError | ServerPanicked

subsection \<open>Building a principal's server\<close>

definition toolDefinitionToMCP :: "string \<Rightarrow> Tool \<Rightarrow> MCPTool" where
  "toolDefinitionToMCP name t =
     \<lparr>mt_Name = name, mt_Title = td_Title (tool_Def t), mt_Description = td_Description (tool_Def t),
      mt_InputSchema = (if td_InputSchemaJson (tool_Def t) \<noteq> [] then Some (td_InputSchemaJson (tool_Def t)) else None),
      mt_OutputSchema = (if td_OutputSchemaJson (tool_Def t) \<noteq> [] then Some (td_OutputSchemaJson (tool_Def t)) else None)\<rparr>"

text \<open>\<open>None\<close>: the view of a credential that does not span has no tenant, and reading it panics.\<close>

definition principalInstructions :: "PrincipalView \<Rightarrow> string option" where
  "principalInstructions av =
     (let intro =
        (if Spanning av
         then Some (''Aggregated tools across '' @ show_nat (length (pv_Tenants av)) @
                '' tenants, served by MCPDoll.'' @ [CHR 0x0A] @
                ''You are acting as '' @ p_Subject (pv_Principal av) @ '' in: '' @ TenantLabel av @ ''.'' @ [CHR 0x0A] @
                ''Tool names are qualified as <tenant>.<prefix>.<tool>, '' @
                ''so the same tool in two tenants appears twice under different names. '')
         else case pv_Tenant av of
             None \<Rightarrow> None
           | Some t \<Rightarrow>
               Some (''Aggregated tools for '' @ (if t_Name t = [] then t_Slug t else t_Name t) @
                 '', served by MCPDoll.'' @ [CHR 0x0A] @
                 ''You are acting as '' @ p_Subject (pv_Principal av) @ '' in tenant '' @ t_Slug t @ ''.'' @ [CHR 0x0A] @
                 ''Tool names are namespaced as <prefix>.<tool>. ''))
      in map_option (\<lambda>s. s @ ''Every definition here has been reviewed and admitted; '' @
           ''it is not read live from the upstream server.'') intro)"

definition buildServer ::
  "(MCPTool \<Rightarrow> bool) \<Rightarrow> View \<Rightarrow> PrincipalView \<Rightarrow> ServeError + principalServer" where
  "buildServer panics view av =
     (case principalInstructions av of
        None \<Rightarrow> Inl ServerPanicked
      | Some instructions \<Rightarrow>
          let tools = map (\<lambda>(tool, name). (toolDefinitionToMCP name tool, tool, name))
                (zip (pv_Tools av) (pv_names av))
          in if list_ex (\<lambda>(mt, _). panics mt) tools then Inl ServerPanicked
             else Inr \<lparr>sv_view = av, sv_from = view, sv_instructions = instructions, sv_tools = tools\<rparr>)"

subsection \<open>The gateway\<close>

record ('w, 'c) Gateway =
  gw_store :: Store
  gw_pool :: "'c Pool \<times> 'w"
  gw_version :: int
  gw_servers :: "string \<rightharpoonup> principalServer"

record ('w, 'c) GatewayEnv =
  ge_net :: "('w, 'c) Net"
  ge_pool :: PoolOptions
  ge_resolve :: "Store \<Rightarrow> Header \<Rightarrow> IdentityError + Caller"
  ge_panics :: "MCPTool \<Rightarrow> bool"

definition principals_get :: "string \<Rightarrow> ('w, 'c) Gateway \<Rightarrow> principalServer option" where
  "principals_get i g = gw_servers g i"

definition principals_put ::
  "string \<Rightarrow> principalServer \<Rightarrow> ('w, 'c) Gateway \<Rightarrow> ('w, 'c) Gateway \<times> principalServer" where
  "principals_put i ps g =
     (case gw_servers g i of
        Some existing \<Rightarrow> (g, existing)
      | None \<Rightarrow> (g\<lparr>gw_servers := (gw_servers g)(i \<mapsto> ps)\<rparr>, ps))"

definition Purge :: "('w, 'c) Gateway \<Rightarrow> ('w, 'c) Gateway" where
  "Purge g = g\<lparr>gw_servers := Map.empty\<rparr>"

definition rebuild :: "('w, 'c) GatewayEnv \<Rightarrow> View \<Rightarrow> ('w, 'c) Gateway \<Rightarrow> ('w, 'c) Gateway" where
  "rebuild env view g =
     (Purge g)\<lparr>gw_pool := Sync (ge_pool env) (ge_net env) (Servers view) (gw_pool g),
               gw_version := v_Version view\<rparr>"

text \<open>The part of \<open>serverFor\<close> before the server is stored: a cached server, or a new one.\<close>

definition find_server ::
  "('w, 'c) GatewayEnv \<Rightarrow> string \<Rightarrow> ('w, 'c) Gateway \<Rightarrow>
   ('w, 'c) Gateway \<times> (ServeError + principalServer + principalServer)" where
  "find_server env i g =
     (case principals_get i g of
        Some cached \<Rightarrow> (g, Inr (Inl cached))
      | None \<Rightarrow>
          (case st_current (gw_store g) of
             None \<Rightarrow> (g, Inl NoServingSnapshot)
           | Some view \<Rightarrow>
               (case Store_PrincipalView i (gw_store g) of
                  (s, Inl e) \<Rightarrow> (g\<lparr>gw_store := s\<rparr>, Inl (ViewRefused e))
                | (s, Inr pv) \<Rightarrow>
                    (g\<lparr>gw_store := s\<rparr>,
                     case buildServer (ge_panics env) view pv of Inl e \<Rightarrow> Inl e | Inr sv \<Rightarrow> Inr (Inr sv)))))"

definition serverFor ::
  "('w, 'c) GatewayEnv \<Rightarrow> string \<Rightarrow> ('w, 'c) Gateway \<Rightarrow> ('w, 'c) Gateway \<times> (ServeError + principalServer)" where
  "serverFor env i g =
     (case find_server env i g of
        (g, Inl e) \<Rightarrow> (g, Inl e)
      | (g, Inr (Inl cached)) \<Rightarrow> (g, Inr cached)
      | (g, Inr (Inr sv)) \<Rightarrow> (case principals_put i sv g of (g, sv) \<Rightarrow> (g, Inr sv)))"

text \<open>The answer of the HTTP handler: a status of its own, or the request handed to the SDK with its
  scope and the server it will run on, and the two response headers.\<close>

datatype Served =
    NotReady
  | Unauthorized
  | Revoked
  | NotInSnapshot ServeError
  | Delegated Caller principalServer string string

definition serveMCP ::
  "('w, 'c) GatewayEnv \<Rightarrow> Header \<Rightarrow> ('w, 'c) Gateway \<Rightarrow> ('w, 'c) Gateway \<times> Served" where
  "serveMCP env header g =
     (if gw_version g = 0 then (g, NotReady)
      else case ge_resolve env (gw_store g) header of
          Inl _ \<Rightarrow> (g, Unauthorized)
        | Inr who \<Rightarrow>
            if Refuses (Store_Revocations (gw_store g)) (cl_ID who) then (g, Revoked)
            else (case serverFor env (cl_ID who) g of
                (g, Inl e) \<Rightarrow> (g, NotInSnapshot e)
              | (g, Inr sv) \<Rightarrow> (g, Delegated who sv (cl_Tenant who) (cl_Subject who))))"

definition http_status :: "Served \<Rightarrow> nat" where
  "http_status r =
     (case r of NotReady \<Rightarrow> 503 | Unauthorized \<Rightarrow> 401 | Revoked \<Rightarrow> 401 | NotInSnapshot _ \<Rightarrow> 403
      | Delegated _ _ _ _ \<Rightarrow> 200)"

text \<open>The readiness document; the age is printed by the caller.\<close>

definition serveReady :: "string \<Rightarrow> ('w, 'c) Gateway \<Rightarrow> nat \<times> string" where
  "serveReady age g =
     (let (tenants, tools) =
        (case st_current (gw_store g) of
           None \<Rightarrow> (0, 0)
         | Some view \<Rightarrow> (length (TenantSlugs view), length (sn_Tools (v_pb view))));
          q = [CHR 0x22];
          revocations = Store_Revocations (gw_store g)
      in if gw_version g = 0 then (503, ''{'' @ q @ ''status'' @ q @ '':'' @ q @ ''no snapshot'' @ q @ ''}'')
         else (200, ''{'' @ q @ ''status'' @ q @ '':'' @ q @ ''ok'' @ q @ '','' @
                q @ ''snapshot_version'' @ q @ '':'' @ show_int (gw_version g) @ '','' @
                q @ ''tenants'' @ q @ '':'' @ show_nat tenants @ '','' @
                q @ ''tools'' @ q @ '':'' @ show_nat tools @ '','' @
                q @ ''revocations_version'' @ q @ '':'' @ show_int (rv_Version revocations) @ '','' @
                q @ ''revocations_age_seconds'' @ q @ '':'' @ age @ '','' @
                q @ ''revoked_principals'' @ q @ '':'' @ show_nat (Revocations_Count revocations) @ ''}''))"

definition SnapshotVersion :: "('w, 'c) Gateway \<Rightarrow> int" where
  "SnapshotVersion g = gw_version g"

definition edge_TenantSlugs :: "('w, 'c) Gateway \<Rightarrow> string list" where
  "edge_TenantSlugs g = (case st_current (gw_store g) of None \<Rightarrow> [] | Some view \<Rightarrow> TenantSlugs view)"

subsection \<open>Undisturbed operations\<close>

text \<open>Each control operation, run to its end with nothing in between.\<close>

definition with_store :: "Store \<Rightarrow> ('w, 'c) Gateway \<Rightarrow> ('w, 'c) Gateway" where
  "with_store s g = g\<lparr>gw_store := s\<rparr>"

definition gateway_Activate ::
  "(Signed \<Rightarrow> VerifyError + Snapshot) \<Rightarrow> ('w, 'c) GatewayEnv \<Rightarrow> Signed \<Rightarrow> ('w, 'c) Gateway \<Rightarrow> ('w, 'c) Gateway" where
  "gateway_Activate vfy env signed g =
     (case admit vfy (\<lambda>_. None) signed (gw_store g) of
        (s, Inl e) \<Rightarrow> with_store s g
      | (s, Inr view) \<Rightarrow> with_store (fst (commit signed view s)) (rebuild env view (with_store s g)))"

definition gateway_Rollback :: "('w, 'c) GatewayEnv \<Rightarrow> int \<Rightarrow> ('w, 'c) Gateway \<Rightarrow> ('w, 'c) Gateway" where
  "gateway_Rollback env version g =
     (case rollback_target (\<lambda>_. None) version (gw_store g) of
        Inl e \<Rightarrow> g
      | Inr view \<Rightarrow> with_store ((gw_store g)\<lparr>st_current := Some view\<rparr>) (rebuild env view g))"

definition gateway_ApplyPrincipals :: "PrincipalSet \<Rightarrow> ('w, 'c) Gateway \<Rightarrow> ('w, 'c) Gateway" where
  "gateway_ApplyPrincipals pset g =
     (case bind_result (IndexPrincipals pset)
         (\<lambda>ps. case ApplyPrincipals ps (gw_store g) of Inl _ \<Rightarrow> Inl Unparseable | Inr s \<Rightarrow> Inr s) of
        Inl _ \<Rightarrow> g
      | Inr s \<Rightarrow> Purge (with_store s g))"

datatype gateway_op = GActivate Signed | GRollback int | GPrincipals PrincipalSet | GServe string

fun run_op ::
  "(Signed \<Rightarrow> VerifyError + Snapshot) \<Rightarrow> ('w, 'c) GatewayEnv \<Rightarrow> gateway_op \<Rightarrow> ('w, 'c) Gateway \<Rightarrow> ('w, 'c) Gateway" where
  "run_op vfy env (GActivate signed) g = gateway_Activate vfy env signed g"
| "run_op vfy env (GRollback version) g = gateway_Rollback env version g"
| "run_op vfy env (GPrincipals pset) g = gateway_ApplyPrincipals pset g"
| "run_op vfy env (GServe i) g = fst (serverFor env i g)"

subsection \<open>Steps\<close>

text \<open>The gateway with the operations in flight: activations and rollbacks past the preparer, applied
  principal sets whose observers have not run, and servers built and not yet stored.\<close>

record ('w, 'c) Serving =
  sg_gateway :: "('w, 'c) Gateway"
  sg_activating :: "(Signed \<times> View) list"
  sg_rolling :: "View list"
  sg_purges :: nat
  sg_building :: "(string \<times> principalServer) list"

inductive serving_step ::
  "(Signed \<Rightarrow> VerifyError + Snapshot) \<Rightarrow> ('w, 'c) GatewayEnv \<Rightarrow> ('w, 'c) Serving \<Rightarrow> ('w, 'c) Serving \<Rightarrow> bool"
  for vfy env where
  Refuse: "admit vfy (\<lambda>_. None) signed (gw_store (sg_gateway g)) = (s, Inl e) \<Longrightarrow>
    serving_step vfy env g (g\<lparr>sg_gateway := with_store s (sg_gateway g)\<rparr>)"
| Prepare: "admit vfy (\<lambda>_. None) signed (gw_store (sg_gateway g)) = (s, Inr view) \<Longrightarrow>
    serving_step vfy env g (g\<lparr>sg_gateway := rebuild env view (with_store s (sg_gateway g)),
      sg_activating := (signed, view) # sg_activating g\<rparr>)"
| Commit: "(signed, view) \<in> set (sg_activating g) \<Longrightarrow> commit signed view (gw_store (sg_gateway g)) = (s, r) \<Longrightarrow>
    serving_step vfy env g (g\<lparr>sg_gateway := with_store s (sg_gateway g),
      sg_activating := remove1 (signed, view) (sg_activating g)\<rparr>)"
| PrepareRollback: "rollback_target (\<lambda>_. None) version (gw_store (sg_gateway g)) = Inr view \<Longrightarrow>
    serving_step vfy env g (g\<lparr>sg_gateway := rebuild env view (sg_gateway g), sg_rolling := view # sg_rolling g\<rparr>)"
| RollBack: "view \<in> set (sg_rolling g) \<Longrightarrow>
    serving_step vfy env g
      (g\<lparr>sg_gateway := with_store ((gw_store (sg_gateway g))\<lparr>st_current := Some view\<rparr>) (sg_gateway g),
         sg_rolling := remove1 view (sg_rolling g)\<rparr>)"
| ApplySet: "IndexPrincipals pset = Inr ps \<Longrightarrow> ApplyPrincipals ps (gw_store (sg_gateway g)) = Inr s \<Longrightarrow>
    serving_step vfy env g (g\<lparr>sg_gateway := with_store s (sg_gateway g), sg_purges := Suc (sg_purges g)\<rparr>)"
| PurgeServers: "sg_purges g = Suc n \<Longrightarrow>
    serving_step vfy env g (g\<lparr>sg_gateway := Purge (sg_gateway g), sg_purges := n\<rparr>)"
| ApplyRevoked: "ApplyRevocations rv (gw_store (sg_gateway g)) = Inr s \<Longrightarrow>
    serving_step vfy env g (g\<lparr>sg_gateway := with_store s (sg_gateway g)\<rparr>)"
| Find: "find_server env i (sg_gateway g) = (g', r) \<Longrightarrow>
    serving_step vfy env g (g\<lparr>sg_gateway := g',
      sg_building := (case r of Inr (Inr sv) \<Rightarrow> (i, sv) # sg_building g | _ \<Rightarrow> sg_building g)\<rparr>)"
| StoreServer: "(i, sv) \<in> set (sg_building g) \<Longrightarrow> principals_put i sv (sg_gateway g) = (g', sv') \<Longrightarrow>
    serving_step vfy env g (g\<lparr>sg_gateway := g', sg_building := remove1 (i, sv) (sg_building g)\<rparr>)"

inductive_cases serving_step_cases: "serving_step vfy env g g'"

definition new_gateway :: "int \<Rightarrow> 'w \<Rightarrow> ('w, 'c) Gateway" where
  "new_gateway maxHistory w =
     \<lparr>gw_store = NewStore maxHistory, gw_pool = ([], w), gw_version = 0, gw_servers = Map.empty\<rparr>"

definition start_gateway :: "int \<Rightarrow> 'w \<Rightarrow> ('w, 'c) Serving" where
  "start_gateway maxHistory w =
     \<lparr>sg_gateway = new_gateway maxHistory w,
      sg_activating = [], sg_rolling = [], sg_purges = 0, sg_building = []\<rparr>"

inductive serving ::
  "(Signed \<Rightarrow> VerifyError + Snapshot) \<Rightarrow> ('w, 'c) GatewayEnv \<Rightarrow> ('w, 'c) Serving \<Rightarrow> bool"
  for vfy env where
  Boot: "serving vfy env (start_gateway maxHistory w)"
| Run: "serving vfy env g \<Longrightarrow> serving_step vfy env g g' \<Longrightarrow> serving vfy env g'"

end
