(* ===== verification/Edge_Server_Props.thy ===== *)
theory Edge_Server_Props
  imports Edge_Server
begin

section \<open>Properties of the endpoint\<close>

text \<open>
  The gateway refines the serving store: forgetting the edge's own state, its steps are steps of the
  store, so the store's invariants hold in it. On top of them, what a principal's server is built
  from, when it is current, and how a race with a swap leaves one that is not.
\<close>

subsection \<open>Refinement of the store\<close>

definition world_of :: "('w, 'c) Serving \<Rightarrow> World" where
  "world_of g = \<lparr>w_store = gw_store (sg_gateway g), w_activating = sg_activating g,
     w_rolling = sg_rolling g, w_composing = []\<rparr>"

lemma world_of_store [simp]: "w_store (world_of g) = gw_store (sg_gateway g)"
  by (simp add: world_of_def)

lemma gateway_store_simps [simp]:
  "gw_store (with_store s g) = s" "gw_store (Purge g) = gw_store g" "gw_store (rebuild env view g) = gw_store g"
  "gw_servers (with_store s g) = gw_servers g" "gw_servers (Purge g) = Map.empty"
  "gw_servers (rebuild env view g) = Map.empty"
  by (simp_all add: with_store_def Purge_def rebuild_def)

lemma principals_put_store [simp]: "gw_store (fst (principals_put i sv g)) = gw_store g"
  by (simp add: principals_put_def split: option.split)

text \<open>A composed catalog handed out is two steps of the store, or none.\<close>

lemma same_store: "w\<lparr>w_store := w_store w\<rparr> = w"
  by (cases w) simp

lemma view_steps:
  assumes "Snapshot_Store.reachable vfy prep w" and "Store_PrincipalView i (w_store w) = (s, r)"
  shows "Snapshot_Store.reachable vfy prep (w\<lparr>w_store := s\<rparr>)"
proof (cases "lookup_view i (w_store w)")
  case (Inl e)
  with assms show ?thesis by (auto simp: Store_PrincipalView_def same_store)
next
  case (Inr x)
  show ?thesis
  proof (cases x)
    case (Inl cached)
    with \<open>lookup_view i (w_store w) = Inr x\<close> assms show ?thesis
      by (auto simp: Store_PrincipalView_def same_store)
  next
    case (Inr kp)
    obtain key pv where kp: "kp = (key, pv)" by (cases kp)
    obtain pv' where c: "cache_view key pv (w_store w) = (s, pv')"
      using assms(2) \<open>lookup_view i (w_store w) = Inr x\<close> Inr kp
      by (auto simp: Store_PrincipalView_def split: prod.splits)
    have 1: "step vfy prep w (w\<lparr>w_composing := (key, pv) # w_composing w\<rparr>)"
      using \<open>lookup_view i (w_store w) = Inr x\<close> Inr kp by (intro step.Composing) simp
    have "step vfy prep (w\<lparr>w_composing := (key, pv) # w_composing w\<rparr>) (w\<lparr>w_store := s\<rparr>)"
      using step.Composed [of key pv "w\<lparr>w_composing := (key, pv) # w_composing w\<rparr>" s pv' vfy prep] c by simp
    with 1 assms(1) show ?thesis by (blast intro: Snapshot_Store.reachable.Step)
  qed
qed

lemma find_server_store:
  assumes "find_server env i g = (g', r)"
  shows "(gw_store g' = gw_store g \<or> (\<exists>r'. Store_PrincipalView i (gw_store g) = (gw_store g', r'))) \<and>
    gw_servers g' = gw_servers g"
  using assms by (auto simp: find_server_def split: option.splits prod.splits sum.splits)

lemma serving_step_reachable:
  assumes "Snapshot_Store.reachable vfy (\<lambda>_. None) (world_of g)" and "serving_step vfy env g g'"
  shows "Snapshot_Store.reachable vfy (\<lambda>_. None) (world_of g')"
  using assms(2)
proof cases
  case (Refuse signed s e)
  from step.Refused [of vfy "\<lambda>_. None" signed "world_of g"] Refuse assms(1) show ?thesis
    by (auto simp: world_of_def intro: Snapshot_Store.reachable.Step)
next
  case (Prepare signed s view)
  from step.Admitted [of vfy "\<lambda>_. None" signed "world_of g"] Prepare assms(1) show ?thesis
    by (auto simp: world_of_def intro: Snapshot_Store.reachable.Step)
next
  case (Commit signed view s r)
  from step.Committed [of signed view "world_of g" s r vfy "\<lambda>_. None"] Commit assms(1) show ?thesis
    by (auto simp: world_of_def intro: Snapshot_Store.reachable.Step)
next
  case (PrepareRollback version view)
  from step.RollbackPrepared [of "\<lambda>_. None" version "world_of g" view vfy] PrepareRollback assms(1) show ?thesis
    by (auto simp: world_of_def intro: Snapshot_Store.reachable.Step)
next
  case (RollBack view)
  from step.RolledBack [of view "world_of g" vfy "\<lambda>_. None"] RollBack assms(1) show ?thesis
    by (auto simp: world_of_def intro: Snapshot_Store.reachable.Step)
next
  case (ApplySet pset ps s)
  from step.PrincipalsApplied [of ps "world_of g" s vfy "\<lambda>_. None"] ApplySet assms(1) show ?thesis
    by (auto simp: world_of_def intro: Snapshot_Store.reachable.Step)
next
  case (ApplyRevoked rv s)
  from step.RevocationsApplied [of rv "world_of g" s vfy "\<lambda>_. None"] ApplyRevoked assms(1) show ?thesis
    by (auto simp: world_of_def intro: Snapshot_Store.reachable.Step)
next
  case (Find i g1 r)
  have w: "world_of g' = (world_of g)\<lparr>w_store := gw_store g1\<rparr>" using Find(1) by (simp add: world_of_def)
  from find_server_store [OF Find(2)] show ?thesis
  proof (elim conjE disjE exE)
    assume "gw_store g1 = gw_store (sg_gateway g)"
    then have "world_of g' = world_of g" unfolding w by (simp add: world_of_def)
    with assms(1) show ?thesis by simp
  next
    fix r' assume "Store_PrincipalView i (gw_store (sg_gateway g)) = (gw_store g1, r')"
    then show ?thesis unfolding w using view_steps [OF assms(1)] by simp
  qed
next
  case (StoreServer i sv g1 sv')
  have "gw_store g1 = gw_store (sg_gateway g)" using StoreServer(3) principals_put_store [of i sv "sg_gateway g"] by simp
  with StoreServer(1) have "world_of g' = world_of g" by (simp add: world_of_def)
  with assms(1) show ?thesis by simp
next
  case (PurgeServers n)
  then have "world_of g' = world_of g" by (simp add: world_of_def)
  with assms(1) show ?thesis by simp
qed

lemma serving_reachable: "serving vfy env g \<Longrightarrow> Snapshot_Store.reachable vfy (\<lambda>_. None) (world_of g)"
proof (induction rule: serving.induct)
  case (Boot maxHistory w)
  have "world_of (start_gateway maxHistory w :: ('a, 'b) Serving) = initial maxHistory"
    by (simp add: world_of_def start_gateway_def new_gateway_def initial_def)
  then show ?case by (simp add: Snapshot_Store.reachable.Start)
next
  case (Run g g')
  from serving_step_reachable [OF Run(3,2)] show ?case .
qed

subsection \<open>What a server is built from\<close>

definition built_for ::
  "(Signed \<Rightarrow> VerifyError + Snapshot) \<Rightarrow> ('w, 'c) GatewayEnv \<Rightarrow> string \<Rightarrow> principalServer \<Rightarrow> bool" where
  "built_for vfy env i sv \<longleftrightarrow>
     (\<exists>a b view pset ps. servable vfy (\<lambda>_. None) a (sv_from sv) \<and> servable vfy (\<lambda>_. None) b view \<and>
        v_Version view = v_Version (sv_from sv) \<and> IndexPrincipals pset = Inr ps \<and>
        compose_for view ps i = Inr (sv_view sv) \<and>
        buildServer (ge_panics env) (sv_from sv) (sv_view sv) = Inr sv)"

definition gateway_inv :: "(Signed \<Rightarrow> VerifyError + Snapshot) \<Rightarrow> ('w, 'c) GatewayEnv \<Rightarrow> ('w, 'c) Serving \<Rightarrow> bool" where
  "gateway_inv vfy env g \<longleftrightarrow>
     (\<forall>ps. st_principals (gw_store (sg_gateway g)) = Some ps \<longrightarrow> (\<exists>pset. IndexPrincipals pset = Inr ps)) \<and>
     (\<forall>i sv. gw_servers (sg_gateway g) i = Some sv \<longrightarrow> built_for vfy env i sv) \<and>
     (\<forall>(i, sv)\<in>set (sg_building g). built_for vfy env i sv)"

lemma buildServer_fields:
  "buildServer panics view av = Inr sv \<Longrightarrow> sv_from sv = view \<and> sv_view sv = av \<and>
     sv_tools sv = map (\<lambda>(tool, name). (toolDefinitionToMCP name tool, tool, name)) (zip (pv_Tools av) (pv_names av))"
  by (auto simp: buildServer_def Let_def split: option.splits if_splits)

lemma find_server_builds:
  assumes "Snapshot_Store.reachable vfy (\<lambda>_. None) w" and "w_store w = gw_store g"
    and "\<forall>ps. st_principals (gw_store g) = Some ps \<longrightarrow> (\<exists>pset. IndexPrincipals pset = Inr ps)"
    and "find_server env i g = (g', Inr (Inr sv))"
  shows "built_for vfy env i sv"
proof -
  obtain view pv where v: "st_current (gw_store g) = Some view"
    "Store_PrincipalView i (gw_store g) = (gw_store g', Inr pv)" "buildServer (ge_panics env) view pv = Inr sv"
    using assms(4) by (auto simp: find_server_def split: option.splits prod.splits sum.splits)
  obtain view' ps v' a b where h: "st_current (gw_store g) = Some view'" "st_principals (gw_store g) = Some ps"
    "servable vfy (\<lambda>_. None) a view'" "servable vfy (\<lambda>_. None) b v'" "v_Version v' = v_Version view'"
    "compose_for v' ps i = Inr pv"
    using handed_out_composed [OF assms(1), unfolded assms(2), OF v(2)] by (elim exE conjE)
  then show ?thesis
    using v buildServer_fields [OF v(3)] assms(3) unfolding built_for_def by (metis option.inject)
qed

lemma find_server_keeps_principals:
  "find_server env i g = (g', r) \<Longrightarrow> st_principals (gw_store g') = st_principals (gw_store g)"
  using cache_view_frame
  by (fastforce simp: find_server_def Store_PrincipalView_def split: option.splits prod.splits sum.splits)

lemma admit_principals:
  "admit vfy prep signed s = (s', r) \<Longrightarrow> st_principals s' = st_principals s"
  using admit_cases by fastforce

lemma commit_principals:
  "commit signed view s = (s', r) \<Longrightarrow> st_principals s' = st_principals s"
  using commit_cases by fastforce

lemma gateway_inv_same:
  assumes "gateway_inv vfy env g" and "st_principals (gw_store (sg_gateway g')) = st_principals (gw_store (sg_gateway g))"
    and "gw_servers (sg_gateway g') \<subseteq>\<^sub>m gw_servers (sg_gateway g)" and "set (sg_building g') \<subseteq> set (sg_building g)"
  shows "gateway_inv vfy env g'"
  using assms unfolding gateway_inv_def map_le_def by (metis (no_types, lifting) domI subsetD)

lemma gateway_inv_step:
  assumes "gateway_inv vfy env g" and "Snapshot_Store.reachable vfy (\<lambda>_. None) (world_of g)"
    and "serving_step vfy env g g'"
  shows "gateway_inv vfy env g'"
  using assms(3)
proof cases
  case (Refuse signed s e)
  with admit_principals [OF Refuse(2)] show ?thesis by (intro gateway_inv_same [OF assms(1)]) simp_all
next
  case (Prepare signed s view)
  with admit_principals [OF Prepare(2)] show ?thesis by (intro gateway_inv_same [OF assms(1)]) simp_all
next
  case (Commit signed view s r)
  with commit_principals [OF Commit(3)] show ?thesis by (intro gateway_inv_same [OF assms(1)]) simp_all
next
  case (PrepareRollback version view)
  then show ?thesis by (intro gateway_inv_same [OF assms(1)]) simp_all
next
  case (RollBack view)
  then show ?thesis by (intro gateway_inv_same [OF assms(1)]) simp_all
next
  case (ApplySet pset ps s)
  with apply_principals_frame [OF ApplySet(3)] assms(1) show ?thesis by (auto simp: gateway_inv_def)
next
  case (PurgeServers n)
  then show ?thesis by (intro gateway_inv_same [OF assms(1)]) simp_all
next
  case (ApplyRevoked rv s)
  with apply_revocations_frame [OF ApplyRevoked(2)] show ?thesis by (intro gateway_inv_same [OF assms(1)]) simp_all
next
  case (Find i g1 r)
  have inv: "\<forall>ps. st_principals (gw_store (sg_gateway g)) = Some ps \<longrightarrow> (\<exists>pset. IndexPrincipals pset = Inr ps)"
    using assms(1) by (simp add: gateway_inv_def)
  have b: "built_for vfy env i sv" if "r = Inr (Inr sv)" for sv
    using find_server_builds [OF assms(2) _ inv] Find(2) that by simp
  show ?thesis
    using assms(1) find_server_keeps_principals [OF Find(2)] find_server_store [OF Find(2)] b
    unfolding Find(1) gateway_inv_def by (auto split: sum.split)
next
  case (StoreServer i sv g1 sv')
  have new: "gw_servers g1 j = Some x \<Longrightarrow> gw_servers (sg_gateway g) j = Some x \<or> (j, x) = (i, sv)" for j x
    using StoreServer(3) by (auto simp: principals_put_def split: option.splits if_splits)
  have i: "built_for vfy env i sv" using StoreServer(2) assms(1) by (auto simp: gateway_inv_def)
  have "built_for vfy env j x" if "gw_servers g1 j = Some x" for j x
    using new [OF that] i assms(1) by (auto simp: gateway_inv_def)
  moreover have "gw_store g1 = gw_store (sg_gateway g)"
    using StoreServer(3) principals_put_store [of i sv "sg_gateway g"] by simp
  ultimately show ?thesis
    using assms(1) unfolding StoreServer(1) gateway_inv_def by (auto dest: set_mp [OF set_remove1_subset])
qed

lemma serving_inv: "serving vfy env g \<Longrightarrow> gateway_inv vfy env g"
proof (induction rule: serving.induct)
  case (Boot maxHistory w)
  then show ?case by (simp add: gateway_inv_def start_gateway_def new_gateway_def NewStore_def)
next
  case (Run g g')
  from gateway_inv_step [OF Run(3) serving_reachable [OF Run(1)] Run(2)] show ?case .
qed

lemma serverFor_built:
  assumes "gateway_inv vfy env g" and "Snapshot_Store.reachable vfy (\<lambda>_. None) (world_of g)"
    and "serverFor env i (sg_gateway g) = (g', Inr sv)"
  shows "built_for vfy env i sv"
proof -
  obtain g1 r where f: "find_server env i (sg_gateway g) = (g1, r)" by (metis prod.collapse)
  have inv: "\<forall>ps. st_principals (gw_store (sg_gateway g)) = Some ps \<longrightarrow> (\<exists>pset. IndexPrincipals pset = Inr ps)"
    using assms(1) by (simp add: gateway_inv_def)
  consider cached where "r = Inr (Inl cached)" | new where "r = Inr (Inr new)"
    using f assms(3) by (cases r) (auto simp: serverFor_def split: sum.splits)
  then show ?thesis
  proof cases
    case 1
    with f assms(3) have "gw_servers (sg_gateway g) i = Some sv"
      by (auto simp: serverFor_def find_server_def principals_get_def split: option.splits prod.splits sum.splits)
    with assms(1) show ?thesis by (simp add: gateway_inv_def)
  next
    case 2
    have n: "built_for vfy env i new" using find_server_builds [OF assms(2) _ inv] f 2 by simp
    have "gw_servers g1 i = Some sv \<or> sv = new" "gw_servers g1 = gw_servers (sg_gateway g)"
      using f 2 assms(3) find_server_store [OF f]
      by (auto simp: serverFor_def principals_put_def split: option.splits)
    with n assms(1) show ?thesis by (auto simp: gateway_inv_def)
  qed
qed

lemma compose_for_Inr:
  "compose_for view ps i = Inr pv \<longleftrightarrow>
     (\<exists>who tenants decide. ByID ps i = Some who \<and> tenantsFor view who = Inr tenants \<and>
        decider ps who = Inr decide \<and> pv = composePrincipal view who tenants (p_SpansTenants who) decide)"
  by (auto simp: compose_for_def split: option.splits sum.splits)

text \<open>The principal a built server is for.\<close>

lemma built_for_principal:
  assumes "built_for vfy env i sv"
  shows "\<exists>(pset :: PrincipalSet) who. who \<in> set (pset_Principals pset) \<and> p_Id who = i \<and> pv_Principal (sv_view sv) = who"
proof -
  obtain view pset ps where b: "IndexPrincipals pset = Inr ps" "compose_for view ps i = Inr (sv_view sv)"
    using assms unfolding built_for_def by (elim exE conjE)
  obtain who tenants decide where w: "ByID ps i = Some who"
    "sv_view sv = composePrincipal view who tenants (p_SpansTenants who) decide"
    using compose_for_Inr [THEN iffD1, OF b(2)] by (elim exE conjE)
  from w(2) have "pv_Principal (sv_view sv) = who" by (simp add: composed(9))
  moreover have "who \<in> set (pset_Principals pset) \<and> p_Id who = i"
    by (rule IndexPrincipals_ByID [OF b(1), THEN iffD1, OF w(1)])
  ultimately show ?thesis by (intro exI [of _ pset] exI [of _ who] conjI) simp_all
qed

subsection \<open>Undisturbed, a server is current\<close>

definition current_server :: "('w, 'c) GatewayEnv \<Rightarrow> Store \<Rightarrow> string \<Rightarrow> principalServer \<Rightarrow> bool" where
  "current_server env s i sv \<longleftrightarrow>
     (\<exists>view ps. st_current s = Some view \<and> st_principals s = Some ps \<and>
        compose_for view ps i = Inr (sv_view sv) \<and> buildServer (ge_panics env) view (sv_view sv) = Inr sv)"

definition idle_world :: "Store \<Rightarrow> World" where
  "idle_world s = \<lparr>w_store = s, w_activating = [], w_rolling = [], w_composing = []\<rparr>"

lemma idle_world_simps [simp]:
  "w_store (idle_world s) = s" "(idle_world s)\<lparr>w_store := s'\<rparr> = idle_world s'"
  by (simp_all add: idle_world_def)

definition idle_inv :: "(Signed \<Rightarrow> VerifyError + Snapshot) \<Rightarrow> ('w, 'c) GatewayEnv \<Rightarrow> ('w, 'c) Gateway \<Rightarrow> bool" where
  "idle_inv vfy env g \<longleftrightarrow>
     Snapshot_Store.reachable vfy (\<lambda>_. None) (idle_world (gw_store g)) \<and>
     (\<forall>i sv. gw_servers g i = Some sv \<longrightarrow> current_server env (gw_store g) i sv)"

lemma current_server_same:
  "st_current s' = st_current s \<Longrightarrow> st_principals s' = st_principals s \<Longrightarrow>
     current_server env s' i sv = current_server env s i sv"
  by (simp add: current_server_def)

lemma idle_activated:
  assumes "Snapshot_Store.reachable vfy (\<lambda>_. None) (idle_world s)"
    and a: "admit vfy (\<lambda>_. None) signed s = (s1, Inr view)" and c: "commit signed view s1 = (s2, r)"
  shows "Snapshot_Store.reachable vfy (\<lambda>_. None) (idle_world s2)"
proof -
  have 1: "Snapshot_Store.step vfy (\<lambda>_. None) (idle_world s)
      ((idle_world s1)\<lparr>w_activating := [(signed, view)]\<rparr>)"
    using Snapshot_Store.step.Admitted [of vfy "\<lambda>_. None" signed "idle_world s", unfolded idle_world_simps, OF a]
    by (simp add: idle_world_def)
  have 2: "Snapshot_Store.step vfy (\<lambda>_. None) ((idle_world s1)\<lparr>w_activating := [(signed, view)]\<rparr>) (idle_world s2)"
    using Snapshot_Store.step.Committed [of signed view "(idle_world s1)\<lparr>w_activating := [(signed, view)]\<rparr>" s2 r vfy
        "\<lambda>_. None"] c
    by (simp add: idle_world_def)
  show ?thesis by (rule Snapshot_Store.reachable.Step [OF Snapshot_Store.reachable.Step [OF assms(1) 1] 2])
qed

lemma idle_rolled_back:
  assumes "Snapshot_Store.reachable vfy (\<lambda>_. None) (idle_world s)"
    and "rollback_target (\<lambda>_. None) version s = Inr view"
  shows "Snapshot_Store.reachable vfy (\<lambda>_. None) (idle_world (s\<lparr>st_current := Some view\<rparr>))"
proof -
  have 1: "Snapshot_Store.step vfy (\<lambda>_. None) (idle_world s) ((idle_world s)\<lparr>w_rolling := [view]\<rparr>)"
    using Snapshot_Store.step.RollbackPrepared [of "\<lambda>_. None" version "idle_world s" view vfy] assms(2)
    by (simp add: idle_world_def)
  have 2: "Snapshot_Store.step vfy (\<lambda>_. None) ((idle_world s)\<lparr>w_rolling := [view]\<rparr>)
      (idle_world (s\<lparr>st_current := Some view\<rparr>))"
    using Snapshot_Store.step.RolledBack [of view "(idle_world s)\<lparr>w_rolling := [view]\<rparr>" vfy "\<lambda>_. None"]
    by (simp add: idle_world_def)
  show ?thesis by (rule Snapshot_Store.reachable.Step [OF Snapshot_Store.reachable.Step [OF assms(1) 1] 2])
qed

lemma find_server_current:
  assumes "unique_versions vfy" and "Snapshot_Store.reachable vfy (\<lambda>_. None) (idle_world (gw_store g))"
    and "find_server env i g = (g', r)"
  shows "Snapshot_Store.reachable vfy (\<lambda>_. None) (idle_world (gw_store g')) \<and> gw_servers g' = gw_servers g \<and>
    st_current (gw_store g') = st_current (gw_store g) \<and>
    st_principals (gw_store g') = st_principals (gw_store g) \<and>
    (\<forall>sv. r = Inr (Inr sv) \<longrightarrow> current_server env (gw_store g) i sv)"
proof -
  have frame: "gw_servers g' = gw_servers g" "st_principals (gw_store g') = st_principals (gw_store g)"
    using find_server_store [OF assms(3)] find_server_keeps_principals [OF assms(3)] by simp_all
  have cur: "st_current (gw_store g') = st_current (gw_store g)"
    using assms(3) cache_view_frame
    by (fastforce simp: find_server_def Store_PrincipalView_def split: option.splits prod.splits sum.splits)
  have re: "Snapshot_Store.reachable vfy (\<lambda>_. None) (idle_world (gw_store g'))"
    using find_server_store [OF assms(3)] assms(2) view_steps [OF assms(2), unfolded idle_world_simps]
    by (elim conjE disjE exE) simp_all
  have "current_server env (gw_store g) i sv" if r: "r = Inr (Inr sv)" for sv
  proof -
    obtain view pv where v: "st_current (gw_store g) = Some view"
      "Store_PrincipalView i (gw_store g) = (gw_store g', Inr pv)" "buildServer (ge_panics env) view pv = Inr sv"
      using assms(3) r by (auto simp: find_server_def split: option.splits prod.splits sum.splits)
    obtain view' ps v' a b where h: "st_current (gw_store g) = Some view'" "st_principals (gw_store g) = Some ps"
      "servable vfy (\<lambda>_. None) a view'" "servable vfy (\<lambda>_. None) b v'" "v_Version v' = v_Version view'"
      "compose_for v' ps i = Inr pv"
      using handed_out_composed [OF assms(2), unfolded idle_world_simps, OF v(2)] by (elim exE conjE)
    have "v' = view'" by (rule servable_unique [OF assms(1) h(4,3,5)])
    moreover have "sv_view sv = pv" using buildServer_fields [OF v(3)] by simp
    ultimately show ?thesis using h v unfolding current_server_def by auto
  qed
  with frame cur re show ?thesis by blast
qed

lemma serverFor_idle:
  assumes "unique_versions vfy" and "idle_inv vfy env g" and "serverFor env i g = (g', r)"
  shows "idle_inv vfy env g' \<and> (\<forall>sv. r = Inr sv \<longrightarrow> current_server env (gw_store g') i sv)"
proof -
  have re: "Snapshot_Store.reachable vfy (\<lambda>_. None) (idle_world (gw_store g))"
    and cur: "\<And>j sv. gw_servers g j = Some sv \<Longrightarrow> current_server env (gw_store g) j sv"
    using assms(2) by (auto simp: idle_inv_def)
  obtain g1 r1 where f: "find_server env i g = (g1, r1)" by (metis prod.collapse)
  note F = find_server_current [OF assms(1) re f]
  have same: "current_server env (gw_store g1) j sv = current_server env (gw_store g) j sv" for j sv
    using F by (intro current_server_same) (elim conjE, assumption)+
  consider e where "r1 = Inl e" | cached where "r1 = Inr (Inl cached)" | new where "r1 = Inr (Inr new)"
    by (metis sum.exhaust)
  then show ?thesis
  proof cases
    case 1
    with f assms(3) F cur same show ?thesis by (auto simp: serverFor_def idle_inv_def)
  next
    case 2
    then have "gw_servers g i = Some cached"
      using f by (auto simp: find_server_def principals_get_def split: option.splits prod.splits sum.splits)
    with 2 f assms(3) F cur same show ?thesis by (auto simp: serverFor_def idle_inv_def)
  next
    case 3
    obtain g2 sv where p: "principals_put i new g1 = (g2, sv)" by (metis prod.collapse)
    then have g': "g' = g2" "r = Inr sv" using f 3 assms(3) by (simp_all add: serverFor_def)
    have st: "gw_store g2 = gw_store g1" using principals_put_store [of i new g1] p by simp
    have n: "current_server env (gw_store g) i new" using F 3 by simp
    have s: "current_server env (gw_store g) i sv"
      using p F cur n by (auto simp: principals_put_def split: option.splits)
    have "current_server env (gw_store g) j x" if "gw_servers g2 j = Some x" for j x
      using that p F cur n by (auto simp: principals_put_def split: option.splits if_splits)
    with s st same F show ?thesis unfolding g' idle_inv_def by simp
  qed
qed

lemma run_op_idle:
  assumes "unique_versions vfy" and "idle_inv vfy env g"
  shows "idle_inv vfy env (run_op vfy env op g)"
proof (cases op)
  case (GActivate signed)
  obtain s1 r where a: "admit vfy (\<lambda>_. None) signed (gw_store g) = (s1, r)" by (metis prod.collapse)
  show ?thesis
  proof (cases r)
    case (Inl e)
    from admit_cases [OF a] Inl obtain n where s1: "s1 = recordReject n e (gw_store g)" by auto
    have "Snapshot_Store.reachable vfy (\<lambda>_. None) (idle_world s1)"
      using Snapshot_Store.reachable.Step [OF _ Snapshot_Store.step.Refused [of vfy "\<lambda>_. None" signed
            "idle_world (gw_store g)", unfolded idle_world_simps, OF a [unfolded Inl]]] assms(2)
      by (simp add: idle_inv_def)
    with assms(2) a Inl s1 GActivate show ?thesis
      by (simp add: gateway_Activate_def idle_inv_def current_server_def)
  next
    case (Inr view)
    obtain s2 r2 where c: "commit signed view s1 = (s2, r2)" by (metis prod.collapse)
    from idle_activated [OF _ a [unfolded Inr] c] assms(2) a Inr c GActivate show ?thesis
      by (simp add: gateway_Activate_def idle_inv_def)
  qed
next
  case (GRollback version)
  with assms(2) idle_rolled_back show ?thesis
    by (auto simp: gateway_Rollback_def idle_inv_def split: sum.split)
next
  case (GPrincipals pset)
  have "Snapshot_Store.reachable vfy (\<lambda>_. None) (idle_world s)" if "ApplyPrincipals ps (gw_store g) = Inr s" for ps s
    using Snapshot_Store.reachable.Step [OF _ Snapshot_Store.step.PrincipalsApplied [of ps "idle_world (gw_store g)",
          unfolded idle_world_simps, OF that]] assms(2)
    by (simp add: idle_inv_def)
  with assms(2) GPrincipals show ?thesis
    by (auto simp: gateway_ApplyPrincipals_def idle_inv_def bind_result_def split: sum.split)
next
  case (GServe i)
  obtain g' r where "serverFor env i g = (g', r)" by (metis prod.collapse)
  with serverFor_idle [OF assms this] GServe show ?thesis by simp
qed

lemma run_ops_idle:
  "unique_versions vfy \<Longrightarrow> idle_inv vfy env g \<Longrightarrow> idle_inv vfy env (fold (run_op vfy env) ops g)"
  by (induction ops arbitrary: g) (simp_all add: run_op_idle)

lemma new_gateway_idle: "idle_inv vfy env (new_gateway n w)"
  using Snapshot_Store.reachable.Start [of vfy "\<lambda>_. None" n]
  by (simp add: idle_inv_def new_gateway_def idle_world_def initial_def)

subsection \<open>Undisturbed operations are runs of the gateway\<close>

definition at_rest :: "('w, 'c) Gateway \<Rightarrow> (string \<times> principalServer) list \<Rightarrow> ('w, 'c) Serving" where
  "at_rest g building =
     \<lparr>sg_gateway = g, sg_activating = [], sg_rolling = [], sg_purges = 0, sg_building = building\<rparr>"

lemma principals_put_serving:
  assumes "serving vfy env (at_rest g ((i, sv) # b))"
  shows "serving vfy env (at_rest (fst (principals_put i sv g)) b)"
proof -
  obtain g' sv' where p: "principals_put i sv g = (g', sv')" by (metis prod.collapse)
  have "serving_step vfy env (at_rest g ((i, sv) # b)) (at_rest g' b)"
    using serving_step.StoreServer [of i sv "at_rest g ((i, sv) # b)" g' sv' vfy env] p by (simp add: at_rest_def)
  with assms p show ?thesis by (auto intro: serving.Run)
qed

lemma find_serving:
  assumes "serving vfy env (at_rest g b)" and "find_server env i g = (g', r)"
  shows "serving vfy env (at_rest g' (case r of Inr (Inr sv) \<Rightarrow> (i, sv) # b | _ \<Rightarrow> b))"
proof -
  have "serving_step vfy env (at_rest g b) (at_rest g' (case r of Inr (Inr sv) \<Rightarrow> (i, sv) # b | _ \<Rightarrow> b))"
    using serving_step.Find [of env i "at_rest g b" g' r vfy] assms(2)
    by (simp add: at_rest_def cong: sum.case_cong)
  with assms(1) show ?thesis by (rule serving.Run)
qed

lemma run_op_serving:
  assumes "serving vfy env (at_rest g b)"
  shows "serving vfy env (at_rest (run_op vfy env op g) b)"
proof (cases op)
  case (GActivate signed)
  obtain s1 r where a: "admit vfy (\<lambda>_. None) signed (gw_store g) = (s1, r)" by (metis prod.collapse)
  show ?thesis
  proof (cases r)
    case (Inl e)
    have "serving_step vfy env (at_rest g b) (at_rest (with_store s1 g) b)"
      using serving_step.Refuse [of vfy signed "at_rest g b" s1 e env] a Inl by (simp add: at_rest_def)
    with assms a Inl GActivate show ?thesis by (auto simp: gateway_Activate_def intro: serving.Run)
  next
    case (Inr view)
    obtain s2 r2 where c: "commit signed view s1 = (s2, r2)" by (metis prod.collapse)
    let ?g1 = "rebuild env view (with_store s1 g)"
    let ?w = "(at_rest ?g1 b)\<lparr>sg_activating := [(signed, view)]\<rparr>"
    have 1: "serving_step vfy env (at_rest g b) ?w"
      using serving_step.Prepare [of vfy signed "at_rest g b" s1 view env] a Inr by (simp add: at_rest_def)
    have 2: "serving_step vfy env ?w (at_rest (with_store s2 ?g1) b)"
      using serving_step.Commit [of signed view ?w s2 r2 vfy env] c by (simp add: at_rest_def)
    from serving.Run [OF serving.Run [OF assms 1] 2] a Inr c GActivate show ?thesis
      by (simp add: gateway_Activate_def)
  qed
next
  case (GRollback version)
  show ?thesis
  proof (cases "rollback_target (\<lambda>_. None) version (gw_store g)")
    case (Inl e)
    with assms GRollback show ?thesis by (simp add: gateway_Rollback_def)
  next
    case (Inr view)
    let ?w = "(at_rest (rebuild env view g) b)\<lparr>sg_rolling := [view]\<rparr>"
    have 1: "serving_step vfy env (at_rest g b) ?w"
      using serving_step.PrepareRollback [of version "at_rest g b" view vfy env] Inr by (simp add: at_rest_def)
    have 2: "serving_step vfy env ?w
        (at_rest (with_store ((gw_store g)\<lparr>st_current := Some view\<rparr>) (rebuild env view g)) b)"
      using serving_step.RollBack [of view ?w vfy env] by (simp add: at_rest_def)
    from serving.Run [OF serving.Run [OF assms 1] 2] Inr GRollback show ?thesis
      by (simp add: gateway_Rollback_def)
  qed
next
  case (GPrincipals pset)
  show ?thesis
  proof (cases "\<exists>ps s. IndexPrincipals pset = Inr ps \<and> ApplyPrincipals ps (gw_store g) = Inr s")
    case True
    then obtain ps s where a: "IndexPrincipals pset = Inr ps" "ApplyPrincipals ps (gw_store g) = Inr s"
      by (elim exE conjE)
    let ?w = "(at_rest (with_store s g) b)\<lparr>sg_purges := Suc 0\<rparr>"
    have 1: "serving_step vfy env (at_rest g b) ?w"
      using serving_step.ApplySet [of pset ps "at_rest g b" s vfy env] a by (simp add: at_rest_def)
    have 2: "serving_step vfy env ?w (at_rest (Purge (with_store s g)) b)"
      using serving_step.PurgeServers [of ?w 0 vfy env] by (simp add: at_rest_def)
    from serving.Run [OF serving.Run [OF assms 1] 2] a GPrincipals show ?thesis
      by (simp add: gateway_ApplyPrincipals_def)
  next
    case False
    then have "gateway_ApplyPrincipals pset g = g"
      by (auto simp: gateway_ApplyPrincipals_def bind_result_def split: sum.split)
    with assms GPrincipals show ?thesis by simp
  qed
next
  case (GServe i)
  obtain g1 r1 where f: "find_server env i g = (g1, r1)" by (metis prod.collapse)
  from find_serving [OF assms f] f GServe show ?thesis
    by (auto simp: serverFor_def split: sum.splits prod.split) (metis fst_conv principals_put_serving)
qed

lemma run_ops_serving:
  "serving vfy env (at_rest g b) \<Longrightarrow> serving vfy env (at_rest (fold (run_op vfy env) ops g) b)"
  by (induction ops arbitrary: g) (simp_all add: run_op_serving)

lemma new_gateway_serving: "serving vfy env (at_rest (new_gateway n w) [])"
  using serving.Boot [of vfy env n w] by (simp add: at_rest_def start_gateway_def)

subsection \<open>Properties\<close>



text \<open>While control operations and requests do not overlap, whatever their order, the server a
  principal gets is the one its grants give it now: composed from the snapshot being served and the
  principal set in effect, provided no two verified snapshots share a version.\<close>

theorem undisturbed_server_is_current:
  assumes "unique_versions vfy" and "g = fold (run_op vfy env) ops (new_gateway maxHistory w)"
    and "serverFor env i g = (g', Inr sv)"
  shows "current_server env (gw_store g') i sv"
  using serverFor_idle [OF assms(1) run_ops_idle [OF assms(1) new_gateway_idle, of env ops maxHistory w, folded assms(2)]
      assms(3)] by simp

subsection \<open>A race with a swap\<close>

text \<open>A gateway over the witnesses' snapshot, whose callers are resolved by name.\<close>

definition wit_genv :: "(int, string) GatewayEnv" where
  "wit_genv = \<lparr>ge_net = wit_net, ge_pool = \<lparr>po_FailureThreshold = 5, po_Cooldown = 30\<rparr>,
     ge_resolve = (\<lambda>s h. Inr wit_caller), ge_panics = (\<lambda>_. False)\<rparr>"

text \<open>One principal: first with its grants, then without any.\<close>

definition wit_granted :: "int \<Rightarrow> Grant list \<Rightarrow> PrincipalSet" where
  "wit_granted version grants =
     \<lparr>pset_Version = version, pset_RolePermissions = [(''u'', PermToolList), (''u'', PermToolCall)],
      pset_Principals = [wit_who False grants]\<rparr>"

definition wit_grant :: Grant where
  "wit_grant = \<lparr>g_Role = ''u'', g_Scope = TenantScope ''acme''\<rparr>"

definition wit_ready :: "(int, string) Gateway" where
  "wit_ready = fold (run_op wit_vfy wit_genv) [GActivate wit_store_signed, GPrincipals (wit_granted 1 [wit_grant])]
     (new_gateway 3 0)"

definition wit_found :: "(int, string) Gateway \<times> (ServeError + principalServer + principalServer)" where
  "wit_found = find_server wit_genv ''u1'' wit_ready"

text \<open>A request has built its server; the grants are taken away and the cache purged; the request
  stores its server.\<close>

definition wit_raced :: "(int, string) Gateway" where
  "wit_raced =
     fst (principals_put ''u1'' (projr (projr (snd wit_found)))
       (gateway_ApplyPrincipals (wit_granted 2 []) (fst wit_found)))"

lemma wit_found_new: "is_ok (snd wit_found) \<and> is_ok (projr (snd wit_found))"
  by code_simp

lemma wit_raced_serving: "serving wit_vfy wit_genv (at_rest wit_raced [])"
proof -
  let ?sv = "projr (projr (snd wit_found))"
  have r: "serving wit_vfy wit_genv (at_rest wit_ready [])"
    unfolding wit_ready_def by (rule run_ops_serving [OF new_gateway_serving])
  have "snd wit_found = Inr (Inr ?sv)"
    using wit_found_new is_ok_projr by metis
  then have f: "find_server wit_genv ''u1'' wit_ready = (fst wit_found, Inr (Inr ?sv))"
    unfolding wit_found_def by (metis prod.collapse)
  have "serving wit_vfy wit_genv (at_rest (fst wit_found) [(''u1'', ?sv)])"
    using find_serving [OF r f] by simp
  from run_op_serving [OF this, of "GPrincipals (wit_granted 2 [])"]
  have "serving wit_vfy wit_genv
      (at_rest (gateway_ApplyPrincipals (wit_granted 2 []) (fst wit_found)) [(''u1'', ?sv)])" by simp
  from principals_put_serving [OF this] show ?thesis by (simp add: wit_raced_def)
qed

text \<open>But not when a request races the change: a server built from the old grants can be stored after
  the purge, and is then served, with nothing left in flight, to a principal whose grants were all
  taken away, until the next swap.\<close>

theorem revoked_grants_outlive_the_purge:
  "\<exists>(g :: (int, string) Gateway) sv pv. serving wit_vfy wit_genv (at_rest g []) \<and>
     snd (serverFor wit_genv ''u1'' g) = Inr sv \<and> pv_names (sv_view sv) = [''crm.search'', ''crm.purge''] \<and>
     snd (Store_PrincipalView ''u1'' (gw_store g)) = Inr pv \<and> pv_names pv = []"
proof -
  let ?s = "snd (serverFor wit_genv ''u1'' wit_raced)"
  let ?p = "snd (Store_PrincipalView ''u1'' (gw_store wit_raced))"
  have "is_ok ?s \<and> pv_names (sv_view (projr ?s)) = [''crm.search'', ''crm.purge'']" by code_simp
  moreover have "is_ok ?p \<and> pv_names (projr ?p) = []" by code_simp
  ultimately show ?thesis
    using wit_raced_serving by (intro exI [of _ wit_raced] exI [of _ "projr ?s"] exI [of _ "projr ?p"] conjI)
      (simp_all add: is_ok_projr [symmetric])
qed

lemma wit_ready_server:
  obtains g1 sv where "serverFor wit_genv ''u1'' wit_ready = (g1, Inr sv)"
proof -
  have "is_ok (snd (serverFor wit_genv ''u1'' wit_ready))" by code_simp
  then obtain sv where "snd (serverFor wit_genv ''u1'' wit_ready) = Inr sv" unfolding is_ok_iff by (elim exE)
  then show ?thesis using that by (metis prod.collapse)
qed

theorem undisturbed_server_is_current_witness:
  "\<exists>g' sv. serverFor wit_genv ''u1'' wit_ready = (g', Inr sv) \<and> current_server wit_genv (gw_store g') ''u1'' sv"
proof -
  obtain g1 sv where s: "serverFor wit_genv ''u1'' wit_ready = (g1, Inr sv)" by (rule wit_ready_server)
  have u: "unique_versions wit_vfy"
    by (simp add: unique_versions_def wit_vfy_def Verify_Inr)
  from undisturbed_server_is_current [OF u wit_ready_def s] s show ?thesis by (intro exI conjI)
qed



end
