(* ===== verification/Plugin_Host.thy ===== *)
theory Plugin_Host
  imports Pipeline_Engine Canonical_Schema Snapshot_View
begin

section \<open>Running plugins (internal/dataplane/plugins, internal/dataplane/wiring/hosts.go)\<close>

text \<open>
  What a plugin receives, how its WebAssembly module is loaded and called, and which plugins of a
  snapshot can run. The WebAssembly runtime, the file system and the JSON codec are parameters: a
  guest is a state \<open>'g\<close> with its linear memory and its three exports. Pointers and the packed result of
  the ABI are machine words. Locks, logs and contexts are left out.
\<close>

subsection \<open>The payload (payload.go)\<close>

datatype HostFailure =
    BadContext | BadConfig string | NotEncodable
  | HostClosed | ArtifactUnreadable string | ArtifactEmpty | NoDigest string | DigestMismatch string string
  | NotCompiled | MissingExport string
  | NotLoaded string | PayloadTooLarge nat | NotInstantiated
  | AllocFailed string | AllocNull | WriteOutside | InvokeFailed string | EmptyOutput
  | OutputTooLarge nat | ReadOutside | BadVerdict
  | NoWasmRuntime | GrpcNotImplemented string | NoRuntime string

definition as_object :: "json option \<Rightarrow> jobject option" where
  "as_object j = (case j of Some (JObj m) \<Rightarrow> Some m | Some JNull \<Rightarrow> Some [] | _ \<Rightarrow> None)"

definition buildPayload ::
  "(string \<Rightarrow> json option) \<Rightarrow> (json \<Rightarrow> string option) \<Rightarrow> PluginManifest \<Rightarrow> Invocation \<Rightarrow> HostFailure + string" where
  "buildPayload decode encode manifest iv =
     bind_result
       (if inv_Context iv = [] then Inr []
        else case as_object (decode (inv_Context iv)) of None \<Rightarrow> Inl BadContext | Some m \<Rightarrow> Inr m)
       (\<lambda>payload.
         let payload = obj_set ''hook'' (JStr (hookName (inv_Hook iv))) payload;
             payload = obj_set ''shadow'' (JBool (inv_Shadow iv)) payload
         in bind_result
              (if pm_ConfigJson manifest = [] then Inr payload
               else case decode (pm_ConfigJson manifest) of
                   Some (JObj m) \<Rightarrow> Inr (obj_set ''config'' (JObj m) payload)
                 | Some JNull \<Rightarrow> Inr (obj_set ''config'' JNull payload)
                 | _ \<Rightarrow> Inl (BadConfig (pm_Name manifest)))
              (\<lambda>payload. case encode (JObj payload) of None \<Rightarrow> Inl NotEncodable | Some b \<Rightarrow> Inr b))"

subsection \<open>Calling a guest (wasm.go)\<close>

definition MaxPayloadBytes :: nat where "MaxPayloadBytes = 8 * 2 ^ 20"

definition maxInstancesPerPlugin :: nat where "maxInstancesPerPlugin = 8"

definition ExportAlloc :: string where "ExportAlloc = ''mcpdoll_alloc''"
definition ExportFree :: string where "ExportFree = ''mcpdoll_free''"
definition ExportInvoke :: string where "ExportInvoke = ''mcpdoll_invoke''"

record 'g Guest =
  gs_alloc :: "64 word \<Rightarrow> 'g \<Rightarrow> 'g \<times> (string + 64 word)"
  gs_invoke :: "64 word \<Rightarrow> 64 word \<Rightarrow> 'g \<Rightarrow> 'g \<times> (string + 64 word)"
  gs_free :: "64 word \<Rightarrow> 'g \<Rightarrow> 'g"
  gs_memory :: "'g \<Rightarrow> string"
  gs_store :: "string \<Rightarrow> 'g \<Rightarrow> 'g"

text \<open>\<open>Memory().Write\<close> and \<open>Read\<close> refuse a range that leaves the memory; the sum does not wrap.\<close>

definition mem_write :: "32 word \<Rightarrow> string \<Rightarrow> string \<Rightarrow> string option" where
  "mem_write ptr b mem =
     (if unat ptr + length b \<le> length mem
      then Some (take (unat ptr) mem @ b @ drop (unat ptr + length b) mem) else None)"

definition mem_read :: "32 word \<Rightarrow> 32 word \<Rightarrow> string \<Rightarrow> string option" where
  "mem_read ptr len mem =
     (if unat ptr + unat len \<le> length mem then Some (take (unat len) (drop (unat ptr) mem)) else None)"

text \<open>\<open>uint32(packed>>32)\<close> and \<open>uint32(packed)\<close>.\<close>

definition unpack :: "64 word \<Rightarrow> 32 word \<times> 32 word" where
  "unpack packed = (ucast (drop_bit 32 packed), ucast packed)"

text \<open>One alloc / invoke / free cycle: the guest after it, the pointers freed in order, the output.\<close>

definition read_output ::
  "'g Guest \<Rightarrow> 64 word \<Rightarrow> 64 word \<Rightarrow> 'g \<Rightarrow> 'g \<times> 64 word list \<times> (HostFailure + string)" where
  "read_output guest packed inPtr g =
     (let (outPtr, outLen) = unpack packed
      in if outPtr = 0 \<or> outLen = 0 then (gs_free guest inPtr g, [inPtr], Inl EmptyOutput)
         else if unat outLen > MaxPayloadBytes
         then (gs_free guest inPtr g, [inPtr], Inl (OutputTooLarge (unat outLen)))
         else (gs_free guest inPtr (gs_free guest (ucast outPtr) g), [ucast outPtr, inPtr],
               case mem_read outPtr outLen (gs_memory guest g) of
                 None \<Rightarrow> Inl ReadOutside | Some out \<Rightarrow> Inr out))"

definition callGuest ::
  "'g Guest \<Rightarrow> string \<Rightarrow> 'g \<Rightarrow> 'g \<times> 64 word list \<times> (HostFailure + string)" where
  "callGuest guest input g =
     (case gs_alloc guest (of_nat (length input)) g of
        (g, Inl err) \<Rightarrow> (g, [], Inl (AllocFailed err))
      | (g, Inr res) \<Rightarrow>
          (let inPtr = (ucast res :: 32 word)
           in if inPtr = 0 then (g, [], Inl AllocNull)
              else case mem_write inPtr input (gs_memory guest g) of
                  None \<Rightarrow> (gs_free guest (ucast inPtr) g, [ucast inPtr], Inl WriteOutside)
                | Some mem \<Rightarrow>
                    (case gs_invoke guest (ucast inPtr) (of_nat (length input)) (gs_store guest mem g) of
                       (g, Inl err) \<Rightarrow> (gs_free guest (ucast inPtr) g, [ucast inPtr], Inl (InvokeFailed err))
                     | (g, Inr packed) \<Rightarrow> read_output guest packed (ucast inPtr) g)))"

subsection \<open>Loading\<close>

record ('m, 'g) compiledPlugin =
  cp_module :: 'm
  cp_digest :: string
  cp_instances :: "'g list"

record ('m, 'g) WASMHost =
  wh_compiled :: "(string \<times> ('m, 'g) compiledPlugin) list"
  wh_closed :: bool

text \<open>The runtime and the disk: file contents by path, compilation, exports, instantiation, and the
  guest's exports. \<open>sha\<close> is SHA-256.\<close>

record ('m, 'g) Runtime =
  rt_ReadFile :: "string \<Rightarrow> string option"
  rt_sha :: "string \<Rightarrow> string"
  rt_Compile :: "string \<Rightarrow> 'm option"
  rt_Exports :: "'m \<Rightarrow> string list"
  rt_Instantiate :: "'m \<Rightarrow> 'g option"
  rt_Guest :: "'g Guest"
  rt_decode :: "string \<Rightarrow> json option"
  rt_encode :: "json \<Rightarrow> string option"
  rt_verdict :: "string \<Rightarrow> Verdict option"

definition readArtifact :: "('m, 'g) Runtime \<Rightarrow> string \<Rightarrow> HostFailure + string" where
  "readArtifact rt ref =
     (let rd = (\<lambda>path. case rt_ReadFile rt path of None \<Rightarrow> Inl (ArtifactUnreadable path) | Some b \<Rightarrow> Inr b)
      in if ref = [] then Inl (ArtifactUnreadable [])
         else if prefix ''file://'' ref then rd (trim_prefix ''file://'' ref)
         else if contains ref ''://'' then Inl (ArtifactUnreadable ref)
         else rd ref)"

definition artifact_digest :: "('m, 'g) Runtime \<Rightarrow> string \<Rightarrow> string" where
  "artifact_digest rt b = ''sha256:'' @ hex_encode (rt_sha rt b)"

text \<open>The checks of \<open>Load\<close>: the module to install, or \<open>None\<close> when the plugin is already loaded.\<close>

definition check_artifact ::
  "('m, 'g) Runtime \<Rightarrow> PluginManifest \<Rightarrow> HostFailure + 'm" where
  "check_artifact rt m =
     bind_result (readArtifact rt (pm_ArtifactRef m)) (\<lambda>b.
       if b = [] then Inl ArtifactEmpty
       else if pm_ArtifactDigest m = [] then Inl (NoDigest (artifact_digest rt b))
       else if artifact_digest rt b \<noteq> pm_ArtifactDigest m
       then Inl (DigestMismatch (pm_ArtifactDigest m) (artifact_digest rt b))
       else case rt_Compile rt b of
           None \<Rightarrow> Inl NotCompiled
         | Some md \<Rightarrow>
             (case find (\<lambda>name. name \<notin> set (rt_Exports rt md)) [ExportAlloc, ExportFree, ExportInvoke] of
                Some name \<Rightarrow> Inl (MissingExport name)
              | None \<Rightarrow> Inr md))"

definition Load ::
  "('m, 'g) Runtime \<Rightarrow> PluginManifest \<Rightarrow> ('m, 'g) WASMHost \<Rightarrow> ('m, 'g) WASMHost \<times> (HostFailure + unit)" where
  "Load rt m h =
     (if wh_closed h then (h, Inl HostClosed)
      else if (case map_of (wh_compiled h) (pm_Id m) of
                 None \<Rightarrow> False | Some existing \<Rightarrow> cp_digest existing = pm_ArtifactDigest m)
      then (h, Inr ())
      else case check_artifact rt m of
          Inl e \<Rightarrow> (h, Inl e)
        | Inr md \<Rightarrow>
            (h\<lparr>wh_compiled := AList.update (pm_Id m)
                 \<lparr>cp_module = md, cp_digest = pm_ArtifactDigest m, cp_instances = []\<rparr> (wh_compiled h)\<rparr>,
             Inr ()))"

subsection \<open>Instances and invocations\<close>

text \<open>An instance from the pool, or a new one.\<close>

definition acquire ::
  "('m, 'g) Runtime \<Rightarrow> ('m, 'g) compiledPlugin \<Rightarrow> ('m, 'g) compiledPlugin \<times> (HostFailure + 'g)" where
  "acquire rt p =
     (case cp_instances p of
        g # gs \<Rightarrow> (p\<lparr>cp_instances := gs\<rparr>, Inr g)
      | [] \<Rightarrow> (p, case rt_Instantiate rt (cp_module p) of None \<Rightarrow> Inl NotInstantiated | Some g \<Rightarrow> Inr g))"

text \<open>Back into the pool unless it is full, when the instance is closed.\<close>

definition release :: "'g \<Rightarrow> ('m, 'g) compiledPlugin \<Rightarrow> ('m, 'g) compiledPlugin" where
  "release g p =
     (if length (cp_instances p) < maxInstancesPerPlugin
      then p\<lparr>cp_instances := cp_instances p @ [g]\<rparr> else p)"

definition set_compiled :: "string \<Rightarrow> ('m, 'g) compiledPlugin \<Rightarrow> ('m, 'g) WASMHost \<Rightarrow> ('m, 'g) WASMHost" where
  "set_compiled i p h = h\<lparr>wh_compiled := AList.update i p (wh_compiled h)\<rparr>"

definition Invoke ::
  "('m, 'g) Runtime \<Rightarrow> PluginManifest \<Rightarrow> Invocation \<Rightarrow> ('m, 'g) WASMHost \<Rightarrow>
   ('m, 'g) WASMHost \<times> (HostFailure + Verdict)" where
  "Invoke rt m iv h =
     (case map_of (wh_compiled h) (pm_Id m) of
        None \<Rightarrow> (h, Inl (NotLoaded (pm_Name m)))
      | Some plugin \<Rightarrow>
          if length (inv_Context iv) > MaxPayloadBytes
          then (h, Inl (PayloadTooLarge (length (inv_Context iv))))
          else case buildPayload (rt_decode rt) (rt_encode rt) m iv of
              Inl e \<Rightarrow> (h, Inl e)
            | Inr payload \<Rightarrow>
                if length payload > MaxPayloadBytes then (h, Inl (PayloadTooLarge (length payload)))
                else case acquire rt plugin of
                    (plugin, Inl e) \<Rightarrow> (set_compiled (pm_Id m) plugin h, Inl e)
                  | (plugin, Inr g) \<Rightarrow>
                      (case callGuest (rt_Guest rt) payload g of
                         (g, frees, Inl e) \<Rightarrow> (set_compiled (pm_Id m) plugin h, Inl e)
                       | (g, frees, Inr out) \<Rightarrow>
                           (set_compiled (pm_Id m) (release g plugin) h,
                            case rt_verdict rt out of None \<Rightarrow> Inl BadVerdict | Some v \<Rightarrow> Inr v)))"

definition LoadedPlugins :: "('m, 'g) WASMHost \<Rightarrow> string list" where
  "LoadedPlugins h = map fst (wh_compiled h)"

definition host_Close :: "('m, 'g) WASMHost \<Rightarrow> ('m, 'g) WASMHost" where
  "host_Close h = h\<lparr>wh_closed := True\<rparr>"

subsection \<open>The registry of hosts (hosts.go)\<close>

record HostRegistry =
  hg_loaded :: "string list"
  hg_failures :: "(string \<times> HostFailure) list"

definition NewHostRegistry :: HostRegistry where
  "NewHostRegistry = \<lparr>hg_loaded = [], hg_failures = []\<rparr>"

text \<open>\<open>Inr\<close> is the WebAssembly host.\<close>

definition registry_Host :: "PluginManifest \<Rightarrow> HostRegistry \<Rightarrow> HostFailure + unit" where
  "registry_Host m r =
     (if pm_Id m \<in> set (hg_loaded r) then Inr ()
      else case map_of (hg_failures r) (pm_Id m) of
          Some e \<Rightarrow> Inl e
        | None \<Rightarrow> Inl (NotLoaded (pm_Name m)))"

definition load_plugin ::
  "('m, 'g) Runtime \<Rightarrow> PluginManifest \<Rightarrow> ('m, 'g) WASMHost option \<Rightarrow>
   ('m, 'g) WASMHost option \<times> (HostFailure + unit)" where
  "load_plugin rt m wasm =
     (case pm_Runtime m of
        RUNTIME_WASM \<Rightarrow>
          (case wasm of
             None \<Rightarrow> (wasm, Inl NoWasmRuntime)
           | Some h \<Rightarrow> (case Load rt m h of (h, r) \<Rightarrow> (Some h, r)))
      | RUNTIME_GRPC \<Rightarrow> (wasm, Inl (GrpcNotImplemented (pm_Name m)))
      | RUNTIME_UNSPECIFIED \<Rightarrow> (wasm, Inl (NoRuntime (pm_Name m))))"

definition wanted_plugins :: "PluginManifest list \<Rightarrow> (string \<times> PluginManifest) list" where
  "wanted_plugins ms = fold (\<lambda>m. AList.update (pm_Id m) m) ms []"

fun load_all ::
  "('m, 'g) Runtime \<Rightarrow> (string \<times> PluginManifest) list \<Rightarrow> HostRegistry \<times> ('m, 'g) WASMHost option \<Rightarrow>
   HostRegistry \<times> ('m, 'g) WASMHost option" where
  "load_all rt [] rw = rw"
| "load_all rt ((i, m) # ms) (r, wasm) =
     (case load_plugin rt m wasm of
        (wasm, Inl e) \<Rightarrow> load_all rt ms (r\<lparr>hg_failures := AList.update i e (hg_failures r)\<rparr>, wasm)
      | (wasm, Inr ()) \<Rightarrow> load_all rt ms (r\<lparr>hg_loaded := hg_loaded r @ [i]\<rparr>, wasm))"

definition registry_Sync ::
  "('m, 'g) Runtime \<Rightarrow> View \<Rightarrow> HostRegistry \<times> ('m, 'g) WASMHost option \<Rightarrow>
   HostRegistry \<times> ('m, 'g) WASMHost option" where
  "registry_Sync rt view = (\<lambda>(r, wasm).
     load_all rt (wanted_plugins (sn_Plugins (v_pb view))) (NewHostRegistry, wasm))"

definition registry_Failures :: "HostRegistry \<Rightarrow> (string \<times> HostFailure) list" where
  "registry_Failures r = hg_failures r"

end
