(* ===== verification/Plugin_Host_Props.thy ===== *)
theory Plugin_Host_Props
  imports Plugin_Host
begin

section \<open>What the plugin host guarantees\<close>

text \<open>
  Bounds on what a guest can hand back, the host's invariant (every compiled module has the digest its
  manifest names, exports the ABI, and keeps at most eight idle instances) over every sequence of loads,
  invocations and synchronisations, and what a plugin is told about the call it is asked to judge.
\<close>

subsection \<open>One guest call\<close>

lemma read_output_ok:
  assumes "read_output guest packed inPtr g = (g', frees, Inr out)"
  shows "0 < length out" "length out \<le> MaxPayloadBytes"
    "\<exists>i. i + length out \<le> length (gs_memory guest g) \<and> out = take (length out) (drop i (gs_memory guest g))"
    "frees = [ucast (fst (unpack packed)), inPtr]"
proof -
  obtain p l where u: "unpack packed = (p, l)" by fastforce
  from assms u have nz: "p \<noteq> 0" "l \<noteq> 0" and le: "unat l \<le> MaxPayloadBytes"
    and f: "frees = [ucast p, inPtr]" and r: "mem_read p l (gs_memory guest g) = Some out"
    by (auto simp: read_output_def split: if_splits option.splits)
  from r have fit: "unat p + unat l \<le> length (gs_memory guest g)"
    and out: "out = take (unat l) (drop (unat p) (gs_memory guest g))"
    by (auto simp: mem_read_def split: if_splits)
  from fit out have len: "length out = unat l" by simp
  show "0 < length out" using len nz by (simp add: unat_gt_0)
  show "length out \<le> MaxPayloadBytes" using len le by simp
  show "\<exists>i. i + length out \<le> length (gs_memory guest g) \<and> out = take (length out) (drop i (gs_memory guest g))"
    using fit out len by (intro exI [of _ "unat p"]) simp
  show "frees = [ucast (fst (unpack packed)), inPtr]" using f u by simp
qed

lemma callGuest_ok:
  assumes "callGuest guest input g = (g', frees, Inr out)"
  shows "0 < length out \<and> length out \<le> MaxPayloadBytes \<and>
    (\<exists>mem i. i + length out \<le> length mem \<and> out = take (length out) (drop i mem)) \<and> length frees = 2"
proof -
  obtain g1 packed inPtr where "read_output guest packed inPtr g1 = (g', frees, Inr out)"
    using assms by (auto simp: callGuest_def Let_def split: sum.splits prod.splits if_splits option.splits)
  from read_output_ok [OF this] show ?thesis by auto
qed

text \<open>The pointers freed on each way out, in order.\<close>

lemma callGuest_frees:
  "callGuest guest input g = (g', frees, r) \<Longrightarrow>
     (case gs_alloc guest (of_nat (length input)) g of
        (_, Inl _) \<Rightarrow> frees = []
      | (_, Inr res) \<Rightarrow> if (ucast res :: 32 word) = 0 then frees = []
                       else frees \<noteq> [] \<and> last frees = ucast (ucast res :: 32 word))"
  by (auto simp: callGuest_def read_output_def Let_def split: sum.splits prod.splits if_splits option.splits)

lemma unpack_pack:
  fixes p l :: "32 word"
  shows "unpack (push_bit 32 (ucast p) OR ucast l) = (p, l)"
  by (auto simp: unpack_def bit_eq_iff bit_simps dest: bit_imp_le_length)

subsection \<open>The host's invariant\<close>

text \<open>The last call of the instance returned an output.\<close>

definition answered_cleanly :: "'g Guest \<Rightarrow> 'g \<Rightarrow> bool" where
  "answered_cleanly guest g \<longleftrightarrow> (\<exists>input g0 frees out. callGuest guest input g0 = (g, frees, Inr out))"

definition module_ok :: "('m, 'g) Runtime \<Rightarrow> ('m, 'g) compiledPlugin \<Rightarrow> bool" where
  "module_ok rt p \<longleftrightarrow>
     length (cp_instances p) \<le> maxInstancesPerPlugin \<and>
     (\<exists>b. b \<noteq> [] \<and> artifact_digest rt b = cp_digest p \<and> rt_Compile rt b = Some (cp_module p)) \<and>
     {ExportAlloc, ExportFree, ExportInvoke} \<subseteq> set (rt_Exports rt (cp_module p)) \<and>
     (\<forall>g \<in> set (cp_instances p). answered_cleanly (rt_Guest rt) g)"

lemma answered_cleanlyI: "callGuest guest input g0 = (g, frees, Inr out) \<Longrightarrow> answered_cleanly guest g"
  unfolding answered_cleanly_def by (intro exI)

definition host_ok :: "('m, 'g) Runtime \<Rightarrow> ('m, 'g) WASMHost \<Rightarrow> bool" where
  "host_ok rt h \<longleftrightarrow> (\<forall>i p. map_of (wh_compiled h) i = Some p \<longrightarrow> module_ok rt p)"

lemma host_okD: "host_ok rt h \<Longrightarrow> map_of (wh_compiled h) i = Some p \<Longrightarrow> module_ok rt p"
  by (simp add: host_ok_def)

lemma host_ok_update:
  "host_ok rt h \<Longrightarrow> module_ok rt p \<Longrightarrow> host_ok rt (h\<lparr>wh_compiled := AList.update i p (wh_compiled h)\<rparr>)"
  by (auto simp: host_ok_def update_conv')

lemma check_artifact_ok:
  assumes "check_artifact rt m = Inr md"
  shows "module_ok rt \<lparr>cp_module = md, cp_digest = pm_ArtifactDigest m, cp_instances = []\<rparr>"
  using assms
  by (auto simp: check_artifact_def module_ok_def bind_result_def find_None_iff
      split: sum.splits if_splits option.splits)

lemma Load_keeps: "Load rt m h = (h', r) \<Longrightarrow> host_ok rt h \<Longrightarrow> host_ok rt h'"
  by (auto simp: Load_def split: if_splits sum.splits intro: host_ok_update check_artifact_ok)

lemma Load_done:
  assumes "Load rt m h = (h', Inr u)"
  shows "\<exists>p. map_of (wh_compiled h') (pm_Id m) = Some p \<and> cp_digest p = pm_ArtifactDigest m"
  using assms by (auto simp: Load_def update_conv' split: if_splits sum.splits option.splits)

lemma Load_others:
  "Load rt m h = (h', r) \<Longrightarrow> i \<noteq> pm_Id m \<Longrightarrow> map_of (wh_compiled h') i = map_of (wh_compiled h) i"
  by (auto simp: Load_def update_conv' split: if_splits sum.splits)

lemma acquire_keeps: "acquire rt p = (p', r) \<Longrightarrow> module_ok rt p \<Longrightarrow> module_ok rt p'"
  by (auto simp: acquire_def module_ok_def split: list.splits)

lemma release_keeps: "module_ok rt p \<Longrightarrow> answered_cleanly (rt_Guest rt) g \<Longrightarrow> module_ok rt (release g p)"
  by (auto simp: release_def module_ok_def)

lemma Invoke_keeps:
  assumes "host_ok rt h"
  shows "host_ok rt (fst (Invoke rt m iv h))"
proof (cases "map_of (wh_compiled h) (pm_Id m)")
  case (Some p)
  with assms have p: "module_ok rt p" by (rule host_okD)
  show ?thesis
    using assms p Some
    by (auto simp: Invoke_def set_compiled_def split: if_splits sum.splits prod.splits
        intro!: host_ok_update release_keeps answered_cleanlyI elim: acquire_keeps)
qed (simp add: Invoke_def assms)

lemma load_plugin_keeps:
  "load_plugin rt m (Some h) = (w, r) \<Longrightarrow> host_ok rt h \<Longrightarrow> \<exists>h'. w = Some h' \<and> host_ok rt h'"
  by (auto simp: load_plugin_def split: PluginRuntime.splits prod.splits dest: Load_keeps)

subsection \<open>Synchronising with a snapshot\<close>

lemma wanted_plugins_fold:
  fixes ms :: "PluginManifest list"
  shows "map_of (fold (\<lambda>m. AList.update (pm_Id m) m) ms acc) i =
     (case find (\<lambda>m. pm_Id m = i) (rev ms) of None \<Rightarrow> map_of acc i | Some m \<Rightarrow> Some m)"
proof (induction ms arbitrary: acc)
  case (Cons m ms)
  have "find P (xs @ [m]) = (case find P xs of None \<Rightarrow> if P m then Some m else None | Some y \<Rightarrow> Some y)"
    for P :: "PluginManifest \<Rightarrow> bool" and xs m by (induction xs) auto
  with Cons.IH show ?case by (auto simp: update_conv' split: option.splits)
qed simp

lemma wanted_plugins_last: "map_of (wanted_plugins ms) i = find (\<lambda>m. pm_Id m = i) (rev ms)"
  by (simp add: wanted_plugins_def wanted_plugins_fold split: option.splits)

lemma wanted_plugins_distinct: "distinct (map fst (wanted_plugins ms))"
proof -
  have "distinct (map fst acc) \<Longrightarrow> distinct (map fst (fold (\<lambda>m. AList.update (pm_Id m) m) ms acc))" for acc
    by (induction ms arbitrary: acc) (simp_all add: distinct_update)
  thus ?thesis by (simp add: wanted_plugins_def)
qed

lemma wanted_plugins_mem:
  "(i, m) \<in> set (wanted_plugins ms) \<longleftrightarrow> find (\<lambda>m. pm_Id m = i) (rev ms) = Some m"
  using map_of_eq_Some_iff [OF wanted_plugins_distinct] by (simp add: wanted_plugins_last [symmetric])

lemma find_last_mem: "find P (rev ms) = Some m \<Longrightarrow> m \<in> set ms \<and> P m"
  by (auto simp: find_Some_iff) (metis nth_mem length_rev set_rev)

lemma load_plugin_done:
  assumes "load_plugin rt m w = (w', Inr u)"
  shows "\<exists>h h' p. w' = Some h' \<and> pm_Runtime m = RUNTIME_WASM \<and>
           map_of (wh_compiled h') (pm_Id m) = Some p \<and> cp_digest p = pm_ArtifactDigest m"
  using assms Load_done [of rt m]
  by (auto simp: load_plugin_def split: PluginRuntime.splits prod.splits option.splits)

lemma load_plugin_others:
  "load_plugin rt m (Some h) = (Some h', r) \<Longrightarrow> i \<noteq> pm_Id m \<Longrightarrow>
     map_of (wh_compiled h') i = map_of (wh_compiled h) i"
  by (auto simp: load_plugin_def Load_others split: PluginRuntime.splits prod.splits)

definition record_load :: "string \<Rightarrow> HostFailure + unit \<Rightarrow> HostRegistry \<Rightarrow> HostRegistry" where
  "record_load i x r = (case x of
       Inl e \<Rightarrow> r\<lparr>hg_failures := AList.update i e (hg_failures r)\<rparr>
     | Inr _ \<Rightarrow> r\<lparr>hg_loaded := hg_loaded r @ [i]\<rparr>)"

lemma load_all_step:
  "load_plugin rt m w = (w1, x) \<Longrightarrow> load_all rt ((i, m) # ms) (r, w) = load_all rt ms (record_load i x r, w1)"
  by (cases x) (simp_all add: record_load_def split: unit.splits)

lemma load_all_host:
  assumes "load_all rt ms (r, Some h) = (r', w)" "host_ok rt h"
  shows "\<exists>h'. w = Some h' \<and> host_ok rt h' \<and>
           (\<forall>i. (\<forall>(j, m) \<in> set ms. pm_Id m \<noteq> i) \<longrightarrow> map_of (wh_compiled h') i = map_of (wh_compiled h) i)"
  using assms
proof (induction ms arbitrary: r h)
  case (Cons jm ms)
  obtain j m where jm: "jm = (j, m)" by fastforce
  obtain w1 x where l: "load_plugin rt m (Some h) = (w1, x)" by fastforce
  from load_plugin_keeps [OF l Cons.prems(2)] obtain h1 where h1: "w1 = Some h1" "host_ok rt h1" by blast
  from Cons.prems(1) have "load_all rt ms (record_load j x r, Some h1) = (r', w)"
    by (simp only: jm load_all_step [OF l] h1)
  from Cons.IH [OF this h1(2)] show ?case
    using load_plugin_others [OF l [unfolded h1]] by (fastforce simp: jm)
qed auto

lemma load_all_registry:
  assumes "load_all rt ms (r, w) = (r', w')"
  shows "set (hg_loaded r') \<union> dom (map_of (hg_failures r')) =
           set (hg_loaded r) \<union> dom (map_of (hg_failures r)) \<union> fst ` set ms"
  using assms
proof (induction ms arbitrary: r w)
  case (Cons jm ms)
  obtain j m where jm: "jm = (j, m)" by fastforce
  obtain w1 x where l: "load_plugin rt m w = (w1, x)" by fastforce
  from Cons.prems have "load_all rt ms (record_load j x r, w1) = (r', w')"
    by (simp only: jm load_all_step [OF l])
  from Cons.IH [OF this] show ?case
    by (cases x) (auto simp: jm record_load_def update_conv')
qed simp

text \<open>An id enters the loaded set only through a load that succeeded, and no later load disturbs it.\<close>

lemma load_all_loaded:
  assumes "load_all rt ms (r, Some h) = (r', Some h')" "host_ok rt h"
    "\<forall>(j, m) \<in> set ms. j = pm_Id m" "distinct (map fst ms)"
    "i \<in> set (hg_loaded r')" "i \<notin> set (hg_loaded r)"
  shows "\<exists>m p. (i, m) \<in> set ms \<and> pm_Runtime m = RUNTIME_WASM \<and>
           map_of (wh_compiled h') i = Some p \<and> cp_digest p = pm_ArtifactDigest m"
  using assms
proof (induction ms arbitrary: r h)
  case (Cons jm ms)
  obtain j m where jm: "jm = (j, m)" by fastforce
  obtain w1 x where l: "load_plugin rt m (Some h) = (w1, x)" by fastforce
  from load_plugin_keeps [OF l Cons.prems(2)] obtain h1 where h1: "w1 = Some h1" "host_ok rt h1" by blast
  from Cons.prems(1) have rest: "load_all rt ms (record_load j x r, Some h1) = (r', Some h')"
    by (simp only: jm load_all_step [OF l] h1)
  show ?case
  proof (cases "i \<in> set (hg_loaded (record_load j x r))")
    case False
    from Cons.IH [OF rest h1(2) _ _ Cons.prems(5) False] Cons.prems(3,4)
    obtain m' p where "(i, m') \<in> set ms" "pm_Runtime m' = RUNTIME_WASM"
        "map_of (wh_compiled h') i = Some p" "cp_digest p = pm_ArtifactDigest m'"
      by (auto simp: jm)
    thus ?thesis by (intro exI [of _ m'] exI [of _ p]) simp
  next
    case True
    with Cons.prems(6) obtain u where x: "x = Inr u" and ij: "i = j"
      by (cases x) (auto simp: record_load_def)
    from load_plugin_done [OF l [unfolded x]] h1 obtain p
      where p: "pm_Runtime m = RUNTIME_WASM" "map_of (wh_compiled h1) (pm_Id m) = Some p"
        "cp_digest p = pm_ArtifactDigest m" by auto
    have jm': "j = pm_Id m" using Cons.prems(3) by (auto simp: jm)
    have "\<forall>(k, m') \<in> set ms. pm_Id m' \<noteq> i"
      using Cons.prems(3,4) ij by (force simp: jm)
    with load_all_host [OF rest h1(2)] have "map_of (wh_compiled h') i = map_of (wh_compiled h1) i" by auto
    with p ij jm' show ?thesis by (intro exI [of _ m] exI [of _ p]) (simp add: jm)
  qed
qed simp

subsection \<open>Every host the gateway can reach\<close>

text \<open>A host from its construction on: plugins are loaded from whatever the disk holds at that moment,
  invoked, synchronised with one snapshot after another.\<close>

inductive hosting :: "('m, 'g) Runtime \<Rightarrow> ('m, 'g) WASMHost \<Rightarrow> bool" for rt where
  start: "hosting rt \<lparr>wh_compiled = [], wh_closed = False\<rparr>"
| loaded: "hosting rt h \<Longrightarrow> Load (rt\<lparr>rt_ReadFile := disk\<rparr>) m h = (h', r) \<Longrightarrow> hosting rt h'"
| invoked: "hosting rt h \<Longrightarrow> Invoke rt m iv h = (h', v) \<Longrightarrow> hosting rt h'"
| synced: "hosting rt h \<Longrightarrow> registry_Sync (rt\<lparr>rt_ReadFile := disk\<rparr>) view (r, Some h) = (r', Some h') \<Longrightarrow> hosting rt h'"
| closed: "hosting rt h \<Longrightarrow> hosting rt (host_Close h)"

lemma module_ok_disk [simp]: "module_ok (rt\<lparr>rt_ReadFile := disk\<rparr>) p = module_ok rt p"
  by (simp add: module_ok_def artifact_digest_def)

lemma host_ok_disk [simp]: "host_ok (rt\<lparr>rt_ReadFile := disk\<rparr>) h = host_ok rt h"
  by (simp add: host_ok_def)

lemma registry_Sync_keeps:
  assumes "registry_Sync rt view (r, Some h) = (r', w)" "host_ok rt h"
  shows "\<exists>h'. w = Some h' \<and> host_ok rt h'"
  using load_all_host [of rt _ NewHostRegistry h] assms by (fastforce simp: registry_Sync_def)

lemma hosting_ok: "hosting rt h \<Longrightarrow> host_ok rt h"
proof (induction rule: hosting.induct)
  case (loaded h disk m h' r)
  thus ?case using Load_keeps [of "rt\<lparr>rt_ReadFile := disk\<rparr>"] by auto
next
  case (invoked h m iv h' v)
  thus ?case using Invoke_keeps [of rt h m iv] by simp
next
  case (synced h disk view r r' h')
  thus ?case using registry_Sync_keeps [of "rt\<lparr>rt_ReadFile := disk\<rparr>"] by fastforce
qed (simp_all add: host_ok_def host_Close_def)

text \<open>C15: whatever was loaded from whatever disk, called and synchronised before, every module a WebAssembly
  host holds was compiled from non-empty bytes with the SHA-256 digest recorded for it and exports the three functions of the
  ABI; at most eight instances of it are idle, and each of those returned an output from its last call,
  so an instance that failed is never used again.\<close>
theorem compiled_plugins_are_verified:
  assumes "hosting rt h" "map_of (wh_compiled h) i = Some p"
  shows "(\<exists>b. b \<noteq> [] \<and> artifact_digest rt b = cp_digest p \<and> rt_Compile rt b = Some (cp_module p)) \<and>
    set [ExportAlloc, ExportFree, ExportInvoke] \<subseteq> set (rt_Exports rt (cp_module p)) \<and>
    length (cp_instances p) \<le> maxInstancesPerPlugin \<and>
    (\<forall>g \<in> set (cp_instances p). \<exists>input g0 frees out. callGuest (rt_Guest rt) input g0 = (g, frees, Inr out))"
  using host_okD [OF hosting_ok [OF assms(1)] assms(2)] by (simp add: module_ok_def answered_cleanly_def)

text \<open>After a synchronisation every plugin the snapshot declares either has a recorded failure or is
  runnable, and a runnable one is a WebAssembly plugin whose module was compiled from bytes with exactly the
  digest its manifest names (the last manifest of that id, should there be several).\<close>
theorem synced_plugins_match_their_manifests:
  assumes "hosting rt h" "registry_Sync (rt\<lparr>rt_ReadFile := disk\<rparr>) view (r, Some h) = (r', w)"
    "m \<in> set (sn_Plugins (v_pb view))"
  shows "(case registry_Host m r' of
       Inl e \<Rightarrow> map_of (registry_Failures r') (pm_Id m) = Some e
     | Inr _ \<Rightarrow> \<exists>h' m' p b. w = Some h' \<and> m' \<in> set (sn_Plugins (v_pb view)) \<and> pm_Id m' = pm_Id m \<and>
         pm_Runtime m' = RUNTIME_WASM \<and> map_of (wh_compiled h') (pm_Id m) = Some p \<and>
         rt_Compile rt b = Some (cp_module p) \<and> artifact_digest rt b = pm_ArtifactDigest m')"
proof -
  let ?rt = "rt\<lparr>rt_ReadFile := disk\<rparr>" and ?ms = "wanted_plugins (sn_Plugins (v_pb view))"
  have run: "load_all ?rt ?ms (NewHostRegistry, Some h) = (r', w)"
    using assms(2) by (simp add: registry_Sync_def)
  have ok: "host_ok ?rt h" using hosting_ok [OF assms(1)] by simp
  from load_all_host [OF run ok] obtain h' where w: "w = Some h'" and ok': "host_ok ?rt h'" by blast
  have ids: "\<forall>(j, m) \<in> set ?ms. j = pm_Id m" by (auto simp: wanted_plugins_mem dest!: find_last_mem)
  have "pm_Id m \<in> fst ` set ?ms"
    using assms(3) map_of_eq_None_iff [of ?ms "pm_Id m"]
    by (auto simp: wanted_plugins_last find_None_iff)
  with load_all_registry [OF run]
  have known: "pm_Id m \<in> set (hg_loaded r') \<union> dom (map_of (hg_failures r'))" by auto
  show ?thesis
  proof (cases "pm_Id m \<in> set (hg_loaded r')")
    case True
    from load_all_loaded [OF run [unfolded w] ok ids wanted_plugins_distinct True]
    obtain m' p where m': "(pm_Id m, m') \<in> set ?ms" "pm_Runtime m' = RUNTIME_WASM"
      and p: "map_of (wh_compiled h') (pm_Id m) = Some p" "cp_digest p = pm_ArtifactDigest m'"
      by (auto simp: NewHostRegistry_def)
    from host_okD [OF ok' p(1)] obtain b
      where b: "rt_Compile rt b = Some (cp_module p)" "artifact_digest rt b = cp_digest p"
      by (auto simp: module_ok_def artifact_digest_def)
    from m'(1) have "m' \<in> set (sn_Plugins (v_pb view))" "pm_Id m' = pm_Id m"
      by (auto simp: wanted_plugins_mem dest!: find_last_mem)
    with True w m' p b show ?thesis by (simp add: registry_Host_def) blast
  next
    case False
    with known show ?thesis by (auto simp: registry_Host_def registry_Failures_def)
  qed
qed


text \<open>No synchronisation drops a compiled module, although \<open>Sync\<close> is documented to unload the
  plugins that are gone.\<close>

lemma load_plugin_grows:
  assumes "load_plugin rt m (Some h) = (Some h', x)" "i \<in> dom (map_of (wh_compiled h))"
  shows "i \<in> dom (map_of (wh_compiled h'))"
  using assms
  by (auto simp: load_plugin_def Load_def update_conv' split: PluginRuntime.splits if_splits sum.splits prod.splits)

lemma load_all_grows:
  assumes "load_all rt ms (r, Some h) = (r', Some h')" "host_ok rt h" "i \<in> dom (map_of (wh_compiled h))"
  shows "i \<in> dom (map_of (wh_compiled h'))"
  using assms
proof (induction ms arbitrary: r h)
  case (Cons jm ms)
  obtain j m where jm: "jm = (j, m)" by fastforce
  obtain w1 x where l: "load_plugin rt m (Some h) = (w1, x)" by fastforce
  from load_plugin_keeps [OF l Cons.prems(2)] obtain h1 where h1: "w1 = Some h1" "host_ok rt h1" by blast
  from Cons.prems(1) have "load_all rt ms (record_load j x r, Some h1) = (r', Some h')"
    by (simp only: jm load_all_step [OF l] h1)
  from Cons.IH [OF this h1(2) load_plugin_grows [OF l [unfolded h1] Cons.prems(3)]] show ?case .
qed simp

text \<open>What a plugin is told: the hook and the shadow flag are the host's own, whatever the request context
  says; the manifest's configuration replaces any other; the rest is the request context.\<close>

theorem plugin_told_its_hook_and_mode:
  assumes "buildPayload dec enc m iv = Inr b"
  shows "\<exists>ctx payload. enc (JObj payload) = Some b \<and>
    (inv_Context iv \<noteq> [] \<longrightarrow> as_object (dec (inv_Context iv)) = Some ctx) \<and>
    map_of payload ''hook'' = Some (JStr (hookName (inv_Hook iv))) \<and>
    map_of payload ''shadow'' = Some (JBool (inv_Shadow iv)) \<and>
    (pm_ConfigJson m \<noteq> [] \<longrightarrow> map_of payload ''config'' = dec (pm_ConfigJson m)) \<and>
    (\<forall>k. k \<notin> {''hook'', ''shadow'', ''config''} \<longrightarrow>
       map_of payload k = (if inv_Context iv = [] then None else map_of ctx k))"
proof -
  from assms obtain ctx where ctx: "(if inv_Context iv = [] then Inr [] else
      case as_object (dec (inv_Context iv)) of None \<Rightarrow> Inl BadContext | Some m \<Rightarrow> Inr m) = Inr ctx"
    by (auto simp: buildPayload_def bind_result_def split: sum.splits)
  let ?p = "obj_set ''shadow'' (JBool (inv_Shadow iv)) (obj_set ''hook'' (JStr (hookName (inv_Hook iv))) ctx)"
  from ctx have c: "inv_Context iv \<noteq> [] \<Longrightarrow> as_object (dec (inv_Context iv)) = Some ctx"
      "inv_Context iv = [] \<Longrightarrow> ctx = []"
    by (auto split: if_splits option.splits)
  show ?thesis
  proof (cases "pm_ConfigJson m = []")
    case True
    with assms ctx have "enc (JObj ?p) = Some b"
      by (auto simp: buildPayload_def bind_result_def Let_def split: option.splits)
    with True c show ?thesis by (intro exI [of _ ctx] exI [of _ ?p]) auto
  next
    case False
    with assms ctx obtain j where j: "dec (pm_ConfigJson m) = Some j"
        "enc (JObj (obj_set ''config'' j ?p)) = Some b"
      by (auto simp: buildPayload_def bind_result_def Let_def split: option.splits json.splits)
    with c show ?thesis by (intro exI [of _ ctx] exI [of _ "obj_set ''config'' j ?p"]) auto
  qed
qed

subsection \<open>A concrete host\<close>

text \<open>A guest that echoes its input from address 8.\<close>

definition wit_guest :: "string Guest" where
  "wit_guest = \<lparr>gs_alloc = \<lambda>n g. (g, Inr 8), gs_invoke = \<lambda>p n g. (g, Inr (push_bit 32 8 OR n)),
     gs_free = \<lambda>p g. g, gs_memory = \<lambda>g. g, gs_store = \<lambda>mem g. mem\<rparr>"

definition wit_rt :: "(string, string) Runtime" where
  "wit_rt = \<lparr>rt_ReadFile = \<lambda>_. Some ''w'', rt_sha = \<lambda>b. b, rt_Compile = Some,
     rt_Exports = \<lambda>_. [ExportAlloc, ExportFree, ExportInvoke],
     rt_Instantiate = \<lambda>_. Some ''0000000000000000'', rt_Guest = wit_guest,
     rt_decode = \<lambda>_. None, rt_encode = \<lambda>_. Some ''{}'', rt_verdict = \<lambda>_. None\<rparr>"

definition wit_plugin :: PluginManifest where
  "wit_plugin =
     \<lparr>pm_Id = ''pii'', pm_Name = ''pii'', pm_Hooks = [], pm_Priority = 0, pm_BudgetMs = 0, pm_Reads = [],
      pm_Writes = [], pm_FailurePolicy = [], pm_Rollout = ROLLOUT_ENFORCE, pm_CanaryPercent = 0,
      pm_ToolsetIds = [], pm_Runtime = RUNTIME_WASM, pm_ArtifactRef = ''pii.wasm'',
      pm_ArtifactDigest = ''sha256:77'', pm_ConfigJson = []\<rparr>"

definition wit_plugin_view :: View where
  "wit_plugin_view =
     \<lparr>v_pb = \<lparr>sn_Version = 1, sn_Id = ''s1'', sn_Namespaces = [], sn_Servers = [], sn_Tools = [], sn_Policies = [],
        sn_Plugins = [wit_plugin, wit_plugin\<lparr>pm_Id := ''llm'', pm_Runtime := RUNTIME_GRPC\<rparr>], sn_Catalog = None,
        sn_Tenants = [], sn_Toolsets = []\<rparr>,
      v_Version = 1, v_ID = ''s1'', v_namespaces = [], v_servers = [], v_toolsets = [], v_policies = [],
      v_plugins = [], v_tenants = [], v_tenantsBySlug = [], v_toolsByTenant = [], v_toolsByDigest = []\<rparr>"

definition wit_host :: "(string, string) WASMHost" where
  "wit_host = \<lparr>wh_compiled = [(''pii'', \<lparr>cp_module = ''w'', cp_digest = ''sha256:77'', cp_instances = []\<rparr>)],
     wh_closed = False\<rparr>"

lemma wit_load: "Load wit_rt wit_plugin \<lparr>wh_compiled = [], wh_closed = False\<rparr> = (wit_host, Inr ())"
  by code_simp

lemma wit_rt_disk: "wit_rt\<lparr>rt_ReadFile := \<lambda>_. Some ''w''\<rparr> = wit_rt"
  by (simp add: wit_rt_def)

lemma wit_hosting: "hosting wit_rt wit_host"
  by (rule hosting.loaded [OF hosting.start, where disk = "\<lambda>_. Some ''w''" and m = wit_plugin and r = "Inr ()"])
    (simp add: wit_rt_disk wit_load)

lemma wit_sync:
  "registry_Sync wit_rt wit_plugin_view (NewHostRegistry, Some wit_host) =
     (\<lparr>hg_loaded = [''pii''], hg_failures = [(''llm'', GrpcNotImplemented ''pii'')]\<rparr>, Some wit_host)"
  by code_simp

lemma compiled_plugins_are_verified_witness:
  "\<exists>b. artifact_digest wit_rt b = ''sha256:77'' \<and> rt_Compile wit_rt b = Some ''w''"
proof -
  have m: "map_of (wh_compiled wit_host) ''pii'' =
      Some \<lparr>cp_module = ''w'', cp_digest = ''sha256:77'', cp_instances = []\<rparr>"
    by (simp add: wit_host_def)
  show ?thesis
    using compiled_plugins_are_verified [OF wit_hosting m, THEN conjunct1]
    unfolding compiledPlugin.simps by blast
qed

lemma synced_plugins_match_their_manifests_witness:
  "\<exists>m' b. m' \<in> set (sn_Plugins (v_pb wit_plugin_view)) \<and> pm_Id m' = ''pii'' \<and>
     artifact_digest wit_rt b = pm_ArtifactDigest m'"
proof -
  have s: "registry_Sync (wit_rt\<lparr>rt_ReadFile := \<lambda>_. Some ''w''\<rparr>) wit_plugin_view (NewHostRegistry, Some wit_host) =
     (\<lparr>hg_loaded = [''pii''], hg_failures = [(''llm'', GrpcNotImplemented ''pii'')]\<rparr>, Some wit_host)"
    unfolding wit_rt_disk by (rule wit_sync)
  have m: "wit_plugin \<in> set (sn_Plugins (v_pb wit_plugin_view))" by (simp add: wit_plugin_view_def)
  have h: "registry_Host wit_plugin \<lparr>hg_loaded = [''pii''], hg_failures = [(''llm'', GrpcNotImplemented ''pii'')]\<rparr> = Inr ()"
    by (simp add: registry_Host_def wit_plugin_def)
  have i: "pm_Id wit_plugin = ''pii''" by (simp add: wit_plugin_def)
  from synced_plugins_match_their_manifests [OF wit_hosting s m, unfolded h sum.case i]
  show ?thesis by (elim exE conjE) (intro exI conjI)
qed

lemma wit_call: "callGuest wit_guest ''{}'' ''0000000000000000'' =
    (''00000000{}000000'', [8, 8], Inr ''{}'')"
proof -
  have u: "unpack 34359738370 = (8, 2)"
    by (simp add: unpack_def)
  show ?thesis
    by (simp add: callGuest_def read_output_def wit_guest_def u mem_write_def mem_read_def MaxPayloadBytes_def)
qed


lemma plugin_told_its_hook_and_mode_witness:
  "\<exists>payload. rt_encode wit_rt (JObj payload) = Some ''{}'' \<and> map_of payload ''shadow'' = Some (JBool True) \<and>
     map_of payload ''hook'' = Some (JStr ''on_catalog'')"
proof -
  let ?iv = "\<lparr>inv_Hook = HOOK_ON_CATALOG, inv_Context = [], inv_Shadow = True, inv_Deadline = 0\<rparr>"
  have "buildPayload (rt_decode wit_rt) (rt_encode wit_rt) wit_plugin ?iv = Inr ''{}''" by code_simp
  from plugin_told_its_hook_and_mode [OF this] obtain ctx payload
    where "rt_encode wit_rt (JObj payload) = Some ''{}''"
      "map_of payload ''hook'' = Some (JStr (hookName (inv_Hook ?iv)))"
      "map_of payload ''shadow'' = Some (JBool (inv_Shadow ?iv))"
    by (elim exE conjE)
  thus ?thesis by (intro exI [of _ payload]) (simp add: hookName_def)
qed

end
