(* ===== verification/Edge_Wiring.thy ===== *)
theory Edge_Wiring
  imports Edge_Dispatch Pipeline_Engine
begin

section \<open>Hooks over the engine (internal/dataplane/wiring/pipeline.go)\<close>

text \<open>
  The pipeline the edge calls: each hook encodes what a plugin may see as a JSON object, runs the
  engine on it, and folds the patched object back onto the MCP values. The JSON encoder and decoder
  are parameters (with the engine's own). A struct is decoded field by field as \<open>encoding/json\<close> does:
  names are compared up to case, \<open>null\<close> leaves the zero value, a value of another type is an error; of two
  members that name the same field the last one counts. Traces are left out, the engine's world is passed on.
\<close>

subsection \<open>Decoding structs\<close>

text \<open>Names are folded as \<open>encoding/json\<close> folds them for ASCII field names: ASCII letters to upper case, the
  Kelvin sign to \<open>K\<close> and the long s to \<open>S\<close> (both in UTF-8).\<close>

fun fold_name :: "string \<Rightarrow> string" where
  "fold_name (a # b # c # s) =
     (if [a, b, c] = [CHR 0xE2, CHR 0x84, CHR 0xAA] then CHR ''K'' # fold_name s
      else if [a, b] = [CHR 0xC5, CHR 0xBF] then CHR ''S'' # fold_name (c # s)
      else ascii_upper a # fold_name (b # c # s))"
| "fold_name [a, b] = (if [a, b] = [CHR 0xC5, CHR 0xBF] then ''S'' else [ascii_upper a, ascii_upper b])"
| "fold_name [a] = [ascii_upper a]"
| "fold_name [] = []"

definition json_field :: "string \<Rightarrow> jobject \<Rightarrow> json" where
  "json_field name m =
     (case filter (\<lambda>(k, _). fold_name k = fold_name name) m of
        [] \<Rightarrow> JNull | ps \<Rightarrow> snd (last ps))"

fun dec_object :: "json \<Rightarrow> jobject option" where
  "dec_object (JObj m) = Some m"
| "dec_object JNull = Some []"
| "dec_object _ = None"

fun dec_string :: "json \<Rightarrow> string option" where
  "dec_string (JStr s) = Some s"
| "dec_string JNull = Some []"
| "dec_string _ = None"

fun dec_bool :: "json \<Rightarrow> bool option" where
  "dec_bool (JBool b) = Some b"
| "dec_bool JNull = Some False"
| "dec_bool _ = None"

fun dec_array :: "json \<Rightarrow> json list option" where
  "dec_array (JArr xs) = Some xs"
| "dec_array JNull = Some []"
| "dec_array _ = None"

text \<open>All elements, or an error if one fails.\<close>

fun dec_all :: "('a \<Rightarrow> 'b option) \<Rightarrow> 'a list \<Rightarrow> 'b list option" where
  "dec_all f [] = Some []"
| "dec_all f (x # xs) =
     (case f x of None \<Rightarrow> None | Some y \<Rightarrow> map_option (\<lambda>ys. y # ys) (dec_all f xs))"

definition dec_list :: "(json \<Rightarrow> 'b option) \<Rightarrow> json \<Rightarrow> 'b list option" where
  "dec_list f j = Option.bind (dec_array j) (dec_all f)"

definition dec_strings_map :: "json \<Rightarrow> (string \<times> string) list option" where
  "dec_strings_map j =
     Option.bind (dec_object j) (dec_all (\<lambda>(k, v). map_option (\<lambda>s. (k, s)) (dec_string v)))"

subsection \<open>Payloads\<close>

record principalPayload =
  pp_Subject :: string
  pp_Groups :: "string list"
  pp_Claims :: "(string \<times> string) list"

record toolPayload =
  tp_Name :: string
  tp_Namespace :: string
  tp_Title :: string
  tp_Description :: string
  tp_EffectClass :: string
  tp_Backend :: string
  tp_Digest :: string

record contentPayload =
  cp_Type :: string
  cp_Text :: string

record resultBody =
  rb_Content :: "contentPayload list"
  rb_IsError :: bool

record catalogPayload =
  cap_Tenant :: string
  cap_Principal :: principalPayload
  cap_Catalog :: "toolPayload list"

record callPayload =
  clp_Tenant :: string
  clp_Principal :: principalPayload
  clp_Tool :: toolPayload
  clp_Arguments :: jobject
  clp_PluginState :: string
  clp_InputResponses :: jobject

record resultPayload =
  rp_Tenant :: string
  rp_Principal :: principalPayload
  rp_Tool :: toolPayload
  rp_Result :: resultBody

text \<open>\<open>omitempty\<close>: a member that is left out when its value is empty.\<close>

definition omit :: "bool \<Rightarrow> string \<Rightarrow> json \<Rightarrow> jobject" where
  "omit absent k j = (if absent then [] else [(k, j)])"

definition omit_str :: "string \<Rightarrow> string \<Rightarrow> jobject" where
  "omit_str k s = omit (s = []) k (JStr s)"

definition enc_principal :: "principalPayload \<Rightarrow> json" where
  "enc_principal p = JObj (
     [(''subject'', JStr (pp_Subject p))] @
     omit (pp_Groups p = []) ''groups'' (JArr (map JStr (pp_Groups p))) @
     omit (pp_Claims p = []) ''claims'' (JObj (map (\<lambda>(k, v). (k, JStr v)) (pp_Claims p))))"

definition enc_tool :: "toolPayload \<Rightarrow> json" where
  "enc_tool t = JObj (
     [(''name'', JStr (tp_Name t))] @ omit_str ''namespace'' (tp_Namespace t) @
     omit_str ''title'' (tp_Title t) @ omit_str ''description'' (tp_Description t) @
     omit_str ''effect_class'' (tp_EffectClass t) @ omit_str ''backend'' (tp_Backend t) @
     omit_str ''digest'' (tp_Digest t))"

definition enc_content :: "contentPayload \<Rightarrow> json" where
  "enc_content c = JObj ([(''type'', JStr (cp_Type c))] @ omit_str ''text'' (cp_Text c))"

definition enc_result :: "resultBody \<Rightarrow> json" where
  "enc_result r = JObj (
     [(''content'', JArr (map enc_content (rb_Content r)))] @
     omit (\<not> rb_IsError r) ''isError'' (JBool (rb_IsError r)))"

definition enc_catalogPayload :: "catalogPayload \<Rightarrow> json" where
  "enc_catalogPayload p = JObj (
     omit_str ''tenant'' (cap_Tenant p) @ [(''principal'', enc_principal (cap_Principal p)),
     (''catalog'', JArr (map enc_tool (cap_Catalog p)))])"

definition enc_callPayload :: "callPayload \<Rightarrow> json" where
  "enc_callPayload p = JObj (
     omit_str ''tenant'' (clp_Tenant p) @
     [(''principal'', enc_principal (clp_Principal p)), (''tool'', enc_tool (clp_Tool p))] @
     omit (clp_Arguments p = []) ''arguments'' (JObj (clp_Arguments p)) @
     omit_str ''pluginState'' (clp_PluginState p) @
     omit (clp_InputResponses p = []) ''inputResponses'' (JObj (clp_InputResponses p)))"

definition enc_resultPayload :: "resultPayload \<Rightarrow> json" where
  "enc_resultPayload p = JObj (
     omit_str ''tenant'' (rp_Tenant p) @
     [(''principal'', enc_principal (rp_Principal p)), (''tool'', enc_tool (rp_Tool p)),
      (''result'', enc_result (rp_Result p))])"

subsection \<open>Patched payloads\<close>

definition dec_principal :: "json \<Rightarrow> principalPayload option" where
  "dec_principal j =
     Option.bind (dec_object j) (\<lambda>m.
     Option.bind (dec_string (json_field ''subject'' m)) (\<lambda>s.
     Option.bind (dec_list dec_string (json_field ''groups'' m)) (\<lambda>g.
     Option.bind (dec_strings_map (json_field ''claims'' m)) (\<lambda>c.
       Some \<lparr>pp_Subject = s, pp_Groups = g, pp_Claims = c\<rparr>))))"

definition dec_tool :: "json \<Rightarrow> toolPayload option" where
  "dec_tool j =
     Option.bind (dec_object j) (\<lambda>m.
     Option.bind (dec_all dec_string (map (\<lambda>k. json_field k m)
       [''name'', ''namespace'', ''title'', ''description'', ''effect_class'', ''backend'', ''digest''])) (\<lambda>vs.
       Some \<lparr>tp_Name = vs ! 0, tp_Namespace = vs ! 1, tp_Title = vs ! 2, tp_Description = vs ! 3,
             tp_EffectClass = vs ! 4, tp_Backend = vs ! 5, tp_Digest = vs ! 6\<rparr>))"

definition dec_content :: "json \<Rightarrow> contentPayload option" where
  "dec_content j =
     Option.bind (dec_object j) (\<lambda>m.
     Option.bind (dec_string (json_field ''type'' m)) (\<lambda>t.
     Option.bind (dec_string (json_field ''text'' m)) (\<lambda>x.
       Some \<lparr>cp_Type = t, cp_Text = x\<rparr>)))"

definition dec_result :: "json \<Rightarrow> resultBody option" where
  "dec_result j =
     Option.bind (dec_object j) (\<lambda>m.
     Option.bind (dec_list dec_content (json_field ''content'' m)) (\<lambda>c.
     Option.bind (dec_bool (json_field ''isError'' m)) (\<lambda>e.
       Some \<lparr>rb_Content = c, rb_IsError = e\<rparr>)))"

definition dec_catalogPayload :: "json \<Rightarrow> catalogPayload option" where
  "dec_catalogPayload j =
     Option.bind (dec_object j) (\<lambda>m.
     Option.bind (dec_string (json_field ''tenant'' m)) (\<lambda>t.
     Option.bind (dec_principal (json_field ''principal'' m)) (\<lambda>p.
     Option.bind (dec_list dec_tool (json_field ''catalog'' m)) (\<lambda>c.
       Some \<lparr>cap_Tenant = t, cap_Principal = p, cap_Catalog = c\<rparr>))))"

text \<open>The arguments: \<open>null\<close> or an absent member decodes to a nil map, which is \<open>None\<close> here.\<close>

definition dec_callPayload :: "json \<Rightarrow> (callPayload \<times> bool) option" where
  "dec_callPayload j =
     Option.bind (dec_object j) (\<lambda>m.
     Option.bind (dec_string (json_field ''tenant'' m)) (\<lambda>t.
     Option.bind (dec_principal (json_field ''principal'' m)) (\<lambda>p.
     Option.bind (dec_tool (json_field ''tool'' m)) (\<lambda>tl.
     Option.bind (dec_object (json_field ''arguments'' m)) (\<lambda>a.
     Option.bind (dec_string (json_field ''pluginState'' m)) (\<lambda>s.
     Option.bind (dec_object (json_field ''inputResponses'' m)) (\<lambda>r.
       Some (\<lparr>clp_Tenant = t, clp_Principal = p, clp_Tool = tl, clp_Arguments = a, clp_PluginState = s,
              clp_InputResponses = r\<rparr>, json_field ''arguments'' m = JNull))))))))"

definition dec_resultPayload :: "json \<Rightarrow> resultPayload option" where
  "dec_resultPayload j =
     Option.bind (dec_object j) (\<lambda>m.
     Option.bind (dec_string (json_field ''tenant'' m)) (\<lambda>t.
     Option.bind (dec_principal (json_field ''principal'' m)) (\<lambda>p.
     Option.bind (dec_tool (json_field ''tool'' m)) (\<lambda>tl.
     Option.bind (dec_result (json_field ''result'' m)) (\<lambda>r.
       Some \<lparr>rp_Tenant = t, rp_Principal = p, rp_Tool = tl, rp_Result = r\<rparr>)))))"

subsection \<open>From MCP values to payloads\<close>

definition principalOf :: "Caller \<Rightarrow> principalPayload" where
  "principalOf p = \<lparr>pp_Subject = cl_Subject p, pp_Groups = cl_Groups p, pp_Claims = cl_Claims p\<rparr>"

definition toolPayloadFromSnapshot :: "Tool \<Rightarrow> toolPayload" where
  "toolPayloadFromSnapshot tool =
     \<lparr>tp_Name = td_QualifiedName (tool_Def tool), tp_Namespace = ns_Prefix (tool_Namespace tool),
      tp_Title = td_Title (tool_Def tool), tp_Description = td_Description (tool_Def tool),
      tp_EffectClass = effectClassName (td_EffectClass (tool_Def tool)),
      tp_Backend = srv_Name (tool_Server tool), tp_Digest = td_Digest (tool_Def tool)\<rparr>"

definition toolPayloadFrom :: "PrincipalView \<Rightarrow> string \<Rightarrow> MCPTool \<Rightarrow> toolPayload" where
  "toolPayloadFrom av name mcpTool =
     (let out = \<lparr>tp_Name = name, tp_Namespace = (case cut ''.'' name of None \<Rightarrow> [] | Some (pre, _) \<Rightarrow> pre),
                 tp_Title = mt_Title mcpTool, tp_Description = mt_Description mcpTool,
                 tp_EffectClass = [], tp_Backend = [], tp_Digest = []\<rparr>
      in case PrincipalView_Tool av name of
           None \<Rightarrow> out
         | Some tool \<Rightarrow>
             out\<lparr>tp_EffectClass := effectClassName (td_EffectClass (tool_Def tool)),
                 tp_Backend := srv_Name (tool_Server tool), tp_Digest := td_Digest (tool_Def tool)\<rparr>)"

definition resultOf :: "CallToolResult \<Rightarrow> resultBody" where
  "resultOf res =
     \<lparr>rb_Content = map (\<lambda>c. case c of
          TextContent text _ \<Rightarrow> \<lparr>cp_Type = ''text'', cp_Text = text\<rparr>
        | OtherContent _ \<Rightarrow> \<lparr>cp_Type = ''other'', cp_Text = []\<rparr>) (cr_Content res),
      rb_IsError = cr_IsError res\<rparr>"

text \<open>Only texts are written back, only where the original has one.\<close>

fun apply_content :: "Content list \<Rightarrow> contentPayload list \<Rightarrow> Content list" where
  "apply_content [] ps = []"
| "apply_content (c # cs) [] = c # cs"
| "apply_content (c # cs) (p # ps) =
     (case c of TextContent _ meta \<Rightarrow> TextContent (cp_Text p) meta | OtherContent _ \<Rightarrow> c) # apply_content cs ps"

definition applyResult :: "CallToolResult \<Rightarrow> resultBody \<Rightarrow> CallToolResult" where
  "applyResult original patched =
     empty_result\<lparr>cr_IsError := cr_IsError original, cr_StructuredContent := cr_StructuredContent original,
       cr_Meta := cr_Meta original, cr_Content := apply_content (cr_Content original) (rb_Content patched)\<rparr>"

record WiringEnv =
  we_encode :: "json \<Rightarrow> string option"
  we_decode :: "string \<Rightarrow> json option"
  we_decodeOps :: "string \<Rightarrow> PatchOp list option"
  we_opts :: Options
  we_clock :: "nat \<Rightarrow> int"
  we_RequestID :: "nat \<Rightarrow> string"

definition asObject :: "WiringEnv \<Rightarrow> json option \<Rightarrow> string + jobject" where
  "asObject we arguments =
     (case arguments of
        None \<Rightarrow> Inr []
      | Some j \<Rightarrow>
          (case we_encode we j of
             None \<Rightarrow> Inl ''wiring: encoding arguments''
           | Some raw \<Rightarrow>
               (case Option.bind (we_decode we raw) dec_object of
                  None \<Rightarrow> Inl ''wiring: tool arguments are not a JSON object''
                | Some m \<Rightarrow> Inr m)))"

definition inputResponsesOf :: "WiringEnv \<Rightarrow> jobject \<Rightarrow> jobject" where
  "inputResponsesOf we responses =
     (if responses = [] then []
      else case we_encode we (JObj responses) of
          None \<Rightarrow> []
        | Some raw \<Rightarrow> (case Option.bind (we_decode we raw) dec_object of None \<Rightarrow> [] | Some m \<Rightarrow> m))"

text \<open>An elicitation the gateway asks for carries the message only.\<close>

definition dec_elicit :: "string \<times> json \<Rightarrow> (string \<times> string) option" where
  "dec_elicit = (\<lambda>(i, j).
     Option.bind (dec_object j) (\<lambda>m. map_option (\<lambda>msg. (i, msg)) (dec_string (json_field ''message'' m))))"

definition decodeInputRequests :: "WiringEnv \<Rightarrow> string \<Rightarrow> string + jobject" where
  "decodeInputRequests we raw =
     (if raw = [] then Inr []
      else case Option.bind (Option.bind (we_decode we raw) dec_object) (dec_all dec_elicit) of
          None \<Rightarrow> Inl ''wiring: a plugin's input requests are unreadable''
        | Some declared \<Rightarrow>
            (case find (\<lambda>(_, msg). msg = []) declared of
               Some (i, _) \<Rightarrow> Inl (''wiring: input request '' @ i @ '' has no message'')
             | None \<Rightarrow> Inr (map (\<lambda>(i, msg). (i, JObj [(''message'', JStr msg)])) declared)))"

subsection \<open>The hooks\<close>

text \<open>A run of the engine on a fresh trace: nothing of the request's plugin budget is spent and no hook is
  recorded yet; breakers and the clock carry on.\<close>

definition hook_env :: "WiringEnv \<Rightarrow> PrincipalView \<Rightarrow> Hook \<Rightarrow> EffectClass \<Rightarrow> World \<Rightarrow> Env" where
  "hook_env we av hook effect w =
     \<lparr>en_decode = we_decode we, en_decodeOps = we_decodeOps we, en_opts = we_opts we, en_clock = we_clock we,
      en_req = \<lparr>rq_RequestID = we_RequestID we (w_tick w), rq_Plugins = pv_pluginsByHook av hook,
                rq_Hook = hook, rq_EffectClass = effect\<rparr>\<rparr>"

definition hook_world :: "string \<Rightarrow> World \<Rightarrow> World" where
  "hook_world raw w =
     w\<lparr>w_payload := raw, w_consumed := 0, w_hooks := [], w_traceConsumedUS := 0, w_traceTotalMS := 0\<rparr>"

definition run_hook ::
  "WiringEnv \<Rightarrow> PrincipalView \<Rightarrow> Hook \<Rightarrow> EffectClass \<Rightarrow> string \<Rightarrow> World \<Rightarrow> HookResult \<times> World" where
  "run_hook we av hook effect raw w = Run (hook_env we av hook effect w) (hook_world raw w)"

definition decision_text :: "Decision \<Rightarrow> string" where
  "decision_text d = (case d of
       DecisionAllow \<Rightarrow> ''allow'' | DecisionDeny \<Rightarrow> ''deny'' | DecisionMutate \<Rightarrow> ''mutate''
     | DecisionAnnotate \<Rightarrow> ''annotate'' | DecisionDefer \<Rightarrow> ''defer'' | DecisionOther s \<Rightarrow> s)"

definition patched_payload :: "WiringEnv \<Rightarrow> HookResult \<Rightarrow> json option" where
  "patched_payload we r = Option.bind (hr_Payload r) (we_decode we)"

text \<open>The original tools, matched by name, in the order of the patched catalog; the last tool of a name counts.\<close>

definition keep_tools :: "MCPTool list \<Rightarrow> toolPayload list \<Rightarrow> MCPTool list" where
  "keep_tools tools entries =
     List.map_filter (\<lambda>entry. find (\<lambda>tool. mt_Name tool = tp_Name entry) (rev tools)) entries"

definition OnCatalog ::
  "WiringEnv \<Rightarrow> World \<Rightarrow> CatalogRequest \<Rightarrow> (string + CatalogDecision) \<times> World" where
  "OnCatalog we w req =
     (let av = gq_PrincipalView req;
          payload = \<lparr>cap_Tenant = TenantLabel av, cap_Principal = principalOf (gq_Principal req),
                     cap_Catalog = map (\<lambda>tool. toolPayloadFrom av (mt_Name tool) tool) (gq_Tools req)\<rparr>
      in case we_encode we (enc_catalogPayload payload) of
           None \<Rightarrow> (Inl ''wiring: encoding the catalog'', w)
         | Some raw \<Rightarrow>
             (let (result, w) = run_hook we av HOOK_ON_CATALOG EFFECT_READ raw w
              in (case hr_Decision result of
                    DecisionDeny \<Rightarrow> Inr \<lparr>cd_Tools = Some [], cd_IdentityFiltered = True\<rparr>
                  | DecisionMutate \<Rightarrow>
                      (case Option.bind (patched_payload we result) dec_catalogPayload of
                         None \<Rightarrow> Inl ''wiring: a plugin left the catalog unreadable''
                       | Some patched \<Rightarrow>
                           (let kept = keep_tools (gq_Tools req) (cap_Catalog patched)
                            in Inr \<lparr>cd_Tools = Some kept,
                                    cd_IdentityFiltered = (length kept \<noteq> length (gq_Tools req))\<rparr>))
                  | _ \<Rightarrow> Inr \<lparr>cd_Tools = None, cd_IdentityFiltered = False\<rparr>, w)))"

definition call_payload :: "WiringEnv \<Rightarrow> ToolCallRequest \<Rightarrow> jobject \<Rightarrow> callPayload" where
  "call_payload we req arguments =
     \<lparr>clp_Tenant = t_Slug (tool_Tenant (tq_Tool req)), clp_Principal = principalOf (tq_Principal req),
      clp_Tool = toolPayloadFromSnapshot (tq_Tool req), clp_Arguments = arguments,
      clp_PluginState = tq_RequestState req, clp_InputResponses = inputResponsesOf we (tq_InputResponses req)\<rparr>"

definition call_decision :: "HookResult \<Rightarrow> ToolCallDecision" where
  "call_decision result =
     \<lparr>tc_Decision = decision_text (hr_Decision result), tc_Reason = hr_Reason result, tc_Arguments = None,
      tc_InputRequests = [], tc_RequestState = []\<rparr>"

text \<open>The patched arguments replace the call's even when they were removed: the nil map is a \<open>null\<close>.\<close>

definition OnToolCall ::
  "WiringEnv \<Rightarrow> World \<Rightarrow> ToolCallRequest \<Rightarrow> (string + ToolCallDecision) \<times> World" where
  "OnToolCall we w req =
     (case asObject we (tq_Arguments req) of
        Inl e \<Rightarrow> (Inl e, w)
      | Inr arguments \<Rightarrow>
          (case we_encode we (enc_callPayload (call_payload we req arguments)) of
             None \<Rightarrow> (Inl ''wiring: encoding the call'', w)
           | Some raw \<Rightarrow>
               (let (result, w) = run_hook we (tq_PrincipalView req) HOOK_ON_TOOL_CALL
                                    (td_EffectClass (tool_Def (tq_Tool req))) raw w;
                    decision = call_decision result
                in (case hr_Decision result of
                      DecisionDefer \<Rightarrow>
                        (case decodeInputRequests we (hr_InputRequests result) of
                           Inl e \<Rightarrow> Inl e
                         | Inr requests \<Rightarrow>
                             Inr (decision\<lparr>tc_InputRequests := requests, tc_RequestState := hr_PluginState result\<rparr>))
                    | DecisionMutate \<Rightarrow>
                        (case Option.bind (patched_payload we result) dec_callPayload of
                           None \<Rightarrow> Inl ''wiring: a plugin left the call unreadable''
                         | Some (patched, nil) \<Rightarrow>
                             Inr (decision\<lparr>tc_Arguments :=
                               Some (if nil then JNull else JObj (clp_Arguments patched))\<rparr>))
                    | _ \<Rightarrow> Inr decision, w))))"

definition OnToolResult ::
  "WiringEnv \<Rightarrow> World \<Rightarrow> ToolResultRequest \<Rightarrow> (string + ToolResultDecision) \<times> World" where
  "OnToolResult we w req =
     (let payload = \<lparr>rp_Tenant = t_Slug (tool_Tenant (rr_Tool req)), rp_Principal = principalOf (rr_Principal req),
                     rp_Tool = toolPayloadFromSnapshot (rr_Tool req), rp_Result = resultOf (rr_Result req)\<rparr>
      in case we_encode we (enc_resultPayload payload) of
           None \<Rightarrow> (Inl ''wiring: encoding the result'', w)
         | Some raw \<Rightarrow>
             (let (result, w) = run_hook we (rr_PrincipalView req) HOOK_ON_TOOL_RESULT
                                  (td_EffectClass (tool_Def (rr_Tool req))) raw w;
                  decision = \<lparr>trd_Decision = decision_text (hr_Decision result), trd_Reason = hr_Reason result,
                              trd_Result = None\<rparr>
              in (if hr_Decision result = DecisionMutate
                  then (case Option.bind (patched_payload we result) dec_resultPayload of
                          None \<Rightarrow> Inl ''wiring: a plugin left the result unreadable''
                        | Some patched \<Rightarrow>
                            Inr (decision\<lparr>trd_Result := Some (applyResult (rr_Result req) (rp_Result patched))\<rparr>))
                  else Inr decision, w)))"

text \<open>The pipeline as the edge holds it; each hook of a request finds the engine in whatever state the
  requests before and beside it left.\<close>

definition edge_pipeline :: "WiringEnv \<Rightarrow> World \<Rightarrow> World \<Rightarrow> World \<Rightarrow> Pipeline" where
  "edge_pipeline we wg wc wr =
     \<lparr>pl_OnCatalog = (\<lambda>req. fst (OnCatalog we wg req)),
      pl_OnToolCall = (\<lambda>req. fst (OnToolCall we wc req)),
      pl_OnToolResult = (\<lambda>req. fst (OnToolResult we wr req))\<rparr>"

end
