(* ===== verification/Edge_Wiring_Props.thy ===== *)
theory Edge_Wiring_Props
  imports Edge_Wiring Edge_Dispatch_Props Pipeline_Props
begin

section \<open>What plugins can do to a request\<close>

text \<open>
  The engine behind the edge's pipeline: a catalog only loses tools, a result only changes its texts, a
  failed mandatory check keeps the call from the backend, and a deferral without input requests does not.
\<close>

subsection \<open>Catalogs\<close>

lemma keep_tools_sub: "tool \<in> set (keep_tools tools entries) \<Longrightarrow> tool \<in> set tools"
proof -
  assume "tool \<in> set (keep_tools tools entries)"
  then have "\<exists>entry\<in>set entries. find (\<lambda>t. mt_Name t = tp_Name entry) (rev tools) = Some tool"
    by (auto simp: keep_tools_def List.map_filter_def)
  then obtain entry :: toolPayload where "find (\<lambda>t. mt_Name t = tp_Name entry) (rev tools) = Some tool" by blast
  then show ?thesis using nth_mem [of _ "rev tools"] by (auto simp: find_Some_iff)
qed

lemma OnCatalog_sub:
  assumes "fst (OnCatalog we w req) = Inr d" and "cd_Tools d = Some tools"
  shows "set tools \<subseteq> set (gq_Tools req)"
  using assms by (auto simp: OnCatalog_def Let_def case_prod_beta dest: keep_tools_sub
      split: option.splits Decision.splits)

text \<open>C25: whatever the plugins answer, a served catalog holds only tools the server registered, each with its
  admitted definition, under the lifetime of the composed catalog and private to the principal.\<close>

theorem served_catalog_is_admitted:
  assumes "ee_Pipeline env = Some (edge_pipeline we wg wc wr)"
    and "catalogMiddleware env av ''tools/list'' (Inr (ToolsListed lst)) req = Inr (ToolsListed lst')"
  shows "set (lt_Tools lst') \<subseteq> set (lt_Tools lst) \<and> lt_TTLMs lst' = pv_TTLMs av \<and>
    lt_CacheScope lst' = CacheScopePrivate"
proof -
  obtain p where p: "principalFor (ee_Resolve env) req = Inr p"
    using assms(2) by (auto simp: catalogMiddleware_def split: sum.splits)
  let ?rq = "\<lparr>gq_PrincipalView = av, gq_Principal = p\<lparr>cl_Tenant := TenantLabel av\<rparr>, gq_Tools = lt_Tools lst\<rparr>"
  obtain d where d: "fst (OnCatalog we wg ?rq) = Inr d"
    using assms p by (auto simp: catalogMiddleware_def edge_pipeline_def Let_def split: sum.splits)
  have "lt_Tools lst' = (case cd_Tools d of None \<Rightarrow> lt_Tools lst | Some tools \<Rightarrow> tools)"
    and t: "lt_TTLMs lst' = pv_TTLMs av" "lt_CacheScope lst' = CacheScopePrivate"
    using assms p d by (auto simp: catalogMiddleware_def edge_pipeline_def Let_def cacheScopeFor_def split: option.splits)
  then show ?thesis using OnCatalog_sub [OF d] by (auto split: option.splits)
qed

subsection \<open>Results\<close>

lemma apply_content_length [simp]: "length (apply_content cs ps) = length cs"
  by (induction cs ps rule: apply_content.induct) simp_all

definition same_but_text :: "Content \<Rightarrow> Content \<Rightarrow> bool" where
  "same_but_text c c' \<longleftrightarrow> (case c of OtherContent _ \<Rightarrow> c' = c | TextContent _ meta \<Rightarrow> (\<exists>t. c' = TextContent t meta))"

lemma same_but_text_refl [simp]: "same_but_text c c"
  by (simp add: same_but_text_def split: Content.split)

lemma apply_content_texts: "list_all2 same_but_text cs (apply_content cs ps)"
proof (induction cs ps rule: apply_content.induct)
  case (3 c cs p ps)
  then show ?case by (simp add: same_but_text_def split: Content.split)
qed (simp_all add: list.rel_refl)

lemma OnToolResult_result:
  assumes "fst (OnToolResult we w req) = Inr d" and "trd_Result d = Some r"
  shows "\<exists>ps. r = applyResult (rr_Result req) ps"
  using assms by (auto simp: OnToolResult_def Let_def case_prod_beta split: option.splits if_splits)

text \<open>A plugin at the result hook changes nothing of a backend's result but the text of its text blocks:
  the error flag, the structured content, the metadata, the number and kinds of the blocks stay the backend's.\<close>

theorem result_hook_changes_only_texts:
  assumes "fst (OnToolResult we w req) = Inr d" and "trd_Result d = Some r"
  shows "cr_IsError r = cr_IsError (rr_Result req) \<and>
    cr_StructuredContent r = cr_StructuredContent (rr_Result req) \<and> cr_Meta r = cr_Meta (rr_Result req) \<and>
    list_all2 same_but_text (cr_Content (rr_Result req)) (cr_Content r)"
  using OnToolResult_result [OF assms] apply_content_texts
  by (auto simp: applyResult_def empty_result_def)

text \<open>Removing blocks therefore changes nothing: a patched result without content leaves every text in place.\<close>

lemma removed_content_reappears:
  "rb_Content patched = [] \<Longrightarrow> cr_Content (applyResult original patched) = cr_Content original"
  by (cases "cr_Content original") (simp_all add: applyResult_def)

subsection \<open>Calls\<close>

lemma OnToolCall_decision:
  assumes "fst (OnToolCall we w req) = Inr d"
  shows "\<exists>j raw. we_encode we j = Some raw \<and>
     tc_Decision d = decision_text (hr_Decision (fst (run_hook we (tq_PrincipalView req) HOOK_ON_TOOL_CALL
       (td_EffectClass (tool_Def (tq_Tool req))) raw w)))"
proof -
  obtain arguments where a: "asObject we (tq_Arguments req) = Inr arguments"
    using assms by (auto simp: OnToolCall_def split: sum.splits)
  let ?j = "enc_callPayload (call_payload we req arguments)"
  obtain raw where e: "we_encode we ?j = Some raw"
    using assms a by (auto simp: OnToolCall_def split: option.splits)
  let ?r = "fst (run_hook we (tq_PrincipalView req) HOOK_ON_TOOL_CALL (td_EffectClass (tool_Def (tq_Tool req))) raw w)"
  have "tc_Decision d = decision_text (hr_Decision ?r)"
    using assms a e
    by (cases "hr_Decision ?r")
      (auto simp: OnToolCall_def Let_def case_prod_beta call_decision_def split: sum.splits option.splits)
  with e show ?thesis by blast
qed

lemma denied_call_passes_not:
  assumes "ee_Pipeline env = Some (edge_pipeline we wg wc wr)"
    and "\<And>j raw. we_encode we j = Some raw \<Longrightarrow>
       hr_Decision (fst (run_hook we av HOOK_ON_TOOL_CALL (td_EffectClass (tool_Def tool)) raw wc)) = DecisionDeny"
  shows "\<not> pipeline_passes env av tool req who retry arguments"
proof
  assume "pipeline_passes env av tool req who retry arguments"
  with assms(1) obtain d where d: "fst (OnToolCall we wc (review_request av tool req who retry)) = Inr d"
    and n: "tc_Decision d \<noteq> ''deny''"
    by (auto simp: pipeline_passes_def edge_pipeline_def Call_Denied_def)
  from OnToolCall_decision [OF d] assms(2) n show False
    by (auto simp: review_request_def decision_text_def)
qed

lemma hook_env_simps [simp]:
  "en_opts (hook_env we av hook effect w) = we_opts we"
  "rq_Plugins (en_req (hook_env we av hook effect w)) = pv_pluginsByHook av hook"
  "rq_EffectClass (en_req (hook_env we av hook effect w)) = effect"
  "w_hooks (hook_world raw w) = []"
  by (simp_all add: hook_env_def hook_world_def)

lemma run_hook_denies:
  assumes "distinct (map pm_Id (pv_pluginsByHook av hook))" "m \<in> set (pv_pluginsByHook av hook)"
    and "pm_Rollout m = ROLLOUT_ENFORCE" "failureMode m effect = FAILURE_CLOSED"
    and "w_hooks (snd (run_hook we av hook effect raw w)) = [ht]" "out \<in> set (ht_Outcomes ht)"
    and "o_PluginID out = pm_Id m" "o_Error out = PluginError e"
  shows "hr_Decision (fst (run_hook we av hook effect raw w)) = DecisionDeny"
  using failed_check_denies [of "hook_env we av hook effect w" "hook_world raw w" _ _ ht out e m]
    assms by (auto simp: run_hook_def shouldEnforce_def prod_eq_iff)


text \<open>A plugin that defers without asking for anything lets the call through: the verdict is valid, but the edge takes
  a deferral with no input requests for no deferral at all and calls the backend.\<close>

theorem empty_deferral_dispatches:
  assumes "ee_Pipeline env = Some (edge_pipeline we wg wc wr)"
    and "Callable av name" "principalFor (ee_Resolve env) req = Inr p" "not_drifted env tool"
    and "cq_RequestState req = []"
    and "fst (OnToolCall we wc (review_request av tool req (p\<lparr>cl_Tenant := t_Slug (tool_Tenant tool)\<rparr>) no_retry)) = Inr d"
    and "tc_Decision d = ''defer''" "tc_InputRequests d = []" "tc_Arguments d = None"
  shows "backend_calls (an_Events (toolHandler env av tool name meta req s)) =
    [(outbound_call tool (cq_Arguments req) meta no_retry req, p\<lparr>cl_Tenant := t_Slug (tool_Tenant tool)\<rparr>)]"
proof -
  have "pipeline_passes env av tool req (p\<lparr>cl_Tenant := t_Slug (tool_Tenant tool)\<rparr>) no_retry (cq_Arguments req)"
    using assms(1,6-9) unfolding pipeline_passes_def
    by (auto simp: edge_pipeline_def Call_Denied_def Call_Deferred_def)
  then have "admitted_call env av tool name req (p\<lparr>cl_Tenant := t_Slug (tool_Tenant tool)\<rparr>) no_retry (cq_Arguments req)"
    using assms(2-5) by (simp add: admitted_call_def verified_retry_def)
  from toolHandler_calls [OF this] show ?thesis by (rule conjunct1)
qed

subsection \<open>A concrete pipeline\<close>

text \<open>One enforced plugin, whose host always gives the same answer, on the call hook of a destructive tool.\<close>

definition wit_we :: "string + Verdict option \<Rightarrow> WiringEnv" where
  "wit_we r = \<lparr>we_encode = (\<lambda>_. Some ''{}''), we_decode = (\<lambda>_. Some (JObj [])), we_decodeOps = (\<lambda>_. None),
     we_opts = \<lparr>op_TotalBudget = 250, op_HookBudget = 50, op_PluginBudget = 25, op_CircuitFailureThreshold = 5,
       op_CircuitCooldown = 30, op_Hosts = Some (\<lambda>m. Inr (\<lambda>_ _. r)), op_SampleFn = Some hashSample\<rparr>,
     we_clock = int, we_RequestID = (\<lambda>_. ''req'')\<rparr>"

definition wit_pav :: PrincipalView where
  "wit_pav = wit_av\<lparr>pv_pluginsByHook := (\<lambda>_. [wit_manifest ''b'' ROLLOUT_ENFORCE])\<rparr>"

definition wit_risky :: Tool where
  "wit_risky = wit_void\<lparr>tool_Def := (tool_Def wit_void)\<lparr>td_EffectClass := EFFECT_DESTRUCTIVE\<rparr>\<rparr>"

definition wit_wired :: "string + Verdict option \<Rightarrow> nat EdgeEnv" where
  "wit_wired r = Edge_Dispatch_Props.wit_env (edge_pipeline (wit_we r) wit_world wit_world wit_world) wit_codec"

lemma wit_wired_simps:
  "ee_Pipeline (wit_wired r) = Some (edge_pipeline (wit_we r) wit_world wit_world wit_world)"
  "Callable wit_pav ''crm.void''" "principalFor (ee_Resolve (wit_wired r)) (wit_req token) = Inr wit_caller"
  "not_drifted (wit_wired r) tool" "cq_RequestState (wit_req token) = token"
  by (simp_all add: wit_wired_def Edge_Dispatch_Props.wit_env_def Callable_def wit_pav_def wit_av_def principalFor_def
      wit_req_def wit_caller_def not_drifted_def)

lemma wit_plugins:
  "distinct (map pm_Id (pv_pluginsByHook wit_pav HOOK_ON_TOOL_CALL))"
  "wit_manifest ''b'' ROLLOUT_ENFORCE \<in> set (pv_pluginsByHook wit_pav HOOK_ON_TOOL_CALL)"
  "pm_Rollout (wit_manifest ''b'' ROLLOUT_ENFORCE) = ROLLOUT_ENFORCE"
  "failureMode (wit_manifest ''b'' ROLLOUT_ENFORCE) (td_EffectClass (tool_Def wit_risky)) = FAILURE_CLOSED"
  by (simp_all add: wit_pav_def wit_manifest_def wit_risky_def failureMode_def)


definition wit_defer :: Verdict where
  "wit_defer = (plain_verdict DecisionDefer ''confirm'')\<lparr>v_InputRequests := ''{}''\<rparr>"

theorem empty_deferral_dispatches_witness:
  "Verdict_Validate wit_defer (wit_manifest ''b'' ROLLOUT_ENFORCE) = Inr () \<and>
   length (backend_calls (an_Events (toolHandler (wit_wired (Inr (Some wit_defer))) wit_pav wit_risky ''crm.void'' []
     (wit_req []) 0))) = 1"
proof -
  let ?rq = "review_request wit_pav wit_risky (wit_req []) (wit_caller\<lparr>cl_Tenant := t_Slug (tool_Tenant wit_risky)\<rparr>) no_retry"
  let ?d = "\<lparr>tc_Decision = ''defer'', tc_Reason = ''confirm'', tc_Arguments = None, tc_InputRequests = [], tc_RequestState = []\<rparr>"
  have d: "fst (OnToolCall (wit_we (Inr (Some wit_defer))) wit_world ?rq) = Inr ?d" by code_simp
  have v: "Verdict_Validate wit_defer (wit_manifest ''b'' ROLLOUT_ENFORCE) = Inr ()" by code_simp
  from empty_deferral_dispatches [OF wit_wired_simps(1,2,3,4) _ d] v
  show ?thesis by (simp add: wit_wired_simps(5))
qed

definition wit_mcp :: MCPTool where
  "wit_mcp = \<lparr>mt_Name = ''crm.void'', mt_Title = [], mt_Description = [], mt_InputSchema = None, mt_OutputSchema = None\<rparr>"

theorem served_catalog_is_admitted_witness:
  "\<exists>lst'. catalogMiddleware (wit_wired (Inr (Some (plain_verdict DecisionDeny ''no'')))) wit_pav ''tools/list''
     (Inr (ToolsListed \<lparr>lt_Tools = [wit_mcp], lt_TTLMs = 9, lt_CacheScope = []\<rparr>)) (wit_req []) =
       Inr (ToolsListed lst') \<and> lt_CacheScope lst' = CacheScopePrivate"
proof -
  let ?lst = "\<lparr>lt_Tools = [wit_mcp], lt_TTLMs = 9, lt_CacheScope = []\<rparr>"
  have e: "catalogMiddleware (wit_wired (Inr (Some (plain_verdict DecisionDeny ''no'')))) wit_pav ''tools/list''
     (Inr (ToolsListed ?lst)) (wit_req []) =
     Inr (ToolsListed \<lparr>lt_Tools = [], lt_TTLMs = 0, lt_CacheScope = CacheScopePrivate\<rparr>)"
  proof -
    let ?rq = "\<lparr>gq_PrincipalView = wit_pav, gq_Principal = wit_caller\<lparr>cl_Tenant := TenantLabel wit_pav\<rparr>, gq_Tools = [wit_mcp]\<rparr>"
    have c: "fst (OnCatalog (wit_we (Inr (Some (plain_verdict DecisionDeny ''no'')))) wit_world ?rq) =
        Inr \<lparr>cd_Tools = Some [], cd_IdentityFiltered = True\<rparr>"
      by code_simp
    have t: "pv_TTLMs wit_pav = 0" by (simp add: wit_pav_def wit_av_def)
    show ?thesis
      by (simp add: catalogMiddleware_def wit_wired_simps edge_pipeline_def Let_def c t cacheScopeFor_def)
  qed
  show ?thesis
    by (intro exI conjI, rule e) (rule served_catalog_is_admitted [OF wit_wired_simps(1) e, THEN conjunct2, THEN conjunct2])
qed

definition wit_writer :: PrincipalView where
  "wit_writer = wit_av\<lparr>pv_pluginsByHook := (\<lambda>_. [(wit_manifest ''b'' ROLLOUT_ENFORCE)\<lparr>pm_Writes := [''result'']\<rparr>])\<rparr>"

theorem result_hook_changes_only_texts_witness:
  "\<exists>d r. fst (OnToolResult ((wit_we (Inr (Some ((plain_verdict DecisionMutate [])\<lparr>v_Patch := ''[]''\<rparr>))))
         \<lparr>we_decodeOps := (\<lambda>_. Some [])\<rparr>) wit_world
       \<lparr>rr_PrincipalView = wit_writer, rr_Tool = wit_risky, rr_Principal = wit_caller,
        rr_Result = empty_result\<lparr>cr_Content := [TextContent ''x'' []], cr_IsError := True\<rparr>\<rparr>) = Inr d \<and>
     trd_Result d = Some r \<and> cr_IsError r"
proof -
  let ?we = "(wit_we (Inr (Some ((plain_verdict DecisionMutate [])\<lparr>v_Patch := ''[]''\<rparr>))))\<lparr>we_decodeOps := (\<lambda>_. Some [])\<rparr>"
  let ?rq = "\<lparr>rr_PrincipalView = wit_writer, rr_Tool = wit_risky, rr_Principal = wit_caller,
        rr_Result = empty_result\<lparr>cr_Content := [TextContent ''x'' []], cr_IsError := True\<rparr>\<rparr>"
  have "(case fst (OnToolResult ?we wit_world ?rq) of Inl _ \<Rightarrow> False | Inr d \<Rightarrow> trd_Result d \<noteq> None)"
    by code_simp
  then obtain d r where d: "fst (OnToolResult ?we wit_world ?rq) = Inr d" "trd_Result d = Some r"
    by (auto split: sum.splits)
  with result_hook_changes_only_texts [OF d] show ?thesis by auto
qed

end
