(* ===== verification/Plugin_SDK.thy ===== *)
theory Plugin_SDK
  imports Edge_Wiring
begin

section \<open>The plugin author's side (plugins/sdk)\<close>

text \<open>
  What a bundled plugin reads and answers: the invocation decoded from the bytes the host writes, its configuration,
  and the verdicts, which are the host's own verdict records here (the JSON between the two sides is \<open>rt_verdict\<close> of
  the plugin host). A patch is encoded by the parameter \<open>enc\<close>. The export shim of the WebAssembly module, which only
  passes pointers, is the guest of the plugin host.
\<close>

record GInvocation =
  gi_Hook :: string
  gi_Shadow :: bool
  gi_Tenant :: string
  gi_Principal :: principalPayload
  gi_Tool :: "toolPayload option"
  gi_Arguments :: jobject
  gi_Result :: "resultBody option"
  gi_Catalog :: "toolPayload list"
  gi_Config :: jobject
  gi_InputResponses :: jobject
  gi_PluginState :: string

text \<open>A pointer field: \<open>null\<close> or absent is nil.\<close>

definition dec_pointer :: "(json \<Rightarrow> 'a option) \<Rightarrow> json \<Rightarrow> 'a option option" where
  "dec_pointer f j = (if j = JNull then Some None else map_option Some (f j))"

definition dec_invocation :: "json \<Rightarrow> GInvocation option" where
  "dec_invocation j =
     Option.bind (dec_object j) (\<lambda>m.
     Option.bind (dec_string (json_field ''hook'' m)) (\<lambda>hook.
     Option.bind (dec_bool (json_field ''shadow'' m)) (\<lambda>shadow.
     Option.bind (dec_string (json_field ''tenant'' m)) (\<lambda>tenant.
     Option.bind (dec_principal (json_field ''principal'' m)) (\<lambda>principal.
     Option.bind (dec_pointer dec_tool (json_field ''tool'' m)) (\<lambda>tool.
     Option.bind (dec_object (json_field ''arguments'' m)) (\<lambda>arguments.
     Option.bind (dec_pointer dec_result (json_field ''result'' m)) (\<lambda>result.
     Option.bind (dec_list dec_tool (json_field ''catalog'' m)) (\<lambda>catalog.
     Option.bind (dec_object (json_field ''config'' m)) (\<lambda>config.
     Option.bind (dec_object (json_field ''inputResponses'' m)) (\<lambda>responses.
     Option.bind (dec_string (json_field ''pluginState'' m)) (\<lambda>state.
       Some \<lparr>gi_Hook = hook, gi_Shadow = shadow, gi_Tenant = tenant, gi_Principal = principal, gi_Tool = tool,
             gi_Arguments = arguments, gi_Result = result, gi_Catalog = catalog, gi_Config = config,
             gi_InputResponses = responses, gi_PluginState = state\<rparr>))))))))))))"

subsection \<open>Verdicts and patches\<close>

definition AllowVerdict :: Verdict where
  "AllowVerdict = plain_verdict DecisionAllow []"

definition DenyVerdict :: "string \<Rightarrow> Verdict" where
  "DenyVerdict reason = plain_verdict DecisionDeny reason"

definition AnnotateVerdict :: "jobject \<Rightarrow> Verdict" where
  "AnnotateVerdict annotations = (plain_verdict DecisionAnnotate [])\<lparr>v_Annotations := annotations\<rparr>"

definition MutateVerdict :: "(PatchOp list \<Rightarrow> string option) \<Rightarrow> string \<Rightarrow> PatchOp list \<Rightarrow> Verdict" where
  "MutateVerdict enc reason ops =
     (case enc ops of
        None \<Rightarrow> plain_verdict DecisionAllow ''internal: patch could not be encoded''
      | Some raw \<Rightarrow> (plain_verdict DecisionMutate reason)\<lparr>v_Patch := raw\<rparr>)"

definition Replace_op :: "string \<Rightarrow> json \<Rightarrow> PatchOp" where
  "Replace_op path v = \<lparr>po_Op = ''replace'', po_Path = path, po_From = [], po_Value = Some v\<rparr>"

definition Add_op :: "string \<Rightarrow> json \<Rightarrow> PatchOp" where
  "Add_op path v = \<lparr>po_Op = ''add'', po_Path = path, po_From = [], po_Value = Some v\<rparr>"

definition Remove_op :: "string \<Rightarrow> PatchOp" where
  "Remove_op path = \<lparr>po_Op = ''remove'', po_Path = path, po_From = [], po_Value = None\<rparr>"

text \<open>The handler may be missing and may answer nil.\<close>

definition guest_dispatch ::
  "(string \<Rightarrow> json option) \<Rightarrow> (GInvocation \<Rightarrow> Verdict option) option \<Rightarrow> string \<Rightarrow> Verdict" where
  "guest_dispatch decode registered input =
     (case registered of
        None \<Rightarrow> plain_verdict DecisionAllow ''plugin registered no handler''
      | Some handler \<Rightarrow>
          (case Option.bind (decode input) dec_invocation of
             None \<Rightarrow> plain_verdict DecisionAllow ''plugin could not decode its invocation''
           | Some inv' \<Rightarrow> (case handler inv' of None \<Rightarrow> AllowVerdict | Some v \<Rightarrow> v)))"

subsection \<open>Configuration\<close>

definition ConfigString :: "GInvocation \<Rightarrow> string \<Rightarrow> string \<Rightarrow> string" where
  "ConfigString i key fallback =
     (case map_of (gi_Config i) key of Some (JStr v) \<Rightarrow> if v \<noteq> [] then v else fallback | _ \<Rightarrow> fallback)"

definition ConfigStrings :: "GInvocation \<Rightarrow> string \<Rightarrow> string list" where
  "ConfigStrings i key =
     (case map_of (gi_Config i) key of
        Some (JArr raw) \<Rightarrow> List.map_filter (\<lambda>item. case item of JStr s \<Rightarrow> Some s | _ \<Rightarrow> None) raw
      | _ \<Rightarrow> [])"

definition ConfigBool :: "GInvocation \<Rightarrow> string \<Rightarrow> bool \<Rightarrow> bool" where
  "ConfigBool i key fallback = (case map_of (gi_Config i) key of Some (JBool v) \<Rightarrow> v | _ \<Rightarrow> fallback)"

definition ConfigFloat :: "GInvocation \<Rightarrow> string \<Rightarrow> number \<Rightarrow> number" where
  "ConfigFloat i key fallback = (case map_of (gi_Config i) key of Some (JNum v) \<Rightarrow> v | _ \<Rightarrow> fallback)"

definition HasGroup :: "GInvocation \<Rightarrow> string \<Rightarrow> bool" where
  "HasGroup i name = list_ex (\<lambda>g. g = name) (pp_Groups (gi_Principal i))"

definition HasAnyGroup :: "GInvocation \<Rightarrow> string list \<Rightarrow> bool" where
  "HasAnyGroup i groups = list_ex (HasGroup i) groups"

subsection \<open>What the host writes, a plugin reads\<close>

lemma json_field_Nil [simp]: "json_field name [] = JNull"
  by (simp add: json_field_def)

text \<open>Looking up a field of an encoded struct: its members have pairwise different folded names.\<close>

lemma json_field_Cons:
  "json_field name ((k, v) # m) =
     (if fold_name k = fold_name name \<and> list_all (\<lambda>(k', _). fold_name k' \<noteq> fold_name name) m
      then v else json_field name m)"
proof (cases "filter (\<lambda>(k, _). fold_name k = fold_name name) m")
  case Nil
  then have "list_all (\<lambda>(k', _). fold_name k' \<noteq> fold_name name) m"
    by (auto simp: filter_empty_conv list_all_iff)
  with Nil show ?thesis by (simp add: json_field_def)
next
  case (Cons p ps)
  then have "p \<in> set (filter (\<lambda>(k, _). fold_name k = fold_name name) m)" by simp
  then have "\<not> list_all (\<lambda>(k', _). fold_name k' \<noteq> fold_name name) m"
    by (auto simp: list_all_iff)
  with Cons show ?thesis by (simp add: json_field_def)
qed

lemma list_all_append_omit [simp]:
  "list_all P (omit absent k j @ m) \<longleftrightarrow> (absent \<or> P (k, j)) \<and> list_all P m"
  by (auto simp: omit_def)

lemma json_field_omit:
  "json_field name (omit absent k j @ m) =
     (if \<not> absent \<and> fold_name k = fold_name name \<and> list_all (\<lambda>(k', _). fold_name k' \<noteq> fold_name name) m
      then j else json_field name m)"
  by (simp add: omit_def json_field_Cons)

lemma ascii_fold:
  "fold_name ''name'' = ''NAME'' \<and> fold_name ''namespace'' = ''NAMESPACE'' \<and>
   fold_name ''title'' = ''TITLE'' \<and> fold_name ''description'' = ''DESCRIPTION'' \<and>
   fold_name ''effect_class'' = ''EFFECT_CLASS'' \<and> fold_name ''backend'' = ''BACKEND'' \<and>
   fold_name ''digest'' = ''DIGEST'' \<and> fold_name ''type'' = ''TYPE'' \<and>
   fold_name ''text'' = ''TEXT'' \<and> fold_name ''content'' = ''CONTENT'' \<and>
   fold_name ''isError'' = ''ISERROR'' \<and> fold_name ''subject'' = ''SUBJECT'' \<and>
   fold_name ''groups'' = ''GROUPS'' \<and> fold_name ''claims'' = ''CLAIMS'' \<and>
   fold_name ''tenant'' = ''TENANT'' \<and> fold_name ''principal'' = ''PRINCIPAL'' \<and>
   fold_name ''catalog'' = ''CATALOG'' \<and> fold_name ''tool'' = ''TOOL'' \<and>
   fold_name ''result'' = ''RESULT'' \<and> fold_name ''arguments'' = ''ARGUMENTS'' \<and>
   fold_name ''pluginState'' = ''PLUGINSTATE'' \<and> fold_name ''inputResponses'' = ''INPUTRESPONSES'' \<and>
   fold_name ''hook'' = ''HOOK'' \<and> fold_name ''shadow'' = ''SHADOW'' \<and>
   fold_name ''config'' = ''CONFIG''"
  by (simp add: ascii_upper_def char_of_def bit_0)

declare fold_name.simps [simp del]

end
