(* ===== verification/Plugin_Entitlements.thy ===== *)
theory Plugin_Entitlements
  imports Plugin_SDK
begin

section \<open>The entitlements plugin (plugins/entitlements/main.go)\<close>

text \<open>
  The rules, their evaluation, and the two hooks that share them. Patterns are matched by \<open>path.Match\<close>, which
  is modelled as Go's standard library has it, chunk by chunk; the bytes of a rune are decoded as in \<open>Canonical\<close>.
\<close>

subsection \<open>path.Match\<close>

definition first_rune :: "string \<Rightarrow> nat \<times> nat" where
  "first_rune s = decode_rune (map of_char s)"

text \<open>Leading stars, then up to the next star outside a class.\<close>

fun chunk_end :: "bool \<Rightarrow> string \<Rightarrow> nat" where
  "chunk_end inrange [] = 0"
| "chunk_end inrange [c] = (if c = CHR ''*'' \<and> \<not> inrange then 0 else 1)"
| "chunk_end inrange (c # d # s) =
     (if c = CHR 0x5C then 2 + chunk_end inrange s
      else if c = CHR ''['' then 1 + chunk_end True (d # s)
      else if c = CHR '']'' then 1 + chunk_end False (d # s)
      else if c = CHR ''*'' \<and> \<not> inrange then 0
      else 1 + chunk_end inrange (d # s))"

definition scanChunk :: "string \<Rightarrow> bool \<times> string \<times> string" where
  "scanChunk pattern =
     (let p = dropWhile (\<lambda>c. c = CHR ''*'') pattern; n = chunk_end False p
      in (pattern \<noteq> p, take n p, drop n p))"

text \<open>A character of a class, possibly escaped; \<open>None\<close> is \<open>ErrBadPattern\<close>.\<close>

definition getEsc :: "string \<Rightarrow> (nat \<times> string) option" where
  "getEsc chunk =
     (if chunk = [] \<or> hd chunk = CHR ''-'' \<or> hd chunk = CHR '']'' then None
      else
        let chunk = (if hd chunk = CHR 0x5C then tl chunk else chunk)
        in if chunk = [] then None
           else let (r, n) = first_rune chunk
                in if r = 0xFFFD \<and> n = 1 then None
                   else if drop n chunk = [] then None
                   else Some (r, drop n chunk))"

lemma first_rune_width: "s \<noteq> [] \<Longrightarrow> 0 < snd (first_rune s)"
  by (cases s) (auto simp: first_rune_def split: list.splits)

lemma getEsc_shorter:
  assumes "getEsc chunk = Some (r, rest)"
  shows "length rest < length chunk"
proof -
  let ?c = "if hd chunk = CHR 0x5C then tl chunk else chunk"
  from assms have c: "?c \<noteq> []" and r: "rest = drop (snd (first_rune ?c)) ?c"
    by (auto simp: getEsc_def Let_def split: if_splits prod.splits)
  have "length rest < length ?c" unfolding r using first_rune_width [OF c] c by simp
  also have "\<dots> \<le> length chunk" by simp
  finally show ?thesis .
qed

text \<open>The ranges of a class up to its bracket.\<close>

function class_ranges :: "nat \<Rightarrow> bool \<Rightarrow> bool \<Rightarrow> string \<Rightarrow> (bool \<times> string) option" where
  "class_ranges r some hit chunk =
     (if chunk \<noteq> [] \<and> hd chunk = CHR '']'' \<and> some then Some (hit, tl chunk)
      else case getEsc chunk of
          None \<Rightarrow> None
        | Some (lo, rest) \<Rightarrow>
            (if hd rest = CHR ''-''
             then (case getEsc (tl rest) of
                     None \<Rightarrow> None
                   | Some (hi, rest) \<Rightarrow> class_ranges r True (hit \<or> (lo \<le> r \<and> r \<le> hi)) rest)
             else class_ranges r True (hit \<or> r = lo) rest))"
  by pat_completeness auto
termination
  by (relation "measure (\<lambda>(r, some, hit, chunk). length chunk)")
    (auto dest!: getEsc_shorter)

declare class_ranges.simps [simp del]

lemma class_ranges_shorter:
  "class_ranges r some hit chunk = Some (hit', rest) \<Longrightarrow> length rest \<le> length chunk"
proof (induction r some hit chunk rule: class_ranges.induct)
  case (1 r some hit chunk)
  show ?case
  proof (cases "chunk \<noteq> [] \<and> hd chunk = CHR '']'' \<and> some")
    case True
    with "1.prems" show ?thesis by (subst (asm) class_ranges.simps) auto
  next
    case False
    with "1.prems" obtain lo r1 where g: "getEsc chunk = Some (lo, r1)"
      by (subst (asm) class_ranges.simps) (auto split: option.splits)
    show ?thesis
    proof (cases "hd r1 = CHR ''-''")
      case True
      with "1.prems" False g obtain hi r2 where h: "getEsc (tl r1) = Some (hi, r2)"
        and c: "class_ranges r True (hit \<or> (lo \<le> r \<and> r \<le> hi)) r2 = Some (hit', rest)"
        by (subst (asm) class_ranges.simps) (auto split: option.splits)
      from "1.IH"(1) [OF False g refl True h refl c] getEsc_shorter [OF g] getEsc_shorter [OF h]
      show ?thesis by simp
    next
      case nd: False
      with "1.prems" False g have c: "class_ranges r True (hit \<or> r = lo) r1 = Some (hit', rest)"
        by (subst (asm) class_ranges.simps) (auto split: option.splits)
      from "1.IH"(2) [OF False g refl nd c] getEsc_shorter [OF g] show ?thesis by simp
    qed
  qed
qed

text \<open>The rest of the name, \<open>Some None\<close> for no match, \<open>None\<close> for a bad pattern. After a failure the rest of the
  chunk is only checked; the rune that is not read then is 0.\<close>

function match_chunk :: "bool \<Rightarrow> string \<Rightarrow> string \<Rightarrow> string option option" where
  "match_chunk failed [] s = Some (if failed then None else Some s)"
| "match_chunk failed (c # chunk) s =
     (let failed = (failed \<or> s = []) in
      if c = CHR ''['' then
        (let (r, n) = (if failed then (0, 0) else first_rune s);
             negated = (chunk \<noteq> [] \<and> hd chunk = CHR ''^'')
         in case class_ranges r False False (if negated then tl chunk else chunk) of
              None \<Rightarrow> None
            | Some (hit, rest) \<Rightarrow> match_chunk (failed \<or> hit = negated) rest (drop n s))
      else if c = CHR ''?'' then
        (if failed then match_chunk True chunk s
         else match_chunk (hd s = CHR ''/'') chunk (drop (snd (first_rune s)) s))
      else if c = CHR 0x5C then
        (if chunk = [] then None
         else if failed then match_chunk True (tl chunk) s
         else match_chunk (hd chunk \<noteq> hd s) (tl chunk) (tl s))
      else if failed then match_chunk True chunk s
      else match_chunk (c \<noteq> hd s) chunk (tl s))"
  by pat_completeness auto
termination
  by (relation "measure (\<lambda>(failed, chunk, s). length chunk)")
    (auto dest!: class_ranges_shorter split: if_splits)

declare match_chunk.simps(2) [simp del]

definition matchChunk :: "string \<Rightarrow> string \<Rightarrow> string option option" where
  "matchChunk chunk s = match_chunk False chunk s"

text \<open>A star skips bytes other than a slash until the chunk matches (to the end, for the last chunk).\<close>

fun star_match :: "string \<Rightarrow> bool \<Rightarrow> string \<Rightarrow> string option option" where
  "star_match chunk final [] = Some None"
| "star_match chunk final (c # s) =
     (if c = CHR ''/'' then Some None
      else case matchChunk chunk s of
          None \<Rightarrow> None
        | Some None \<Rightarrow> star_match chunk final s
        | Some (Some t) \<Rightarrow> if final \<and> t \<noteq> [] then star_match chunk final s else Some (Some t))"

lemma scanChunk_shorter:
  assumes "pattern \<noteq> []" "scanChunk pattern = (star, chunk, rest)"
  shows "length rest < length pattern"
proof -
  let ?p = "dropWhile (\<lambda>c. c = CHR ''*'') pattern"
  have rest: "rest = drop (chunk_end False ?p) ?p" using assms(2) by (auto simp: scanChunk_def Let_def)
  show ?thesis
  proof (cases "?p = pattern")
    case True
    then have "hd pattern \<noteq> CHR ''*''" using assms(1) hd_dropWhile [of "\<lambda>c. c = CHR ''*''" pattern] by force
    then have "0 < chunk_end False pattern"
      using assms(1) by (cases "(False, pattern)" rule: chunk_end.cases) auto
    then show ?thesis unfolding rest True using assms(1) by simp
  next
    case False
    then have "length ?p < length pattern"
      by (metis length_dropWhile_le le_neq_implies_less takeWhile_dropWhile_id append_eq_append_conv append_Nil length_append add_cancel_left_left length_0_conv)
    then show ?thesis unfolding rest by simp
  qed
qed

function well_formed :: "string \<Rightarrow> bool" where
  "well_formed pattern =
     (if pattern = [] then True
      else case scanChunk pattern of (_, chunk, rest) \<Rightarrow>
        if matchChunk chunk [] = None then False else well_formed rest)"
  by pat_completeness auto
termination
  by (relation "measure length") (auto dest: scanChunk_shorter [OF _ sym])

declare well_formed.simps [simp del]

definition no_match :: "string \<Rightarrow> bool option" where
  "no_match rest = (if well_formed rest then Some False else None)"

text \<open>\<open>None\<close> is \<open>ErrBadPattern\<close>.\<close>

function path_match :: "string \<Rightarrow> string \<Rightarrow> bool option" where
  "path_match pattern name =
     (if pattern = [] then Some (name = [])
      else case scanChunk pattern of (star, chunk, rest) \<Rightarrow>
        if star \<and> chunk = [] then Some (CHR ''/'' \<notin> set name)
        else case matchChunk chunk name of
            None \<Rightarrow> None
          | Some first \<Rightarrow>
              if first \<noteq> None \<and> (the first = [] \<or> rest \<noteq> []) then path_match rest (the first)
              else if \<not> star then no_match rest
              else case star_match chunk (rest = []) name of
                  None \<Rightarrow> None
                | Some None \<Rightarrow> no_match rest
                | Some (Some t) \<Rightarrow> path_match rest t)"
  by pat_completeness auto
termination
  by (relation "measure (\<lambda>(pattern, name). length pattern)") (auto dest: scanChunk_shorter [OF _ sym])

declare path_match.simps [simp del]

subsection \<open>Rules\<close>

record rule =
  ru_Match :: string
  ru_AllowGroups :: "string list"
  ru_DenyGroups :: "string list"
  ru_EffectClasses :: "string list"

definition matches :: "string \<Rightarrow> string \<Rightarrow> bool" where
  "matches pattern name =
     (if pattern = [] \<or> pattern = ''*'' then True
      else case path_match pattern name of None \<Rightarrow> False | Some ok \<Rightarrow> ok)"

text \<open>\<open>strings.EqualFold\<close>, for ASCII names and the two non-ASCII letters that fold to one.\<close>

definition contains_fold :: "string list \<Rightarrow> string \<Rightarrow> bool" where
  "contains_fold haystack needle = list_ex (\<lambda>v. fold_name v = fold_name needle) haystack"

definition intersects :: "string list \<Rightarrow> string list \<Rightarrow> bool" where
  "intersects a b = list_ex (\<lambda>x. list_ex (\<lambda>y. x = y) b) a"

fun allowed :: "string \<Rightarrow> string \<Rightarrow> string list \<Rightarrow> rule list \<Rightarrow> bool \<Rightarrow> bool" where
  "allowed toolName effectClass groups [] defaultAllow = defaultAllow"
| "allowed toolName effectClass groups (r # rules) defaultAllow =
     (if \<not> matches (ru_Match r) toolName then allowed toolName effectClass groups rules defaultAllow
      else if ru_EffectClasses r \<noteq> [] \<and> \<not> contains_fold (ru_EffectClasses r) effectClass
      then allowed toolName effectClass groups rules defaultAllow
      else if ru_DenyGroups r \<noteq> [] \<and> intersects (ru_DenyGroups r) groups then False
      else if ru_AllowGroups r \<noteq> [] then intersects (ru_AllowGroups r) groups
      else True)"

definition dec_rule :: "json \<Rightarrow> rule option" where
  "dec_rule j =
     Option.bind (dec_object j) (\<lambda>m.
     Option.bind (dec_string (json_field ''match'' m)) (\<lambda>ma.
     Option.bind (dec_list dec_string (json_field ''allow_groups'' m)) (\<lambda>ag.
     Option.bind (dec_list dec_string (json_field ''deny_groups'' m)) (\<lambda>dg.
     Option.bind (dec_list dec_string (json_field ''effect_classes'' m)) (\<lambda>ec.
       Some \<lparr>ru_Match = ma, ru_AllowGroups = ag, ru_DenyGroups = dg, ru_EffectClasses = ec\<rparr>)))))"

datatype ConfigError = BadDefault string | BadRules | RuleWithoutMatch nat

fun first_unmatched :: "nat \<Rightarrow> rule list \<Rightarrow> nat option" where
  "first_unmatched i [] = None"
| "first_unmatched i (r # rs) = (if ru_Match r = [] then Some i else first_unmatched (Suc i) rs)"

text \<open>Rules, the default and whether denied tools are hidden.\<close>

definition parseConfig :: "GInvocation \<Rightarrow> ConfigError + rule list \<times> bool \<times> bool" where
  "parseConfig i =
     (let hideDenied = ConfigBool i ''hide_denied'' True;
          def = to_lower (ConfigString i ''default'' ''allow'')
      in if def \<noteq> ''allow'' \<and> def \<noteq> ''deny'' then Inl (BadDefault (ConfigString i ''default'' []))
         else case map_of (gi_Config i) ''rules'' of
             None \<Rightarrow> Inr ([], def = ''allow'', hideDenied)
           | Some raw \<Rightarrow>
               (case dec_list dec_rule raw of
                  None \<Rightarrow> Inl BadRules
                | Some rules \<Rightarrow>
                    (case first_unmatched 0 rules of
                       Some k \<Rightarrow> Inl (RuleWithoutMatch k)
                     | None \<Rightarrow> Inr (rules, def = ''allow'', hideDenied))))"

subsection \<open>The hooks\<close>

definition tool_allowed :: "GInvocation \<Rightarrow> rule list \<Rightarrow> bool \<Rightarrow> toolPayload \<Rightarrow> bool" where
  "tool_allowed i rules defaultAllow tool =
     allowed (tp_Name tool) (tp_EffectClass tool) (pp_Groups (gi_Principal i)) rules defaultAllow"

text \<open>From the last tool to the first, so that every index is still valid when its removal is applied.\<close>

definition hidden :: "GInvocation \<Rightarrow> rule list \<Rightarrow> bool \<Rightarrow> (nat \<times> toolPayload) list" where
  "hidden i rules defaultAllow =
     filter (\<lambda>(_, tool). \<not> tool_allowed i rules defaultAllow tool) (rev (enumerate 0 (gi_Catalog i)))"

definition element_path :: "nat \<Rightarrow> string" where
  "element_path k = ''/catalog/'' @ itoa_nat k"

definition removal_ops :: "(nat \<times> toolPayload) list \<Rightarrow> PatchOp list" where
  "removal_ops hs = map (\<lambda>(k, _). Remove_op (element_path k)) hs"

definition filterCatalog ::
  "(PatchOp list \<Rightarrow> string option) \<Rightarrow> GInvocation \<Rightarrow> rule list \<Rightarrow> bool \<Rightarrow> bool \<Rightarrow> Verdict" where
  "filterCatalog enc i rules defaultAllow hideDenied =
     (if gi_Catalog i = [] then AllowVerdict
      else if \<not> hideDenied then AllowVerdict
      else
        let hs = hidden i rules defaultAllow
        in if hs = [] then AllowVerdict
           else (MutateVerdict enc (''hid '' @ itoa_nat (length hs) @ '' tool(s) this principal is not entitled to'')
                   (removal_ops hs))
             \<lparr>v_Annotations := [(''hidden'', JArr (map JStr (sort (map (tp_Name \<circ> snd) hs)))),
                (''principal_groups'', JArr (map JStr (pp_Groups (gi_Principal i))))]\<rparr>)"

definition enforceCall :: "GInvocation \<Rightarrow> rule list \<Rightarrow> bool \<Rightarrow> Verdict" where
  "enforceCall i rules defaultAllow =
     (case gi_Tool i of
        None \<Rightarrow> AllowVerdict
      | Some tool \<Rightarrow>
          if tool_allowed i rules defaultAllow tool then AllowVerdict
          else DenyVerdict (tp_Name tool @ '' requires an entitlement this principal does not hold''))"

definition config_verdict :: "string \<Rightarrow> Verdict" where
  "config_verdict msg =
     (plain_verdict DecisionAllow (''entitlements: '' @ msg))\<lparr>v_Annotations := [(''config_error'', JStr msg)]\<rparr>"

text \<open>The message of a configuration error, without the quoted value and the decoder's own error.\<close>

definition config_message :: "ConfigError \<Rightarrow> string" where
  "config_message e = (case e of
       BadDefault d \<Rightarrow> ''default is not allow or deny''
     | BadRules \<Rightarrow> ''rules are not a list of rule objects''
     | RuleWithoutMatch k \<Rightarrow> ''rule '' @ itoa_nat k @ '' has no match pattern'')"

definition entitlements_handle :: "(PatchOp list \<Rightarrow> string option) \<Rightarrow> GInvocation \<Rightarrow> Verdict" where
  "entitlements_handle enc i =
     (case parseConfig i of
        Inl e \<Rightarrow> config_verdict (config_message e)
      | Inr (rules, defaultAllow, hideDenied) \<Rightarrow>
          if gi_Hook i = ''on_catalog'' then filterCatalog enc i rules defaultAllow hideDenied
          else if gi_Hook i = ''on_tool_call'' then enforceCall i rules defaultAllow
          else AllowVerdict)"

end
