(* ===== verification/Plugin_Guest_Props.thy ===== *)
theory Plugin_Guest_Props
  imports Plugin_Entitlements Pipeline_Props
begin

section \<open>What the bundled plugins achieve\<close>

text \<open>
  The payload codec is the identity on what the hooks encode, and the patch the entitlements plugin computes from its
  decoded catalog, applied by the engine to the encoded one, leaves exactly the entitled tools.
\<close>

subsection \<open>The payload codec\<close>

lemma dec_all_map: "(\<And>x. x \<in> set xs \<Longrightarrow> f (g x) = Some x) \<Longrightarrow> dec_all f (map g xs) = Some xs"
  by (induction xs) auto

lemma dec_list_map: "(\<And>x. f (g x) = Some x) \<Longrightarrow> dec_list f (JArr (map g xs)) = Some xs"
  by (simp add: dec_list_def dec_all_map)

lemma dec_list_null [simp]: "dec_list f JNull = Some []"
  by (simp add: dec_list_def)

lemma dec_strings_map_null [simp]: "dec_strings_map JNull = Some []"
  by (simp add: dec_strings_map_def)

lemma dec_claims: "dec_strings_map (JObj (map (\<lambda>(k, v). (k, JStr v)) xs)) = Some xs"
  by (simp add: dec_strings_map_def) (rule dec_all_map, auto)

lemma dec_strings: "dec_list dec_string (JArr (map JStr xs)) = Some xs"
  by (rule dec_list_map) simp

lemma omit_end [simp]: "json_field name (omit absent k j) = (if \<not> absent \<and> fold_name k = fold_name name then j else JNull)"
  by (simp add: omit_def json_field_Cons)

lemma list_all_omit [simp]: "list_all P (omit absent k j) \<longleftrightarrow> absent \<or> P (k, j)"
  by (simp add: omit_def)

lemmas json_fields = json_field_Cons json_field_omit omit_str_def ascii_fold

lemma dec_enc_principal: "dec_principal (enc_principal p) = Some p"
  by (cases p) (simp add: dec_principal_def enc_principal_def json_fields dec_strings dec_claims)

lemma dec_enc_tool: "dec_tool (enc_tool t) = Some t"
  by (cases t) (simp add: dec_tool_def enc_tool_def json_fields)

lemma dec_enc_content: "dec_content (enc_content c) = Some c"
  by (cases c) (simp add: dec_content_def enc_content_def json_fields)

lemma dec_enc_result: "dec_result (enc_result r) = Some r"
  by (cases r) (simp add: dec_result_def enc_result_def json_fields dec_list_map dec_enc_content)

lemma dec_enc_catalog: "dec_catalogPayload (enc_catalogPayload p) = Some p"
  by (cases p) (simp add: dec_catalogPayload_def enc_catalogPayload_def json_fields dec_list_map dec_enc_tool
      dec_enc_principal)

lemma dec_enc_resultPayload: "dec_resultPayload (enc_resultPayload p) = Some p"
  by (cases p) (simp add: dec_resultPayload_def enc_resultPayload_def json_fields dec_enc_result dec_enc_tool
      dec_enc_principal)

lemma dec_enc_call: "dec_callPayload (enc_callPayload p) = Some (p, clp_Arguments p = [])"
  by (cases p) (simp add: dec_callPayload_def enc_callPayload_def json_fields dec_enc_tool dec_enc_principal)


subsection \<open>Paths of array elements\<close>

lemma digit_not_special: "is_digit c \<Longrightarrow> c \<noteq> CHR ''-'' \<and> c \<noteq> CHR ''+'' \<and> c \<noteq> CHR ''/'' \<and> c \<noteq> CHR ''~''"
  by (auto simp: is_digit_def)

lemma itoa_nat_ne [simp]: "itoa_nat n \<noteq> []"
  by (subst itoa_nat.simps) simp

lemma atoi_digits:
  assumes "list_all is_digit s" "s \<noteq> []"
  shows "atoi s = (case digits_val 0 s of None \<Rightarrow> None | Some n \<Rightarrow> if int n < 2 ^ 63 then Some (int n) else None)"
proof -
  obtain c r where s: "s = c # r" using assms(2) by (cases s) auto
  with assms(1) have "c \<noteq> CHR ''-''" "c \<noteq> CHR ''+''" by (auto dest: digit_not_special)
  then have "(case s of CHR ''-'' # r \<Rightarrow> (True, r) | CHR ''+'' # r \<Rightarrow> (False, r) | _ \<Rightarrow> (False, s)) = (False, s)"
    by (simp add: s split: char.split bool.split)
  then show ?thesis using assms(2) by (auto simp: atoi_def Let_def split: option.splits)
qed

lemma atoi_itoa: "n < 2 ^ 63 \<Longrightarrow> atoi (itoa_nat n) = Some (int n)"
  using atoi_digits [OF itoa_nat_digits itoa_nat_ne, of n] by (simp add: digits_val_itoa)

lemma digits_clean: "list_all is_digit s \<Longrightarrow> CHR ''/'' \<notin> set s \<and> unescape_token s = s"
proof (induction s)
  case (Cons c s)
  then show ?case using digit_not_special [of c] by (auto simp: unescape_other)
qed simp

lemmas itoa_clean = digits_clean [OF itoa_nat_digits]

lemma array_index_itoa: "k < n \<Longrightarrow> n < 2 ^ 63 \<Longrightarrow> array_index (itoa_nat k) n = Some k"
  by (simp add: array_index_def atoi_itoa)

lemma split_element: "splitPointer (element_path k) = Inr [''catalog'', itoa_nat k]"
proof -
  have "split_on (CHR ''/'') (''catalog'' @ CHR ''/'' # itoa_nat k) = ''catalog'' # [itoa_nat k]"
    using itoa_clean [of k] by (subst split_on_append) (simp_all add: split_on_free)
  then show ?thesis using itoa_clean [of k] by (simp add: element_path_def splitPointer_def trim_prefix_def)
qed

lemma element_dotted: "k < 2 ^ 63 \<Longrightarrow> pointerToDotted (element_path k) = ''catalog''"
proof -
  assume k: "k < 2 ^ 63"
  have "split_on (CHR ''/'') (''catalog'' @ CHR ''/'' # itoa_nat k) = ''catalog'' # [itoa_nat k]"
    using itoa_clean [of k] by (subst split_on_append) (simp_all add: split_on_free)
  moreover have "atoi ''catalog'' = None" by code_simp
  ultimately show ?thesis using itoa_clean [of k] atoi_itoa [OF k]
    by (simp add: element_path_def pointerToDotted_def trim_prefix_def)
qed

subsection \<open>The patched catalog\<close>

definition with_catalog :: "catalogPayload \<Rightarrow> toolPayload list \<Rightarrow> json" where
  "with_catalog p ts = enc_catalogPayload (p\<lparr>cap_Catalog := ts\<rparr>)"

lemma with_catalog_object:
  "\<exists>m. with_catalog p ts = JObj m \<and> map_of m ''catalog'' = Some (JArr (map enc_tool ts)) \<and>
     with_catalog p us = JObj (obj_set ''catalog'' (JArr (map enc_tool us)) m)"
  by (simp add: with_catalog_def enc_catalogPayload_def omit_str_def omit_def)

lemma remove_element:
  assumes "k < length ts" "length ts < 2 ^ 63"
  shows "removePointer (with_catalog p ts) (element_path k) =
    Inr (with_catalog p (take k ts @ drop (Suc k) ts))"
proof -
  obtain m where m: "with_catalog p ts = JObj m" "map_of m ''catalog'' = Some (JArr (map enc_tool ts))"
    "with_catalog p (take k ts @ drop (Suc k) ts) =
       JObj (obj_set ''catalog'' (JArr (map enc_tool (take k ts @ drop (Suc k) ts))) m)"
    using with_catalog_object [of p ts "take k ts @ drop (Suc k) ts"] by (elim exE conjE)
  show ?thesis using assms
    by (simp add: removePointer_def split_element m array_index_itoa replaceSlice_def take_map drop_map)
qed

lemma removals_filter:
  assumes "length (xs @ zs) < 2 ^ 63"
  shows "applyOps (with_catalog p (xs @ zs)) (removal_ops (filter (\<lambda>(_, t). \<not> P t) (rev (enumerate 0 xs)))) =
    Inr (with_catalog p (filter P xs @ zs))"
  using assms
proof (induction xs arbitrary: zs rule: rev_induct)
  case Nil
  then show ?case by (simp add: removal_ops_def)
next
  case (snoc x xs)
  show ?case
  proof (cases "P x")
    case True
    then show ?thesis using snoc.IH [of "x # zs"] snoc.prems by (simp add: enumerate_append_eq)
  next
    case False
    have "applyOp (with_catalog p ((xs @ [x]) @ zs)) (Remove_op (element_path (length xs))) =
      Inr (with_catalog p (xs @ zs))"
      using remove_element [of "length xs" "(xs @ [x]) @ zs" p] snoc.prems
      by (simp add: applyOp_def Remove_op_def)
    then show ?thesis using False snoc.IH [of zs] snoc.prems
      by (simp add: enumerate_append_eq removal_ops_def)
  qed
qed

lemma removals_in_scope:
  assumes "\<forall>(k, _)\<in>set hs. k < (2 :: nat) ^ 63"
  shows "checkScopes (removal_ops hs) [''catalog''] = Inr ()"
proof -
  have "trim_space ''catalog'' = ''catalog''" by code_simp
  then show ?thesis using assms
    by (auto simp: checkScopes_iff removal_ops_def Remove_op_def checkScope_def element_dotted scope_admits_def)
qed

lemma filter_patch_applied:
  assumes raw: "enc (removal_ops (hidden i rules d)) = Some raw" "raw \<noteq> []"
      "decodeOps raw = Some (removal_ops (hidden i rules d))"
    and dec: "decode payload = Some (enc_catalogPayload p)"
    and few: "length (hidden i rules d) \<le> MaxPatchOperations" "hidden i rules d \<noteq> []"
    and small: "length (cap_Catalog p) < 2 ^ 63" and sees: "gi_Catalog i = cap_Catalog p"
  shows "v_Decision (filterCatalog enc i rules d True) = DecisionMutate \<and>
    ApplyPatch decode decodeOps payload (v_Patch (filterCatalog enc i rules d True)) [''catalog''] =
      Inr (canon_write (enc_catalogPayload (p\<lparr>cap_Catalog := filter (tool_allowed i rules d) (cap_Catalog p)\<rparr>)))"
proof -
  let ?hs = "hidden i rules d"
  have ne: "gi_Catalog i \<noteq> []" using few(2) by (auto simp: hidden_def)
  have k: "\<forall>(k, _)\<in>set ?hs. k < (2 :: nat) ^ 63"
    using small sees by (auto simp: hidden_def in_set_enumerate_eq)
  have "with_catalog p (cap_Catalog p) = enc_catalogPayload p" by (simp add: with_catalog_def)
  then have "applyOps (enc_catalogPayload p) (removal_ops ?hs) =
      Inr (with_catalog p (filter (tool_allowed i rules d) (cap_Catalog p)))"
    using removals_filter [of "cap_Catalog p" "[]" p "tool_allowed i rules d"] small sees by (simp add: hidden_def)
  moreover have "length (removal_ops ?hs) \<le> MaxPatchOperations" "removal_ops ?hs \<noteq> []"
    using few by (auto simp: removal_ops_def)
  ultimately show ?thesis using ne few(2) raw removals_in_scope [OF k]
    by (simp add: filterCatalog_def Let_def MutateVerdict_def plain_verdict_def ApplyPatch_def dec with_catalog_def)
qed

lemma length_hidden:
  "length (hidden i rules d) = length (filter (\<lambda>t. \<not> tool_allowed i rules d t) (gi_Catalog i))"
proof -
  have "length (filter (\<lambda>(_, t). P t) (enumerate n xs)) = length (filter P xs)" for P n and xs :: "toolPayload list"
    by (induction xs arbitrary: n) auto
  then show ?thesis by (simp add: hidden_def rev_filter [symmetric])
qed

lemma hidden_empty: "hidden i rules d = [] \<longleftrightarrow> (\<forall>t\<in>set (gi_Catalog i). tool_allowed i rules d t)"
  unfolding length_0_conv [symmetric] length_hidden by (simp add: filter_empty_conv)

lemma parseConfig_of_config [simp]:
  "parseConfig (i\<lparr>gi_Hook := h, gi_Tool := t\<rparr>) = parseConfig i" "parseConfig (i\<lparr>gi_Catalog := c\<rparr>) = parseConfig i"
  by (simp_all add: parseConfig_def ConfigBool_def ConfigString_def Let_def)

lemma call_refused_iff:
  assumes "parseConfig i = Inr (rules, d, hide)"
  shows "v_Decision (entitlements_handle enc (i\<lparr>gi_Hook := ''on_tool_call'', gi_Tool := Some t\<rparr>)) = DecisionDeny \<longleftrightarrow>
    \<not> tool_allowed i rules d t"
  using assms by (simp add: entitlements_handle_def enforceCall_def tool_allowed_def AllowVerdict_def DenyVerdict_def
      plain_verdict_def)

text \<open>C18: the catalog a principal is shown is exactly what it may call. When the entitlements plugin answers on a
  catalog of which it hides at most 256 tools, the engine applies its patch and the document becomes the encoding of
  the catalog without the tools it hides, everything else unchanged; and the tools that remain are those whose call
  the same plugin with the same configuration does not refuse.\<close>

theorem entitled_catalog_exact:
  assumes "parseConfig i = Inr (rules, d, True)" and "gi_Hook i = ''on_catalog''"
    and "gi_Catalog i = cap_Catalog p" and "decode payload = Some (enc_catalogPayload p)"
    and "enc (removal_ops (hidden i rules d)) = Some raw" "raw \<noteq> []"
      "decodeOps raw = Some (removal_ops (hidden i rules d))"
    and "length (hidden i rules d) \<le> MaxPatchOperations" "length (cap_Catalog p) < 2 ^ 63"
  defines "v \<equiv> entitlements_handle enc i"
    and "kept \<equiv> filter (\<lambda>t. v_Decision (entitlements_handle enc
      (i\<lparr>gi_Hook := ''on_tool_call'', gi_Tool := Some t\<rparr>)) \<noteq> DecisionDeny) (cap_Catalog p)"
  shows "if kept = cap_Catalog p then v = AllowVerdict
    else v_Decision v = DecisionMutate \<and>
      ApplyPatch decode decodeOps payload (v_Patch v) [''catalog''] =
        Inr (canon_write (enc_catalogPayload (p\<lparr>cap_Catalog := kept\<rparr>)))"
proof -
  have kept: "kept = filter (tool_allowed i rules d) (cap_Catalog p)"
    unfolding kept_def using call_refused_iff [OF assms(1)] by simp
  have v: "v = filterCatalog enc i rules d True"
    unfolding v_def entitlements_handle_def using assms(1,2) by simp
  show ?thesis
  proof (cases "hidden i rules d = []")
    case True
    then have "kept = cap_Catalog p" using kept assms(3) by (simp add: hidden_empty filter_id_conv)
    with True v show ?thesis by (simp add: filterCatalog_def)
  next
    case False
    then have "kept \<noteq> cap_Catalog p" using kept assms(3) by (auto simp: hidden_empty filter_id_conv)
    then show ?thesis using filter_patch_applied [of enc i rules d raw decodeOps decode payload p, OF assms(5-7,4,8) False assms(9,3)] v kept
      by simp
  qed
qed

definition wit_tools :: "toolPayload list" where
  "wit_tools = [
     \<lparr>tp_Name = ''bil.void'', tp_Namespace = ''bil'', tp_Title = [], tp_Description = [],
      tp_EffectClass = ''destructive'', tp_Backend = [], tp_Digest = []\<rparr>,
     \<lparr>tp_Name = ''bil.list'', tp_Namespace = ''bil'', tp_Title = [], tp_Description = [],
      tp_EffectClass = ''read'', tp_Backend = [], tp_Digest = []\<rparr>]"

definition wit_inv :: GInvocation where
  "wit_inv = \<lparr>gi_Hook = ''on_catalog'', gi_Shadow = False, gi_Tenant = ''acme'',
     gi_Principal = \<lparr>pp_Subject = ''ann'', pp_Groups = [''support''], pp_Claims = []\<rparr>,
     gi_Tool = None, gi_Arguments = [], gi_Result = None, gi_Catalog = wit_tools,
     gi_Config = [(''rules'', JArr [JObj [(''match'', JStr ''bil.v*''), (''allow_groups'', JArr [JStr ''finance''])]])],
     gi_InputResponses = [], gi_PluginState = []\<rparr>"

definition wit_rules :: "rule list" where
  "wit_rules = [\<lparr>ru_Match = ''bil.v*'', ru_AllowGroups = [''finance''], ru_DenyGroups = [], ru_EffectClasses = []\<rparr>]"

definition wit_catalog :: catalogPayload where
  "wit_catalog = \<lparr>cap_Tenant = ''acme'', cap_Principal = gi_Principal wit_inv, cap_Catalog = wit_tools\<rparr>"

lemma wit_config: "parseConfig wit_inv = Inr (wit_rules, True, True)"
  by code_simp

lemma wit_entitled: "map (tool_allowed wit_inv wit_rules True) wit_tools = [False, True]"
  by code_simp

theorem entitled_catalog_exact_witness:
  "ApplyPatch (\<lambda>_. Some (enc_catalogPayload wit_catalog)) (\<lambda>_. Some (removal_ops (hidden wit_inv wit_rules True)))
     ''{}'' (v_Patch (entitlements_handle (\<lambda>_. Some ''[]'') wit_inv)) [''catalog''] =
   Inr (canon_write (enc_catalogPayload (wit_catalog\<lparr>cap_Catalog := [wit_tools ! 1]\<rparr>)))"
proof -
  have t: "\<not> tool_allowed wit_inv wit_rules True (wit_tools ! 0)" "tool_allowed wit_inv wit_rules True (wit_tools ! 1)"
    "wit_tools = [wit_tools ! 0, wit_tools ! 1]" "gi_Catalog wit_inv = [wit_tools ! 0, wit_tools ! 1]"
    using wit_entitled by (simp_all add: wit_tools_def wit_inv_def)
  have h: "length (hidden wit_inv wit_rules True) = 1" unfolding length_hidden t(4) using t(1,2) by simp
  have k: "filter (\<lambda>t. v_Decision (entitlements_handle (\<lambda>_. Some ''[]'')
      (wit_inv\<lparr>gi_Hook := ''on_tool_call'', gi_Tool := Some t\<rparr>)) \<noteq> DecisionDeny) wit_tools = [wit_tools ! 1]"
    unfolding call_refused_iff [OF wit_config] using t(1,2) by (subst t(3)) simp
  have n: "[wit_tools ! 1] \<noteq> wit_tools" by (simp add: wit_tools_def)
  show ?thesis
    using entitled_catalog_exact [OF wit_config, of wit_catalog "\<lambda>_. Some (enc_catalogPayload wit_catalog)" "''{}''"
        "\<lambda>_. Some ''[]''" "''[]''" "\<lambda>_. Some (removal_ops (hidden wit_inv wit_rules True))"] k n h
    by (simp add: wit_catalog_def wit_inv_def MaxPatchOperations_def wit_tools_def)
qed

text \<open>The filter fails open on a large catalog. When the plugin hides more than 256 tools, the engine refuses its
  patch whole, so the payload, the decision and the annotations of the hook stay what they were and every hidden tool
  is still offered.\<close>

theorem many_hidden_tools_stay_offered:
  assumes "parseConfig i = Inr (rules, d, True)" and "gi_Hook i = ''on_catalog''"
    and "enc (removal_ops (hidden i rules d)) = Some raw" "raw \<noteq> []"
    and "en_decodeOps env raw = Some (removal_ops (hidden i rules d))"
    and "MaxPatchOperations < length (hidden i rules d)"
  shows "act_on env m out (entitlements_handle enc i) s =
    add_outcome (out\<lparr>o_Error := BadPatch (TooManyOperations (length (hidden i rules d))), o_Enforced := False\<rparr>) s"
proof -
  have ne: "hidden i rules d \<noteq> []" "gi_Catalog i \<noteq> []" using assms(6) by (auto simp: hidden_def)
  have "removal_ops (hidden i rules d) \<noteq> []" "length (removal_ops (hidden i rules d)) = length (hidden i rules d)"
    using ne by (auto simp: removal_ops_def)
  then show ?thesis using assms ne
    by (simp add: act_on_def entitlements_handle_def filterCatalog_def Let_def MutateVerdict_def plain_verdict_def
        ApplyPatch_def)
qed

definition wit_many :: GInvocation where
  "wit_many = wit_inv\<lparr>gi_Catalog := replicate 257 (wit_tools ! 0)\<rparr>"

lemma wit_many_hidden: "length (hidden wit_many wit_rules True) = 257"
proof -
  have "\<not> tool_allowed wit_many wit_rules True (wit_tools ! 0)"
    using wit_entitled by (simp add: tool_allowed_def wit_many_def wit_tools_def)
  then show ?thesis by (simp add: length_hidden wit_many_def)
qed

theorem many_hidden_tools_stay_offered_witness:
  "\<forall>env m out s. ls_result (act_on
     (env\<lparr>en_decodeOps := \<lambda>_. Some (removal_ops (hidden wit_many wit_rules True))\<rparr>) m out
     (entitlements_handle (\<lambda>_. Some ''[]'') wit_many) s) = ls_result s"
proof (intro allI)
  fix env m out s
  have c: "parseConfig wit_many = Inr (wit_rules, True, True)" by (simp add: wit_many_def wit_config)
  have h: "gi_Hook wit_many = ''on_catalog''" by (simp add: wit_many_def wit_inv_def)
  have n: "MaxPatchOperations < length (hidden wit_many wit_rules True)"
    by (simp add: wit_many_hidden MaxPatchOperations_def)
  show "ls_result (act_on (env\<lparr>en_decodeOps := \<lambda>_. Some (removal_ops (hidden wit_many wit_rules True))\<rparr>) m out
     (entitlements_handle (\<lambda>_. Some ''[]'') wit_many) s) = ls_result s"
    using many_hidden_tools_stay_offered [OF c h, of "\<lambda>_. Some ''[]''" "''[]''"
        "env\<lparr>en_decodeOps := \<lambda>_. Some (removal_ops (hidden wit_many wit_rules True))\<rparr>" m out s] n
    by (simp add: add_outcome_def)
qed

text \<open>The two hooks name a tool differently for a credential that spans tenants: the catalog's names carry the
  tenant, the call's do not, so a rule written for one does not match the other.\<close>

lemma spanning_name_escapes_rule:
  "matches ''bil.*'' ''bil.void'' \<and> \<not> matches ''bil.*'' ''acme.bil.void''"
  by code_simp

text \<open>A star spans dots but no slash.\<close>

lemma match_examples:
  "path_match ''*_invoice'' ''bil.void_invoice'' = Some True \<and> path_match ''bil.*'' ''bil.a/b'' = Some False"
  by code_simp

end
