(* ===== verification/Plugin_Redact.thy ===== *)
theory Plugin_Redact
  imports Plugin_Guest_Props
begin

section \<open>The redaction plugin (plugins/redact/main.go)\<close>

text \<open>
  The built-in patterns are run by a backtracking matcher with the priorities of Go's \<open>regexp\<close> (leftmost, then the
  first alternative, then the longest repetition), on bytes: a class of the patterns matches ASCII characters, and
  the two letters outside ASCII that fold to one where case is ignored. Patterns an operator configures are compiled
  by the parameter \<open>compile\<close>. What a text becomes, what is counted, and the patch that writes it back.
\<close>

subsection \<open>Regular expressions\<close>

text \<open>How many bytes a class matches at the front, if it matches.\<close>

type_synonym cls = "string \<Rightarrow> nat option"

text \<open>\<open>Rep p n extra\<close>: \<open>n\<close> of a class, then as many more as can be had, at most \<open>extra\<close> (\<open>None\<close>: no limit).\<close>

datatype re = Eps | Bound | Seq re re | Alt re re | Rep cls nat "nat option"

definition is_word :: "char \<Rightarrow> bool" where
  "is_word c = (ascii_alnum (of_char c) \<or> c = CHR ''_'')"

definition word_at :: "string \<Rightarrow> bool" where
  "word_at s = (s \<noteq> [] \<and> is_word (hd s))"

definition last_word :: "bool \<Rightarrow> string \<Rightarrow> bool" where
  "last_word w m = (if m = [] then w else is_word (last m))"

text \<open>A matcher's continuation gets whether the byte before is a word character, and the rest of the text; the
  result is what is left of it.\<close>

type_synonym goon = "bool \<Rightarrow> string \<Rightarrow> string option"

fun exactly :: "cls \<Rightarrow> nat \<Rightarrow> bool \<Rightarrow> string \<Rightarrow> goon \<Rightarrow> string option" where
  "exactly p 0 w s k = k w s"
| "exactly p (Suc n) w s k =
     (case p s of None \<Rightarrow> None | Some l \<Rightarrow> exactly p n (last_word w (take l s)) (drop l s) k)"

fun up_to :: "cls \<Rightarrow> nat \<Rightarrow> bool \<Rightarrow> string \<Rightarrow> goon \<Rightarrow> string option" where
  "up_to p 0 w s k = k w s"
| "up_to p (Suc n) w s k =
     (case p s of
        None \<Rightarrow> k w s
      | Some l \<Rightarrow>
          (case up_to p n (last_word w (take l s)) (drop l s) k of
             Some r \<Rightarrow> Some r
           | None \<Rightarrow> k w s))"

fun rmatch :: "re \<Rightarrow> bool \<Rightarrow> string \<Rightarrow> goon \<Rightarrow> string option" where
  "rmatch Eps w s k = k w s"
| "rmatch Bound w s k = (if w \<noteq> word_at s then k w s else None)"
| "rmatch (Seq a b) w s k = rmatch a w s (\<lambda>w' s'. rmatch b w' s' k)"
| "rmatch (Alt a b) w s k = (case rmatch a w s k of Some r \<Rightarrow> Some r | None \<Rightarrow> rmatch b w s k)"
| "rmatch (Rep p n extra) w s k =
     exactly p n w s (\<lambda>w' s'. up_to p (case extra of None \<Rightarrow> length s' | Some m \<Rightarrow> m) w' s' k)"

definition match_here :: "re \<Rightarrow> bool \<Rightarrow> string \<Rightarrow> string option" where
  "match_here r w s = rmatch r w s (\<lambda>_ rest. Some rest)"

text \<open>The leftmost match: what comes before it, the match, the rest.\<close>

fun find_match :: "re \<Rightarrow> bool \<Rightarrow> string \<Rightarrow> (string \<times> string \<times> string) option" where
  "find_match r w s =
     (case match_here r w s of
        Some rest \<Rightarrow> Some ([], take (length s - length rest) s, rest)
      | None \<Rightarrow>
          (case s of
             [] \<Rightarrow> None
           | c # cs \<Rightarrow> map_option (\<lambda>(pre, m, rest). (c # pre, m, rest)) (find_match r (is_word c) cs)))"

declare find_match.simps [simp del]

text \<open>All matches from left to right, each with the text before it; the fuel is the length of the text, which every
  match (none of the patterns matches the empty string) shortens.\<close>

fun find_all :: "nat \<Rightarrow> re \<Rightarrow> bool \<Rightarrow> string \<Rightarrow> (string \<times> string) list \<times> string" where
  "find_all 0 r w s = ([], s)"
| "find_all (Suc n) r w s =
     (case find_match r w s of
        None \<Rightarrow> ([], s)
      | Some (pre, m, rest) \<Rightarrow>
          (case find_all n r (last_word (last_word w pre) m) rest of (ms, tail) \<Rightarrow> ((pre, m) # ms, tail)))"

subsection \<open>Replacement templates\<close>

text \<open>\<open>Regexp.expand\<close> for a pattern without groups: \<open>$0\<close> is the match, any other \<open>$name\<close> is empty, \<open>$$\<close> is a dollar, a
  malformed one stands for itself. \<open>letter\<close> tells the letters and digits outside ASCII.\<close>

fun name_length :: "(nat \<Rightarrow> bool) \<Rightarrow> nat \<Rightarrow> string \<Rightarrow> nat" where
  "name_length letter 0 s = 0"
| "name_length letter (Suc n) s =
     (let (r, w) = first_rune s
      in if s \<noteq> [] \<and> (if r < 0x80 then ascii_alnum r \<or> r = 95 else letter r)
         then w + name_length letter n (drop w s) else 0)"

definition extract_var :: "(nat \<Rightarrow> bool) \<Rightarrow> string \<Rightarrow> (string \<times> string) option" where
  "extract_var letter s =
     (let brace = (s \<noteq> [] \<and> hd s = CHR ''{''); t = (if brace then tl s else s);
          i = name_length letter (length t) t
      in if i = 0 then None
         else if \<not> brace then Some (take i t, drop i t)
         else if drop i t = [] \<or> hd (drop i t) \<noteq> CHR ''}'' then None
         else Some (take i t, drop (Suc i) t))"

fun expand :: "(nat \<Rightarrow> bool) \<Rightarrow> nat \<Rightarrow> string \<Rightarrow> string \<Rightarrow> string" where
  "expand letter 0 template m = template"
| "expand letter (Suc n) template m =
     (case cut ''$'' template of
        None \<Rightarrow> template
      | Some (before, after) \<Rightarrow>
          before @
          (if after \<noteq> [] \<and> hd after = CHR ''$'' then CHR ''$'' # expand letter n (tl after) m
           else case extract_var letter after of
               None \<Rightarrow> CHR ''$'' # expand letter n after m
             | Some (name, rest) \<Rightarrow> (if name = ''0'' then m else []) @ expand letter n rest m))"

record Pattern =
  np_name :: string
  np_count :: "string \<Rightarrow> nat"
  np_replace :: "string \<Rightarrow> string \<Rightarrow> string"

definition ReplaceAllString :: "(nat \<Rightarrow> bool) \<Rightarrow> re \<Rightarrow> string \<Rightarrow> string \<Rightarrow> string" where
  "ReplaceAllString letter r text template =
     (case find_all (length text) r False text of
        (ms, tail) \<Rightarrow> concat (map (\<lambda>(pre, m). pre @ expand letter (length template) template m) ms) @ tail)"

definition builtin :: "(nat \<Rightarrow> bool) \<Rightarrow> string \<Rightarrow> re \<Rightarrow> Pattern" where
  "builtin letter name r =
     \<lparr>np_name = name, np_count = (\<lambda>text. length (fst (find_all (length text) r False text))),
      np_replace = ReplaceAllString letter r\<rparr>"

subsection \<open>The built-in patterns\<close>

definition ascii :: "(char \<Rightarrow> bool) \<Rightarrow> cls" where
  "ascii P s = (if s \<noteq> [] \<and> P (hd s) then Some 1 else None)"

definition one :: "string \<Rightarrow> re" where
  "one cs = Rep (ascii (\<lambda>c. c \<in> set cs)) 1 (Some 0)"

definition reps :: "(char \<Rightarrow> bool) \<Rightarrow> nat \<Rightarrow> re" where
  "reps P n = Rep (ascii P) n (Some 0)"

definition at_least :: "(char \<Rightarrow> bool) \<Rightarrow> nat \<Rightarrow> re" where
  "at_least P n = Rep (ascii P) n None"

definition lit :: "string \<Rightarrow> re" where
  "lit s = fold (\<lambda>c r. Seq r (one [c])) s Eps"

fun alts :: "re list \<Rightarrow> re" where
  "alts [] = Eps"
| "alts [r] = r"
| "alts (r # rs) = Alt r (alts rs)"

fun seqs :: "re list \<Rightarrow> re" where
  "seqs [] = Eps"
| "seqs (r # rs) = Seq r (seqs rs)"

definition upper :: "char \<Rightarrow> bool" where
  "upper c = (65 \<le> (of_char c :: nat) \<and> (of_char c :: nat) < 91)"

definition alnum :: "char \<Rightarrow> bool" where
  "alnum c = ascii_alnum (of_char c)"

definition token_char :: "char \<Rightarrow> bool" where
  "token_char c = (alnum c \<or> c \<in> set ''_-'')"

text \<open>The Kelvin sign and the long s fold to letters of the class.\<close>

definition bearer_class :: cls where
  "bearer_class s =
     (if s = [] then None
      else if alnum (hd s) \<or> hd s \<in> set ''._~+/=-'' then Some 1
      else if take 3 s = [CHR 0xE2, CHR 0x84, CHR 0xAA] then Some 3
      else if take 2 s = [CHR 0xC5, CHR 0xBF] then Some 2
      else None)"

definition separator :: re where
  "separator = Rep (ascii (\<lambda>c. c \<in> set ''- '')) 0 (Some 1)"

definition card_number :: re where
  "card_number = seqs [Bound,
     alts [Seq (one ''4'') (reps is_digit 3), seqs [one ''5'', one ''12345'', reps is_digit 2],
           seqs [one ''3'', one ''47'', reps is_digit 2],
           Seq (one ''6'') (Alt (lit ''011'') (Seq (one ''5'') (reps is_digit 2)))],
     separator, reps is_digit 4, separator, reps is_digit 4, separator, reps is_digit 4, Bound]"

definition ssn :: re where
  "ssn = seqs [Bound, reps is_digit 3, one ''-'', reps is_digit 2, one ''-'', reps is_digit 4, Bound]"

definition jwt :: re where
  "jwt = seqs [Bound, lit ''eyJ'', at_least token_char 8, one ''.'', at_least token_char 8, one ''.'',
     at_least token_char 8, Bound]"

definition bearer_token :: re where
  "bearer_token = seqs [Bound, one ''bB'', one ''eE'', one ''aA'', one ''rR'', one ''eE'', one ''rR'',
     at_least (\<lambda>c. c \<in> set [CHR 0x09, CHR 0x0A, CHR 0x0C, CHR 0x0D, CHR 0x20]) 1, Rep bearer_class 20 None]"

definition provider_api_key :: re where
  "provider_api_key = seqs [Bound,
     alts (map lit [''sk'', ''pk'', ''rk'', ''ghp'', ''gho'', ''ghs'', ''ghu'', ''glpat'', ''xoxb'', ''xoxp'', ''xapp'']),
     one ''-_'', at_least token_char 16, Bound]"

definition private_key_block :: re where
  "private_key_block = seqs [lit ''-----BEGIN '', at_least (\<lambda>c. upper c \<or> c = CHR '' '') 0, lit ''PRIVATE KEY-----'']"

definition aws_access_key_id :: re where
  "aws_access_key_id = seqs [Bound, Alt (lit ''AKIA'') (lit ''ASIA''), reps (\<lambda>c. is_digit c \<or> upper c) 16, Bound]"

definition builtinPatterns :: "(nat \<Rightarrow> bool) \<Rightarrow> Pattern list" where
  "builtinPatterns letter = [builtin letter ''card_number'' card_number, builtin letter ''ssn'' ssn,
     builtin letter ''jwt'' jwt, builtin letter ''bearer_token'' bearer_token,
     builtin letter ''provider_api_key'' provider_api_key, builtin letter ''private_key_block'' private_key_block,
     builtin letter ''aws_access_key_id'' aws_access_key_id]"

subsection \<open>Redaction\<close>

text \<open>Configured patterns are named \<open>custom_i\<close>; a failure is reported without the compiler's own error.\<close>

fun compile_all :: "(string \<Rightarrow> Pattern option) \<Rightarrow> nat \<Rightarrow> string list \<Rightarrow> nat + Pattern list" where
  "compile_all compile i [] = Inr []"
| "compile_all compile i (expr # exprs) =
     (case compile expr of
        None \<Rightarrow> Inl i
      | Some p \<Rightarrow> bind_result (compile_all compile (Suc i) exprs)
          (\<lambda>ps. Inr (p\<lparr>np_name := ''custom_'' @ itoa_nat i\<rparr> # ps)))"

definition compilePatterns ::
  "(string \<Rightarrow> Pattern option) \<Rightarrow> (nat \<Rightarrow> bool) \<Rightarrow> GInvocation \<Rightarrow> string + Pattern list" where
  "compilePatterns compile letter i =
     (case compile_all compile 0 (ConfigStrings i ''patterns'') of
        Inl k \<Rightarrow> Inl (''configured pattern '' @ itoa_nat k @ '' is not a valid regular expression'')
      | Inr custom \<Rightarrow>
          (let out = (if ConfigBool i ''builtins'' True then builtinPatterns letter else []) @ custom
           in if out = []
              then Inl ''no patterns configured and builtins are disabled, so nothing would be redacted''
              else Inr out))"

type_synonym tally = "(string \<times> nat) list"

fun redact :: "Pattern list \<Rightarrow> string \<Rightarrow> string \<Rightarrow> tally \<Rightarrow> string \<times> tally" where
  "redact [] placeholder out hits = (out, hits)"
| "redact (p # ps) placeholder out hits =
     (if np_count p out = 0 then redact ps placeholder out hits
      else redact ps placeholder (np_replace p out placeholder) (obj_set (np_name p) (np_count p out) hits))"

definition redacted :: "Pattern list \<Rightarrow> string \<Rightarrow> contentPayload \<Rightarrow> string" where
  "redacted ps placeholder block = fst (redact ps placeholder (cp_Text block) [])"

definition changed :: "Pattern list \<Rightarrow> string \<Rightarrow> contentPayload \<Rightarrow> bool" where
  "changed ps placeholder block = (cp_Text block \<noteq> [] \<and> redacted ps placeholder block \<noteq> cp_Text block)"

definition add_hits :: "tally \<Rightarrow> tally \<Rightarrow> tally" where
  "add_hits hits totals =
     fold (\<lambda>(name, n) t. obj_set name ((case map_of t name of None \<Rightarrow> 0 | Some m \<Rightarrow> m) + n) t) hits totals"

definition text_path :: "nat \<Rightarrow> string" where
  "text_path i = ''/result/content/'' @ itoa_nat i @ ''/text''"

fun redact_blocks ::
  "Pattern list \<Rightarrow> string \<Rightarrow> nat \<Rightarrow> contentPayload list \<Rightarrow> tally \<Rightarrow> PatchOp list \<times> tally" where
  "redact_blocks ps placeholder i [] counts = ([], counts)"
| "redact_blocks ps placeholder i (block # blocks) counts =
     (if \<not> changed ps placeholder block then redact_blocks ps placeholder (Suc i) blocks counts
      else (case redact_blocks ps placeholder (Suc i) blocks
              (add_hits (snd (redact ps placeholder (cp_Text block) [])) counts) of
              (ops, totals) \<Rightarrow> (Replace_op (text_path i) (JStr (redacted ps placeholder block)) # ops, totals)))"

definition summarize :: "tally \<Rightarrow> string" where
  "summarize counts =
     (if counts = [] then ''redacted content''
      else
        let parts = map (\<lambda>(name, n). name @ [CHR 0xC3, CHR 0x97] @ itoa_nat n) (sort_key fst counts)
        in ''redacted '' @ itoa_nat (sum_list (map snd counts)) @ '' match(es): '' @ join '', '' parts)"

definition json_nat :: "nat \<Rightarrow> json" where
  "json_nat n =
     JNum (if n = 0 then NZero
           else NFloat False (rev (dropWhile (\<lambda>c. c = CHR ''0'') (rev (itoa_nat n)))) (int (length (itoa_nat n)) - 1))"

definition redact_verdict :: "(PatchOp list \<Rightarrow> string option) \<Rightarrow> bool \<Rightarrow> tally \<Rightarrow> PatchOp list \<Rightarrow> Verdict" where
  "redact_verdict enc annotated counts ops =
     (let verdict = MutateVerdict enc (summarize counts) ops
      in if annotated
         then verdict\<lparr>v_Annotations := [(''redactions'', JObj (map (\<lambda>(name, n). (name, json_nat n)) counts)),
                (''blocks'', json_nat (length ops))]\<rparr>
         else verdict)"

definition redact_handle ::
  "(PatchOp list \<Rightarrow> string option) \<Rightarrow> (string \<Rightarrow> Pattern option) \<Rightarrow> (nat \<Rightarrow> bool) \<Rightarrow> GInvocation \<Rightarrow> Verdict" where
  "redact_handle enc compile letter i =
     (case gi_Result i of
        None \<Rightarrow> AllowVerdict
      | Some body \<Rightarrow>
          if rb_Content body = [] then AllowVerdict
          else case compilePatterns compile letter i of
              Inl e \<Rightarrow>
                (plain_verdict DecisionAllow (''redact: '' @ e))\<lparr>v_Annotations := [(''config_error'', JStr e)]\<rparr>
            | Inr ps \<Rightarrow>
                let (ops, counts) = redact_blocks ps (ConfigString i ''placeholder'' ''[REDACTED]'') 0 (rb_Content body) []
                in if ops = [] then AllowVerdict
                   else redact_verdict enc (ConfigBool i ''annotate'' True) counts ops)"

end
