(* ===== verification/Plugin_Redact_Props.thy ===== *)
theory Plugin_Redact_Props
  imports Plugin_Redact
begin

section \<open>What redaction does to a result\<close>

text \<open>
  The matcher splits a text into its matches and what is between them; a placeholder without a dollar replaces
  exactly the matches; and the patch, applied by the engine to the encoded result, rewrites the texts of the blocks
  and nothing else.
\<close>

subsection \<open>Matches are pieces of the text\<close>

definition ends_in :: "goon \<Rightarrow> bool" where
  "ends_in k \<longleftrightarrow> (\<forall>w s r. k w s = Some r \<longrightarrow> suffix r s)"

lemma suffix_of_drop: "suffix r (drop n s) \<Longrightarrow> suffix r s"
  using suffix_order.trans suffix_drop by blast

lemma exactly_suffix: "ends_in k \<Longrightarrow> exactly p n w s k = Some r \<Longrightarrow> suffix r s"
proof (induction n arbitrary: w s)
  case (Suc n)
  then show ?case using suffix_of_drop [OF Suc.IH [OF Suc.prems(1)]]
    by (auto simp: ends_in_def split: option.splits)
qed (simp add: ends_in_def)

lemma up_to_suffix: "ends_in k \<Longrightarrow> up_to p n w s k = Some r \<Longrightarrow> suffix r s"
proof (induction n arbitrary: w s)
  case (Suc n)
  then show ?case using suffix_of_drop [OF Suc.IH [OF Suc.prems(1)]]
    by (auto simp: ends_in_def split: option.splits)
qed (simp add: ends_in_def)

lemma rmatch_suffix: "ends_in k \<Longrightarrow> rmatch a w s k = Some r \<Longrightarrow> suffix r s"
proof (induction a arbitrary: w s k r)
  case (Seq a b)
  have "ends_in (\<lambda>w' s'. rmatch b w' s' k)"
    unfolding ends_in_def using Seq.IH(2) [OF Seq.prems(1)] by blast
  then show ?case using Seq.IH(1) Seq.prems(2) by simp
next
  case (Rep p n extra)
  have "ends_in (\<lambda>w' s'. up_to p (case extra of None \<Rightarrow> length s' | Some m \<Rightarrow> m) w' s' k)"
    unfolding ends_in_def using up_to_suffix [OF Rep.prems(1)] by blast
  then show ?case using exactly_suffix Rep.prems(2) by simp
next
  case (Alt a b)
  then show ?case by (cases "rmatch a w s k") auto
qed (simp_all add: ends_in_def split: if_splits)

lemma match_here_suffix: "match_here r w s = Some rest \<Longrightarrow> suffix rest s"
  unfolding match_here_def by (rule rmatch_suffix [rotated]) (auto simp: ends_in_def)

lemma find_match_split: "find_match r w s = Some (pre, m, rest) \<Longrightarrow> s = pre @ m @ rest"
proof (induction s arbitrary: w pre)
  case Nil
  then show ?case using match_here_suffix [of r w "[]"]
    by (subst (asm) find_match.simps) (auto split: option.splits)
next
  case (Cons c cs)
  show ?case
  proof (cases "match_here r w (c # cs)")
    case None
    with Cons.prems obtain p where "find_match r (is_word c) cs = Some (p, m, rest)" "pre = c # p"
      by (subst (asm) find_match.simps) auto
    with Cons.IH show ?thesis by simp
  next
    case (Some rest')
    with Cons.prems have "pre = []" "m = take (length (c # cs) - length rest') (c # cs)" "rest = rest'"
      by (subst (asm) find_match.simps, simp)+
    moreover obtain zs where "c # cs = zs @ rest'" using match_here_suffix [OF Some] by (auto elim: suffixE)
    ultimately show ?thesis by simp
  qed
qed

lemma find_all_split: "find_all n r w s = (ms, tail) \<Longrightarrow> s = concat (map (\<lambda>(pre, m). pre @ m) ms) @ tail"
proof (induction n arbitrary: w s ms)
  case (Suc n)
  then show ?case using find_match_split [of r w s]
    by (auto split: option.splits prod.splits)
qed simp

lemma expand_plain: "CHR ''$'' \<notin> set t \<Longrightarrow> expand letter n t m = t"
  by (cases n) (simp_all add: cut_none_if_free)

text \<open>A text is cut into its matches and the rest; only the matches are replaced.\<close>

lemma replaces_exactly_the_matches:
  assumes "CHR ''$'' \<notin> set placeholder"
  obtains ms tail where "text = concat (map (\<lambda>(pre, m). pre @ m) ms) @ tail"
    "np_count (builtin letter name r) text = length ms"
    "np_replace (builtin letter name r) text placeholder = concat (map (\<lambda>(pre, m). pre @ placeholder) ms) @ tail"
proof -
  obtain ms tail where f: "find_all (length text) r False text = (ms, tail)" by fastforce
  show ?thesis
    by (rule that [OF find_all_split [OF f]])
      (simp_all add: builtin_def ReplaceAllString_def f expand_plain [OF assms])
qed

text \<open>A placeholder may name the match: \<open>$0\<close> puts back what was to be removed.\<close>

lemma dollar_zero_restores: "ReplaceAllString letter r text ''$0'' = text"
proof -
  obtain ms tail where f: "find_all (length text) r False text = (ms, tail)" by fastforce
  have "expand letter (Suc (Suc 0)) ''$0'' m = m" for m
    by (simp add: numeral_2_eq_2 cut_def extract_var_def first_rune_def ascii_alnum_def Let_def)
  then have "ReplaceAllString letter r text ''$0'' = concat (map (\<lambda>(pre, m). pre @ m) ms) @ tail"
    by (simp add: ReplaceAllString_def f numeral_2_eq_2)
  with find_all_split [OF f] show ?thesis by simp
qed

subsection \<open>The patched result\<close>

lemma split_text:
  "split_on (CHR ''/'') (''result/content/'' @ itoa_nat i @ ''/text'') = [''result'', ''content'', itoa_nat i, ''text'']"
proof -
  have "split_on (CHR ''/'') (itoa_nat i @ ''/text'') = [itoa_nat i, ''text'']"
    using itoa_clean [of i] split_on_append [of "CHR ''/''" "itoa_nat i" "''text''"] by simp
  then show ?thesis by simp
qed

lemma text_path_trimmed:
  "trim_prefix ''/'' (text_path i) = ''result/content/'' @ itoa_nat i @ ''/text''"
  "prefix ''/'' (text_path i)" "text_path i \<noteq> []"
  by (simp_all add: text_path_def trim_prefix_def)

lemma split_text_path: "splitPointer (text_path i) = Inr [''result'', ''content'', itoa_nat i, ''text'']"
  unfolding splitPointer_def text_path_trimmed(1) split_text using text_path_trimmed(2,3) itoa_clean [of i] by simp

lemma text_path_dotted: "i < 2 ^ 63 \<Longrightarrow> pointerToDotted (text_path i) = ''result.content.text''"
proof -
  assume i: "i < 2 ^ 63"
  have "atoi ''result'' = None" "atoi ''content'' = None" "atoi ''text'' = None" by code_simp+
  then show ?thesis
    unfolding pointerToDotted_def text_path_trimmed(1) Let_def split_text using itoa_clean [of i] atoi_itoa [OF i] by simp
qed

definition with_blocks :: "resultPayload \<Rightarrow> json list \<Rightarrow> json" where
  "with_blocks p bs = JObj (
     omit_str ''tenant'' (rp_Tenant p) @
     [(''principal'', enc_principal (rp_Principal p)), (''tool'', enc_tool (rp_Tool p)),
      (''result'', JObj ([(''content'', JArr bs)] @
         omit (\<not> rb_IsError (rp_Result p)) ''isError'' (JBool (rb_IsError (rp_Result p)))))])"

lemma with_blocks_enc: "enc_resultPayload p = with_blocks p (map enc_content (rb_Content (rp_Result p)))"
  by (simp add: enc_resultPayload_def with_blocks_def enc_result_def)

lemma set_text:
  assumes "i < length bs" "length bs < 2 ^ 63" "bs ! i = JObj m" "map_of m ''text'' \<noteq> None"
  shows "setPointer (with_blocks p bs) (text_path i) v False =
    Inr (with_blocks p (bs[i := JObj (obj_set ''text'' v m)]))"
proof -
  have "array_index (itoa_nat i) (length bs) = Some i" using assms(1,2) by (rule array_index_itoa)
  then show ?thesis using assms(3,4)
    by (cases "rp_Tenant p = []") (auto simp: setPointer_def split_text_path with_blocks_def omit_str_def omit_def)
qed

text \<open>A block after redaction, and the member that holds it.\<close>

definition redacted_block :: "Pattern list \<Rightarrow> string \<Rightarrow> contentPayload \<Rightarrow> contentPayload" where
  "redacted_block ps placeholder b =
     (if changed ps placeholder b then b\<lparr>cp_Text := redacted ps placeholder b\<rparr> else b)"

definition block_json :: "Pattern list \<Rightarrow> string \<Rightarrow> contentPayload \<Rightarrow> json" where
  "block_json ps placeholder b =
     (if changed ps placeholder b
      then JObj [(''type'', JStr (cp_Type b)), (''text'', JStr (redacted ps placeholder b))]
      else enc_content b)"

lemma dec_block: "dec_content (block_json ps placeholder b) = Some (redacted_block ps placeholder b)"
proof (cases "changed ps placeholder b")
  case True
  then show ?thesis by (simp add: block_json_def redacted_block_def dec_content_def json_fields)
next
  case False
  then show ?thesis by (simp add: block_json_def redacted_block_def dec_enc_content)
qed

lemma fst_redact_blocks [simp]:
  "fst (redact_blocks ps placeholder i (b # blocks) counts) =
     (if changed ps placeholder b
      then Replace_op (text_path i) (JStr (redacted ps placeholder b)) #
        fst (redact_blocks ps placeholder (Suc i) blocks (add_hits (snd (redact ps placeholder (cp_Text b) [])) counts))
      else fst (redact_blocks ps placeholder (Suc i) blocks counts))"
  by (simp split: prod.split)

declare redact_blocks.simps(2) [simp del]

lemma apply_blocks:
  assumes "length (ds @ map enc_content blocks) < 2 ^ 63"
  shows "applyOps (with_blocks p (ds @ map enc_content blocks))
      (fst (redact_blocks ps placeholder (length ds) blocks counts)) =
    Inr (with_blocks p (ds @ map (block_json ps placeholder) blocks))"
  using assms
proof (induction blocks arbitrary: ds counts)
  case (Cons b blocks)
  let ?c = "if changed ps placeholder b then add_hits (snd (redact ps placeholder (cp_Text b) [])) counts else counts"
  have rest: "applyOps (with_blocks p (ds @ block_json ps placeholder b # map enc_content blocks))
      (fst (redact_blocks ps placeholder (Suc (length ds)) blocks ?c)) =
    Inr (with_blocks p (ds @ block_json ps placeholder b # map (block_json ps placeholder) blocks))"
    using Cons.IH [of "ds @ [block_json ps placeholder b]" ?c] Cons.prems by simp
  show ?case
  proof (cases "changed ps placeholder b")
    case False
    then have "block_json ps placeholder b = enc_content b" by (simp add: block_json_def)
    with rest False show ?thesis by simp
  next
    case True
    then have "cp_Text b \<noteq> []" by (simp add: changed_def)
    then have "setPointer (with_blocks p (ds @ map enc_content (b # blocks))) (text_path (length ds))
        (JStr (redacted ps placeholder b)) False =
      Inr (with_blocks p (ds @ block_json ps placeholder b # map enc_content blocks))"
      using set_text [of "length ds" "ds @ map enc_content (b # blocks)"
          "[(''type'', JStr (cp_Type b)), (''text'', JStr (cp_Text b))]" p "JStr (redacted ps placeholder b)"]
        Cons.prems True
      by (simp add: enc_content_def omit_str_def omit_def block_json_def)
    with rest True show ?thesis by (simp add: applyOp_def Replace_op_def)
  qed
qed simp

lemma redact_ops_paths:
  "op \<in> set (fst (redact_blocks ps placeholder i blocks counts)) \<Longrightarrow>
   \<exists>k v. op = Replace_op (text_path k) v \<and> k < i + length blocks"
proof (induction blocks arbitrary: i counts)
  case (Cons b blocks)
  show ?case
  proof (cases "changed ps placeholder b \<and> op = Replace_op (text_path i) (JStr (redacted ps placeholder b))")
    case True
    then show ?thesis by (intro exI [of _ i] exI conjI) simp_all
  next
    case False
    with Cons.prems obtain c where "op \<in> set (fst (redact_blocks ps placeholder (Suc i) blocks c))"
      by (auto split: if_splits)
    from Cons.IH [OF this] obtain k v where "op = Replace_op (text_path k) v" "k < Suc i + length blocks"
      by (elim exE conjE)
    then show ?thesis by (intro exI [of _ k] exI [of _ v] conjI) simp_all
  qed
qed simp

lemma redact_ops_in_scope:
  assumes "length blocks < 2 ^ 63"
  shows "checkScopes (fst (redact_blocks ps placeholder 0 blocks counts)) [''result''] = Inr ()"
proof -
  have "trim_space ''result'' = ''result''" by code_simp
  then show ?thesis unfolding checkScopes_iff
    using redact_ops_paths [of _ ps placeholder 0 blocks counts] assms
    by (force simp: Replace_op_def checkScope_def text_path_dotted scope_admits_def)
qed

lemma redact_ops_empty:
  "fst (redact_blocks ps placeholder i blocks counts) = [] \<longleftrightarrow> (\<forall>b\<in>set blocks. \<not> changed ps placeholder b)"
  by (induction blocks arbitrary: i counts) auto

lemma dec_with_blocks:
  "dec_resultPayload (with_blocks p (map (block_json ps placeholder) bs)) =
     Some (p\<lparr>rp_Result := (rp_Result p)\<lparr>rb_Content := map (redacted_block ps placeholder) bs\<rparr>\<rparr>)"
proof -
  have "dec_list dec_content (JArr (map (block_json ps placeholder) bs)) = Some (map (redacted_block ps placeholder) bs)"
    by (induction bs) (simp_all add: dec_list_def dec_block)
  then show ?thesis
    by (simp add: dec_resultPayload_def with_blocks_def json_fields dec_enc_principal dec_enc_tool dec_result_def)
qed

text \<open>C24: redaction rewrites the texts it should and nothing else. When the plugin changes at most 256 blocks of a
  result, the engine applies its patch, and what the gateway decodes back is the same result with the text of each
  block replaced by its redacted text; a result no pattern changes is allowed untouched.\<close>

theorem redaction_rewrites_texts:
  assumes "gi_Result i = Some (rp_Result p)" and "rb_Content (rp_Result p) \<noteq> []"
    and "compilePatterns compile letter i = Inr ps"
    and "decode payload = Some (enc_resultPayload p)"
  defines "placeholder \<equiv> ConfigString i ''placeholder'' ''[REDACTED]''"
    and "blocks \<equiv> rb_Content (rp_Result p)"
  assumes "enc (fst (redact_blocks ps placeholder 0 blocks [])) = Some raw" "raw \<noteq> []"
      "decodeOps raw = Some (fst (redact_blocks ps placeholder 0 blocks []))"
    and "length (fst (redact_blocks ps placeholder 0 blocks [])) \<le> MaxPatchOperations" "length blocks < 2 ^ 63"
  shows "if \<forall>b\<in>set blocks. \<not> changed ps placeholder b then redact_handle enc compile letter i = AllowVerdict
    else \<exists>doc. ApplyPatch decode decodeOps payload (v_Patch (redact_handle enc compile letter i)) [''result''] =
        Inr (canon_write doc) \<and>
      dec_resultPayload doc =
        Some (p\<lparr>rp_Result := (rp_Result p)\<lparr>rb_Content := map (redacted_block ps placeholder) blocks\<rparr>\<rparr>)"
proof -
  obtain ops counts where r: "redact_blocks ps placeholder 0 blocks [] = (ops, counts)" by fastforce
  have v: "redact_handle enc compile letter i = (if ops = [] then AllowVerdict
      else redact_verdict enc (ConfigBool i ''annotate'' True) counts ops)"
    using assms(1-3) r by (simp add: redact_handle_def placeholder_def blocks_def)
  show ?thesis
  proof (cases "ops = []")
    case True
    with v redact_ops_empty [of ps placeholder 0 blocks "[]"] r show ?thesis by simp
  next
    case False
    then have some: "\<not> (\<forall>b\<in>set blocks. \<not> changed ps placeholder b)"
      using redact_ops_empty [of ps placeholder 0 blocks "[]"] r by simp
    have "v_Patch (redact_verdict enc (ConfigBool i ''annotate'' True) counts ops) = raw"
      using assms(7) r by (simp add: redact_verdict_def Let_def MutateVerdict_def plain_verdict_def)
    moreover have "applyOps (enc_resultPayload p) ops = Inr (with_blocks p (map (block_json ps placeholder) blocks))"
      using apply_blocks [of "[]" blocks p ps placeholder "[]"] assms(11) r by (simp add: with_blocks_enc blocks_def)
    ultimately have applied: "ApplyPatch decode decodeOps payload (v_Patch (redact_handle enc compile letter i)) [''result''] =
        Inr (canon_write (with_blocks p (map (block_json ps placeholder) blocks)))"
      using v False assms(4,8-10) r redact_ops_in_scope [OF assms(11), of ps placeholder "[]"]
      by (simp add: ApplyPatch_def)
    show ?thesis unfolding if_not_P [OF some]
      by (intro exI conjI) (rule applied, rule dec_with_blocks)
  qed
qed

definition wit_result :: resultPayload where
  "wit_result = \<lparr>rp_Tenant = ''acme'', rp_Principal = gi_Principal wit_inv, rp_Tool = wit_tools ! 1,
     rp_Result = \<lparr>rb_Content = [\<lparr>cp_Type = ''text'', cp_Text = ''id 123-45-6789.''\<rparr>,
       \<lparr>cp_Type = ''text'', cp_Text = ''ok''\<rparr>], rb_IsError = False\<rparr>\<rparr>"

text \<open>The pattern of a social security number, as configured by an operator.\<close>

definition wit_redact :: GInvocation where
  "wit_redact = wit_inv\<lparr>gi_Hook := ''on_tool_result'', gi_Result := Some (rp_Result wit_result),
     gi_Config := [(''builtins'', JBool False), (''patterns'', JArr [JStr ''ssn''])]\<rparr>"

definition wit_pattern :: Pattern where
  "wit_pattern = builtin (\<lambda>_. False) ''custom_0'' ssn"

lemma wit_ssn:
  "np_replace wit_pattern ''id 123-45-6789.'' ''[REDACTED]'' = ''id [REDACTED].'' \<and>
   np_count wit_pattern ''id 123-45-6789.'' = 1 \<and> np_count wit_pattern ''ok'' = 0"
  by code_simp

lemma wit_compiled: "compilePatterns (\<lambda>_. Some wit_pattern) letter wit_redact = Inr [wit_pattern]"
proof -
  have "ConfigStrings wit_redact ''patterns'' = [''ssn'']" "\<not> ConfigBool wit_redact ''builtins'' True" by code_simp+
  moreover have "wit_pattern\<lparr>np_name := ''custom_'' @ itoa_nat 0\<rparr> = wit_pattern"
    by (simp add: wit_pattern_def builtin_def itoa_nat.simps char_of_def bit_0)
  ultimately show ?thesis by (simp add: compilePatterns_def)
qed

theorem redaction_rewrites_texts_witness:
  "\<exists>ops doc. ApplyPatch (\<lambda>_. Some (enc_resultPayload wit_result)) (\<lambda>_. Some ops) ''{}''
       (v_Patch (redact_handle (\<lambda>_. Some ''[]'') (\<lambda>_. Some wit_pattern) (\<lambda>_. False) wit_redact)) [''result''] =
     Inr (canon_write doc) \<and>
   map_option (map cp_Text \<circ> rb_Content \<circ> rp_Result) (dec_resultPayload doc) = Some [''id [REDACTED].'', ''ok'']"
proof -
  let ?ops = "fst (redact_blocks [wit_pattern] ''[REDACTED]'' 0 (rb_Content (rp_Result wit_result)) [])"
  have ph: "ConfigString wit_redact ''placeholder'' ''[REDACTED]'' = ''[REDACTED]''" by code_simp
  have b: "rb_Content (rp_Result wit_result) = [\<lparr>cp_Type = ''text'', cp_Text = ''id 123-45-6789.''\<rparr>,
       \<lparr>cp_Type = ''text'', cp_Text = ''ok''\<rparr>]" by (simp add: wit_result_def)
  have t: "redacted [wit_pattern] ''[REDACTED]'' \<lparr>cp_Type = ''text'', cp_Text = ''id 123-45-6789.''\<rparr> = ''id [REDACTED].''"
    "redacted [wit_pattern] ''[REDACTED]'' \<lparr>cp_Type = ''text'', cp_Text = ''ok''\<rparr> = ''ok''"
    using wit_ssn by (simp_all add: redacted_def)
  have m: "map (redacted_block [wit_pattern] ''[REDACTED]'') (rb_Content (rp_Result wit_result)) =
      [\<lparr>cp_Type = ''text'', cp_Text = ''id [REDACTED].''\<rparr>, \<lparr>cp_Type = ''text'', cp_Text = ''ok''\<rparr>]"
    using t by (simp add: b redacted_block_def changed_def)
  have c: "\<not> (\<forall>b\<in>set (rb_Content (rp_Result wit_result)). \<not> changed [wit_pattern] ''[REDACTED]'' b)"
    using t by (simp add: b changed_def)
  have l: "length ?ops \<le> MaxPatchOperations"
    using t by (simp add: b changed_def MaxPatchOperations_def)
  have "\<exists>doc. ApplyPatch (\<lambda>_. Some (enc_resultPayload wit_result)) (\<lambda>_. Some ?ops) ''{}''
       (v_Patch (redact_handle (\<lambda>_. Some ''[]'') (\<lambda>_. Some wit_pattern) (\<lambda>_. False) wit_redact)) [''result''] =
     Inr (canon_write doc) \<and> dec_resultPayload doc = Some (wit_result\<lparr>rp_Result := (rp_Result wit_result)
       \<lparr>rb_Content := map (redacted_block [wit_pattern] ''[REDACTED]'') (rb_Content (rp_Result wit_result))\<rparr>\<rparr>)"
    using redaction_rewrites_texts [of wit_redact wit_result "\<lambda>_. Some wit_pattern" "\<lambda>_. False" "[wit_pattern]"
        "\<lambda>_. Some (enc_resultPayload wit_result)" "''{}''" "\<lambda>_. Some ''[]''" "''[]''" "\<lambda>_. Some ?ops",
        OF _ _ wit_compiled refl] c l
    unfolding ph by (simp add: wit_redact_def) (simp add: b)
  then show ?thesis unfolding m by (elim exE conjE) (intro exI conjI, assumption, simp)
qed

end
