(* ===== verification/MCP_Adapter.thy ===== *)
theory MCP_Adapter
  imports Canonical_Schema
begin

section \<open>The MCP adapter (internal/mcp/mcp.go)\<close>

text \<open>
  Discovery of a backend over a session of the SDK, whose connection and listing are the parameter \<open>Session\<close>, and the
  conversion of the SDK's tools into canonical definitions. A schema is the untyped value the SDK holds; the JSON
  encoder and decoder are parameters. A backend that pages for ever without a tool makes discovery run until its
  deadline, which is no value here.
\<close>

datatype SchemaValue = NoSchema | RawSchema string | TextSchema string | OtherSchema json

record SDKTool =
  st_Name :: string
  st_Title :: string
  st_Description :: string
  st_InputSchema :: SchemaValue
  st_OutputSchema :: SchemaValue
  st_Annotations :: "json option"

record CanonicalDef =
  cf_Name :: string
  cf_Title :: string
  cf_Description :: string
  cf_InputSchema :: SchemaValue
  cf_OutputSchema :: SchemaValue
  cf_Annotations :: jobject

datatype AdapterError =
    NilTool | ToolUnnamed | SchemaNotEncoded string | AnnotationsUnreadable string
  | NoDiscoveryEndpoint | ConnectFailed string string | ListFailed string string | TooManyTools string nat

subsection \<open>Discovery\<close>

definition DefaultMaxTools :: nat where
  "DefaultMaxTools = 5000"

record DiscoveryResult =
  di_NegotiatedVersion :: string
  di_Tools :: "SDKTool list"
  di_ObservedAt :: int

record DiscoverOptions =
  do_Endpoint :: string
  do_Timeout :: int
  do_MaxTools :: int

text \<open>A session: the version it agreed on, if it was initialised, and the page of tools at a cursor.\<close>

record 's Session =
  se_Version :: "'s \<Rightarrow> string option"
  se_List :: "'s \<Rightarrow> string \<Rightarrow> (string + SDKTool list \<times> string) \<times> 's"

partial_function (option) discover_pages ::
  "'s Session \<Rightarrow> string \<Rightarrow> nat \<Rightarrow> string \<Rightarrow> SDKTool list \<Rightarrow> 's \<Rightarrow> (AdapterError + SDKTool list) option" where
  "discover_pages net endpoint most cursor out s =
     (case se_List net s cursor of
        (Inl e, s') \<Rightarrow> Some (Inl (ListFailed endpoint e))
      | (Inr (tools, next), s') \<Rightarrow>
          (if next = [] then Some (Inr (out @ tools))
           else if length (out @ tools) \<ge> most then Some (Inl (TooManyTools endpoint most))
           else discover_pages net endpoint most next (out @ tools) s'))"

text \<open>The time-out that applies, and the limit on the tools.\<close>

definition discover_limits :: "DiscoverOptions \<Rightarrow> int \<times> nat" where
  "discover_limits opts =
     (if do_Timeout opts \<le> 0 then 15000000000 else do_Timeout opts,
      if do_MaxTools opts \<le> 0 then DefaultMaxTools else nat (do_MaxTools opts))"

definition Discover ::
  "'s Session \<Rightarrow> (string \<Rightarrow> int \<Rightarrow> string + 's) \<Rightarrow> int \<Rightarrow> DiscoverOptions \<Rightarrow> (AdapterError + DiscoveryResult) option" where
  "Discover net connect now opts =
     (if do_Endpoint opts = [] then Some (Inl NoDiscoveryEndpoint)
      else
        let (timeout, most) = discover_limits opts
        in case connect (do_Endpoint opts) timeout of
            Inl e \<Rightarrow> Some (Inl (ConnectFailed (do_Endpoint opts) e))
          | Inr s \<Rightarrow>
              map_option (\<lambda>r. bind_result r (\<lambda>tools.
                  Inr \<lparr>di_NegotiatedVersion = (case se_Version net s of None \<Rightarrow> [] | Some v \<Rightarrow> v),
                       di_Tools = tools, di_ObservedAt = now\<rparr>))
                (discover_pages net (do_Endpoint opts) most [] [] s))"

subsection \<open>Conversion\<close>

text \<open>Raw JSON, or nothing; \<open>None\<close> is an encoding error. A schema that encodes as \<open>null\<close> is absent.\<close>

definition schemaToRaw :: "(json \<Rightarrow> string option) \<Rightarrow> SchemaValue \<Rightarrow> SchemaValue option" where
  "schemaToRaw marshal schema =
     (case schema of
        NoSchema \<Rightarrow> Some NoSchema
      | RawSchema s \<Rightarrow> Some (if s = [] then NoSchema else RawSchema s)
      | TextSchema s \<Rightarrow> Some (if s = [] then NoSchema else RawSchema s)
      | OtherSchema j \<Rightarrow>
          map_option (\<lambda>raw. if raw = ''null'' then NoSchema else RawSchema raw) (marshal j))"

definition json_object :: "json \<Rightarrow> jobject option" where
  "json_object j = (case j of JObj m \<Rightarrow> Some m | JNull \<Rightarrow> Some [] | _ \<Rightarrow> None)"

definition ToCanonical ::
  "(json \<Rightarrow> string option) \<Rightarrow> (string \<Rightarrow> json option) \<Rightarrow> SDKTool option \<Rightarrow> AdapterError + CanonicalDef" where
  "ToCanonical marshal unmarshal tool =
     (case tool of
        None \<Rightarrow> Inl NilTool
      | Some t \<Rightarrow>
          if st_Name t = [] then Inl ToolUnnamed
          else case (schemaToRaw marshal (st_InputSchema t), schemaToRaw marshal (st_OutputSchema t)) of
              (Some ins, Some outs) \<Rightarrow>
                (case (case st_Annotations t of
                         None \<Rightarrow> Some []
                       | Some a \<Rightarrow> Option.bind (Option.bind (marshal a) unmarshal) json_object) of
                   None \<Rightarrow> Inl (AnnotationsUnreadable (st_Name t))
                 | Some annotations \<Rightarrow>
                     Inr \<lparr>cf_Name = st_Name t, cf_Title = st_Title t, cf_Description = st_Description t,
                          cf_InputSchema = ins, cf_OutputSchema = outs, cf_Annotations = annotations\<rparr>)
            | _ \<Rightarrow> Inl (SchemaNotEncoded (st_Name t)))"

lemma ToCanonical_Inr:
  assumes "ToCanonical marshal unmarshal (Some t) = Inr def"
  shows "cf_Name def = st_Name t \<and> st_Name t \<noteq> [] \<and>
    cf_InputSchema def \<in> range RawSchema \<union> {NoSchema} \<and> cf_OutputSchema def \<in> range RawSchema \<union> {NoSchema}"
proof -
  have r: "schemaToRaw marshal x = Some y \<Longrightarrow> y \<in> range RawSchema \<union> {NoSchema}" for x y
    by (auto simp: schemaToRaw_def split: SchemaValue.splits if_splits)
  from assms show ?thesis
    by (auto simp: ToCanonical_def dest!: r split: if_splits option.splits)
qed

subsection \<open>Discovery is bounded\<close>

text \<open>What discovery returns fits the limit but for the last page, and it returns when every page has a tool.\<close>

definition but_one_page :: "nat \<Rightarrow> SDKTool list \<Rightarrow> bool" where
  "but_one_page most tools \<longleftrightarrow> (\<exists>rest page. tools = rest @ page \<and> (length rest < most \<or> rest = []))"

lemma discover_pages_bounded:
  fixes net :: "'s Session"
  assumes "discover_pages net endpoint most cursor out s = Some (Inr tools)" "length out < most \<or> out = []"
  shows "but_one_page most tools"
proof -
  have "discover_pages net endpoint most cursor out s = Some r \<Longrightarrow>
      (length out < most \<or> out = []) \<longrightarrow> (\<forall>tools. r = Inr tools \<longrightarrow> but_one_page most tools)"
    for net :: "'s Session" and endpoint most cursor out s r
  proof (erule discover_pages.raw_induct [rotated])
    fix rec and net :: "'s Session" and endpoint most cursor out s r
    assume IH: "\<And>net endpoint most cursor out s r. rec net endpoint most cursor out s = Some r \<Longrightarrow>
        (length out < most \<or> out = []) \<longrightarrow> (\<forall>tools. r = Inr tools \<longrightarrow> but_one_page most tools)"
      and body: "(case se_List net s cursor of
          (Inl e, s') \<Rightarrow> Some (Inl (ListFailed endpoint e))
        | (Inr (tools, nxt), s') \<Rightarrow>
            (if nxt = [] then Some (Inr (out @ tools))
             else if length (out @ tools) \<ge> most then Some (Inl (TooManyTools endpoint most))
             else rec net endpoint most nxt (out @ tools) s')) = Some r"
    show "(length out < most \<or> out = []) \<longrightarrow> (\<forall>tools. r = Inr tools \<longrightarrow> but_one_page most tools)"
    proof (intro impI allI)
      fix tools assume o: "length out < most \<or> out = []" and r: "r = Inr tools"
      with body obtain page nxt s' where p: "se_List net s cursor = (Inr (page, nxt), s')"
        by (auto split: prod.splits sum.splits)
      show "but_one_page most tools"
      proof (cases "nxt = []")
        case True
        with body p r have "tools = out @ page" by simp
        with o show ?thesis unfolding but_one_page_def by blast
      next
        case False
        with body p r have "rec net endpoint most nxt (out @ page) s' = Some r" "length (out @ page) < most"
          by (auto split: if_splits)
        with IH [OF this(1)] r show ?thesis by simp
      qed
    qed
  qed
  from this [OF assms(1)] assms(2) show ?thesis by simp
qed

end
