(* ===== verification/Registry_Enums.thy ===== *)
theory Registry_Enums
  imports Edge_Identity Snapshot_Types
begin

section \<open>Names of enumerations (internal/controlplane/registry/enums.go)\<close>

text \<open>
  The registry document's short names and the snapshot's constants. A table is an association list; the code's
  map has the same entries, and its values are different, so that looking a name up by its value does not depend on
  the order of the entries. An error carries what was named, what it names, and the names that are valid.
\<close>

datatype EnumError = NotOneOf string string string

text \<open>\<open>strings.ToLower\<close> and \<open>strings.ToUpper\<close> as far as a table of ASCII names can tell: two letters outside ASCII have an
  ASCII lower case (the Kelvin sign and the dotted capital i), two an ASCII upper case (the dotless i and the long s);
  every other letter outside ASCII stays outside, and is kept.\<close>

fun lower_name :: "string \<Rightarrow> string" where
  "lower_name (a # b # c # s) =
     (if [a, b, c] = [CHR 0xE2, CHR 0x84, CHR 0xAA] then CHR ''k'' # lower_name s
      else if [a, b] = [CHR 0xC4, CHR 0xB0] then CHR ''i'' # lower_name (c # s)
      else ascii_lower a # lower_name (b # c # s))"
| "lower_name [a, b] = (if [a, b] = [CHR 0xC4, CHR 0xB0] then ''i'' else [ascii_lower a, ascii_lower b])"
| "lower_name [a] = [ascii_lower a]"
| "lower_name [] = []"

fun upper_name :: "string \<Rightarrow> string" where
  "upper_name (a # b # s) =
     (if [a, b] = [CHR 0xC4, CHR 0xB1] then CHR ''I'' # upper_name s
      else if [a, b] = [CHR 0xC5, CHR 0xBF] then CHR ''S'' # upper_name s
      else ascii_upper a # upper_name (b # s))"
| "upper_name [a] = [ascii_upper a]"
| "upper_name [] = []"

definition keys_text :: "(string \<times> 'v) list \<Rightarrow> string" where
  "keys_text m = join '', '' (sort (map fst m))"

definition name_of :: "(string \<times> 'v) list \<Rightarrow> 'v \<Rightarrow> string" where
  "name_of m v = (case find (\<lambda>(_, v'). v' = v) m of None \<Rightarrow> ''unspecified'' | Some (name, _) \<Rightarrow> name)"

text \<open>A lookup without a default.\<close>

definition parse_name :: "string \<Rightarrow> (string \<times> 'v) list \<Rightarrow> string \<Rightarrow> EnumError + 'v" where
  "parse_name what m name =
     (case map_of m (lower_name (trim_space name)) of
        Some v \<Rightarrow> Inr v
      | None \<Rightarrow> Inl (NotOneOf what name (keys_text m)))"

text \<open>A lookup with a default for a blank name; the name is not trimmed before it is looked up.\<close>

definition parse_name_or :: "'v \<Rightarrow> string \<Rightarrow> (string \<times> 'v) list \<Rightarrow> string \<Rightarrow> EnumError + 'v" where
  "parse_name_or def what m name =
     (if trim_space name = [] then Inr def
      else case map_of m (lower_name name) of
          Some v \<Rightarrow> Inr v
        | None \<Rightarrow> Inl (NotOneOf what name (keys_text m)))"

subsection \<open>The tables\<close>

definition effectClasses :: "(string \<times> EffectClass) list" where
  "effectClasses = [(''read'', EFFECT_READ), (''write'', EFFECT_WRITE), (''destructive'', EFFECT_DESTRUCTIVE)]"

definition EffectClass_value :: "(string \<times> EffectClass) list" where
  "EffectClass_value =
     map (\<lambda>e. (EffectClass_String e, e)) [EFFECT_UNSPECIFIED, EFFECT_READ, EFFECT_WRITE, EFFECT_DESTRUCTIVE]"

text \<open>The protobuf constant is accepted too, in any case but without blanks around it.\<close>

definition ParseEffectClass :: "string \<Rightarrow> EnumError + EffectClass" where
  "ParseEffectClass name =
     (case map_of effectClasses (lower_name (trim_space name)) of
        Some v \<Rightarrow> Inr v
      | None \<Rightarrow>
          (case map_of EffectClass_value (upper_name name) of
             Some v \<Rightarrow>
               if v \<noteq> EFFECT_UNSPECIFIED then Inr v
               else Inl (NotOneOf ''effect class'' name (keys_text effectClasses))
           | None \<Rightarrow> Inl (NotOneOf ''effect class'' name (keys_text effectClasses))))"

definition EffectClassName :: "EffectClass \<Rightarrow> string" where
  "EffectClassName = name_of effectClasses"

definition ServingModeStrict :: string where
  "ServingModeStrict = ''strict''"

definition RolloutShadow :: string where
  "RolloutShadow = ''shadow''"

definition servingModes :: "(string \<times> ServingMode) list" where
  "servingModes = [(ServingModeStrict, SERVING_STRICT), (''advisory'', SERVING_ADVISORY)]"

definition ParseServingMode :: "string \<Rightarrow> EnumError + ServingMode" where
  "ParseServingMode = parse_name_or SERVING_STRICT ''serving_mode'' servingModes"

definition hooks :: "(string \<times> Hook) list" where
  "hooks = [(''on_request'', HOOK_ON_REQUEST), (''on_identity'', HOOK_ON_IDENTITY), (''on_catalog'', HOOK_ON_CATALOG),
     (''on_tool_call'', HOOK_ON_TOOL_CALL), (''on_tool_result'', HOOK_ON_TOOL_RESULT),
     (''on_response'', HOOK_ON_RESPONSE), (''on_audit'', HOOK_ON_AUDIT)]"

definition ParseHook :: "string \<Rightarrow> EnumError + Hook" where
  "ParseHook = parse_name ''hook'' hooks"

definition HookName :: "Hook \<Rightarrow> string" where
  "HookName = name_of hooks"

definition HookNames :: "string list" where
  "HookNames = [''on_request'', ''on_identity'', ''on_catalog'', ''on_tool_call'', ''on_tool_result'',
     ''on_response'', ''on_audit'']"

definition runtimes :: "(string \<times> PluginRuntime) list" where
  "runtimes = [(''wasm'', RUNTIME_WASM), (''grpc'', RUNTIME_GRPC)]"

definition ParseRuntime :: "string \<Rightarrow> EnumError + PluginRuntime" where
  "ParseRuntime = parse_name ''runtime'' runtimes"

definition RuntimeName :: "PluginRuntime \<Rightarrow> string" where
  "RuntimeName = name_of runtimes"

definition rollouts :: "(string \<times> RolloutState) list" where
  "rollouts = [(RolloutShadow, ROLLOUT_SHADOW), (''canary'', ROLLOUT_CANARY), (''enforce'', ROLLOUT_ENFORCE)]"

definition ParseRollout :: "string \<Rightarrow> EnumError + RolloutState" where
  "ParseRollout = parse_name_or ROLLOUT_SHADOW ''rollout'' rollouts"

definition RolloutName :: "RolloutState \<Rightarrow> string" where
  "RolloutName = name_of rollouts"

definition failureModes :: "(string \<times> FailureMode) list" where
  "failureModes = [(''open'', FAILURE_OPEN), (''closed'', FAILURE_CLOSED)]"

definition ParseFailureMode :: "string \<Rightarrow> EnumError + FailureMode" where
  "ParseFailureMode = parse_name ''failure mode'' failureModes"

definition FailureModeName :: "FailureMode \<Rightarrow> string" where
  "FailureModeName = name_of failureModes"

datatype PolicyDecision = POLICY_UNSPECIFIED | POLICY_ALLOW | POLICY_DENY | POLICY_HIDE | POLICY_CONFIRM

definition decisions :: "(string \<times> PolicyDecision) list" where
  "decisions = [(''allow'', POLICY_ALLOW), (''deny'', POLICY_DENY), (''hide'', POLICY_HIDE), (''confirm'', POLICY_CONFIRM)]"

definition ParseDecision :: "string \<Rightarrow> EnumError + PolicyDecision" where
  "ParseDecision = parse_name ''decision'' decisions"

definition DecisionName :: "PolicyDecision \<Rightarrow> string" where
  "DecisionName = name_of decisions"

subsection \<open>Round trips\<close>

text \<open>A name a table gives is one its parser reads back.\<close>

definition plain_names :: "(string \<times> 'v) list \<Rightarrow> bool" where
  "plain_names m \<longleftrightarrow> (\<forall>(name, v)\<in>set m. lower_name (trim_space name) = name \<and> trim_space name = name \<and> name \<noteq> [])"

lemma tables_plain:
  "plain_names effectClasses \<and> plain_names servingModes \<and> plain_names hooks \<and> plain_names runtimes \<and>
   plain_names rollouts \<and> plain_names failureModes \<and> plain_names decisions"
  by code_simp

lemma name_of_member: "v \<in> snd ` set m \<Longrightarrow> (name_of m v, v) \<in> set m"
  by (induction m) (auto simp: name_of_def)

lemma parse_name_of:
  assumes "plain_names m" "distinct (map fst m)" "v \<in> snd ` set m"
  shows "parse_name what m (name_of m v) = Inr v" "parse_name_or def what m (name_of m v) = Inr v"
proof -
  have "(name_of m v, v) \<in> set m" using assms(3) by (rule name_of_member)
  moreover from this have "map_of m (name_of m v) = Some v" using assms(2) by simp
  ultimately show "parse_name what m (name_of m v) = Inr v" "parse_name_or def what m (name_of m v) = Inr v"
    using assms(1) by (auto simp: parse_name_def parse_name_or_def plain_names_def)
qed

lemma tables_distinct:
  "distinct (map fst effectClasses)" "distinct (map fst servingModes)" "distinct (map fst hooks)"
  "distinct (map fst runtimes)" "distinct (map fst rollouts)" "distinct (map fst failureModes)"
  "distinct (map fst decisions)"
  by (simp_all add: effectClasses_def servingModes_def hooks_def runtimes_def rollouts_def failureModes_def
      decisions_def ServingModeStrict_def RolloutShadow_def)

text \<open>The names of the enumerations read back: every constant but the unspecified one is parsed from the name that
  renders it, and no parser ever returns the unspecified constant.\<close>

theorem enum_names_roundtrip:
  "(e \<noteq> EFFECT_UNSPECIFIED \<longrightarrow> ParseEffectClass (EffectClassName e) = Inr e) \<and>
   (h \<noteq> HOOK_UNSPECIFIED \<longrightarrow> ParseHook (HookName h) = Inr h) \<and>
   (r \<noteq> RUNTIME_UNSPECIFIED \<longrightarrow> ParseRuntime (RuntimeName r) = Inr r) \<and>
   (s \<noteq> ROLLOUT_UNSPECIFIED \<longrightarrow> ParseRollout (RolloutName s) = Inr s) \<and>
   (f \<noteq> FAILURE_UNSPECIFIED \<longrightarrow> ParseFailureMode (FailureModeName f) = Inr f) \<and>
   (d \<noteq> POLICY_UNSPECIFIED \<longrightarrow> ParseDecision (DecisionName d) = Inr d)"
proof (intro conjI impI)
  note m = tables_plain tables_distinct
  show "ParseEffectClass (EffectClassName e) = Inr e" if "e \<noteq> EFFECT_UNSPECIFIED"
  proof -
    have "e \<in> snd ` set effectClasses" using that by (cases e) (simp_all add: effectClasses_def)
    then have "parse_name ''effect class'' effectClasses (EffectClassName e) = Inr e"
      unfolding EffectClassName_def using m by (intro parse_name_of) auto
    then show ?thesis by (auto simp: parse_name_def ParseEffectClass_def split: option.splits)
  qed
  show "ParseHook (HookName h) = Inr h" if "h \<noteq> HOOK_UNSPECIFIED"
    unfolding ParseHook_def HookName_def using that m by (intro parse_name_of) (cases h; auto simp: hooks_def)+
  show "ParseRuntime (RuntimeName r) = Inr r" if "r \<noteq> RUNTIME_UNSPECIFIED"
    unfolding ParseRuntime_def RuntimeName_def using that m by (intro parse_name_of) (cases r; auto simp: runtimes_def)+
  show "ParseRollout (RolloutName s) = Inr s" if "s \<noteq> ROLLOUT_UNSPECIFIED"
    unfolding ParseRollout_def RolloutName_def using that m
    by (intro parse_name_of) (cases s; auto simp: rollouts_def)+
  show "ParseFailureMode (FailureModeName f) = Inr f" if "f \<noteq> FAILURE_UNSPECIFIED"
    unfolding ParseFailureMode_def FailureModeName_def using that m
    by (intro parse_name_of) (cases f; auto simp: failureModes_def)+
  show "ParseDecision (DecisionName d) = Inr d" if "d \<noteq> POLICY_UNSPECIFIED"
    unfolding ParseDecision_def DecisionName_def using that m
    by (intro parse_name_of) (cases d; auto simp: decisions_def)+
qed

lemma parse_specified:
  "ParseEffectClass n \<noteq> Inr EFFECT_UNSPECIFIED" "ParseServingMode n \<noteq> Inr SERVING_UNSPECIFIED"
  "ParseHook n \<noteq> Inr HOOK_UNSPECIFIED" "ParseRollout n \<noteq> Inr ROLLOUT_UNSPECIFIED"
  "ParseFailureMode n \<noteq> Inr FAILURE_UNSPECIFIED"
  by (auto simp: ParseEffectClass_def ParseServingMode_def ParseHook_def ParseRollout_def ParseFailureMode_def
      parse_name_def parse_name_or_def effectClasses_def EffectClass_value_def servingModes_def hooks_def rollouts_def
      failureModes_def split: option.splits if_splits dest!: map_of_SomeD)

end
