(* ===== verification/Registry_Spec.thy ===== *)
theory Registry_Spec
  imports Registry_Enums Canonical
begin

section \<open>The registry document (internal/controlplane/registry/spec.go)\<close>

text \<open>
  The declared fleet as the document has it, and its validation. Validation reports every problem at once; a problem
  is a value that carries what the message prints. A Go map of the document is an association list in some order.
  Decoding the YAML and parsing a URL (its scheme and host) are parameters. A duration is a number of nanoseconds.
\<close>

definition MaxPrefixLength :: nat where
  "MaxPrefixLength = 12"

definition MaxQualifiedNameLength :: nat where
  "MaxQualifiedNameLength = 64"

record CatalogSpec =
  cs_TTL :: int
  cs_DegradedTTL :: int

record NamespaceSpec =
  nsp_ID :: string
  nsp_Name :: string
  nsp_Prefix :: string
  nsp_OwnerIdpGroup :: string
  nsp_Team :: string
  nsp_Project :: string

record BindingSpec =
  bs_Tenant :: string
  bs_Primary :: string
  bs_Replicas :: "string list"

record ToolSpec =
  tsp_EffectClass :: string
  tsp_Exclude :: bool

record TokenExchangeSpec =
  xs_TokenEndpoint :: string
  xs_Audience :: string
  xs_Scopes :: "string list"
  xs_ClientCredentialRef :: string
  xs_Header :: string
  xs_ClaimHeaders :: "(string \<times> string) list"

record HealthSpec =
  hs_ProbeInterval :: int
  hs_ProbeTimeout :: int
  hs_GraceWindow :: int
  hs_EjectAfterFailures :: int

record ServerSpec =
  ss_ID :: string
  ss_Name :: string
  ss_Namespace :: string
  ss_Bindings :: "BindingSpec list"
  ss_ServingMode :: string
  ss_PinnedProtocolVersion :: string
  ss_Criticality :: string
  ss_DataClassification :: string
  ss_ComplianceScope :: "string list"
  ss_Team :: string
  ss_Project :: string
  ss_CanaryTool :: string
  ss_Tools :: "(string \<times> ToolSpec) list"
  ss_DefaultEffectClass :: string
  ss_TokenExchange :: "TokenExchangeSpec option"
  ss_Health :: "HealthSpec option"

record ToolsetSpec =
  tss_ID :: string
  tss_Name :: string
  tss_Priority :: int
  tss_TokenBudget :: int
  tss_TTL :: int
  tss_Namespaces :: "string list"
  tss_Tools :: "string list"
  tss_Exclude :: "string list"

record PolicyRuleSpec =
  prs_EffectClasses :: "string list"
  prs_QualifiedNameGlobs :: "string list"
  prs_Namespaces :: "string list"
  prs_RequiredIdpGroups :: "string list"
  prs_DataClassifications :: "string list"
  prs_Decision :: string
  prs_Reason :: string
  prs_MaxTTL :: int
  prs_IdentitySpecific :: bool

record PolicySpec =
  ps_ID :: string
  ps_Name :: string
  ps_Priority :: int
  ps_Rules :: "PolicyRuleSpec list"

record PluginSpec =
  pls_ID :: string
  pls_Name :: string
  pls_Version :: string
  pls_Runtime :: string
  pls_Hooks :: "string list"
  pls_Priority :: int
  pls_Budget :: int
  pls_Reads :: "string list"
  pls_Writes :: "string list"
  pls_FailurePolicy :: "(string \<times> string) list"
  pls_IdentityDependent :: bool
  pls_Rollout :: string
  pls_CanaryPercent :: int
  pls_ArtifactRef :: string
  pls_ArtifactDigest :: string
  pls_FuelLimit :: nat
  pls_Endpoint :: string
  pls_Config :: jobject
  pls_Toolsets :: "string list"

record Spec =
  sp_Org :: string
  sp_Version :: int
  sp_Catalog :: CatalogSpec
  sp_Namespaces :: "NamespaceSpec list"
  sp_Servers :: "ServerSpec list"
  sp_Toolsets :: "ToolsetSpec list"
  sp_Policies :: "PolicySpec list"
  sp_Plugins :: "PluginSpec list"

text \<open>\<open>BindingSpec.Endpoints\<close>: every host, the primary first.\<close>

definition Endpoints :: "BindingSpec \<Rightarrow> string list" where
  "Endpoints b = (if bs_Primary b \<noteq> [] then [bs_Primary b] else []) @ bs_Replicas b"

subsection \<open>Names and endpoints\<close>

datatype NameError = PrefixTooLong string nat | PrefixHasDot string | PrefixBadRune string | SlugBadRune string
  | ToolsetUnnamed | ToolsetNameTooLong string | ToolsetNameBadRune string

text \<open>Lower-case letters, digits, hyphen and underscore; every byte of a rune outside ASCII fails the test, as the rune
  does.\<close>

definition slug_char :: "char \<Rightarrow> bool" where
  "slug_char c =
     (let n = (of_char c :: nat)
      in 97 \<le> n \<and> n \<le> 122 \<or> 48 \<le> n \<and> n \<le> 57 \<or> c = CHR ''_'' \<or> c = CHR ''-'')"

definition validatePrefix :: "string \<Rightarrow> NameError + unit" where
  "validatePrefix pre =
     (if length pre > MaxPrefixLength then Inl (PrefixTooLong pre (length pre))
      else if contains pre ''.'' then Inl (PrefixHasDot pre)
      else if \<not> list_all slug_char pre then Inl (PrefixBadRune pre)
      else Inr ())"

definition validateSlug :: "string \<Rightarrow> NameError + unit" where
  "validateSlug slug = (if \<not> list_all slug_char slug then Inl (SlugBadRune slug) else Inr ())"

definition validateToolsetName :: "string \<Rightarrow> NameError + unit" where
  "validateToolsetName name =
     (if name = [] then Inl ToolsetUnnamed
      else if length name > 63 then Inl (ToolsetNameTooLong name)
      else if \<not> list_all slug_char name then Inl (ToolsetNameBadRune name)
      else Inr ())"

datatype EndpointError = NoEndpoint | NotAURL string | BadScheme string string | NoHost string

definition validateEndpoint :: "(string \<Rightarrow> (string \<times> string) option) \<Rightarrow> string \<Rightarrow> EndpointError + unit" where
  "validateEndpoint url endpoint =
     (if endpoint = [] then Inl NoEndpoint
      else case url endpoint of
          None \<Rightarrow> Inl (NotAURL endpoint)
        | Some (scheme, host) \<Rightarrow>
            if scheme \<noteq> ''http'' \<and> scheme \<noteq> ''https'' then Inl (BadScheme endpoint scheme)
            else if host = [] then Inl (NoHost endpoint)
            else Inr ())"

subsection \<open>Problems\<close>

datatype CatalogProblem = OrgMissing | VersionNotPositive int | TTLNotPositive | DegradedTTLTooLong int int

datatype NamespaceProblem =
    NamespaceNoID | NamespaceNoPrefix string | NamespaceTwice string | NamespacesSharePrefix string string string
  | NamespacePrefixError string NameError

datatype BindingProblem =
    BindingNoTenant string | BindingTwice string string | BindingNoPrimary string string
  | BindingEndpoint string string EndpointError | EndpointTwice string string string

datatype ServerProblem =
    ServerNoID | ServerTwice string | ServerNamespace string string | ServerNoBindings string
  | InBindings BindingProblem | ServerMode string EnumError | NoDefaultEffect string | DefaultEffect string EnumError
  | ToolNoEffect string string | ToolEffect string string EnumError
  | ExchangeNoEndpoint string | ExchangeNoCredential string

datatype ToolsetProblem =
    ToolsetNoID | ToolsetTwice string | ToolsetNameError string NameError | ToolsetEmpty string
  | ToolsetTTL string int int | ToolsetNamespace string string | ToolsetBareTool string string

datatype PolicyProblem =
    PolicyNoID | PolicyTwice string | PolicyNoRules string | RuleDecision string nat EnumError
  | RuleEffect string nat EnumError | RuleNamespace string nat string | RuleTTL string nat int int

datatype PluginProblem =
    PluginNoID | PluginTwice string | PluginRuntimeError string EnumError | PluginNoHooks string
  | PluginHook string EnumError | PluginRollout string EnumError | CanaryOutside string int | CanaryIgnored string
  | FailureEffect string EnumError | FailureModeOf string string EnumError
  | GrpcNoEndpoint string | WasmNoArtifact string | ArtifactNoDigest string | PluginToolset string string

datatype Problem =
    InCatalog CatalogProblem | InNamespaces NamespaceProblem | InServers ServerProblem | InToolsets ToolsetProblem
  | InPolicies PolicyProblem | InPlugins PluginProblem

text \<open>A problem if a check fails, and one for the error of a parser.\<close>

definition report :: "bool \<Rightarrow> 'p \<Rightarrow> 'p list" where
  "report b p = (if b then [p] else [])"

definition error_of :: "('e \<Rightarrow> 'p) \<Rightarrow> 'e + 'a \<Rightarrow> 'p list" where
  "error_of f r = (case r of Inl e \<Rightarrow> [f e] | Inr _ \<Rightarrow> [])"

subsection \<open>The sections of a document\<close>

definition catalog_problems :: "Spec \<Rightarrow> CatalogProblem list" where
  "catalog_problems s =
     report (sp_Org s = []) OrgMissing @
     report (sp_Version s \<le> 0) (VersionNotPositive (sp_Version s)) @
     report (cs_TTL (sp_Catalog s) \<le> 0) TTLNotPositive @
     report (cs_DegradedTTL (sp_Catalog s) > cs_TTL (sp_Catalog s))
       (DegradedTTLTooLong (cs_DegradedTTL (sp_Catalog s)) (cs_TTL (sp_Catalog s)))"

text \<open>The loop over the namespaces, with the two maps it fills; an entry without an id is skipped.\<close>

fun namespace_problems ::
  "(string \<rightharpoonup> NamespaceSpec) \<Rightarrow> (string \<rightharpoonup> string) \<Rightarrow> NamespaceSpec list \<Rightarrow> NamespaceProblem list" where
  "namespace_problems namespaces owners [] = []"
| "namespace_problems namespaces owners (ns # rest) =
     (if nsp_ID ns = [] then NamespaceNoID # namespace_problems namespaces owners rest
      else
        report (nsp_Prefix ns = []) (NamespaceNoPrefix (nsp_ID ns)) @
        report (namespaces (nsp_ID ns) \<noteq> None) (NamespaceTwice (nsp_ID ns)) @
        (case owners (nsp_Prefix ns) of
           None \<Rightarrow> [] | Some prior \<Rightarrow> [NamespacesSharePrefix prior (nsp_ID ns) (nsp_Prefix ns)]) @
        error_of (NamespacePrefixError (nsp_ID ns)) (validatePrefix (nsp_Prefix ns)) @
        namespace_problems (namespaces(nsp_ID ns \<mapsto> ns)) (owners(nsp_Prefix ns \<mapsto> nsp_ID ns)) rest)"

definition namespaces_of :: "NamespaceSpec list \<Rightarrow> string \<rightharpoonup> NamespaceSpec" where
  "namespaces_of nss = fold (\<lambda>ns m. if nsp_ID ns = [] then m else m(nsp_ID ns \<mapsto> ns)) nss Map.empty"

fun repeated_hosts :: "string \<Rightarrow> string \<Rightarrow> string set \<Rightarrow> string list \<Rightarrow> BindingProblem list" where
  "repeated_hosts srv tenant seen [] = []"
| "repeated_hosts srv tenant seen (e # es) =
     report (e \<in> seen) (EndpointTwice srv tenant e) @ repeated_hosts srv tenant (insert e seen) es"

fun binding_problems ::
  "(string \<Rightarrow> (string \<times> string) option) \<Rightarrow> string \<Rightarrow> string set \<Rightarrow> BindingSpec list \<Rightarrow> BindingProblem list" where
  "binding_problems url srv seen [] = []"
| "binding_problems url srv seen (b # rest) =
     (if bs_Tenant b = [] then [BindingNoTenant srv]
      else report (bs_Tenant b \<in> seen) (BindingTwice srv (bs_Tenant b))) @
     report (bs_Primary b = []) (BindingNoPrimary srv (bs_Tenant b)) @
     concat (map (\<lambda>e. error_of (BindingEndpoint srv (bs_Tenant b)) (validateEndpoint url e)) (Endpoints b)) @
     repeated_hosts srv (bs_Tenant b) {} (Endpoints b) @
     binding_problems url srv (if bs_Tenant b = [] then seen else insert (bs_Tenant b) seen) rest"

definition tool_problems :: "string \<Rightarrow> string \<times> ToolSpec \<Rightarrow> ServerProblem list" where
  "tool_problems srv = (\<lambda>(name, tool).
     if tsp_Exclude tool then []
     else if tsp_EffectClass tool = [] then [ToolNoEffect srv name]
     else error_of (ToolEffect srv name) (ParseEffectClass (tsp_EffectClass tool)))"

definition exchange_problems :: "string \<Rightarrow> TokenExchangeSpec option \<Rightarrow> ServerProblem list" where
  "exchange_problems srv x =
     (case x of
        None \<Rightarrow> []
      | Some t \<Rightarrow> report (xs_TokenEndpoint t = []) (ExchangeNoEndpoint srv) @
                  report (xs_ClientCredentialRef t = []) (ExchangeNoCredential srv))"

fun server_problems ::
  "(string \<Rightarrow> (string \<times> string) option) \<Rightarrow> (string \<rightharpoonup> NamespaceSpec) \<Rightarrow> string set \<Rightarrow> ServerSpec list \<Rightarrow>
   ServerProblem list" where
  "server_problems url namespaces seen [] = []"
| "server_problems url namespaces seen (srv # rest) =
     (let i = ss_ID srv in
      if i = [] then ServerNoID # server_problems url namespaces seen rest
      else
        report (i \<in> seen) (ServerTwice i) @
        report (namespaces (ss_Namespace srv) = None) (ServerNamespace i (ss_Namespace srv)) @
        report (ss_Bindings srv = []) (ServerNoBindings i) @
        map InBindings (binding_problems url i {} (ss_Bindings srv)) @
        error_of (ServerMode i) (ParseServingMode (ss_ServingMode srv)) @
        (if ss_DefaultEffectClass srv = [] then [NoDefaultEffect i]
         else error_of (DefaultEffect i) (ParseEffectClass (ss_DefaultEffectClass srv))) @
        concat (map (tool_problems i) (ss_Tools srv)) @
        exchange_problems i (ss_TokenExchange srv) @
        server_problems url namespaces (insert i seen) rest)"

fun toolset_problems ::
  "int \<Rightarrow> (string \<rightharpoonup> NamespaceSpec) \<Rightarrow> string set \<Rightarrow> ToolsetSpec list \<Rightarrow> ToolsetProblem list" where
  "toolset_problems ttl namespaces seen [] = []"
| "toolset_problems ttl namespaces seen (ts # rest) =
     (let i = tss_ID ts in
      if i = [] then ToolsetNoID # toolset_problems ttl namespaces seen rest
      else
        report (i \<in> seen) (ToolsetTwice i) @
        error_of (ToolsetNameError i) (validateToolsetName (tss_Name ts)) @
        report (tss_Namespaces ts = [] \<and> tss_Tools ts = []) (ToolsetEmpty i) @
        report (tss_TTL ts > ttl) (ToolsetTTL i (tss_TTL ts) ttl) @
        concat (map (\<lambda>ns. report (namespaces ns = None) (ToolsetNamespace i ns)) (tss_Namespaces ts)) @
        concat (map (\<lambda>t. report (\<not> contains t ''.'') (ToolsetBareTool i t)) (tss_Tools ts @ tss_Exclude ts)) @
        toolset_problems ttl namespaces (insert i seen) rest)"

definition toolset_ids :: "ToolsetSpec list \<Rightarrow> string set" where
  "toolset_ids tss = set (filter (\<lambda>i. i \<noteq> []) (map tss_ID tss))"

definition rule_problems ::
  "int \<Rightarrow> (string \<rightharpoonup> NamespaceSpec) \<Rightarrow> string \<Rightarrow> nat \<times> PolicyRuleSpec \<Rightarrow> PolicyProblem list" where
  "rule_problems ttl namespaces p = (\<lambda>(k, rule).
     error_of (RuleDecision p k) (ParseDecision (prs_Decision rule)) @
     concat (map (\<lambda>ec. error_of (RuleEffect p k) (ParseEffectClass ec)) (prs_EffectClasses rule)) @
     concat (map (\<lambda>ns. report (namespaces ns = None) (RuleNamespace p k ns)) (prs_Namespaces rule)) @
     report (prs_MaxTTL rule > ttl) (RuleTTL p k (prs_MaxTTL rule) ttl))"

fun policy_problems ::
  "int \<Rightarrow> (string \<rightharpoonup> NamespaceSpec) \<Rightarrow> string set \<Rightarrow> PolicySpec list \<Rightarrow> PolicyProblem list" where
  "policy_problems ttl namespaces seen [] = []"
| "policy_problems ttl namespaces seen (p # rest) =
     (if ps_ID p = [] then PolicyNoID # policy_problems ttl namespaces seen rest
      else
        report (ps_ID p \<in> seen) (PolicyTwice (ps_ID p)) @
        report (ps_Rules p = []) (PolicyNoRules (ps_ID p)) @
        concat (map (rule_problems ttl namespaces (ps_ID p)) (enumerate 0 (ps_Rules p))) @
        policy_problems ttl namespaces (insert (ps_ID p) seen) rest)"

text \<open>A rollout that does not parse counts as unspecified in the two checks that follow.\<close>

definition rollout_problems :: "PluginSpec \<Rightarrow> PluginProblem list" where
  "rollout_problems p =
     (let parsed = ParseRollout (pls_Rollout p);
          rollout = (case parsed of Inl _ \<Rightarrow> ROLLOUT_UNSPECIFIED | Inr r \<Rightarrow> r)
      in error_of (PluginRollout (pls_ID p)) parsed @
         report (rollout = ROLLOUT_CANARY \<and> (pls_CanaryPercent p \<le> 0 \<or> pls_CanaryPercent p > 100))
           (CanaryOutside (pls_ID p) (pls_CanaryPercent p)) @
         report (rollout \<noteq> ROLLOUT_CANARY \<and> pls_CanaryPercent p \<noteq> 0) (CanaryIgnored (pls_ID p)))"

definition failure_problems :: "string \<Rightarrow> string \<times> string \<Rightarrow> PluginProblem list" where
  "failure_problems p = (\<lambda>(ec, mode).
     error_of (FailureEffect p) (ParseEffectClass ec) @ error_of (FailureModeOf p ec) (ParseFailureMode mode))"

text \<open>The runtime is compared as it is written, though it is parsed in any case.\<close>

definition artifact_problems :: "PluginSpec \<Rightarrow> PluginProblem list" where
  "artifact_problems p =
     report (pls_Runtime p = ''grpc'' \<and> pls_Endpoint p = []) (GrpcNoEndpoint (pls_ID p)) @
     report (pls_Runtime p = ''wasm'' \<and> pls_ArtifactRef p = []) (WasmNoArtifact (pls_ID p)) @
     report (pls_ArtifactRef p \<noteq> [] \<and> pls_ArtifactDigest p = []) (ArtifactNoDigest (pls_ID p))"

fun plugin_problems :: "string set \<Rightarrow> string set \<Rightarrow> PluginSpec list \<Rightarrow> PluginProblem list" where
  "plugin_problems toolsets seen [] = []"
| "plugin_problems toolsets seen (p # rest) =
     (let i = pls_ID p in
      if i = [] then PluginNoID # plugin_problems toolsets seen rest
      else
        report (i \<in> seen) (PluginTwice i) @
        error_of (PluginRuntimeError i) (ParseRuntime (pls_Runtime p)) @
        report (pls_Hooks p = []) (PluginNoHooks i) @
        concat (map (\<lambda>h. error_of (PluginHook i) (ParseHook h)) (pls_Hooks p)) @
        rollout_problems p @
        concat (map (failure_problems i) (pls_FailurePolicy p)) @
        artifact_problems p @
        concat (map (\<lambda>t. report (t \<notin> toolsets) (PluginToolset i t)) (pls_Toolsets p)) @
        plugin_problems toolsets (insert i seen) rest)"

subsection \<open>The whole document\<close>

definition Validate :: "(string \<Rightarrow> (string \<times> string) option) \<Rightarrow> Spec \<Rightarrow> Problem list" where
  "Validate url s =
     (let ttl = cs_TTL (sp_Catalog s); namespaces = namespaces_of (sp_Namespaces s)
      in map InCatalog (catalog_problems s) @
         map InNamespaces (namespace_problems Map.empty Map.empty (sp_Namespaces s)) @
         map InServers (server_problems url namespaces {} (sp_Servers s)) @
         map InToolsets (toolset_problems ttl namespaces {} (sp_Toolsets s)) @
         map InPolicies (policy_problems ttl namespaces {} (sp_Policies s)) @
         map InPlugins (plugin_problems (toolset_ids (sp_Toolsets s)) {} (sp_Plugins s)))"

datatype LoadError = Unreadable | Malformed | Invalid "Problem list"

definition Registry_Parse ::
  "(string \<Rightarrow> Spec option) \<Rightarrow> (string \<Rightarrow> (string \<times> string) option) \<Rightarrow> string \<Rightarrow> LoadError + Spec" where
  "Registry_Parse decode url raw =
     (case decode raw of
        None \<Rightarrow> Inl Malformed
      | Some s \<Rightarrow> if Validate url s \<noteq> [] then Inl (Invalid (Validate url s)) else Inr s)"

definition Registry_Load ::
  "(string \<Rightarrow> Spec option) \<Rightarrow> (string \<Rightarrow> (string \<times> string) option) \<Rightarrow> (string \<Rightarrow> string option) \<Rightarrow> string \<Rightarrow>
   LoadError + Spec" where
  "Registry_Load decode url file path =
     (case file path of None \<Rightarrow> Inl Unreadable | Some raw \<Rightarrow> Registry_Parse decode url raw)"

end
