(* ===== verification/Snapshot_Builder.thy ===== *)
theory Snapshot_Builder
  imports Snapshot_Props Canonical_Schema
begin

section \<open>Assembling a snapshot (internal/dataplane/snapshot/builder.go)\<close>

text \<open>
  The builder collects the parts of a snapshot with the problems it met, derives what is a function of a tool's
  definition (digests, qualified name, idempotency, token estimate), and returns the snapshot only if
  there is no problem and the view builds. SHA-256 and the strict JSON parser are parameters; the build time is
  left out of the message.
\<close>

datatype BuildProblem =
    DegradedExceedsTTL int int | NamespaceWithoutPrefix string | PrefixWithDot string string
  | ToolWithoutName | ToolWithoutPrefix string | ToolWithoutTenant string | ToolWithoutToolset string
  | ToolSchemaProblem string SchemaError | ToolSchemaUnreadable string

record Builder =
  b_snap :: Snapshot
  b_errs :: "BuildProblem list"

text \<open>\<open>Duration.Milliseconds\<close> of nanoseconds, converted to \<open>int32\<close>.\<close>

definition millis32 :: "int \<Rightarrow> int" where
  "millis32 d = wrap32 (tdiv d 1000000)"

definition NewBuilder :: "int \<Rightarrow> Builder" where
  "NewBuilder version =
     \<lparr>b_snap = \<lparr>sn_Version = version, sn_Id = [], sn_Namespaces = [], sn_Servers = [], sn_Tools = [],
        sn_Policies = [], sn_Plugins = [], sn_Catalog = Some \<lparr>cd_TtlMs = 300000, cd_DegradedTtlMs = 30000\<rparr>,
        sn_Tenants = [], sn_Toolsets = []\<rparr>,
      b_errs = []\<rparr>"

definition problem :: "BuildProblem \<Rightarrow> Builder \<Rightarrow> Builder" where
  "problem e b = b\<lparr>b_errs := b_errs b @ [e]\<rparr>"

definition change :: "(Snapshot \<Rightarrow> Snapshot) \<Rightarrow> Builder \<Rightarrow> Builder" where
  "change f b = b\<lparr>b_snap := f (b_snap b)\<rparr>"

definition WithID :: "string \<Rightarrow> Builder \<Rightarrow> Builder" where
  "WithID i = change (\<lambda>s. s\<lparr>sn_Id := i\<rparr>)"

definition WithCatalogDefaults :: "int \<Rightarrow> int \<Rightarrow> Builder \<Rightarrow> Builder" where
  "WithCatalogDefaults ttl degraded b =
     change (\<lambda>s. s\<lparr>sn_Catalog := Some \<lparr>cd_TtlMs = millis32 ttl, cd_DegradedTtlMs = millis32 degraded\<rparr>\<rparr>)
       (if degraded > ttl then problem (DegradedExceedsTTL degraded ttl) b else b)"

definition AddNamespace :: "Namespace \<Rightarrow> Builder \<Rightarrow> Builder" where
  "AddNamespace ns b =
     (let b = (if ns_Prefix ns = [] then problem (NamespaceWithoutPrefix (ns_Id ns)) b else b);
          b = (if contains (ns_Prefix ns) ''.'' then problem (PrefixWithDot (ns_Id ns) (ns_Prefix ns)) b else b)
      in change (\<lambda>s. s\<lparr>sn_Namespaces := sn_Namespaces s @ [ns]\<rparr>) b)"

definition AddServer :: "Server \<Rightarrow> Builder \<Rightarrow> Builder" where
  "AddServer x = change (\<lambda>s. s\<lparr>sn_Servers := sn_Servers s @ [x]\<rparr>)"

definition AddToolset :: "Toolset \<Rightarrow> Builder \<Rightarrow> Builder" where
  "AddToolset x = change (\<lambda>s. s\<lparr>sn_Toolsets := sn_Toolsets s @ [x]\<rparr>)"

definition AddTenant :: "Tenant \<Rightarrow> Builder \<Rightarrow> Builder" where
  "AddTenant x = change (\<lambda>s. s\<lparr>sn_Tenants := sn_Tenants s @ [x]\<rparr>)"

definition AddPolicy :: "Policy \<Rightarrow> Builder \<Rightarrow> Builder" where
  "AddPolicy x = change (\<lambda>s. s\<lparr>sn_Policies := sn_Policies s @ [x]\<rparr>)"

definition AddPlugin :: "PluginManifest \<Rightarrow> Builder \<Rightarrow> Builder" where
  "AddPlugin x = change (\<lambda>s. s\<lparr>sn_Plugins := sn_Plugins s @ [x]\<rparr>)"

subsection \<open>Tools\<close>

record ToolInput =
  in_ServerID :: string
  in_NamespaceID :: string
  in_TenantID :: string
  in_ToolsetID :: string
  in_Prefix :: string
  in_Name :: string
  in_Title :: string
  in_Description :: string
  in_InputSchema :: string
  in_OutputSchema :: string
  in_Annotations :: jobject
  in_EffectClass :: EffectClass

definition structural_char :: "char \<Rightarrow> bool" where
  "structural_char c = (c \<in> {CHR ''{'', CHR ''}'', CHR ''['', CHR '']'', CHR '':'', CHR '','', CHR 0x22})"

definition EstimateTokens :: "string \<Rightarrow> nat" where
  "EstimateTokens s =
     (if s = [] then 0
      else let structural = length (filter structural_char s)
           in structural + (length s - structural + 3) div 4)"

text \<open>A schema that is given: its parsed value, or the failure to parse it; \<open>None\<close> when it is absent.\<close>

definition read_schema :: "(string \<Rightarrow> json option) \<Rightarrow> string \<Rightarrow> json option option" where
  "read_schema parse raw =
     (if raw = [] then Some None else case parse raw of None \<Rightarrow> None | Some v \<Rightarrow> Some (Some v))"

definition canonicalizeOrEmpty :: "json option \<Rightarrow> SchemaError + string" where
  "canonicalizeOrEmpty schema = (case schema of None \<Rightarrow> Inr [] | Some v \<Rightarrow> CanonicalizeSchema v)"

definition tool_definition :: "ToolInput \<Rightarrow> json option \<Rightarrow> json option \<Rightarrow> CanonTool" where
  "tool_definition i ins outs =
     \<lparr>ct_Name = in_Name i, ct_Title = in_Title i, ct_Description = in_Description i, ct_InputSchema = ins,
      ct_OutputSchema = outs, ct_Annotations = in_Annotations i, ct_Meta = []\<rparr>"

definition needs_idempotency_key :: "EffectClass \<Rightarrow> bool" where
  "needs_idempotency_key e = (e = EFFECT_WRITE \<or> e = EFFECT_DESTRUCTIVE)"

definition tool_entry ::
  "(string \<Rightarrow> string) \<Rightarrow> ToolInput \<Rightarrow> json option \<Rightarrow> json option \<Rightarrow> SchemaError + ToolDefinition" where
  "tool_entry sha256 i ins outs =
     (let def = tool_definition i ins outs in
      bind_result (Tool_Digest sha256 def) (\<lambda>digest.
      bind_result (SemanticDigest sha256 def) (\<lambda>semantic.
      bind_result (canonicalizeOrEmpty ins) (\<lambda>inputJSON.
      bind_result (canonicalizeOrEmpty outs) (\<lambda>outputJSON.
      bind_result (CanonicalForm def) (\<lambda>form.
        Inr \<lparr>td_Digest = digest, td_SemanticDigest = semantic, td_ServerId = in_ServerID i,
             td_NamespaceId = in_NamespaceID i, td_TenantId = in_TenantID i, td_ToolsetId = in_ToolsetID i,
             td_Name = in_Name i, td_QualifiedName = in_Prefix i @ ''.'' @ in_Name i, td_Title = in_Title i,
             td_Description = in_Description i, td_InputSchemaJson = inputJSON,
             td_OutputSchemaJson = outputJSON,
             td_AnnotationsJson = (if in_Annotations i = [] then [] else canon_write (JObj (in_Annotations i))),
             td_EffectClass = in_EffectClass i, td_TokenEstimate = wrap32 (int (EstimateTokens form)),
             td_RequiresIdempotencyKey = needs_idempotency_key (in_EffectClass i)\<rparr>))))))"

definition AddTool :: "(string \<Rightarrow> string) \<Rightarrow> (string \<Rightarrow> json option) \<Rightarrow> ToolInput \<Rightarrow> Builder \<Rightarrow> Builder" where
  "AddTool sha256 parse i b =
     (if in_Name i = [] then problem ToolWithoutName b
      else if in_Prefix i = [] then problem (ToolWithoutPrefix (in_Name i)) b
      else if in_TenantID i = [] then problem (ToolWithoutTenant (in_Name i)) b
      else if in_ToolsetID i = [] then problem (ToolWithoutToolset (in_Name i)) b
      else case (read_schema parse (in_InputSchema i), read_schema parse (in_OutputSchema i)) of
          (Some ins, Some outs) \<Rightarrow>
            (case tool_entry sha256 i ins outs of
               Inl e \<Rightarrow> problem (ToolSchemaProblem (in_Name i) e) b
             | Inr def \<Rightarrow> change (\<lambda>s. s\<lparr>sn_Tools := sn_Tools s @ [def]\<rparr>) b)
        | _ \<Rightarrow> problem (ToolSchemaUnreadable (in_Name i)) b)"

subsection \<open>Building\<close>

datatype BuilderError = Problems "BuildProblem list" | Unservable BuildError

definition Builder_Build :: "Builder \<Rightarrow> BuilderError + Snapshot" where
  "Builder_Build b =
     (if b_errs b \<noteq> [] then Inl (Problems (b_errs b))
      else case BuildWithEngine (b_snap b) of
          Inl e \<Rightarrow> Inl (Unservable e)
        | Inr _ \<Rightarrow> Inr (b_snap b))"

text \<open>The calls a caller may make, in any order.\<close>

datatype BuildStep =
    SetID string | SetDefaults int int | PutNamespace Namespace | PutServer Server | PutToolset Toolset
  | PutTenant Tenant | PutPolicy Policy | PutPlugin PluginManifest | PutTool ToolInput

fun build_step :: "(string \<Rightarrow> string) \<Rightarrow> (string \<Rightarrow> json option) \<Rightarrow> BuildStep \<Rightarrow> Builder \<Rightarrow> Builder" where
  "build_step sha parse (SetID i) = WithID i"
| "build_step sha parse (SetDefaults t d) = WithCatalogDefaults t d"
| "build_step sha parse (PutNamespace x) = AddNamespace x"
| "build_step sha parse (PutServer x) = AddServer x"
| "build_step sha parse (PutToolset x) = AddToolset x"
| "build_step sha parse (PutTenant x) = AddTenant x"
| "build_step sha parse (PutPolicy x) = AddPolicy x"
| "build_step sha parse (PutPlugin x) = AddPlugin x"
| "build_step sha parse (PutTool i) = AddTool sha parse i"

subsection \<open>What a built snapshot holds\<close>

lemma builder_simps [simp]:
  "b_errs (problem e b) = b_errs b @ [e]" "b_snap (problem e b) = b_snap b"
  "b_errs (change f b) = b_errs b" "b_snap (change f b) = f (b_snap b)"
  by (simp_all add: problem_def change_def)

text \<open>A tool entry derived from its definition.\<close>

definition derived :: "(string \<Rightarrow> string) \<Rightarrow> ToolDefinition \<Rightarrow> bool" where
  "derived sha def \<longleftrightarrow>
     (\<exists>i ins outs form. tool_entry sha i ins outs = Inr def \<and>
        CanonicalForm (tool_definition i ins outs) = Inr form \<and> td_Digest def = DigestBytes sha form \<and>
        td_Name def = in_Name i \<and> in_Prefix i \<noteq> [] \<and> td_QualifiedName def = in_Prefix i @ ''.'' @ in_Name i \<and>
        in_Name i \<noteq> [] \<and> td_TenantId def \<noteq> [] \<and> td_ToolsetId def \<noteq> [] \<and>
        td_TokenEstimate def = wrap32 (int (EstimateTokens form)) \<and>
        td_RequiresIdempotencyKey def = needs_idempotency_key (td_EffectClass def))"

lemma AddTool_derived:
  "def \<in> set (sn_Tools (b_snap (AddTool sha parse i b))) \<Longrightarrow>
     def \<in> set (sn_Tools (b_snap b)) \<or> derived sha def"
proof -
  assume d: "def \<in> set (sn_Tools (b_snap (AddTool sha parse i b)))"
  show ?thesis
  proof (cases "def \<in> set (sn_Tools (b_snap b))")
    case False
    with d obtain ins outs where n: "in_Name i \<noteq> []" "in_Prefix i \<noteq> []" "in_TenantID i \<noteq> []" "in_ToolsetID i \<noteq> []"
      and e: "tool_entry sha i ins outs = Inr def"
      by (auto simp: AddTool_def split: if_splits option.splits sum.splits)
    from e n obtain form where "CanonicalForm (tool_definition i ins outs) = Inr form"
        "td_Digest def = DigestBytes sha form" "td_Name def = in_Name i"
        "td_QualifiedName def = in_Prefix i @ ''.'' @ in_Name i" "td_TenantId def \<noteq> []" "td_ToolsetId def \<noteq> []"
        "td_TokenEstimate def = wrap32 (int (EstimateTokens form))"
        "td_RequiresIdempotencyKey def = needs_idempotency_key (td_EffectClass def)"
      by (auto simp: tool_entry_def Let_def bind_result_Inr Tool_Digest_def)
    with e n show ?thesis unfolding derived_def by (intro disjI2 exI conjI) assumption+
  qed simp
qed

lemma build_step_derived:
  assumes "\<forall>def\<in>set (sn_Tools (b_snap b)). derived sha def"
  shows "\<forall>def\<in>set (sn_Tools (b_snap (build_step sha parse st b))). derived sha def"
proof (cases st)
  case (PutTool i)
  with assms AddTool_derived [of _ sha parse i b] show ?thesis by fastforce
qed (use assms in \<open>auto simp: WithID_def WithCatalogDefaults_def AddNamespace_def AddServer_def AddToolset_def
    AddTenant_def AddPolicy_def AddPlugin_def Let_def\<close>)

lemma build_steps_derived:
  "\<forall>def\<in>set (sn_Tools (b_snap (fold (build_step sha parse) steps (NewBuilder v)))). derived sha def"
  by (rule fold_invariant [where Q = "\<lambda>_. True" and P = "\<lambda>b. \<forall>def\<in>set (sn_Tools (b_snap b)). derived sha def"])
    (simp_all add: NewBuilder_def build_step_derived)

text \<open>As long as no problem is recorded, prefixes are non-empty and dot-free and the degraded lifetime is no
  longer than the normal one.\<close>

definition sound_parts :: "Builder \<Rightarrow> bool" where
  "sound_parts b \<longleftrightarrow>
     (b_errs b = [] \<longrightarrow>
        (\<forall>ns\<in>set (sn_Namespaces (b_snap b)). ns_Prefix ns \<noteq> [] \<and> CHR ''.'' \<notin> set (ns_Prefix ns)) \<and>
        (\<exists>ttl degraded. degraded \<le> ttl \<and>
           sn_Catalog (b_snap b) = Some \<lparr>cd_TtlMs = millis32 ttl, cd_DegradedTtlMs = millis32 degraded\<rparr>))"

lemma sound_parts_change:
  "sound_parts b \<Longrightarrow> sn_Namespaces (f (b_snap b)) = sn_Namespaces (b_snap b) \<Longrightarrow>
     sn_Catalog (f (b_snap b)) = sn_Catalog (b_snap b) \<Longrightarrow> sound_parts (change f b)"
  by (simp add: sound_parts_def)

lemma sound_parts_problem [simp]: "sound_parts (problem e b)"
  by (simp add: sound_parts_def)

lemma build_step_sound:
  assumes "sound_parts b"
  shows "sound_parts (build_step sha parse st b)"
proof (cases st)
  case (SetDefaults t d)
  show ?thesis
  proof (cases "d > t")
    case False
    then have "\<exists>ttl degraded. degraded \<le> ttl \<and> millis32 t = millis32 ttl \<and> millis32 d = millis32 degraded"
      by (intro exI [of _ t] exI [of _ d]) simp
    with SetDefaults assms False show ?thesis by (simp add: WithCatalogDefaults_def sound_parts_def)
  qed (simp add: SetDefaults WithCatalogDefaults_def sound_parts_def)
next
  case (PutNamespace ns)
  with assms show ?thesis
    by (auto simp: AddNamespace_def sound_parts_def Let_def contains_char)
next
  case (PutTool i)
  with assms show ?thesis
    by (auto simp: AddTool_def intro!: sound_parts_change split: option.split sum.split)
qed (use assms in \<open>auto simp: WithID_def AddServer_def AddToolset_def AddTenant_def AddPolicy_def AddPlugin_def
    intro!: sound_parts_change\<close>)

lemma new_builder_sound: "sound_parts (NewBuilder v)"
proof -
  have "millis32 300000000000 = 300000" "millis32 30000000000 = 30000"
    by (simp_all add: millis32_def wrap32_def tdiv_def)
  then show ?thesis
    unfolding sound_parts_def NewBuilder_def
    by (intro impI conjI exI [of _ 300000000000] exI [of _ 30000000000]) simp_all
qed

lemma build_steps_sound: "sound_parts (fold (build_step sha parse) steps (NewBuilder v))"
  by (rule fold_invariant [where Q = "\<lambda>_. True" and P = sound_parts])
    (simp_all add: new_builder_sound build_step_sound)

lemma Builder_Build_Inr:
  "Builder_Build b = Inr snap \<longleftrightarrow> b_errs b = [] \<and> snap = b_snap b \<and> (\<exists>view. BuildWithEngine snap = Inr view)"
  by (auto simp: Builder_Build_def split: sum.splits)

text \<open>C23: whatever the calls, a snapshot the builder returns is one the data plane can build a view of, and
  each of its tools carries the digest of its own canonical form, the token estimate of that form and the
  idempotency mark of its effect class, under a name whose first dot separates its own namespace's prefix from its own name.\<close>

theorem built_snapshot_is_derived:
  assumes "Builder_Build (fold (build_step sha parse) steps (NewBuilder version)) = Inr snap"
    and "def \<in> set (sn_Tools snap)"
  shows "(\<exists>view. BuildWithEngine snap = Inr view) \<and>
    (\<exists>i ins outs form. CanonicalForm (tool_definition i ins outs) = Inr form \<and> td_Name def = in_Name i \<and>
       td_Digest def = DigestBytes sha form \<and> td_TokenEstimate def = wrap32 (int (EstimateTokens form))) \<and>
    td_RequiresIdempotencyKey def = (td_EffectClass def = EFFECT_WRITE \<or> td_EffectClass def = EFFECT_DESTRUCTIVE) \<and>
    (\<exists>ns\<in>set (sn_Namespaces snap). ns_Id ns = td_NamespaceId def \<and>
       cut ''.'' (td_QualifiedName def) = Some (ns_Prefix ns, td_Name def))"
proof -
  let ?b = "fold (build_step sha parse) steps (NewBuilder version)"
  from assms(1) obtain view where b: "b_errs ?b = []" "snap = b_snap ?b" "BuildWithEngine snap = Inr view"
    by (auto simp: Builder_Build_Inr)
  have d: "derived sha def" using build_steps_derived assms(2) b(2) by blast
  then obtain i ins outs form where f: "CanonicalForm (tool_definition i ins outs) = Inr form"
      "td_Digest def = DigestBytes sha form" "td_Name def = in_Name i"
      "td_TokenEstimate def = wrap32 (int (EstimateTokens form))"
      "td_RequiresIdempotencyKey def = needs_idempotency_key (td_EffectClass def)"
    by (auto simp: derived_def)
  note ix = build_indexed [OF b(3)]
  then have "resolve_tool view def = Inr (tool_for view def)" and n: "v_namespaces view = index ns_Id (sn_Namespaces snap)"
      and dn: "distinct (map ns_Id (sn_Namespaces snap))"
    using assms(2) unfolding indexed_view_def by blast+
  then have ns: "map_of (index ns_Id (sn_Namespaces snap)) (td_NamespaceId def) = Some (tool_Namespace (tool_for view def))"
    and q: "td_QualifiedName def = ns_Prefix (tool_Namespace (tool_for view def)) @ ''.'' @ td_Name def"
    by (auto simp: resolve_tool_Inr)
  from ns dn have m: "tool_Namespace (tool_for view def) \<in> set (sn_Namespaces snap)"
      "ns_Id (tool_Namespace (tool_for view def)) = td_NamespaceId def"
    by (simp_all add: map_of_index)
  have "CHR ''.'' \<notin> set (ns_Prefix (tool_Namespace (tool_for view def)))"
    using build_steps_sound [of sha parse steps version] b(1,2) m(1) by (auto simp: sound_parts_def)
  then have "cut ''.'' (td_QualifiedName def) = Some (ns_Prefix (tool_Namespace (tool_for view def)), td_Name def)"
    unfolding q by (simp add: cut_char_Some)
  moreover have "\<exists>i ins outs form. CanonicalForm (tool_definition i ins outs) = Inr form \<and> td_Name def = in_Name i \<and>
       td_Digest def = DigestBytes sha form \<and> td_TokenEstimate def = wrap32 (int (EstimateTokens form))"
    using f(1,2,3,4) by (intro exI conjI)
  ultimately show ?thesis using b(3) f(5) m by (auto simp: needs_idempotency_key_def)
qed

subsection \<open>The token estimate\<close>

lemma EstimateTokens_bounds: "length s \<le> 4 * EstimateTokens s \<and> EstimateTokens s \<le> length s"
proof -
  obtain p where "length s = length (filter structural_char s) + p"
    using length_filter_le [of structural_char s] le_Suc_ex by blast
  moreover have "(p + 3) div 4 \<le> p" "p \<le> 4 * ((p + 3) div 4)" by presburger+
  ultimately show ?thesis by (auto simp: EstimateTokens_def Let_def)
qed

subsection \<open>A concrete build\<close>

definition wit_steps :: "BuildStep list" where
  "wit_steps = [SetDefaults 60000000000 0,
     PutNamespace \<lparr>ns_Id = ''n1'', ns_Name = ''crm'', ns_Prefix = ''crm''\<rparr>,
     PutTenant \<lparr>t_Id = ''t1'', t_Slug = ''acme'', t_Name = [], t_Status = []\<rparr>,
     PutToolset \<lparr>ts_Id = ''k1'', ts_Name = ''core'', ts_Priority = 1, ts_TokenBudget = 0, ts_TtlMs = 0\<rparr>,
     PutServer \<lparr>srv_Id = ''s1'', srv_Name = ''crm'', srv_NamespaceId = ''n1'', srv_ServingMode = SERVING_STRICT,
       srv_Bindings = [], srv_Health = None, srv_CanaryTool = [], srv_TokenExchange = None\<rparr>,
     PutTool \<lparr>in_ServerID = ''s1'', in_NamespaceID = ''n1'', in_TenantID = ''t1'', in_ToolsetID = ''k1'', in_Prefix = ''crm'',
       in_Name = ''a'', in_Title = [], in_Description = [], in_InputSchema = ''{}'', in_OutputSchema = [],
       in_Annotations = [], in_EffectClass = EFFECT_WRITE\<rparr>]"

definition wit_entry :: "int \<Rightarrow> ToolDefinition" where
  "wit_entry n = \<lparr>td_Digest = ''sha256:'', td_SemanticDigest = ''sha256:'', td_ServerId = ''s1'', td_NamespaceId = ''n1'',
     td_TenantId = ''t1'', td_ToolsetId = ''k1'', td_Name = ''a'', td_QualifiedName = ''crm.a'', td_Title = [],
     td_Description = [], td_InputSchemaJson = ''{}'', td_OutputSchemaJson = [], td_AnnotationsJson = [],
     td_EffectClass = EFFECT_WRITE, td_TokenEstimate = n, td_RequiresIdempotencyKey = True\<rparr>"

definition wit_form :: json where
  "wit_form = JObj [(''name'', JStr ''a''), (''inputSchema'', JObj [])]"

definition wit_cost :: int where
  "wit_cost = wrap32 (int (EstimateTokens (canon_write wit_form)))"

definition wit_input :: ToolInput where
  "wit_input = \<lparr>in_ServerID = ''s1'', in_NamespaceID = ''n1'', in_TenantID = ''t1'', in_ToolsetID = ''k1'', in_Prefix = ''crm'',
     in_Name = ''a'', in_Title = [], in_Description = [], in_InputSchema = ''{}'', in_OutputSchema = [],
     in_Annotations = [], in_EffectClass = EFFECT_WRITE\<rparr>"

definition wit_parts :: "ToolDefinition list \<Rightarrow> Snapshot" where
  "wit_parts tools = (b_snap (fold (build_step (\<lambda>b. []) (\<lambda>_. Some (JObj []))) (butlast wit_steps) (NewBuilder 3)))\<lparr>sn_Tools := tools\<rparr>"

lemma wit_parts_build: "is_ok (BuildWithEngine (wit_parts [wit_entry n]))"
  by code_simp

lemma wit_resolved: "ResolveSchema (JObj []) = Inr (JObj [])"
  by (rule resolve_schema_depth) (simp add: resolve_eval)

lemma wit_normalized: "normalized (tool_definition wit_input (Some (JObj [])) None) = Inr wit_form"
  by (simp add: tool_definition_def wit_input_def wit_resolved normalized_def schema_member_def wit_form_def)

lemma wit_tool_entry: "tool_entry (\<lambda>b. []) wit_input (Some (JObj [])) None = Inr (wit_entry wit_cost)"
  by (simp add: tool_entry_def Tool_Digest_def SemanticDigest_def CanonicalForm_def wit_normalized DigestBytes_def
      canonicalizeOrEmpty_def CanonicalizeSchema_def wit_resolved DigestPrefix_def hex_encode_def sortKeys_def)
    (simp add: wit_entry_def wit_cost_def wit_input_def needs_idempotency_key_def)

lemma wit_no_errors: "b_errs (fold (build_step (\<lambda>b. []) (\<lambda>_. Some (JObj []))) (butlast wit_steps) (NewBuilder 3)) = []"
  by code_simp

theorem built_snapshot_is_derived_witness:
  "\<exists>snap def. Builder_Build (fold (build_step (\<lambda>b. []) (\<lambda>_. Some (JObj []))) wit_steps (NewBuilder 3)) = Inr snap \<and>
     def \<in> set (sn_Tools snap) \<and> td_RequiresIdempotencyKey def"
proof -
  let ?sha = "\<lambda>b :: string. [] :: string" and ?parse = "\<lambda>_ :: string. Some (JObj [])"
  let ?b = "fold (build_step ?sha ?parse) (butlast wit_steps) (NewBuilder 3)"
  have s: "wit_steps = butlast wit_steps @ [PutTool wit_input]"
    by (simp add: wit_steps_def wit_input_def)
  have e: "sn_Tools (b_snap ?b) = []" by code_simp
  have t: "fold (build_step ?sha ?parse) wit_steps (NewBuilder 3) = change (\<lambda>s. s\<lparr>sn_Tools := sn_Tools s @ [wit_entry wit_cost]\<rparr>) ?b"
    by (subst s) (simp add: AddTool_def read_schema_def wit_tool_entry, simp add: wit_input_def)
  have p: "(b_snap ?b)\<lparr>sn_Tools := [wit_entry wit_cost]\<rparr> = wit_parts [wit_entry wit_cost]"
    by (simp add: wit_parts_def)
  obtain view where v: "BuildWithEngine (wit_parts [wit_entry wit_cost]) = Inr view"
    using wit_parts_build [of wit_cost] by (auto simp: is_ok_iff)
  have b: "Builder_Build (fold (build_step ?sha ?parse) wit_steps (NewBuilder 3)) = Inr (wit_parts [wit_entry wit_cost])"
    unfolding t Builder_Build_Inr using wit_no_errors e p v by simp
  have m: "wit_entry wit_cost \<in> set (sn_Tools (wit_parts [wit_entry wit_cost]))" by (simp add: wit_parts_def)
  have "td_EffectClass (wit_entry wit_cost) = EFFECT_WRITE" by (simp add: wit_entry_def)
  then have "td_RequiresIdempotencyKey (wit_entry wit_cost)"
    unfolding built_snapshot_is_derived [OF b m, THEN conjunct2, THEN conjunct2, THEN conjunct1] by simp
  with b m show ?thesis by (intro exI conjI)
qed

end
