(* ===== verification/Snapshotter.thy ===== *)
theory Snapshotter
  imports MCP_Adapter Registry_Spec Snapshot_Builder
begin

section \<open>Composing a snapshot (internal/controlplane/snapshotter/snapshotter.go)\<close>

text \<open>
  The registry document, the tenants of the database and what the backends publish, resolved into a signed snapshot.
  One probe of a binding's primary is the parameter \<open>op_Probe\<close>; the probes run concurrently, share nothing, and their
  results are keyed by server and tenant, so they are taken in the order of the document. The messages hold the
  fields the data plane reads, so that fields only carried along for display, the registry digest among them, are left
  out; warnings are values in the order they arise, not sorted texts.
\<close>

datatype SnapshotterError =
    SpecRequired | SignerRequired | Undiscovered "(string \<times> string \<times> string) list"
  | DuplicateSlug string | ServerModeUnknown string EnumError | BindingNotCarried string string
  | DefaultEffectUnknown string EnumError | ToolEffectUnknown string string EnumError
  | QualifiedNameTooLong string nat | PublishedByBoth string string string string
  | PolicyUnknown string nat EnumError | PluginUnknown string EnumError
  | ToolsetUnknownNamespace string string | NamespaceClaimedTwice string string string
  | ToolNamedTwice string string string
  | NotBuilt BuilderError | NotSigned KeyError

datatype Warning =
    BackendAbsent string string string | ToolInNoToolset string | NegotiatedDown string string string

record DiscoveryReport =
  dr_negotiated :: string
  dr_observedAt :: int
  dr_endpoint :: string
  dr_tools :: "CanonicalDef list"

record BackendReport =
  br_ServerID :: string
  br_ServerName :: string
  br_TenantSlug :: string
  br_Endpoint :: string
  br_NegotiatedVersion :: string
  br_ToolCount :: nat
  br_Admitted :: "string list"
  br_Excluded :: "string list"
  br_ObservedAt :: int

record SnapOptions =
  op_Spec :: "Spec option"
  op_Signer :: "Signer option"
  op_DiscoverTimeout :: int
  op_Concurrency :: int
  op_Tenants :: "Tenant list"
  op_Version :: int
  op_AllowUnreachable :: bool

text \<open>What lies outside: the probe of an endpoint with a time-out, the codecs, the hash, the signature, the clock
  (in seconds) and the identifier generator.\<close>

record SnapEnv =
  se_Probe :: "string \<Rightarrow> int \<Rightarrow> AdapterError + DiscoveryResult"
  se_marshal :: "json \<Rightarrow> string option"
  se_unmarshal :: "string \<Rightarrow> json option"
  se_parse :: "string \<Rightarrow> json option"
  se_sha256 :: "string \<Rightarrow> string"
  se_ed_sign :: "string \<Rightarrow> string \<Rightarrow> string"
  se_encode :: "Snapshot \<Rightarrow> string option"
  se_now :: int
  se_id :: string

record BuildResult =
  res_Snapshot :: Snapshot
  res_Signed :: Signed
  res_Discovered :: "BackendReport list"
  res_Warnings :: "Warning list"

subsection \<open>Discovery\<close>

text \<open>One probe; the first tool that cannot be converted fails it.\<close>

definition discover_binding :: "SnapEnv \<Rightarrow> int \<Rightarrow> BindingSpec \<Rightarrow> AdapterError + DiscoveryReport" where
  "discover_binding env timeout b =
     bind_result (se_Probe env (bs_Primary b) timeout) (\<lambda>d.
     bind_result (fold_result (\<lambda>t defs. bind_result (ToCanonical (se_marshal env) (se_unmarshal env) (Some t))
         (\<lambda>def. Inr (defs @ [def]))) (di_Tools d) []) (\<lambda>defs.
       Inr \<lparr>dr_negotiated = di_NegotiatedVersion d, dr_observedAt = di_ObservedAt d, dr_endpoint = bs_Primary b,
            dr_tools = defs\<rparr>))"

type_synonym bindingKey = "string \<times> string"

definition discovery_jobs :: "Spec \<Rightarrow> (ServerSpec \<times> BindingSpec) list" where
  "discovery_jobs spec = concat (map (\<lambda>srv. map (\<lambda>b. (srv, b)) (ss_Bindings srv)) (sp_Servers spec))"

definition record_outcome ::
  "SnapEnv \<Rightarrow> int \<Rightarrow> ServerSpec \<times> BindingSpec \<Rightarrow>
   (bindingKey \<rightharpoonup> DiscoveryReport) \<times> (string \<times> string \<times> string) list \<Rightarrow>
   (bindingKey \<rightharpoonup> DiscoveryReport) \<times> (string \<times> string \<times> string) list" where
  "record_outcome env timeout = (\<lambda>(srv, b) (reports, failures).
     case discover_binding env timeout b of
       Inl _ \<Rightarrow> (reports, failures @ [(ss_ID srv, bs_Tenant b, bs_Primary b)])
     | Inr r \<Rightarrow> (reports((ss_ID srv, bs_Tenant b) \<mapsto> r), failures))"

definition discoverAll ::
  "SnapEnv \<Rightarrow> Spec \<Rightarrow> int \<Rightarrow> bool \<Rightarrow> SnapshotterError + (bindingKey \<rightharpoonup> DiscoveryReport)" where
  "discoverAll env spec timeout allowUnreachable =
     (let (reports, failures) = fold (record_outcome env timeout) (discovery_jobs spec) (Map.empty, [])
      in if failures \<noteq> [] \<and> \<not> allowUnreachable then Inl (Undiscovered failures) else Inr reports)"

subsection \<open>Conversions\<close>

definition rawSchema :: "(json \<Rightarrow> string option) \<Rightarrow> SchemaValue \<Rightarrow> string" where
  "rawSchema marshal v =
     (case v of
        NoSchema \<Rightarrow> []
      | RawSchema s \<Rightarrow> s
      | TextSchema s \<Rightarrow> s
      | OtherSchema j \<Rightarrow> (case marshal j of None \<Rightarrow> [] | Some raw \<Rightarrow> if raw = ''null'' then [] else raw))"

definition token_exchange :: "TokenExchangeSpec option \<Rightarrow> TokenExchange option" where
  "token_exchange x = map_option (\<lambda>x.
     \<lparr>te_TokenEndpoint = xs_TokenEndpoint x, te_Audience = xs_Audience x, te_Scopes = xs_Scopes x,
      te_ClientCredentialRef = xs_ClientCredentialRef x, te_Header = xs_Header x,
      te_ClaimHeaders = xs_ClaimHeaders x\<rparr>) x"

definition health_policy :: "HealthSpec option \<Rightarrow> HealthPolicy option" where
  "health_policy h = map_option (\<lambda>h.
     \<lparr>hp_ProbeIntervalMs = millis32 (hs_ProbeInterval h), hp_ProbeTimeoutMs = millis32 (hs_ProbeTimeout h),
      hp_GraceWindowMs = millis32 (hs_GraceWindow h), hp_EjectAfterFailures = wrap32 (hs_EjectAfterFailures h)\<rparr>) h"

definition collect :: "('a \<Rightarrow> 'e + 'b) \<Rightarrow> 'a list \<Rightarrow> 'e + 'b list" where
  "collect f xs = fold_result (\<lambda>x ys. bind_result (f x) (\<lambda>y. Inr (ys @ [y]))) xs []"

definition named_error :: "('e \<Rightarrow> 'f) \<Rightarrow> 'e + 'a \<Rightarrow> 'f + 'a" where
  "named_error f r = (case r of Inl e \<Rightarrow> Inl (f e) | Inr x \<Rightarrow> Inr x)"

definition failure_entry ::
  "string \<Rightarrow> string \<times> string \<Rightarrow> (string \<times> FailureMode) list \<Rightarrow> SnapshotterError + (string \<times> FailureMode) list" where
  "failure_entry p = (\<lambda>(ec, mode) m.
     bind_result (named_error (PluginUnknown p) (ParseEffectClass ec)) (\<lambda>effect.
     bind_result (named_error (PluginUnknown p) (ParseFailureMode mode)) (\<lambda>parsed.
       Inr (AList.update (EffectClass_String effect) parsed m))))"

definition pluginManifest :: "PluginSpec \<Rightarrow> SnapshotterError + PluginManifest" where
  "pluginManifest p =
     (let err = PluginUnknown (pls_ID p) in
      bind_result (named_error err (ParseRuntime (pls_Runtime p))) (\<lambda>runtime.
      bind_result (named_error err (ParseRollout (pls_Rollout p))) (\<lambda>rollout.
      bind_result (named_error err (collect ParseHook (pls_Hooks p))) (\<lambda>hs.
      bind_result (fold_result (failure_entry (pls_ID p)) (pls_FailurePolicy p) []) (\<lambda>failurePolicy.
        Inr \<lparr>pm_Id = pls_ID p, pm_Name = pls_Name p, pm_Hooks = hs, pm_Priority = pls_Priority p,
             pm_BudgetMs = millis32 (pls_Budget p), pm_Reads = pls_Reads p, pm_Writes = pls_Writes p,
             pm_FailurePolicy = failurePolicy, pm_Rollout = rollout, pm_CanaryPercent = pls_CanaryPercent p,
             pm_ToolsetIds = pls_Toolsets p, pm_Runtime = runtime, pm_ArtifactRef = pls_ArtifactRef p,
             pm_ArtifactDigest = pls_ArtifactDigest p,
             pm_ConfigJson = (if pls_Config p = [] then [] else canon_write (JObj (pls_Config p)))\<rparr>)))))"

subsection \<open>Toolsets\<close>

record toolsetIndex =
  ti_byTool :: "string \<rightharpoonup> string"
  ti_byNamespace :: "string \<rightharpoonup> string"
  ti_excluded :: "string \<Rightarrow> bool"

definition For :: "toolsetIndex \<Rightarrow> string \<Rightarrow> string \<Rightarrow> string option" where
  "For i qualifiedName namespaceID =
     (if ti_excluded i qualifiedName then None
      else case ti_byTool i qualifiedName of
          Some t \<Rightarrow> Some t
        | None \<Rightarrow> ti_byNamespace i namespaceID)"

definition claim_namespace ::
  "(string \<rightharpoonup> NamespaceSpec) \<Rightarrow> string \<Rightarrow> string \<Rightarrow> toolsetIndex \<Rightarrow> SnapshotterError + toolsetIndex" where
  "claim_namespace namespaces t nsID i =
     (if namespaces nsID = None then Inl (ToolsetUnknownNamespace t nsID)
      else case ti_byNamespace i nsID of
          Some prior \<Rightarrow> Inl (NamespaceClaimedTwice nsID prior t)
        | None \<Rightarrow> Inr (i\<lparr>ti_byNamespace := (ti_byNamespace i)(nsID \<mapsto> t)\<rparr>))"

definition claim_tool :: "string \<Rightarrow> string \<Rightarrow> toolsetIndex \<Rightarrow> SnapshotterError + toolsetIndex" where
  "claim_tool t qualified i =
     (case ti_byTool i qualified of
        Some prior \<Rightarrow> Inl (ToolNamedTwice qualified prior t)
      | None \<Rightarrow> Inr (i\<lparr>ti_byTool := (ti_byTool i)(qualified \<mapsto> t)\<rparr>))"

definition index_toolset ::
  "(string \<rightharpoonup> NamespaceSpec) \<Rightarrow> ToolsetSpec \<Rightarrow> toolsetIndex \<Rightarrow> SnapshotterError + toolsetIndex" where
  "index_toolset namespaces ts i =
     bind_result (fold_result (claim_namespace namespaces (tss_ID ts)) (tss_Namespaces ts) i) (\<lambda>i.
     bind_result (fold_result (claim_tool (tss_ID ts)) (tss_Tools ts) i) (\<lambda>i.
       Inr (i\<lparr>ti_excluded := (\<lambda>q. ti_excluded i q \<or> q \<in> set (tss_Exclude ts))\<rparr>)))"

definition resolveToolsets ::
  "ToolsetSpec list \<Rightarrow> (string \<rightharpoonup> NamespaceSpec) \<Rightarrow> SnapshotterError + toolsetIndex" where
  "resolveToolsets tss namespaces =
     fold_result (index_toolset namespaces) tss
       \<lparr>ti_byTool = Map.empty, ti_byNamespace = Map.empty, ti_excluded = (\<lambda>_. False)\<rparr>"

subsection \<open>Admission\<close>

record Plan =
  pn_tenants :: "string \<rightharpoonup> Tenant"
  pn_namespaces :: "string \<rightharpoonup> NamespaceSpec"
  pn_toolsets :: toolsetIndex
  pn_reports :: "bindingKey \<rightharpoonup> DiscoveryReport"

record BuildState =
  bt_builder :: Builder
  bt_claimed :: "string \<times> string \<rightharpoonup> string"
  bt_warnings :: "Warning list"
  bt_discovered :: "BackendReport list"

definition warn :: "Warning \<Rightarrow> BuildState \<Rightarrow> BuildState" where
  "warn w s = s\<lparr>bt_warnings := bt_warnings s @ [w]\<rparr>"

text \<open>The entry of a Go map for a missing key is the zero value.\<close>

definition prefix_for :: "Plan \<Rightarrow> ServerSpec \<Rightarrow> string" where
  "prefix_for plan srv = (case pn_namespaces plan (ss_Namespace srv) of None \<Rightarrow> [] | Some ns \<Rightarrow> nsp_Prefix ns)"

definition qualify :: "Plan \<Rightarrow> ServerSpec \<Rightarrow> CanonicalDef \<Rightarrow> string" where
  "qualify plan srv def = prefix_for plan srv @ ''.'' @ cf_Name def"

definition tool_effect :: "ServerSpec \<Rightarrow> EffectClass \<Rightarrow> CanonicalDef \<Rightarrow> SnapshotterError + EffectClass" where
  "tool_effect srv defaultEffect def =
     (case map_of (ss_Tools srv) (cf_Name def) of
        None \<Rightarrow> Inr defaultEffect
      | Some override \<Rightarrow>
          if tsp_EffectClass override \<noteq> []
          then named_error (ToolEffectUnknown (ss_ID srv) (cf_Name def)) (ParseEffectClass (tsp_EffectClass override))
          else Inr defaultEffect)"

definition dropped :: "ServerSpec \<Rightarrow> CanonicalDef \<Rightarrow> bool" where
  "dropped srv def =
     (case map_of (ss_Tools srv) (cf_Name def) of None \<Rightarrow> False | Some override \<Rightarrow> tsp_Exclude override)"

definition tool_input ::
  "SnapEnv \<Rightarrow> Plan \<Rightarrow> ServerSpec \<Rightarrow> Tenant \<Rightarrow> string \<Rightarrow> EffectClass \<Rightarrow> CanonicalDef \<Rightarrow> ToolInput" where
  "tool_input env plan srv tenant toolset effect def =
     \<lparr>in_ServerID = ss_ID srv, in_NamespaceID = ss_Namespace srv, in_TenantID = t_Id tenant, in_ToolsetID = toolset,
      in_Prefix = prefix_for plan srv, in_Name = cf_Name def, in_Title = cf_Title def,
      in_Description = cf_Description def, in_InputSchema = rawSchema (se_marshal env) (cf_InputSchema def),
      in_OutputSchema = rawSchema (se_marshal env) (cf_OutputSchema def), in_Annotations = cf_Annotations def,
      in_EffectClass = effect\<rparr>"

text \<open>The body of the loop over a binding's tools.\<close>

definition admit_tool ::
  "SnapEnv \<Rightarrow> Plan \<Rightarrow> ServerSpec \<Rightarrow> string \<Rightarrow> Tenant \<Rightarrow> EffectClass \<Rightarrow> CanonicalDef \<Rightarrow> BuildState \<times> BackendReport \<Rightarrow>
   SnapshotterError + BuildState \<times> BackendReport" where
  "admit_tool env plan srv slug tenant defaultEffect def = (\<lambda>(s, summary).
     let excluded = summary\<lparr>br_Excluded := br_Excluded summary @ [cf_Name def]\<rparr>; qualified = qualify plan srv def in
     if dropped srv def then Inr (s, excluded)
     else bind_result (tool_effect srv defaultEffect def) (\<lambda>effect.
       if length qualified > MaxQualifiedNameLength then Inl (QualifiedNameTooLong qualified (length qualified))
       else case bt_claimed s (slug, qualified) of
           Some prior \<Rightarrow> Inl (PublishedByBoth qualified slug prior (ss_Name srv))
         | None \<Rightarrow>
             (case For (pn_toolsets plan) qualified (ss_Namespace srv) of
                None \<Rightarrow> Inr (warn (ToolInNoToolset qualified) s, excluded)
              | Some toolset \<Rightarrow>
                  Inr (s\<lparr>bt_claimed := (bt_claimed s)((slug, qualified) \<mapsto> ss_Name srv),
                         bt_builder := AddTool (se_sha256 env) (se_parse env)
                           (tool_input env plan srv tenant toolset effect def) (bt_builder s)\<rparr>,
                       summary\<lparr>br_Admitted := br_Admitted summary @ [qualified]\<rparr>))))"

text \<open>\<open>sort.Slice\<close> by name; tools of one name cannot both be admitted.\<close>

definition by_name :: "CanonicalDef list \<Rightarrow> CanonicalDef list" where
  "by_name = sort_key cf_Name"

definition admit_binding ::
  "SnapEnv \<Rightarrow> Plan \<Rightarrow> ServerSpec \<Rightarrow> EffectClass \<Rightarrow> BindingSpec \<Rightarrow> BuildState \<Rightarrow> SnapshotterError + BuildState" where
  "admit_binding env plan srv defaultEffect b s =
     (case (pn_tenants plan (bs_Tenant b), pn_reports plan (ss_ID srv, bs_Tenant b)) of
        (Some tenant, Some seen) \<Rightarrow>
          bind_result (fold_result (admit_tool env plan srv (bs_Tenant b) tenant defaultEffect) (by_name (dr_tools seen))
            (s, \<lparr>br_ServerID = ss_ID srv, br_ServerName = ss_Name srv, br_TenantSlug = bs_Tenant b,
                 br_Endpoint = bs_Primary b, br_NegotiatedVersion = dr_negotiated seen,
                 br_ToolCount = length (dr_tools seen), br_Admitted = [], br_Excluded = [],
                 br_ObservedAt = dr_observedAt seen\<rparr>)) (\<lambda>(s, summary).
            let s = (if dr_negotiated seen \<noteq> [] \<and> dr_negotiated seen < ''2026-07-28''
                     then warn (NegotiatedDown (ss_Name srv) (dr_negotiated seen) (bs_Tenant b)) s else s)
            in Inr (s\<lparr>bt_discovered := bt_discovered s @ [summary]\<rparr>))
      | (_, None) \<Rightarrow> Inr (warn (BackendAbsent (ss_Name srv) (bs_Tenant b) (bs_Primary b)) s)
      | (None, _) \<Rightarrow> Inl (BindingNotCarried (ss_ID srv) (bs_Tenant b)))"

definition resolve_binding :: "Plan \<Rightarrow> ServerSpec \<Rightarrow> BindingSpec \<Rightarrow> SnapshotterError + Binding" where
  "resolve_binding plan srv b =
     (case pn_tenants plan (bs_Tenant b) of
        None \<Rightarrow> Inl (BindingNotCarried (ss_ID srv) (bs_Tenant b))
      | Some tenant \<Rightarrow> Inr \<lparr>bd_TenantId = t_Id tenant, bd_Primary = bs_Primary b, bd_Replicas = bs_Replicas b\<rparr>)"

definition admit_server ::
  "SnapEnv \<Rightarrow> Plan \<Rightarrow> ServerSpec \<Rightarrow> BuildState \<Rightarrow> SnapshotterError + BuildState" where
  "admit_server env plan srv s =
     bind_result (named_error (ServerModeUnknown (ss_ID srv)) (ParseServingMode (ss_ServingMode srv))) (\<lambda>mode.
     bind_result (collect (resolve_binding plan srv) (ss_Bindings srv)) (\<lambda>bindings.
     let s = s\<lparr>bt_builder := AddServer
           \<lparr>srv_Id = ss_ID srv, srv_Name = ss_Name srv, srv_NamespaceId = ss_Namespace srv, srv_ServingMode = mode,
            srv_Bindings = bindings, srv_Health = health_policy (ss_Health srv), srv_CanaryTool = ss_CanaryTool srv,
            srv_TokenExchange = token_exchange (ss_TokenExchange srv)\<rparr> (bt_builder s)\<rparr> in
     bind_result (named_error (DefaultEffectUnknown (ss_ID srv)) (ParseEffectClass (ss_DefaultEffectClass srv)))
       (\<lambda>defaultEffect. fold_result (admit_binding env plan srv defaultEffect) (ss_Bindings srv) s)))"

subsection \<open>The rest of the document\<close>

definition carry_tenant ::
  "Tenant \<Rightarrow> (string \<rightharpoonup> Tenant) \<times> Builder \<Rightarrow> SnapshotterError + (string \<rightharpoonup> Tenant) \<times> Builder" where
  "carry_tenant t = (\<lambda>(m, b).
     if m (t_Slug t) \<noteq> None then Inl (DuplicateSlug (t_Slug t)) else Inr (m(t_Slug t \<mapsto> t), AddTenant t b))"

definition namespace_message :: "NamespaceSpec \<Rightarrow> Namespace" where
  "namespace_message ns = \<lparr>ns_Id = nsp_ID ns, ns_Name = nsp_Name ns, ns_Prefix = nsp_Prefix ns\<rparr>"

definition toolset_message :: "ToolsetSpec \<Rightarrow> Toolset" where
  "toolset_message ts =
     \<lparr>ts_Id = tss_ID ts, ts_Name = tss_Name ts, ts_Priority = tss_Priority ts, ts_TokenBudget = tss_TokenBudget ts,
      ts_TtlMs = millis32 (tss_TTL ts)\<rparr>"

text \<open>A rule is checked even where its result is not read by the data plane.\<close>

definition policy_rule :: "string \<Rightarrow> nat \<times> PolicyRuleSpec \<Rightarrow> SnapshotterError + PolicyRule" where
  "policy_rule p = (\<lambda>(k, rule).
     bind_result (named_error (PolicyUnknown p k) (ParseDecision (prs_Decision rule))) (\<lambda>decision.
     bind_result (named_error (PolicyUnknown p k) (collect ParseEffectClass (prs_EffectClasses rule))) (\<lambda>effects.
       Inr \<lparr>pr_MaxTtlMs = millis32 (prs_MaxTTL rule)\<rparr>)))"

definition policy_message :: "PolicySpec \<Rightarrow> SnapshotterError + Policy" where
  "policy_message p =
     bind_result (collect (policy_rule (ps_ID p)) (enumerate 0 (ps_Rules p))) (\<lambda>rules.
       Inr \<lparr>pol_Id = ps_ID p, pol_Priority = ps_Priority p, pol_Rules = rules\<rparr>)"

definition put_policy :: "PolicySpec \<Rightarrow> Builder \<Rightarrow> SnapshotterError + Builder" where
  "put_policy p b = bind_result (policy_message p) (\<lambda>m. Inr (AddPolicy m b))"

definition put_plugin :: "PluginSpec \<Rightarrow> Builder \<Rightarrow> SnapshotterError + Builder" where
  "put_plugin p b = bind_result (pluginManifest p) (\<lambda>m. Inr (AddPlugin m b))"

subsection \<open>The build\<close>

text \<open>The builder when the servers are admitted: an identifier, the catalog's lifetimes, tenants, namespaces.\<close>

definition prepare ::
  "SnapEnv \<Rightarrow> SnapOptions \<Rightarrow> Spec \<Rightarrow> int \<Rightarrow> SnapshotterError + (string \<rightharpoonup> Tenant) \<times> Builder" where
  "prepare env opts spec version =
     bind_result
       (fold_result carry_tenant (op_Tenants opts)
         (Map.empty, WithCatalogDefaults (cs_TTL (sp_Catalog spec)) (cs_DegradedTTL (sp_Catalog spec))
            (WithID (se_id env) (NewBuilder version))))
       (\<lambda>(tenants, b). Inr (tenants, fold AddNamespace (map namespace_message (sp_Namespaces spec)) b))"

definition namespaces_by_id :: "Spec \<Rightarrow> string \<rightharpoonup> NamespaceSpec" where
  "namespaces_by_id spec = fold (\<lambda>ns m. m(nsp_ID ns \<mapsto> ns)) (sp_Namespaces spec) Map.empty"

definition assemble ::
  "SnapEnv \<Rightarrow> SnapOptions \<Rightarrow> Spec \<Rightarrow> int \<Rightarrow> (bindingKey \<rightharpoonup> DiscoveryReport) \<Rightarrow> SnapshotterError + BuildState" where
  "assemble env opts spec version reports =
     bind_result (prepare env opts spec version) (\<lambda>(tenants, b).
     bind_result (resolveToolsets (sp_Toolsets spec) (namespaces_by_id spec)) (\<lambda>toolsets.
     bind_result
       (fold_result (admit_server env
            \<lparr>pn_tenants = tenants, pn_namespaces = namespaces_by_id spec, pn_toolsets = toolsets, pn_reports = reports\<rparr>)
         (sp_Servers spec)
         \<lparr>bt_builder = b, bt_claimed = Map.empty, bt_warnings = [], bt_discovered = []\<rparr>) (\<lambda>s.
     let b = fold AddToolset (map toolset_message (sp_Toolsets spec)) (bt_builder s) in
     bind_result (fold_result put_policy (sp_Policies spec) b) (\<lambda>b.
     bind_result (fold_result put_plugin (sp_Plugins spec) b) (\<lambda>b.
       Inr (s\<lparr>bt_builder := b\<rparr>))))))"

definition Snapshotter_Build :: "SnapEnv \<Rightarrow> SnapOptions \<Rightarrow> SnapshotterError + BuildResult" where
  "Snapshotter_Build env opts =
     (case op_Spec opts of
        None \<Rightarrow> Inl SpecRequired
      | Some spec \<Rightarrow>
     (case op_Signer opts of
        None \<Rightarrow> Inl SignerRequired
      | Some signer \<Rightarrow>
          let timeout = (if op_DiscoverTimeout opts \<le> 0 then 15000000000 else op_DiscoverTimeout opts);
              version = (if op_Version opts = 0 then se_now env else op_Version opts)
          in bind_result (discoverAll env spec timeout (op_AllowUnreachable opts)) (\<lambda>reports.
             bind_result (assemble env opts spec version reports) (\<lambda>s.
             bind_result (named_error NotBuilt (Builder_Build (bt_builder s))) (\<lambda>snap.
             bind_result (named_error NotSigned (Sign (se_ed_sign env) (se_encode env) signer snap)) (\<lambda>signed.
               Inr \<lparr>res_Snapshot = snap, res_Signed = signed, res_Discovered = bt_discovered s,
                    res_Warnings = bt_warnings s\<rparr>))))))"

end
