(* ===== verification/Registry_Props.thy ===== *)
theory Registry_Props
  imports Registry_Spec Authz_Scope
begin

section \<open>What a valid document is\<close>

text \<open>
  The reference: a document is well formed when its identifiers are present and different, its references resolve, its
  names and numbers are in range and its enumerations are known. Validation reports no problem exactly then.
\<close>

definition known :: "('e + 'a) \<Rightarrow> bool" where
  "known r \<longleftrightarrow> (\<exists>x. r = Inr x)"

definition prefix_ok :: "string \<Rightarrow> bool" where
  "prefix_ok p \<longleftrightarrow> p \<noteq> [] \<and> length p \<le> 12 \<and> list_all slug_char p"

definition toolset_name_ok :: "string \<Rightarrow> bool" where
  "toolset_name_ok n \<longleftrightarrow> n \<noteq> [] \<and> length n \<le> 63 \<and> list_all slug_char n"

definition endpoint_ok :: "(string \<Rightarrow> (string \<times> string) option) \<Rightarrow> string \<Rightarrow> bool" where
  "endpoint_ok url e \<longleftrightarrow> e \<noteq> [] \<and> (\<exists>scheme host. url e = Some (scheme, host) \<and> scheme \<in> {''http'', ''https''} \<and> host \<noteq> [])"

definition namespaces_ok :: "NamespaceSpec list \<Rightarrow> bool" where
  "namespaces_ok nss \<longleftrightarrow>
     (\<forall>ns\<in>set nss. nsp_ID ns \<noteq> [] \<and> prefix_ok (nsp_Prefix ns)) \<and>
     distinct (map nsp_ID nss) \<and> distinct (map nsp_Prefix nss)"

definition bindings_ok :: "(string \<Rightarrow> (string \<times> string) option) \<Rightarrow> BindingSpec list \<Rightarrow> bool" where
  "bindings_ok url bs \<longleftrightarrow>
     (\<forall>b\<in>set bs. bs_Tenant b \<noteq> [] \<and> bs_Primary b \<noteq> [] \<and> distinct (Endpoints b) \<and>
        (\<forall>e\<in>set (Endpoints b). endpoint_ok url e)) \<and>
     distinct (map bs_Tenant bs)"

definition server_ok :: "(string \<Rightarrow> (string \<times> string) option) \<Rightarrow> string set \<Rightarrow> ServerSpec \<Rightarrow> bool" where
  "server_ok url namespaces srv \<longleftrightarrow>
     ss_ID srv \<noteq> [] \<and> ss_Namespace srv \<in> namespaces \<and> ss_Bindings srv \<noteq> [] \<and> bindings_ok url (ss_Bindings srv) \<and>
     known (ParseServingMode (ss_ServingMode srv)) \<and>
     ss_DefaultEffectClass srv \<noteq> [] \<and> known (ParseEffectClass (ss_DefaultEffectClass srv)) \<and>
     (\<forall>(_, t)\<in>set (ss_Tools srv). tsp_Exclude t \<or> tsp_EffectClass t \<noteq> [] \<and> known (ParseEffectClass (tsp_EffectClass t))) \<and>
     (\<forall>x. ss_TokenExchange srv = Some x \<longrightarrow> xs_TokenEndpoint x \<noteq> [] \<and> xs_ClientCredentialRef x \<noteq> [])"

definition toolset_ok :: "int \<Rightarrow> string set \<Rightarrow> ToolsetSpec \<Rightarrow> bool" where
  "toolset_ok ttl namespaces ts \<longleftrightarrow>
     tss_ID ts \<noteq> [] \<and> toolset_name_ok (tss_Name ts) \<and> (tss_Namespaces ts \<noteq> [] \<or> tss_Tools ts \<noteq> []) \<and> tss_TTL ts \<le> ttl \<and>
     set (tss_Namespaces ts) \<subseteq> namespaces \<and> (\<forall>t\<in>set (tss_Tools ts @ tss_Exclude ts). CHR ''.'' \<in> set t)"

definition rule_ok :: "int \<Rightarrow> string set \<Rightarrow> PolicyRuleSpec \<Rightarrow> bool" where
  "rule_ok ttl namespaces r \<longleftrightarrow>
     known (ParseDecision (prs_Decision r)) \<and> (\<forall>e\<in>set (prs_EffectClasses r). known (ParseEffectClass e)) \<and>
     set (prs_Namespaces r) \<subseteq> namespaces \<and> prs_MaxTTL r \<le> ttl"

definition policy_ok :: "int \<Rightarrow> string set \<Rightarrow> PolicySpec \<Rightarrow> bool" where
  "policy_ok ttl namespaces p \<longleftrightarrow> ps_ID p \<noteq> [] \<and> ps_Rules p \<noteq> [] \<and> (\<forall>r\<in>set (ps_Rules p). rule_ok ttl namespaces r)"

definition plugin_ok :: "string set \<Rightarrow> PluginSpec \<Rightarrow> bool" where
  "plugin_ok toolsets p \<longleftrightarrow>
     pls_ID p \<noteq> [] \<and> known (ParseRuntime (pls_Runtime p)) \<and> pls_Hooks p \<noteq> [] \<and> (\<forall>h\<in>set (pls_Hooks p). known (ParseHook h)) \<and>
     known (ParseRollout (pls_Rollout p)) \<and>
     (if ParseRollout (pls_Rollout p) = Inr ROLLOUT_CANARY then 0 < pls_CanaryPercent p \<and> pls_CanaryPercent p \<le> 100
      else pls_CanaryPercent p = 0) \<and>
     (\<forall>(ec, mode)\<in>set (pls_FailurePolicy p). known (ParseEffectClass ec) \<and> known (ParseFailureMode mode)) \<and>
     (pls_Runtime p = ''grpc'' \<longrightarrow> pls_Endpoint p \<noteq> []) \<and> (pls_Runtime p = ''wasm'' \<longrightarrow> pls_ArtifactRef p \<noteq> []) \<and>
     (pls_ArtifactRef p \<noteq> [] \<longrightarrow> pls_ArtifactDigest p \<noteq> []) \<and> set (pls_Toolsets p) \<subseteq> toolsets"

definition spec_ok :: "(string \<Rightarrow> (string \<times> string) option) \<Rightarrow> Spec \<Rightarrow> bool" where
  "spec_ok url s \<longleftrightarrow>
     (let ttl = cs_TTL (sp_Catalog s); namespaces = set (map nsp_ID (sp_Namespaces s))
      in sp_Org s \<noteq> [] \<and> 0 < sp_Version s \<and> 0 < ttl \<and> cs_DegradedTTL (sp_Catalog s) \<le> ttl \<and>
         namespaces_ok (sp_Namespaces s) \<and>
         (\<forall>x\<in>set (sp_Servers s). server_ok url namespaces x) \<and> distinct (map ss_ID (sp_Servers s)) \<and>
         (\<forall>x\<in>set (sp_Toolsets s). toolset_ok ttl namespaces x) \<and> distinct (map tss_ID (sp_Toolsets s)) \<and>
         (\<forall>x\<in>set (sp_Policies s). policy_ok ttl namespaces x) \<and> distinct (map ps_ID (sp_Policies s)) \<and>
         (\<forall>x\<in>set (sp_Plugins s). plugin_ok (set (map tss_ID (sp_Toolsets s))) x) \<and> distinct (map pls_ID (sp_Plugins s)))"

subsection \<open>Each check on its own\<close>

named_theorems no_problem

lemma report_Nil [simp]: "report b p = [] \<longleftrightarrow> \<not> b"
  by (simp add: report_def)

lemma error_of_Nil [simp]: "error_of f r = [] \<longleftrightarrow> known r"
  by (cases r) (simp_all add: error_of_def known_def)

lemma known_simps [simp]: "known (Inr x)" "\<not> known (Inl e)"
  by (simp_all add: known_def)

lemma slug_no_dot: "list_all slug_char s \<Longrightarrow> CHR ''.'' \<notin> set s \<and> CHR ''/'' \<notin> set s"
  by (auto simp: list_all_iff slug_char_def)

lemma validatePrefix_iff [no_problem]: "p \<noteq> [] \<and> known (validatePrefix p) \<longleftrightarrow> prefix_ok p"
  using slug_no_dot [of p]
  by (auto simp: validatePrefix_def prefix_ok_def MaxPrefixLength_def contains_char)

lemma validateToolsetName_iff [no_problem]: "known (validateToolsetName n) \<longleftrightarrow> toolset_name_ok n"
  by (auto simp: validateToolsetName_def toolset_name_ok_def)

lemma validateEndpoint_iff [no_problem]: "known (validateEndpoint url e) \<longleftrightarrow> endpoint_ok url e"
  by (auto simp: validateEndpoint_def endpoint_ok_def split: option.splits prod.splits)

lemma namespace_problems_Nil:
  "namespace_problems namespaces owners nss = [] \<longleftrightarrow>
     (\<forall>ns\<in>set nss. nsp_ID ns \<noteq> [] \<and> prefix_ok (nsp_Prefix ns)) \<and>
     distinct (map nsp_ID nss) \<and> distinct (map nsp_Prefix nss) \<and>
     dom namespaces \<inter> set (map nsp_ID nss) = {} \<and> dom owners \<inter> set (map nsp_Prefix nss) = {}"
proof (induction nss arbitrary: namespaces owners)
  case (Cons ns nss)
  show ?case
  proof (cases "nsp_ID ns = []")
    case False
    have "namespace_problems namespaces owners (ns # nss) = [] \<longleftrightarrow>
        prefix_ok (nsp_Prefix ns) \<and> namespaces (nsp_ID ns) = None \<and> owners (nsp_Prefix ns) = None \<and>
        namespace_problems (namespaces(nsp_ID ns \<mapsto> ns)) (owners(nsp_Prefix ns \<mapsto> nsp_ID ns)) nss = []"
      unfolding validatePrefix_iff [symmetric]
      by (simp add: False del: fun_upd_apply split: option.split) blast
    moreover have "namespaces (nsp_ID ns) = None \<longleftrightarrow> nsp_ID ns \<notin> dom namespaces"
        "owners (nsp_Prefix ns) = None \<longleftrightarrow> nsp_Prefix ns \<notin> dom owners" by (simp_all add: domIff)
    ultimately show ?thesis unfolding Cons.IH dom_fun_upd using False
      by (simp only: list.set list.map distinct.simps ball_simps insert_disjoint disjoint_insert option.distinct if_False set_simps)
        (simp only: conj_ac simp_thms)
  qed simp
qed simp

lemma repeated_hosts_Nil [no_problem]:
  "repeated_hosts srv tenant seen es = [] \<longleftrightarrow> distinct es \<and> seen \<inter> set es = {}"
  by (induction es arbitrary: seen) auto

lemma binding_problems_Nil:
  "binding_problems url srv seen bs = [] \<longleftrightarrow> bindings_ok url bs \<and> seen \<inter> set (map bs_Tenant bs) = {}"
proof (induction bs arbitrary: seen)
  case (Cons b bs)
  have "binding_problems url srv seen (b # bs) = [] \<longleftrightarrow>
      bs_Tenant b \<noteq> [] \<and> bs_Tenant b \<notin> seen \<and> bs_Primary b \<noteq> [] \<and> (\<forall>e\<in>set (Endpoints b). endpoint_ok url e) \<and>
      distinct (Endpoints b) \<and> binding_problems url srv (insert (bs_Tenant b) seen) bs = []"
    by (auto simp: no_problem)
  then show ?case unfolding Cons.IH by (auto simp: bindings_ok_def)
qed (simp add: bindings_ok_def)

lemma tool_problems_Nil [no_problem]:
  "tool_problems srv (name, t) = [] \<longleftrightarrow>
     tsp_Exclude t \<or> tsp_EffectClass t \<noteq> [] \<and> known (ParseEffectClass (tsp_EffectClass t))"
  by (simp add: tool_problems_def)

lemma exchange_problems_Nil [no_problem]:
  "exchange_problems srv x = [] \<longleftrightarrow>
     (\<forall>t. x = Some t \<longrightarrow> xs_TokenEndpoint t \<noteq> [] \<and> xs_ClientCredentialRef t \<noteq> [])"
  by (auto simp: exchange_problems_def split: option.splits)

lemma server_problems_Nil:
  "server_problems url namespaces seen srvs = [] \<longleftrightarrow>
     (\<forall>x\<in>set srvs. server_ok url (dom namespaces) x) \<and> distinct (map ss_ID srvs) \<and> seen \<inter> set (map ss_ID srvs) = {}"
proof (induction srvs arbitrary: seen)
  case (Cons srv srvs)
  have "server_problems url namespaces seen (srv # srvs) = [] \<longleftrightarrow>
      server_ok url (dom namespaces) srv \<and> ss_ID srv \<notin> seen \<and>
      server_problems url namespaces (insert (ss_ID srv) seen) srvs = []"
    by (auto simp: server_ok_def Let_def no_problem binding_problems_Nil dom_def)
  then show ?case unfolding Cons.IH by auto
qed simp

lemma toolset_problems_Nil:
  "toolset_problems ttl namespaces seen tss = [] \<longleftrightarrow>
     (\<forall>x\<in>set tss. toolset_ok ttl (dom namespaces) x) \<and> distinct (map tss_ID tss) \<and> seen \<inter> set (map tss_ID tss) = {}"
proof (induction tss arbitrary: seen)
  case (Cons ts tss)
  have "toolset_problems ttl namespaces seen (ts # tss) = [] \<longleftrightarrow>
      toolset_ok ttl (dom namespaces) ts \<and> tss_ID ts \<notin> seen \<and>
      toolset_problems ttl namespaces (insert (tss_ID ts) seen) tss = []"
    by (auto simp: toolset_ok_def Let_def no_problem contains_char subset_iff domIff)
  then show ?case unfolding Cons.IH by auto
qed simp

lemma rule_problems_Nil [no_problem]:
  "rule_problems ttl namespaces p (k, r) = [] \<longleftrightarrow> rule_ok ttl (dom namespaces) r"
  by (auto simp: rule_problems_def rule_ok_def subset_iff domIff)

lemma policy_problems_Nil:
  "policy_problems ttl namespaces seen ps = [] \<longleftrightarrow>
     (\<forall>x\<in>set ps. policy_ok ttl (dom namespaces) x) \<and> distinct (map ps_ID ps) \<and> seen \<inter> set (map ps_ID ps) = {}"
proof (induction ps arbitrary: seen)
  case (Cons p ps)
  have "(\<forall>x\<in>set (enumerate 0 rs). rule_problems ttl namespaces (ps_ID p) x = []) \<longleftrightarrow>
      (\<forall>r\<in>set rs. rule_ok ttl (dom namespaces) r)" for rs
    by (simp add: all_set_conv_all_nth nth_enumerate_eq no_problem)
  then have "policy_problems ttl namespaces seen (p # ps) = [] \<longleftrightarrow>
      policy_ok ttl (dom namespaces) p \<and> ps_ID p \<notin> seen \<and> policy_problems ttl namespaces (insert (ps_ID p) seen) ps = []"
    by (auto simp: policy_ok_def)
  then show ?case unfolding Cons.IH by auto
qed simp

lemma rollout_problems_Nil [no_problem]:
  "rollout_problems p = [] \<longleftrightarrow> known (ParseRollout (pls_Rollout p)) \<and>
     (if ParseRollout (pls_Rollout p) = Inr ROLLOUT_CANARY then 0 < pls_CanaryPercent p \<and> pls_CanaryPercent p \<le> 100
      else pls_CanaryPercent p = 0)"
  by (cases "ParseRollout (pls_Rollout p)") (auto simp: rollout_problems_def Let_def)

lemma plugin_problems_Nil:
  "plugin_problems toolsets seen ps = [] \<longleftrightarrow>
     (\<forall>x\<in>set ps. plugin_ok toolsets x) \<and> distinct (map pls_ID ps) \<and> seen \<inter> set (map pls_ID ps) = {}"
proof (induction ps arbitrary: seen)
  case (Cons p ps)
  have f: "concat (map (failure_problems i) fs) = [] \<longleftrightarrow>
      (\<forall>(ec, mode)\<in>set fs. known (ParseEffectClass ec) \<and> known (ParseFailureMode mode))" for i fs
    by (auto simp: failure_problems_def)
  have "plugin_problems toolsets seen (p # ps) = [] \<longleftrightarrow>
      plugin_ok toolsets p \<and> pls_ID p \<notin> seen \<and> plugin_problems toolsets (insert (pls_ID p) seen) ps = []"
    unfolding plugin_ok_def by (simp add: Let_def no_problem f artifact_problems_def del: concat_eq_Nil_conv)
      (auto simp: subset_iff)
  then show ?case unfolding Cons.IH by auto
qed simp

subsection \<open>Validation decides well-formedness\<close>

lemma dom_namespaces_of: "dom (namespaces_of nss) = {i \<in> set (map nsp_ID nss). i \<noteq> []}"
proof -
  have "dom (fold (\<lambda>ns m. if nsp_ID ns = [] then m else m(nsp_ID ns \<mapsto> ns)) nss m) =
      dom m \<union> {i \<in> set (map nsp_ID nss). i \<noteq> []}" for m
    by (induction nss arbitrary: m) auto
  then show ?thesis by (simp add: namespaces_of_def)
qed

text \<open>C16: validation decides well-formedness. A document passes exactly when its identifiers are present and pairwise
  different, every reference resolves, prefixes, toolset names, endpoints, lifetimes and canary shares are in range, and
  every enumeration is one of its names; otherwise at least one problem is reported and the document is refused.\<close>

theorem validation_is_wellformedness:
  "Validate url s = [] \<longleftrightarrow> spec_ok url s"
proof -
  have c: "catalog_problems s = [] \<longleftrightarrow>
      sp_Org s \<noteq> [] \<and> 0 < sp_Version s \<and> 0 < cs_TTL (sp_Catalog s) \<and> cs_DegradedTTL (sp_Catalog s) \<le> cs_TTL (sp_Catalog s)"
    by (auto simp: catalog_problems_def)
  have t: "(\<forall>x\<in>set (sp_Toolsets s). toolset_ok ttl n x) \<Longrightarrow> toolset_ids (sp_Toolsets s) = set (map tss_ID (sp_Toolsets s))"
    for ttl n by (auto simp: toolset_ids_def toolset_ok_def)
  have n: "namespaces_ok (sp_Namespaces s) \<Longrightarrow> dom (namespaces_of (sp_Namespaces s)) = set (map nsp_ID (sp_Namespaces s))"
    by (auto simp: dom_namespaces_of namespaces_ok_def)
  have nn: "namespace_problems Map.empty Map.empty (sp_Namespaces s) = [] \<longleftrightarrow> namespaces_ok (sp_Namespaces s)"
    by (simp add: namespace_problems_Nil namespaces_ok_def)
  show ?thesis
  proof (cases "namespaces_ok (sp_Namespaces s) \<and>
      (\<forall>x\<in>set (sp_Toolsets s). toolset_ok (cs_TTL (sp_Catalog s)) (set (map nsp_ID (sp_Namespaces s))) x)")
    case True
    then have ids: "toolset_ids (sp_Toolsets s) = set (map tss_ID (sp_Toolsets s))"
      and dom: "dom (namespaces_of (sp_Namespaces s)) = set (map nsp_ID (sp_Namespaces s))"
      using t n by blast+
    with True c nn show ?thesis
      by (simp add: Validate_def spec_ok_def Let_def server_problems_Nil toolset_problems_Nil policy_problems_Nil
          plugin_problems_Nil)
  next
    case False
    then have "\<not> spec_ok url s" by (auto simp: spec_ok_def Let_def)
    moreover have "Validate url s \<noteq> []"
    proof (cases "namespaces_ok (sp_Namespaces s)")
      case True
      with False n show ?thesis by (simp add: Validate_def Let_def toolset_problems_Nil)
    qed (simp add: Validate_def Let_def nn)
    ultimately show ?thesis by simp
  qed
qed

subsection \<open>What validation lets through\<close>

text \<open>A document with one server. Its two toolsets have one name; its binding's tenant holds a slash; its plugin's
  runtime is written in capitals.\<close>

definition wit_server_spec :: ServerSpec where
  "wit_server_spec =
     \<lparr>ss_ID = ''s1'', ss_Name = ''crm'', ss_Namespace = ''n1'',
      ss_Bindings = [\<lparr>bs_Tenant = ''acme/ts/ops'', bs_Primary = ''https://h'', bs_Replicas = []\<rparr>],
      ss_ServingMode = [], ss_PinnedProtocolVersion = [], ss_Criticality = [], ss_DataClassification = [],
      ss_ComplianceScope = [], ss_Team = [], ss_Project = [], ss_CanaryTool = [], ss_Tools = [],
      ss_DefaultEffectClass = ''read'', ss_TokenExchange = None, ss_Health = None\<rparr>"

definition wit_toolset_spec :: "string \<Rightarrow> string list \<Rightarrow> string list \<Rightarrow> ToolsetSpec" where
  "wit_toolset_spec i nss tools =
     \<lparr>tss_ID = i, tss_Name = ''support'', tss_Priority = 0, tss_TokenBudget = 0, tss_TTL = 1, tss_Namespaces = nss,
      tss_Tools = tools, tss_Exclude = []\<rparr>"

definition wit_plugin_spec :: PluginSpec where
  "wit_plugin_spec =
     \<lparr>pls_ID = ''p1'', pls_Name = ''redact'', pls_Version = [], pls_Runtime = ''WASM'', pls_Hooks = [''on_tool_result''],
      pls_Priority = 0, pls_Budget = 0, pls_Reads = [], pls_Writes = [], pls_FailurePolicy = [],
      pls_IdentityDependent = False, pls_Rollout = [], pls_CanaryPercent = 0, pls_ArtifactRef = [],
      pls_ArtifactDigest = [], pls_FuelLimit = 0, pls_Endpoint = [], pls_Config = [], pls_Toolsets = []\<rparr>"

definition wit_spec :: Spec where
  "wit_spec =
     \<lparr>sp_Org = ''acme'', sp_Version = 1, sp_Catalog = \<lparr>cs_TTL = 2, cs_DegradedTTL = 1\<rparr>,
      sp_Namespaces = [\<lparr>nsp_ID = ''n1'', nsp_Name = ''crm'', nsp_Prefix = ''crm'', nsp_OwnerIdpGroup = [], nsp_Team = [],
        nsp_Project = []\<rparr>],
      sp_Servers = [wit_server_spec],
      sp_Toolsets = [wit_toolset_spec ''ts1'' [''n1''] [], wit_toolset_spec ''ts2'' [] [''crm.purge'']],
      sp_Policies = [], sp_Plugins = [wit_plugin_spec]\<rparr>"

text \<open>All of it passes: the scopes of the two toolsets cannot be told apart, the tenant of a binding may read as a
  tenant and a toolset, and a wasm plugin may name no artifact.\<close>

lemma validation_gaps:
  "Validate (\<lambda>_. Some (''https'', ''h'')) wit_spec = [] \<and>
   map tss_Name (sp_Toolsets wit_spec) = [''support'', ''support''] \<and>
   TenantScope ''acme/ts/ops'' = ToolsetScope ''acme'' ''ops'' \<and>
   ParseRuntime (pls_Runtime wit_plugin_spec) = Inr RUNTIME_WASM \<and> pls_ArtifactRef wit_plugin_spec = []"
  by code_simp

end
