(* ===== verification/Snapshotter_Props.thy ===== *)
theory Snapshotter_Props
  imports Snapshotter Registry_Props
begin

section \<open>What a composed snapshot carries\<close>

text \<open>
  The reference: for each binding whose tenant and report are known, the discovered tools in the order of their names,
  without those the document drops and those no toolset contributes, each under its qualified name, its toolset and
  the effect class the document gives it. A snapshot that is built carries exactly these.
\<close>

subsection \<open>Loops that append\<close>

lemma fold_result_appends:
  assumes "fold_result f xs s = Inr s'" and "T s L"
    and "\<And>x s s' L. f x s = Inr s' \<Longrightarrow> T s L \<Longrightarrow> T s' (L @ g x)"
  shows "T s' (L @ concat (map g xs))"
  using assms(1,2)
proof (induction xs arbitrary: s L)
  case (Cons x xs)
  then obtain t where t: "f x s = Inr t" "fold_result f xs t = Inr s'" by (auto simp: bind_result_Inr)
  from Cons.IH [OF t(2) assms(3) [OF t(1) Cons.prems(2)]] show ?case by simp
qed simp

lemma named_error_Inr [simp]: "named_error f r = Inr x \<longleftrightarrow> r = Inr x"
  by (auto simp: named_error_def split: sum.splits)

lemma collect_Inr: "collect f xs = Inr ys \<Longrightarrow> list_all2 (\<lambda>x y. f x = Inr y) xs ys"
proof -
  have "fold_result (\<lambda>x ys. bind_result (f x) (\<lambda>y. Inr (ys @ [y]))) xs zs = Inr ys \<Longrightarrow>
      \<exists>us. ys = zs @ us \<and> list_all2 (\<lambda>x y. f x = Inr y) xs us" for zs
  proof (induction xs arbitrary: zs)
    case (Cons x xs)
    then obtain y where y: "f x = Inr y"
      and r: "fold_result (\<lambda>x ys. bind_result (f x) (\<lambda>y. Inr (ys @ [y]))) xs (zs @ [y]) = Inr ys"
      by (auto simp: bind_result_Inr)
    from Cons.IH [OF r] obtain us where "ys = (zs @ [y]) @ us" "list_all2 (\<lambda>x y. f x = Inr y) xs us"
      by (elim exE conjE)
    with y show ?case by (intro exI [of _ "y # us"]) simp
  qed simp
  from this [of "[]"] show "collect f xs = Inr ys \<Longrightarrow> ?thesis" by (simp add: collect_def)
qed

subsection \<open>The reference\<close>

type_synonym admission = "string \<times> string \<times> string \<times> string \<times> EffectClass"

definition admission_of :: "ToolDefinition \<Rightarrow> admission" where
  "admission_of d = (td_ServerId d, td_TenantId d, td_QualifiedName d, td_ToolsetId d, td_EffectClass d)"

definition declared_effect :: "ServerSpec \<Rightarrow> CanonicalDef \<Rightarrow> EffectClass" where
  "declared_effect srv def =
     projr (ParseEffectClass
       (case map_of (ss_Tools srv) (cf_Name def) of
          None \<Rightarrow> ss_DefaultEffectClass srv
        | Some t \<Rightarrow> if tsp_EffectClass t = [] then ss_DefaultEffectClass srv else tsp_EffectClass t))"

definition admits :: "Plan \<Rightarrow> ServerSpec \<Rightarrow> Tenant \<Rightarrow> CanonicalDef \<Rightarrow> admission list" where
  "admits plan srv tenant def =
     (if dropped srv def then []
      else case For (pn_toolsets plan) (qualify plan srv def) (ss_Namespace srv) of
          None \<Rightarrow> []
        | Some toolset \<Rightarrow>
            [(ss_ID srv, t_Id tenant, qualify plan srv def, toolset, declared_effect srv def)])"

definition binding_admits :: "Plan \<Rightarrow> ServerSpec \<Rightarrow> BindingSpec \<Rightarrow> admission list" where
  "binding_admits plan srv b =
     (case (pn_tenants plan (bs_Tenant b), pn_reports plan (ss_ID srv, bs_Tenant b)) of
        (Some tenant, Some seen) \<Rightarrow> concat (map (admits plan srv tenant) (by_name (dr_tools seen)))
      | _ \<Rightarrow> [])"

definition document_admits :: "Plan \<Rightarrow> Spec \<Rightarrow> admission list" where
  "document_admits plan spec =
     concat (map (\<lambda>srv. concat (map (binding_admits plan srv) (ss_Bindings srv))) (sp_Servers spec))"

text \<open>What a builder carries, as long as it has met no problem; every name within its budget and classified.\<close>

definition carries :: "Builder \<Rightarrow> admission list \<Rightarrow> bool" where
  "carries b L \<longleftrightarrow>
     (b_errs b = [] \<longrightarrow> map admission_of (sn_Tools (b_snap b)) = L) \<and>
     (\<forall>(_, _, q, _, e)\<in>set L. length q \<le> 64 \<and> e \<noteq> EFFECT_UNSPECIFIED)"

subsection \<open>The builder's calls\<close>

lemma carries_problem: "carries b L \<Longrightarrow> carries (problem e b) L"
  by (simp add: carries_def)

lemma carries_change:
  "carries b L \<Longrightarrow> sn_Tools (f (b_snap b)) = sn_Tools (b_snap b) \<Longrightarrow> carries (change f b) L"
  by (simp add: carries_def)

lemma carries_new: "carries (NewBuilder v) []"
  by (simp add: carries_def NewBuilder_def)

lemma carries_calls:
  assumes "carries b L"
  shows "carries (WithID i b) L" "carries (WithCatalogDefaults t d b) L" "carries (AddNamespace ns b) L"
    "carries (AddServer srv b) L" "carries (AddToolset ts b) L" "carries (AddTenant tn b) L"
    "carries (AddPolicy p b) L" "carries (AddPlugin pm b) L"
  using assms
  by (auto simp: WithID_def WithCatalogDefaults_def AddNamespace_def AddServer_def AddToolset_def AddTenant_def
      AddPolicy_def AddPlugin_def Let_def intro!: carries_change carries_problem)

lemma carries_fold:
  assumes "carries b L" and "\<And>x b. carries b L \<Longrightarrow> carries (f x b) L"
  shows "carries (fold f xs b) L"
  using assms(1) by (induction xs arbitrary: b) (simp_all add: assms(2))

lemma carries_AddTool:
  assumes "carries b L" and "length (in_Prefix i @ ''.'' @ in_Name i) \<le> 64" "in_EffectClass i \<noteq> EFFECT_UNSPECIFIED"
  shows "carries (AddTool sha parse i b)
    (L @ [(in_ServerID i, in_TenantID i, in_Prefix i @ ''.'' @ in_Name i, in_ToolsetID i, in_EffectClass i)])"
proof -
  have "admission_of def = (in_ServerID i, in_TenantID i, in_Prefix i @ ''.'' @ in_Name i, in_ToolsetID i, in_EffectClass i)"
    if "tool_entry sha i ins outs = Inr def" for ins outs def
    using that by (auto simp: tool_entry_def Let_def bind_result_Inr admission_of_def)
  then show ?thesis using assms
    by (auto simp: carries_def AddTool_def split: option.split sum.split)
qed

subsection \<open>Admission\<close>

lemma effect_declared:
  assumes "tool_effect srv d def = Inr e" and "ParseEffectClass (ss_DefaultEffectClass srv) = Inr d"
  shows "e = declared_effect srv def \<and> e \<noteq> EFFECT_UNSPECIFIED"
proof -
  have "ParseEffectClass n = Inr e' \<Longrightarrow> e' \<noteq> EFFECT_UNSPECIFIED" for n e'
    using parse_specified(1) [of n] by blast
  with assms show ?thesis
    by (auto simp: tool_effect_def declared_effect_def split: option.splits if_splits)
qed

lemma admit_tool_carries:
  assumes "admit_tool env plan srv slug tenant d def (s, summary) = Inr (s', summary')"
    and "carries (bt_builder s) L" and "ParseEffectClass (ss_DefaultEffectClass srv) = Inr d"
  shows "carries (bt_builder s') (L @ admits plan srv tenant def)"
proof (cases "dropped srv def")
  case True
  with assms show ?thesis by (simp add: admit_tool_def admits_def)
next
  case False
  with assms(1) obtain e where e: "tool_effect srv d def = Inr e" and l: "length (qualify plan srv def) \<le> 64"
    by (auto simp: admit_tool_def Let_def bind_result_Inr MaxQualifiedNameLength_def split: if_splits)
  note eff = effect_declared [OF e assms(3)]
  show ?thesis
  proof (cases "For (pn_toolsets plan) (qualify plan srv def) (ss_Namespace srv)")
    case None
    with assms(1,2) False e show ?thesis
      by (auto simp: admit_tool_def Let_def admits_def warn_def split: if_splits option.splits)
  next
    case (Some toolset)
    let ?i = "tool_input env plan srv tenant toolset e def"
    have i: "(in_ServerID ?i, in_TenantID ?i, in_Prefix ?i @ ''.'' @ in_Name ?i, in_ToolsetID ?i, in_EffectClass ?i) =
        (ss_ID srv, t_Id tenant, qualify plan srv def, toolset, e)"
      by (simp add: tool_input_def qualify_def)
    have "bt_builder s' = AddTool (se_sha256 env) (se_parse env) ?i (bt_builder s)"
      using assms(1) False e Some by (auto simp: admit_tool_def Let_def split: if_splits option.splits)
    moreover have "carries (AddTool (se_sha256 env) (se_parse env) ?i (bt_builder s))
        (L @ [(in_ServerID ?i, in_TenantID ?i, in_Prefix ?i @ ''.'' @ in_Name ?i, in_ToolsetID ?i, in_EffectClass ?i)])"
      by (rule carries_AddTool [OF assms(2)]) (use i l eff [THEN conjunct1] eff [THEN conjunct2] in \<open>simp_all only: prod.inject not_False_eq_True\<close>)
    ultimately show ?thesis unfolding i using False Some eff by (simp add: admits_def)
  qed
qed

lemma admit_binding_carries:
  assumes "admit_binding env plan srv d b s = Inr s'"
    and "carries (bt_builder s) L" and "ParseEffectClass (ss_DefaultEffectClass srv) = Inr d"
  shows "carries (bt_builder s') (L @ binding_admits plan srv b)"
proof (cases "pn_tenants plan (bs_Tenant b)")
  case None
  with assms(1,2) show ?thesis
    by (auto simp: admit_binding_def binding_admits_def warn_def split: option.splits)
next
  case t: (Some tenant)
  show ?thesis
  proof (cases "pn_reports plan (ss_ID srv, bs_Tenant b)")
    case None
    with t assms(1,2) show ?thesis by (auto simp: admit_binding_def binding_admits_def warn_def)
  next
    case (Some seen)
    with t assms(1) obtain s0 s1 sum0 sum1 where s0: "bt_builder s0 = bt_builder s"
      and f: "fold_result (admit_tool env plan srv (bs_Tenant b) tenant d) (by_name (dr_tools seen)) (s0, sum0) = Inr (s1, sum1)"
      and s': "bt_builder s' = bt_builder s1"
      by (auto simp: admit_binding_def bind_result_Inr Let_def warn_def split: if_splits)
    have "(\<lambda>(s, _). carries (bt_builder s)) (s1, sum1) (L @ concat (map (admits plan srv tenant) (by_name (dr_tools seen))))"
      by (rule fold_result_appends [OF f])
        (use assms(2,3) s0 admit_tool_carries in \<open>auto\<close>)
    with t Some s' show ?thesis by (simp add: binding_admits_def)
  qed
qed

lemma admit_server_carries:
  assumes "admit_server env plan srv s = Inr s'" and "carries (bt_builder s) L"
  shows "carries (bt_builder s') (L @ concat (map (binding_admits plan srv) (ss_Bindings srv)))"
proof -
  from assms(1) obtain d x where d: "ParseEffectClass (ss_DefaultEffectClass srv) = Inr d"
    and f: "fold_result (admit_binding env plan srv d) (ss_Bindings srv)
      (s\<lparr>bt_builder := AddServer x (bt_builder s)\<rparr>) = Inr s'"
    by (auto simp: admit_server_def bind_result_Inr Let_def)
  from assms(2) have "carries (bt_builder (s\<lparr>bt_builder := AddServer x (bt_builder s)\<rparr>)) L" by (simp add: carries_calls)
  from fold_result_appends [where T = "\<lambda>s. carries (bt_builder s)", OF f this] admit_binding_carries [OF _ _ d]
  show ?thesis by blast
qed

subsection \<open>The whole build\<close>

definition by_slug :: "Tenant list \<Rightarrow> string \<rightharpoonup> Tenant" where
  "by_slug tenants = map_of (map (\<lambda>t. (t_Slug t, t)) tenants)"

lemma carry_tenant_Inr:
  "carry_tenant t (m, b) = Inr r \<longleftrightarrow> m (t_Slug t) = None \<and> r = (m(t_Slug t \<mapsto> t), AddTenant t b)"
  by (auto simp: carry_tenant_def)

lemma carried_slugs_new:
  "fold_result carry_tenant ts (m, b) = Inr r \<Longrightarrow> m s \<noteq> None \<Longrightarrow> s \<notin> t_Slug ` set ts"
proof (induction ts arbitrary: m b)
  case (Cons t ts)
  then have "m (t_Slug t) = None" "fold_result carry_tenant ts (m(t_Slug t \<mapsto> t), AddTenant t b) = Inr r"
    by (auto simp: bind_result_Inr carry_tenant_Inr)
  with Cons.IH [OF this(2)] Cons.prems(2) show ?case by auto
qed simp

lemma carry_tenants:
  assumes "fold_result carry_tenant tenants (m, b) = Inr (m', b')" and "carries b L"
  shows "m' = m ++ by_slug tenants \<and> carries b' L"
  using assms
proof (induction tenants arbitrary: m b)
  case (Cons t tenants)
  then have r: "fold_result carry_tenant tenants (m(t_Slug t \<mapsto> t), AddTenant t b) = Inr (m', b')"
    by (auto simp: bind_result_Inr carry_tenant_Inr)
  note IH = Cons.IH [OF r carries_calls(6) [OF Cons.prems(2)]]
  have "t_Slug t \<notin> t_Slug ` set tenants" by (rule carried_slugs_new [OF r]) simp
  then have "t_Slug t \<notin> dom (by_slug tenants)" by (simp add: by_slug_def dom_map_of_conv_image_fst image_image)
  then have "(m(t_Slug t \<mapsto> t)) ++ by_slug tenants = m ++ by_slug (t # tenants)"
    by (auto simp: by_slug_def map_add_def fun_eq_iff split: option.splits)
  then show ?case using IH by (simp only: simp_thms)
qed (simp add: by_slug_def)

lemma prepare_carries:
  assumes "prepare env opts spec version = Inr (m, b)"
  shows "m = by_slug (op_Tenants opts) \<and> carries b []"
proof -
  from assms obtain b0 where f: "fold_result carry_tenant (op_Tenants opts)
         (Map.empty, WithCatalogDefaults (cs_TTL (sp_Catalog spec)) (cs_DegradedTTL (sp_Catalog spec))
            (WithID (se_id env) (NewBuilder version))) = Inr (m, b0)"
    and b: "b = fold AddNamespace (map namespace_message (sp_Namespaces spec)) b0"
    by (auto simp: prepare_def bind_result_Inr)
  have "carries (WithCatalogDefaults (cs_TTL (sp_Catalog spec)) (cs_DegradedTTL (sp_Catalog spec))
            (WithID (se_id env) (NewBuilder version))) []"
    by (intro carries_calls carries_new)
  from carry_tenants [OF f this] b show ?thesis by (simp add: carries_fold carries_calls)
qed

lemma put_policies_carry:
  "fold_result put_policy ps b = Inr b' \<Longrightarrow> carries b L \<Longrightarrow> carries b' L"
  by (induction ps arbitrary: b) (auto simp: put_policy_def bind_result_Inr carries_calls)

lemma put_plugins_carry:
  "fold_result put_plugin ps b = Inr b' \<Longrightarrow> carries b L \<Longrightarrow> carries b' L"
  by (induction ps arbitrary: b) (auto simp: put_plugin_def bind_result_Inr carries_calls)

definition plan_of ::
  "Spec \<Rightarrow> Tenant list \<Rightarrow> toolsetIndex \<Rightarrow> (bindingKey \<rightharpoonup> DiscoveryReport) \<Rightarrow> Plan" where
  "plan_of spec tenants toolsets reports =
     \<lparr>pn_tenants = by_slug tenants, pn_namespaces = namespaces_by_id spec, pn_toolsets = toolsets, pn_reports = reports\<rparr>"

lemma assemble_carries:
  assumes "assemble env opts spec version reports = Inr s"
  shows "\<exists>toolsets. resolveToolsets (sp_Toolsets spec) (namespaces_by_id spec) = Inr toolsets \<and>
     carries (bt_builder s) (document_admits (plan_of spec (op_Tenants opts) toolsets reports) spec)"
proof -
  from assms obtain m b toolsets s0 b1 b2 where p: "prepare env opts spec version = Inr (m, b)"
    and t: "resolveToolsets (sp_Toolsets spec) (namespaces_by_id spec) = Inr toolsets"
    and a: "fold_result (admit_server env
            \<lparr>pn_tenants = m, pn_namespaces = namespaces_by_id spec, pn_toolsets = toolsets, pn_reports = reports\<rparr>)
         (sp_Servers spec) \<lparr>bt_builder = b, bt_claimed = Map.empty, bt_warnings = [], bt_discovered = []\<rparr> = Inr s0"
    and q: "fold_result put_policy (sp_Policies spec) (fold AddToolset (map toolset_message (sp_Toolsets spec)) (bt_builder s0)) = Inr b1"
    and r: "fold_result put_plugin (sp_Plugins spec) b1 = Inr b2" and s: "bt_builder s = b2"
    by (auto simp: assemble_def bind_result_Inr Let_def)
  note pc = prepare_carries [OF p]
  let ?plan = "plan_of spec (op_Tenants opts) toolsets reports"
  have "\<lparr>pn_tenants = m, pn_namespaces = namespaces_by_id spec, pn_toolsets = toolsets, pn_reports = reports\<rparr> = ?plan"
    using pc by (simp add: plan_of_def)
  note a = a [unfolded this]
  have "carries (bt_builder s0) ([] @ document_admits ?plan spec)" unfolding document_admits_def
    by (rule fold_result_appends [where T = "\<lambda>s. carries (bt_builder s)", OF a])
      (use pc admit_server_carries in \<open>simp_all\<close>)
  then have "carries (fold AddToolset (map toolset_message (sp_Toolsets spec)) (bt_builder s0)) (document_admits ?plan spec)"
    by (simp add: carries_fold carries_calls)
  from put_plugins_carry [OF r put_policies_carry [OF q this]] t s show ?thesis by (intro exI conjI) simp_all
qed

lemma Snapshotter_Build_Inr:
  assumes "Snapshotter_Build env opts = Inr res" and "op_Spec opts = Some spec"
  shows "\<exists>reports toolsets.
     discoverAll env spec (if op_DiscoverTimeout opts \<le> 0 then 15000000000 else op_DiscoverTimeout opts)
       (op_AllowUnreachable opts) = Inr reports \<and>
     resolveToolsets (sp_Toolsets spec) (namespaces_by_id spec) = Inr toolsets \<and>
     carries \<lparr>b_snap = res_Snapshot res, b_errs = []\<rparr> (document_admits (plan_of spec (op_Tenants opts) toolsets reports) spec)"
proof -
  from assms obtain signer where sg: "op_Signer opts = Some signer"
    by (auto simp: Snapshotter_Build_def split: option.splits)
  from assms obtain reports s snap where d: "discoverAll env spec
        (if op_DiscoverTimeout opts \<le> 0 then 15000000000 else op_DiscoverTimeout opts) (op_AllowUnreachable opts) = Inr reports"
    and a: "assemble env opts spec (if op_Version opts = 0 then se_now env else op_Version opts) reports = Inr s"
    and b: "Builder_Build (bt_builder s) = Inr snap" and r: "res_Snapshot res = snap"
    unfolding Snapshotter_Build_def assms(2) sg Let_def option.case by (auto simp: bind_result_Inr)
  from b r have e: "bt_builder s = \<lparr>b_snap = res_Snapshot res, b_errs = []\<rparr>" by (simp add: Builder_Build_Inr)
  from assemble_carries [OF a, unfolded e] d show ?thesis by (elim exE conjE) (intro exI conjI)
qed

text \<open>C3: a snapshot that is composed carries exactly the tools the registry document, the tenants and the backends'
  answers call for, in the document's order: for every binding that answered, each published tool the document does not
  drop and some toolset contributes, for that binding's tenant, under its qualified name, its toolset and the effect
  class the document declares, which is never unspecified; and no qualified name is longer than 64 bytes.\<close>

theorem admitted_tools_exact:
  assumes "Snapshotter_Build env opts = Inr res" and "op_Spec opts = Some spec"
  shows "\<exists>reports toolsets.
     discoverAll env spec (if op_DiscoverTimeout opts \<le> 0 then 15000000000 else op_DiscoverTimeout opts)
       (op_AllowUnreachable opts) = Inr reports \<and>
     resolveToolsets (sp_Toolsets spec) (namespaces_by_id spec) = Inr toolsets \<and>
     map admission_of (sn_Tools (res_Snapshot res)) =
       document_admits (plan_of spec (op_Tenants opts) toolsets reports) spec \<and>
     (\<forall>def\<in>set (sn_Tools (res_Snapshot res)).
        length (td_QualifiedName def) \<le> 64 \<and> td_EffectClass def \<noteq> EFFECT_UNSPECIFIED)"
proof -
  from Snapshotter_Build_Inr [OF assms] obtain reports toolsets where
    d: "discoverAll env spec (if op_DiscoverTimeout opts \<le> 0 then 15000000000 else op_DiscoverTimeout opts)
       (op_AllowUnreachable opts) = Inr reports"
    and i: "resolveToolsets (sp_Toolsets spec) (namespaces_by_id spec) = Inr toolsets"
    and c: "carries \<lparr>b_snap = res_Snapshot res, b_errs = []\<rparr>
      (document_admits (plan_of spec (op_Tenants opts) toolsets reports) spec)"
    by (elim exE conjE)
  from c have m: "map admission_of (sn_Tools (res_Snapshot res)) =
      document_admits (plan_of spec (op_Tenants opts) toolsets reports) spec"
    and b: "\<forall>(_, _, q, _, e)\<in>set (document_admits (plan_of spec (op_Tenants opts) toolsets reports) spec).
      length q \<le> 64 \<and> e \<noteq> EFFECT_UNSPECIFIED"
    by (simp_all add: carries_def)
  have "length (td_QualifiedName def) \<le> 64 \<and> td_EffectClass def \<noteq> EFFECT_UNSPECIFIED"
    if "def \<in> set (sn_Tools (res_Snapshot res))" for def
    using b that unfolding m [symmetric] by (auto simp: admission_of_def)
  with d i m show ?thesis by (intro exI conjI ballI) simp_all
qed

text \<open>One server with one binding: the backend publishes two tools, the document drops the second.\<close>

definition wit_target :: BindingSpec where
  "wit_target = \<lparr>bs_Tenant = ''acme'', bs_Primary = ''http://crm'', bs_Replicas = []\<rparr>"

definition wit_backend :: ServerSpec where
  "wit_backend =
     \<lparr>ss_ID = ''s1'', ss_Name = ''crm'', ss_Namespace = ''n1'', ss_Bindings = [wit_target],
      ss_ServingMode = ''strict'', ss_PinnedProtocolVersion = [], ss_Criticality = [], ss_DataClassification = [],
      ss_ComplianceScope = [], ss_Team = [], ss_Project = [], ss_CanaryTool = [],
      ss_Tools = [(''b'', \<lparr>tsp_EffectClass = [], tsp_Exclude = True\<rparr>)], ss_DefaultEffectClass = ''write'',
      ss_TokenExchange = None, ss_Health = None\<rparr>"

definition wit_document :: Spec where
  "wit_document =
     \<lparr>sp_Org = [], sp_Version = 1, sp_Catalog = \<lparr>cs_TTL = 60000000000, cs_DegradedTTL = 0\<rparr>,
      sp_Namespaces = [\<lparr>nsp_ID = ''n1'', nsp_Name = ''crm'', nsp_Prefix = ''crm'', nsp_OwnerIdpGroup = [], nsp_Team = [],
        nsp_Project = []\<rparr>],
      sp_Servers = [wit_backend],
      sp_Toolsets = [\<lparr>tss_ID = ''k1'', tss_Name = ''core'', tss_Priority = 1, tss_TokenBudget = 0, tss_TTL = 0,
        tss_Namespaces = [''n1''], tss_Tools = [], tss_Exclude = []\<rparr>],
      sp_Policies = [], sp_Plugins = []\<rparr>"

definition wit_tenant :: Tenant where
  "wit_tenant = \<lparr>t_Id = ''t1'', t_Slug = ''acme'', t_Name = [], t_Status = []\<rparr>"

definition wit_published :: "string \<Rightarrow> SDKTool" where
  "wit_published n = \<lparr>st_Name = n, st_Title = [], st_Description = [], st_InputSchema = TextSchema ''{}'',
     st_OutputSchema = NoSchema, st_Annotations = None\<rparr>"

definition wit_env :: SnapEnv where
  "wit_env =
     \<lparr>se_Probe = (\<lambda>_ _. Inr \<lparr>di_NegotiatedVersion = [], di_Tools = [wit_published ''b'', wit_published ''a''], di_ObservedAt = 1\<rparr>),
      se_marshal = (\<lambda>_. None), se_unmarshal = (\<lambda>_. None), se_parse = (\<lambda>_. Some (JObj [])), se_sha256 = (\<lambda>_. []),
      se_ed_sign = (\<lambda>_ _. ''sig''), se_encode = (\<lambda>_. Some ''snap''), se_now = 3, se_id = ''id''\<rparr>"

definition wit_options :: SnapOptions where
  "wit_options =
     \<lparr>op_Spec = Some wit_document, op_Signer = Some \<lparr>sk_keyID = ''k'', sk_priv = ''p''\<rparr>, op_DiscoverTimeout = 0, op_Concurrency = 0,
      op_Tenants = [wit_tenant], op_Version = 0, op_AllowUnreachable = False\<rparr>"

definition wit_def :: "string \<Rightarrow> CanonicalDef" where
  "wit_def n = \<lparr>cf_Name = n, cf_Title = [], cf_Description = [], cf_InputSchema = RawSchema ''{}'', cf_OutputSchema = NoSchema,
     cf_Annotations = []\<rparr>"

definition wit_report :: DiscoveryReport where
  "wit_report = \<lparr>dr_negotiated = [], dr_observedAt = 1, dr_endpoint = ''http://crm'', dr_tools = [wit_def ''b'', wit_def ''a'']\<rparr>"

definition wit_plan :: Plan where
  "wit_plan = plan_of wit_document (op_Tenants wit_options)
     \<lparr>ti_byTool = Map.empty, ti_byNamespace = [''n1'' \<mapsto> ''k1''], ti_excluded = (\<lambda>_. False)\<rparr> [(''s1'', ''acme'') \<mapsto> wit_report]"

lemma wit_discovered: "discoverAll wit_env wit_document 15000000000 False = Inr [(''s1'', ''acme'') \<mapsto> wit_report]"
  by (simp add: discoverAll_def discovery_jobs_def wit_document_def wit_backend_def wit_target_def record_outcome_def discover_binding_def wit_env_def
      wit_published_def ToCanonical_def schemaToRaw_def wit_report_def wit_def_def)

lemma wit_indexed:
  "resolveToolsets (sp_Toolsets wit_document) (namespaces_by_id wit_document) = Inr (pn_toolsets wit_plan)"
  by (simp add: resolveToolsets_def index_toolset_def claim_namespace_def namespaces_by_id_def wit_document_def wit_backend_def wit_target_def wit_plan_def
      plan_of_def)

lemma wit_sorted: "by_name (dr_tools wit_report) = [wit_def ''a'', wit_def ''b'']"
  by code_simp

lemma wit_admitted_input:
  "tool_input wit_env wit_plan wit_backend wit_tenant ''k1'' EFFECT_WRITE (wit_def ''a'') = wit_input"
  by (simp add: tool_input_def prefix_for_def wit_plan_def plan_of_def namespaces_by_id_def wit_document_def wit_backend_def wit_target_def wit_options_def wit_tenant_def
      wit_def_def wit_env_def rawSchema_def wit_input_def)

definition wit_composed :: "int \<Rightarrow> Snapshot" where
  "wit_composed n =
     \<lparr>sn_Version = 3, sn_Id = ''id'', sn_Namespaces = [\<lparr>ns_Id = ''n1'', ns_Name = ''crm'', ns_Prefix = ''crm''\<rparr>],
      sn_Servers = [\<lparr>srv_Id = ''s1'', srv_Name = ''crm'', srv_NamespaceId = ''n1'', srv_ServingMode = SERVING_STRICT,
        srv_Bindings = [\<lparr>bd_TenantId = ''t1'', bd_Primary = ''http://crm'', bd_Replicas = []\<rparr>], srv_Health = None,
        srv_CanaryTool = [], srv_TokenExchange = None\<rparr>],
      sn_Tools = [wit_entry n], sn_Policies = [], sn_Plugins = [],
      sn_Catalog = Some \<lparr>cd_TtlMs = 60000, cd_DegradedTtlMs = 0\<rparr>,
      sn_Tenants = [\<lparr>t_Id = ''t1'', t_Slug = ''acme'', t_Name = [], t_Status = []\<rparr>],
      sn_Toolsets = [\<lparr>ts_Id = ''k1'', ts_Name = ''core'', ts_Priority = 1, ts_TokenBudget = 0, ts_TtlMs = 0\<rparr>]\<rparr>"

lemma wit_composed_builds: "is_ok (BuildWithEngine (wit_composed n))"
  by code_simp

lemma wit_settings:
  "op_Spec wit_options = Some wit_document" "op_Signer wit_options = Some \<lparr>sk_keyID = ''k'', sk_priv = ''p''\<rparr>"
  "op_DiscoverTimeout wit_options = 0" "op_Version wit_options = 0" "op_AllowUnreachable wit_options = False"
  "se_now wit_env = 3" "se_encode wit_env b = Some ''snap''" "se_sha256 wit_env = (\<lambda>_. [])" "se_parse wit_env = (\<lambda>_. Some (JObj []))"
  "sn_Version (wit_composed n) = 3"
  by (simp_all add: wit_options_def wit_tenant_def wit_env_def wit_composed_def)

lemma wit_prepared:
  "prepare wit_env wit_options wit_document 3 =
     Inr (by_slug (op_Tenants wit_options), \<lparr>b_snap = (wit_composed 0)\<lparr>sn_Tools := [], sn_Servers := [], sn_Toolsets := []\<rparr>, b_errs = []\<rparr>)"
  by (simp add: prepare_def wit_options_def wit_tenant_def wit_document_def wit_backend_def wit_target_def wit_env_def carry_tenant_def by_slug_def WithCatalogDefaults_def
      WithID_def NewBuilder_def change_def AddTenant_def AddNamespace_def namespace_message_def contains_char
      millis32_def wrap32_def tdiv_def wit_composed_def Let_def)

lemma wit_admits:
  assumes "bt_claimed s = Map.empty"
  shows "\<exists>s' summary'. fold_result (admit_tool wit_env wit_plan wit_backend ''acme''
       wit_tenant EFFECT_WRITE) [wit_def ''a'', wit_def ''b''] (s, summary) = Inr (s', summary') \<and>
     bt_builder s' = change (\<lambda>x. x\<lparr>sn_Tools := sn_Tools x @ [wit_entry wit_cost]\<rparr>) (bt_builder s)"
proof -
  let ?srv = wit_backend and ?t = wit_tenant
  have srv: "map_of (ss_Tools ?srv) ''a'' = None" "dropped ?srv (wit_def ''b'')" "\<not> dropped ?srv (wit_def ''a'')"
      "cf_Name (wit_def ''a'') = ''a''"
    by (simp_all add: wit_document_def wit_backend_def wit_target_def dropped_def wit_def_def)
  have q: "qualify wit_plan ?srv (wit_def ''a'') = ''crm.a''"
    by (simp add: qualify_def prefix_for_def wit_plan_def plan_of_def namespaces_by_id_def wit_document_def wit_backend_def wit_target_def wit_def_def)
  have f: "For (pn_toolsets wit_plan) ''crm.a'' (ss_Namespace ?srv) = Some ''k1''"
    by (simp add: For_def wit_plan_def plan_of_def wit_document_def wit_backend_def wit_target_def)
  have t: "AddTool (\<lambda>_. []) (\<lambda>_. Some (JObj [])) wit_input b =
      change (\<lambda>x. x\<lparr>sn_Tools := sn_Tools x @ [wit_entry wit_cost]\<rparr>) b" for b
    by (simp add: AddTool_def read_schema_def wit_tool_entry) (simp add: wit_input_def)
  show ?thesis
    by (simp add: admit_tool_def Let_def srv q f tool_effect_def MaxQualifiedNameLength_def assms wit_settings
        wit_admitted_input t)
qed

lemma wit_server_admitted:
  assumes "bt_claimed s = Map.empty"
  shows "\<exists>s'. admit_server wit_env wit_plan wit_backend s = Inr s' \<and>
     bt_builder s' = change (\<lambda>x. x\<lparr>sn_Tools := sn_Tools x @ [wit_entry wit_cost]\<rparr>)
       (AddServer (hd (sn_Servers (wit_composed 0))) (bt_builder s))"
proof -
  let ?srv = wit_backend and ?t = wit_tenant and ?b = wit_target
  have b: "ss_Bindings ?srv = [?b]" "bs_Tenant ?b = ''acme''" "pn_tenants wit_plan ''acme'' = Some ?t"
      "pn_reports wit_plan (ss_ID ?srv, ''acme'') = Some wit_report" "dr_negotiated wit_report = []"
    by (simp_all add: wit_document_def wit_backend_def wit_target_def wit_plan_def plan_of_def by_slug_def wit_options_def
        wit_tenant_def wit_report_def)
  have p: "ParseServingMode (ss_ServingMode ?srv) = Inr SERVING_STRICT" "ParseEffectClass (ss_DefaultEffectClass ?srv) = Inr EFFECT_WRITE"
    by code_simp+
  have r: "\<lparr>srv_Id = ss_ID ?srv, srv_Name = ss_Name ?srv, srv_NamespaceId = ss_Namespace ?srv, srv_ServingMode = SERVING_STRICT,
      srv_Bindings = [\<lparr>bd_TenantId = t_Id ?t, bd_Primary = bs_Primary ?b, bd_Replicas = bs_Replicas ?b\<rparr>],
      srv_Health = health_policy (ss_Health ?srv), srv_CanaryTool = ss_CanaryTool ?srv,
      srv_TokenExchange = token_exchange (ss_TokenExchange ?srv)\<rparr> = hd (sn_Servers (wit_composed 0))"
    by (simp add: wit_document_def wit_backend_def wit_target_def wit_options_def wit_tenant_def wit_composed_def health_policy_def token_exchange_def)
  let ?s = "s\<lparr>bt_builder := AddServer (hd (sn_Servers (wit_composed 0))) (bt_builder s)\<rparr>"
  have "\<exists>s'. admit_binding wit_env wit_plan ?srv EFFECT_WRITE ?b ?s = Inr s' \<and>
     bt_builder s' = change (\<lambda>x. x\<lparr>sn_Tools := sn_Tools x @ [wit_entry wit_cost]\<rparr>) (bt_builder ?s)"
  proof -
    let ?sum = "\<lparr>br_ServerID = ss_ID ?srv, br_ServerName = ss_Name ?srv, br_TenantSlug = ''acme'', br_Endpoint = bs_Primary ?b,
      br_NegotiatedVersion = dr_negotiated wit_report, br_ToolCount = length (dr_tools wit_report), br_Admitted = [],
      br_Excluded = [], br_ObservedAt = dr_observedAt wit_report\<rparr>"
    have u: "admit_binding wit_env wit_plan ?srv EFFECT_WRITE ?b ?s =
        bind_result (fold_result (admit_tool wit_env wit_plan ?srv ''acme'' ?t EFFECT_WRITE) [wit_def ''a'', wit_def ''b'']
          (?s, ?sum)) (\<lambda>(s, summary). Inr (s\<lparr>bt_discovered := bt_discovered s @ [summary]\<rparr>))"
      unfolding admit_binding_def b wit_sorted by (simp add: b wit_sorted Let_def del: fold_result.simps)
    have "bt_claimed ?s = Map.empty" using assms by simp
    from wit_admits [OF this, of ?sum] obtain s' summary' where
      "fold_result (admit_tool wit_env wit_plan ?srv ''acme'' ?t EFFECT_WRITE) [wit_def ''a'', wit_def ''b''] (?s, ?sum) =
        Inr (s', summary')"
      "bt_builder s' = change (\<lambda>x. x\<lparr>sn_Tools := sn_Tools x @ [wit_entry wit_cost]\<rparr>) (bt_builder ?s)"
      by (elim exE conjE)
    then show ?thesis unfolding u by simp
  qed
  then show ?thesis
    by (elim exE conjE)
      (simp add: admit_server_def p named_error_def b collect_def resolve_binding_def r [simplified] Let_def)
qed

lemma wit_assembled:
  "\<exists>s. assemble wit_env wit_options wit_document 3 [(''s1'', ''acme'') \<mapsto> wit_report] = Inr s \<and>
     bt_builder s = \<lparr>b_snap = wit_composed wit_cost, b_errs = []\<rparr>"
proof -
  let ?b = "\<lparr>b_snap = (wit_composed 0)\<lparr>sn_Tools := [], sn_Servers := [], sn_Toolsets := []\<rparr>, b_errs = []\<rparr>"
  let ?s = "\<lparr>bt_builder = ?b, bt_claimed = Map.empty, bt_warnings = [], bt_discovered = []\<rparr>"
  have d: "sp_Servers wit_document = [wit_backend]" "sp_Policies wit_document = []" "sp_Plugins wit_document = []"
      "map toolset_message (sp_Toolsets wit_document) = sn_Toolsets (wit_composed 0)"
    by (simp_all add: wit_document_def wit_backend_def wit_target_def toolset_message_def millis32_def wrap32_def tdiv_def wit_composed_def)
  have p: "\<lparr>pn_tenants = by_slug (op_Tenants wit_options), pn_namespaces = namespaces_by_id wit_document,
      pn_toolsets = pn_toolsets wit_plan, pn_reports = [(''s1'', ''acme'') \<mapsto> wit_report]\<rparr> = wit_plan"
    by (simp add: wit_plan_def plan_of_def)
  obtain s' where a: "admit_server wit_env wit_plan wit_backend ?s = Inr s'"
    and b: "bt_builder s' = change (\<lambda>x. x\<lparr>sn_Tools := sn_Tools x @ [wit_entry wit_cost]\<rparr>)
       (AddServer (hd (sn_Servers (wit_composed 0))) ?b)"
    using wit_server_admitted [of ?s, unfolded BuildState.select_convs, OF refl] by (elim exE conjE)
  have c: "fold AddToolset (sn_Toolsets (wit_composed 0)) (bt_builder s') = \<lparr>b_snap = wit_composed wit_cost, b_errs = []\<rparr>"
    unfolding b by (simp add: wit_composed_def AddToolset_def AddServer_def change_def)
  have f: "fold_result (admit_server wit_env wit_plan) (sp_Servers wit_document) ?s = Inr s'"
    by (subst d(1)) (simp only: fold_result.simps a bind_result_simps)
  show ?thesis
    unfolding assemble_def wit_prepared wit_indexed bind_result_simps prod.case p f d(2-4) c Let_def fold_result.simps
    by simp
qed

theorem admitted_tools_exact_witness:
  "\<exists>res reports toolsets. Snapshotter_Build wit_env wit_options = Inr res \<and>
     discoverAll wit_env wit_document 15000000000 False = Inr reports \<and>
     resolveToolsets (sp_Toolsets wit_document) (namespaces_by_id wit_document) = Inr toolsets \<and>
     document_admits (plan_of wit_document (op_Tenants wit_options) toolsets reports) wit_document =
       [(''s1'', ''t1'', ''crm.a'', ''k1'', EFFECT_WRITE)]"
proof -
  from wit_assembled obtain s where a: "assemble wit_env wit_options wit_document 3 [(''s1'', ''acme'') \<mapsto> wit_report] = Inr s"
    and e: "bt_builder s = \<lparr>b_snap = wit_composed wit_cost, b_errs = []\<rparr>"
    by (elim exE conjE)
  have o: "op_Spec wit_options = Some wit_document" by (simp add: wit_options_def wit_tenant_def)
  have b: "Builder_Build (bt_builder s) = Inr (wit_composed wit_cost)"
    using e wit_composed_builds by (auto simp: Builder_Build_Inr is_ok_iff)
  have "\<exists>res. Snapshotter_Build wit_env wit_options = Inr res \<and> res_Snapshot res = wit_composed wit_cost"
    using a b by (simp add: Snapshotter_Build_def wit_settings wit_discovered Sign_def named_error_def)
  then obtain res where r: "Snapshotter_Build wit_env wit_options = Inr res" and x: "res_Snapshot res = wit_composed wit_cost"
    by (elim exE conjE)
  from admitted_tools_exact [OF r o] obtain reports toolsets where
    "discoverAll wit_env wit_document 15000000000 False = Inr reports"
    "resolveToolsets (sp_Toolsets wit_document) (namespaces_by_id wit_document) = Inr toolsets"
    "map admission_of (sn_Tools (res_Snapshot res)) =
       document_admits (plan_of wit_document (op_Tenants wit_options) toolsets reports) wit_document"
    unfolding wit_options_def SnapOptions.simps by (elim exE conjE) simp
  with r x show ?thesis by (intro exI conjI) (simp_all add: wit_composed_def admission_of_def wit_entry_def)
qed

subsection \<open>Which toolset contributes a tool\<close>

lemma claim_first:
  "n \<notin> set ns \<Longrightarrow> (m(n \<mapsto> t)) ++ map_of (map (\<lambda>n. (n, t)) ns) = m ++ map_of (map (\<lambda>n. (n, t)) (n # ns))"
  by (auto simp: map_add_def fun_eq_iff map_of_eq_None_iff image_image split: option.splits dest!: map_of_SomeD)

lemma claim_namespaces:
  "fold_result (claim_namespace namespaces t) nss i = Inr i' \<Longrightarrow>
     i' = i\<lparr>ti_byNamespace := ti_byNamespace i ++ map_of (map (\<lambda>n. (n, t)) nss)\<rparr> \<and>
     distinct nss \<and> set nss \<inter> dom (ti_byNamespace i) = {}"
proof (induction nss arbitrary: i)
  case (Cons n nss)
  then obtain j where j: "claim_namespace namespaces t n i = Inr j" and r: "fold_result (claim_namespace namespaces t) nss j = Inr i'"
    by (auto simp: bind_result_Inr)
  from j have e: "j = i\<lparr>ti_byNamespace := (ti_byNamespace i)(n \<mapsto> t)\<rparr>" and n: "n \<notin> dom (ti_byNamespace i)"
    by (auto simp: claim_namespace_def split: if_splits option.splits)
  note IH = Cons.IH [OF r]
  have d: "n \<notin> set nss" using IH [THEN conjunct2, THEN conjunct2] by (auto simp: e)
  have "i' = i\<lparr>ti_byNamespace := ti_byNamespace i ++ map_of (map (\<lambda>n. (n, t)) (n # nss))\<rparr>"
    using IH [THEN conjunct1] by (cases i) (simp only: e toolsetIndex.simps claim_first [OF d])
  moreover have "distinct (n # nss)" "set (n # nss) \<inter> dom (ti_byNamespace i) = {}"
    using IH [THEN conjunct2] d n by (auto simp: e)
  ultimately show ?case by (intro conjI)
qed simp

lemma claim_tools:
  "fold_result (claim_tool t) ts i = Inr i' \<Longrightarrow>
     i' = i\<lparr>ti_byTool := ti_byTool i ++ map_of (map (\<lambda>n. (n, t)) ts)\<rparr> \<and>
     distinct ts \<and> set ts \<inter> dom (ti_byTool i) = {}"
proof (induction ts arbitrary: i)
  case (Cons n ts)
  then obtain j where j: "claim_tool t n i = Inr j" and r: "fold_result (claim_tool t) ts j = Inr i'"
    by (auto simp: bind_result_Inr)
  from j have e: "j = i\<lparr>ti_byTool := (ti_byTool i)(n \<mapsto> t)\<rparr>" and n: "n \<notin> dom (ti_byTool i)"
    by (auto simp: claim_tool_def split: option.splits)
  note IH = Cons.IH [OF r]
  have d: "n \<notin> set ts" using IH [THEN conjunct2, THEN conjunct2] by (auto simp: e)
  have "i' = i\<lparr>ti_byTool := ti_byTool i ++ map_of (map (\<lambda>n. (n, t)) (n # ts))\<rparr>"
    using IH [THEN conjunct1] by (cases i) (simp only: e toolsetIndex.simps claim_first [OF d])
  moreover have "distinct (n # ts)" "set (n # ts) \<inter> dom (ti_byTool i) = {}"
    using IH [THEN conjunct2] d n by (auto simp: e)
  ultimately show ?case by (intro conjI)
qed simp

text \<open>What an index answers for the toolsets it was made from.\<close>

definition claims :: "('a \<Rightarrow> string list) \<Rightarrow> ('a \<Rightarrow> string) \<Rightarrow> 'a list \<Rightarrow> (string \<times> string) list" where
  "claims f i xs = concat (map (\<lambda>x. map (\<lambda>n. (n, i x)) (f x)) xs)"

lemma claims_snoc: "claims f i (xs @ [x]) = claims f i xs @ map (\<lambda>n. (n, i x)) (f x)"
  by (simp add: claims_def)

definition indexes :: "toolsetIndex \<Rightarrow> ToolsetSpec list \<Rightarrow> bool" where
  "indexes i tss \<longleftrightarrow>
     ti_byTool i = map_of (claims tss_Tools tss_ID tss) \<and> distinct (map fst (claims tss_Tools tss_ID tss)) \<and>
     ti_byNamespace i = map_of (claims tss_Namespaces tss_ID tss) \<and> distinct (map fst (claims tss_Namespaces tss_ID tss)) \<and>
     (\<forall>q. ti_excluded i q \<longleftrightarrow> (\<exists>ts\<in>set tss. q \<in> set (tss_Exclude ts)))"

lemma map_of_disjoint_append:
  "distinct (map fst (xs @ ys)) \<Longrightarrow> map_of xs ++ map_of ys = map_of (xs @ ys)"
  by (subst map_add_comm) (auto simp: dom_map_of_conv_image_fst)

lemma index_toolset_indexes:
  assumes "index_toolset namespaces ts i = Inr i'" and "indexes i tss"
  shows "indexes i' (tss @ [ts])"
proof -
  from assms(1) obtain j k where j: "fold_result (claim_namespace namespaces (tss_ID ts)) (tss_Namespaces ts) i = Inr j"
    and k: "fold_result (claim_tool (tss_ID ts)) (tss_Tools ts) j = Inr k"
    and e: "i' = k\<lparr>ti_excluded := (\<lambda>q. ti_excluded k q \<or> q \<in> set (tss_Exclude ts))\<rparr>"
    by (auto simp: index_toolset_def bind_result_Inr)
  note J = claim_namespaces [OF j] and K = claim_tools [OF k]
  have f: "map fst (map (\<lambda>n. (n, tss_ID ts)) xs) = xs" for xs :: "string list" by (simp add: comp_def)
  have n: "distinct (map fst (claims tss_Namespaces tss_ID tss @ map (\<lambda>n. (n, tss_ID ts)) (tss_Namespaces ts)))"
    using assms(2) J unfolding map_append f by (auto simp: indexes_def dom_map_of_conv_image_fst)
  have t: "distinct (map fst (claims tss_Tools tss_ID tss @ map (\<lambda>n. (n, tss_ID ts)) (tss_Tools ts)))"
    using assms(2) J K unfolding map_append f by (auto simp: indexes_def dom_map_of_conv_image_fst)
  have "ti_byTool i' = map_of (claims tss_Tools tss_ID tss) ++ map_of (map (\<lambda>n. (n, tss_ID ts)) (tss_Tools ts))"
    "ti_byNamespace i' = map_of (claims tss_Namespaces tss_ID tss) ++ map_of (map (\<lambda>n. (n, tss_ID ts)) (tss_Namespaces ts))"
    "ti_excluded i' q = (ti_excluded i q \<or> q \<in> set (tss_Exclude ts))" for q
    using assms(2) J K by (simp_all add: e indexes_def)
  with assms(2) n t show ?thesis
    by (simp only: indexes_def claims_snoc map_of_disjoint_append) auto
qed

lemma resolveToolsets_indexes:
  assumes "resolveToolsets tss namespaces = Inr i"
  shows "indexes i tss"
proof -
  have "fold_result (index_toolset namespaces) ts j = Inr i \<Longrightarrow> indexes j done' \<Longrightarrow> indexes i (done' @ ts)" for ts j done'
  proof (induction ts arbitrary: j done')
    case (Cons t ts)
    then obtain k where "index_toolset namespaces t j = Inr k" "fold_result (index_toolset namespaces) ts k = Inr i"
      by (auto simp: bind_result_Inr)
    with Cons.IH [of k "done' @ [t]"] index_toolset_indexes Cons.prems(2) show ?case by simp
  qed simp
  from this [of tss _ "[]"] assms show ?thesis by (simp add: resolveToolsets_def indexes_def claims_def)
qed

text \<open>C17: when the toolsets of a document resolve, no tool is named and no namespace is claimed twice, within a toolset
  or across them; and the toolset of a tool is the one that names it, else the one that claims its namespace, unless
  some toolset, not necessarily that one, excludes the tool, and then it has none.\<close>

theorem toolsets_claim_once:
  assumes "resolveToolsets tss namespaces = Inr i"
  shows "distinct (concat (map tss_Tools tss)) \<and> distinct (concat (map tss_Namespaces tss)) \<and>
    (For i q ns = Some t \<longleftrightarrow>
       (\<forall>ts\<in>set tss. q \<notin> set (tss_Exclude ts)) \<and>
       (\<exists>ts\<in>set tss. t = tss_ID ts \<and>
          (q \<in> set (tss_Tools ts) \<or>
           ns \<in> set (tss_Namespaces ts) \<and> (\<forall>other\<in>set tss. q \<notin> set (tss_Tools other)))))"
proof -
  note ix = resolveToolsets_indexes [OF assms, unfolded indexes_def]
  have names: "map fst (claims f g tss) = concat (map f tss)" for f and g :: "ToolsetSpec \<Rightarrow> string"
    by (simp add: claims_def map_concat comp_def)
  have member: "(n, t) \<in> set (claims f g tss) \<longleftrightarrow> (\<exists>ts\<in>set tss. t = g ts \<and> n \<in> set (f ts))" for n t f and g :: "ToolsetSpec \<Rightarrow> string"
    by (auto simp: claims_def)
  have tool: "ti_byTool i n = Some t \<longleftrightarrow> (\<exists>ts\<in>set tss. t = tss_ID ts \<and> n \<in> set (tss_Tools ts))" for n t
    using ix by (simp add: map_of_eq_Some_iff member)
  have namespace: "ti_byNamespace i n = Some t \<longleftrightarrow> (\<exists>ts\<in>set tss. t = tss_ID ts \<and> n \<in> set (tss_Namespaces ts))" for n t
    using ix by (simp add: map_of_eq_Some_iff member)
  have unnamed: "ti_byTool i q = None \<longleftrightarrow> (\<forall>other\<in>set tss. q \<notin> set (tss_Tools other))"
    using tool [of q] by (metis not_None_eq)
  have "For i q ns = Some t \<longleftrightarrow> \<not> ti_excluded i q \<and>
      (ti_byTool i q = Some t \<or> ti_byTool i q = None \<and> ti_byNamespace i ns = Some t)"
    by (simp add: For_def split: option.split)
  also have "\<not> ti_excluded i q \<longleftrightarrow> (\<forall>ts\<in>set tss. q \<notin> set (tss_Exclude ts))" using ix by simp
  finally show ?thesis using ix unfolding names tool namespace unnamed by blast
qed

definition wit_sets :: "ToolsetSpec list" where
  "wit_sets = [(wit_toolset_spec ''k1'' [''n1''] [])\<lparr>tss_Exclude := [''crm.purge'']\<rparr>, wit_toolset_spec ''k2'' [] [''crm.purge'', ''crm.find'']]"

definition wit_known :: "string \<rightharpoonup> NamespaceSpec" where
  "wit_known = (\<lambda>n. if n = ''n1'' then Some (hd (sp_Namespaces wit_document)) else None)"

theorem toolsets_claim_once_witness:
  "\<exists>i. resolveToolsets wit_sets wit_known = Inr i \<and> For i ''crm.find'' ''n1'' = Some ''k2'' \<and> distinct (concat (map tss_Tools wit_sets))"
proof -
  have "\<exists>i. resolveToolsets wit_sets wit_known = Inr i"
    by (simp add: resolveToolsets_def wit_sets_def wit_toolset_spec_def index_toolset_def claim_namespace_def claim_tool_def
        wit_known_def)
  then obtain i where i: "resolveToolsets wit_sets wit_known = Inr i" ..
  have "For i ''crm.find'' ''n1'' = Some ''k2''"
    by (rule toolsets_claim_once [OF i, THEN conjunct2, THEN conjunct2, THEN iffD2])
      (simp add: wit_sets_def wit_toolset_spec_def)
  with i toolsets_claim_once [OF i, THEN conjunct1] show ?thesis by (intro exI conjI)
qed

text \<open>A tool a toolset names is carried by none, when the toolset of its namespace excludes it.\<close>

lemma exclusion_beats_naming:
  assumes "resolveToolsets wit_sets wit_known = Inr i"
  shows "For i ''crm.purge'' ''n1'' = None \<and> ''crm.purge'' \<in> set (tss_Tools (wit_sets ! 1))"
  using resolveToolsets_indexes [OF assms]
  by (simp add: For_def indexes_def wit_sets_def wit_toolset_spec_def)

end
