(* ===== verification/Spec2Isabelle.thy ===== *)
theory Spec2Isabelle
  imports Pipeline_Props Canonical_Schema Canonical_Inj Edge_Server_Props Plugin_Host_Props Edge_Wiring_Props Plugin_Redact_Props
    Snapshotter_Props
begin

text \<open>
  A verification development of MCPDoll, a gateway for the Model Context Protocol: a control plane composes, signs and
  publishes a catalog of tools, and a data plane serves it to principals, passes every call through plugins and
  forwards it to backends. The program is the Go code under \<open>src/internal\<close> and \<open>src/plugins\<close>; each theory below
  names its files in its section heading.

  \<^bold>\<open>The parts and their theories.\<close>

  Authorization (\<open>platform/authz\<close>). Authz_Scope: scope strings, their parser, coverage and reachability.
  Authz_Roles: the permission vocabulary, the default catalog, its validation, the escalation check. Authz_Engine:
  the built-in engine, the narrowing of keys, and the contract of an engine (locale \<open>authz_engine\<close>, interpreted by the
  built-in engine). Casbin, the other engine, is a library's matcher and not modelled.

  Canonical JSON (\<open>platform/canonical\<close>). Json, Canonical: values, the canonical writer with its key order by UTF-16
  units, string escapes and number format. Canonical_Inj: a reader that inverts the writer. Canonical_Schema:
  reference resolution with its limits, normalisation, strict and semantic digests.

  Signed artifacts and the serving store (\<open>dataplane/snapshot\<close>). Snapshot_Types: the messages of
  \<open>snapshot.proto\<close> as records. Snapshot_Builder: the builder. Snapshot_View, Snapshot_Catalog, Snapshot_Props: building
  and indexing a view, composing the catalog of a principal. Snapshot_Artifacts: signing and verification.
  Snapshot_Store, Snapshot_Store_Props: activation, rollback, principal sets, revocations, cached catalogs, as a step
  relation with its reachable states.

  Health (\<open>dataplane/health\<close>). Health_Drift: differences between the admitted and the live definitions.
  Health_Registry: conditions of backends, classification, one probe.

  Plugins (\<open>dataplane/pipeline\<close>, \<open>dataplane/plugins\<close>, \<open>dataplane/wiring\<close>, \<open>plugins\<close>). Pipeline_Patch: JSON patches
  within declared scopes. Pipeline_Verdict, Pipeline_Engine, Pipeline_Props: the hook engine. Breaker_Contract is the
  contract of a circuit breaker (locale \<open>circuit_breaker\<close>), interpreted by Plugin_Breaker and Backend_Breaker.
  Plugin_Host, Plugin_Host_Props: loading and calling WebAssembly modules. Edge_Wiring, Edge_Wiring_Props: the hooks
  over the engine, with the payload encoding. Plugin_SDK, Plugin_Entitlements, Plugin_Guest_Props, Plugin_Redact,
  Plugin_Redact_Props: the author's kit and the two bundled plugins, composed with the engine that applies their answers.

  The edge (\<open>dataplane/edge\<close>, \<open>dataplane/backends\<close>). Base64, Edge_State: the signed state of a deferred call.
  Edge_Identity: who is calling. Edge_Dispatch, Edge_Dispatch_Props: the call handler, over a pool given as a contract
  (locale \<open>backend_pool\<close>), which Backend_Pool, Backend_Pool_Props implement. Edge_Server, Edge_Server_Props: the
  endpoint, its cache of servers, and the interleavings of requests with updates.

  The control plane (\<open>controlplane\<close>, \<open>mcp\<close>). Registry_Enums, Registry_Spec, Registry_Props: the registry document and its
  validation. MCP_Adapter: discovery of a backend. Snapshotter, Snapshotter_Props: composing a snapshot from the
  document, the tenants and what the backends publish.
  Prelude holds the generic lemmas: results as sums with \<open>bind_result\<close> and \<open>fold_result\<close>, cutting and splitting of
  strings, 32-bit wrap-around, association lists.

  \<^bold>\<open>Conventions.\<close> A struct is a record, a tagged union or an enum a datatype, an error a value of a sum; a Go map whose
  iteration order matters is an association list in some order, any other a function to an option; a string is a list
  of bytes. Integers are unbounded where the code stays far below their width, and wrap explicitly where it may not
  (\<open>wrap32\<close>, words in the sampling hash). A critical section is one step; concurrent operations are sequences of such
  steps, and what a request has read is kept in the state of its step relation. The clock, random bytes, files, the
  network, the WebAssembly runtime, hashes, signatures and third-party codecs are parameters of the definitions that use
  them; hypotheses about them (a hash without collisions, a signature that cannot be forged, a codec that reads back what
  it wrote) are stated in the theorems, and their witnesses instantiate them.

  \<^bold>\<open>What is proved.\<close> Each property stands after a text that names it \<open>C\<close> and a number; the groups are:
  \<^item> who may see and call what: catalogs enforce grants (Snapshot_Props), keys never widen their owner, grants never
    escalate (Authz_Engine), keys resolve to their holder (Edge_Identity), requests reach only the caller's own server
    (Edge_Server_Props), backends are called exactly for admitted calls (Edge_Dispatch_Props);
  \<^item> what is served is what was signed and composed: verification and domain separation (Snapshot_Artifacts), only
    verified snapshots in every interleaving (Snapshot_Store_Props, refined by the gateway in Edge_Server_Props),
    composition and derivation (Snapshotter_Props, Snapshot_Builder), well-formedness (Registry_Props);
  \<^item> what plugins can do: scopes of patches (Pipeline_Patch), decisions and failure policies (Pipeline_Props,
    Edge_Wiring_Props), loading (Plugin_Host_Props), the effect of the bundled plugins (Plugin_Guest_Props,
    Plugin_Redact_Props);
  \<^item> content addresses: canonical bytes and digests identify values (Canonical_Inj, Canonical_Schema);
  \<^item> resilience: breakers, reconciliation of the pool, isolation of tenants, termination of listings.
  Theorems that show a defect are stated of the code as it is and listed as findings.

  \<^bold>\<open>Bounds and fuel.\<close> Reference resolution carries the code's own depth and node limits as fuel: the depth is the
  recursion's measure, so no limit is added. Listing the tools of a backend is a \<open>partial_function\<close>, with a theorem that it
  returns when pages carry tools and one that it does not otherwise. The pattern matcher of the entitlements plugin
  and the matchers of the redaction patterns recurse on the remaining input. The limits of the code (256 patch
  operations, 64 bytes of a qualified name, 8 MiB of a guest's payload, 5000 tools) are its constants.

  \<^bold>\<open>Not modelled.\<close> The Casbin adapter and the SDK transports (third-party code); generated protobuf and database code; the
  command line, the inspector and the API's JSON shapes (clients and renderings without decisions of their own);
  the probe scheduler's timers and the file sources' polling (goroutines around modelled operations); configuration,
  logging, metrics and programs' start-up; the token-level parser of canonical JSON, whose accepted values are the
  parameter of the definitions that read JSON.
\<close>

end
